(* ===== verification/Prelude.thy ===== *)
theory Prelude
  imports Main "HOL-Library.Sublist" "HOL-Library.Code_Target_Nat"
begin

text \<open>
  Prelude of the salus development: fallible results and the early return of the
  \<open>?\<close> operator, and the parts of Rust's string library the program uses.

  A Rust \<open>&str\<close>, \<open>String\<close>, \<open>OsString\<close> or byte slice is a \<^typ>\<open>string\<close> whose
  characters are bytes: a \<open>&str\<close> is its UTF-8 encoding, exactly as in memory, so
  \<open>as_bytes\<close> and \<open>OsString::from\<close> are the identity and \<open>len\<close> counts bytes.
  Operations that look at Unicode characters (\<open>chars\<close>, \<open>trim\<close>, \<open>is_whitespace\<close>,
  \<open>is_control\<close>, the \<open>{:?}\<close> formatting) go through the decoder \<open>utf8_items\<close>.
  Unsigned machine integers are \<^typ>\<open>nat\<close> with the range checks of their parsers written
  out; \<open>saturating_sub\<close> is the subtraction of \<^typ>\<open>nat\<close>.
\<close>

named_theorems result_simps \<open>characteristic equations of fallible results\<close>
named_theorems str_simps \<open>characteristic equations of the string operations\<close>

section \<open>Fallible results\<close>

text \<open>\<open>Inl\<close> is Rust's \<open>Err\<close>, \<open>Inr\<close> its \<open>Ok\<close>; \<open>bindR\<close> is the \<open>?\<close> operator.\<close>

definition bindR :: "'e + 'a \<Rightarrow> ('a \<Rightarrow> 'e + 'b) \<Rightarrow> 'e + 'b" where
  "bindR m f = (case m of Inl e \<Rightarrow> Inl e | Inr x \<Rightarrow> f x)"

definition map_err :: "('e \<Rightarrow> 'f) \<Rightarrow> 'e + 'a \<Rightarrow> 'f + 'a" where
  "map_err f m = (case m of Inl e \<Rightarrow> Inl (f e) | Inr x \<Rightarrow> Inr x)"

definition ok_or :: "'e \<Rightarrow> 'a option \<Rightarrow> 'e + 'a" where
  "ok_or e m = (case m of None \<Rightarrow> Inl e | Some x \<Rightarrow> Inr x)"

definition is_ok :: "'e + 'a \<Rightarrow> bool" where
  "is_ok m = (case m of Inl _ \<Rightarrow> False | Inr _ \<Rightarrow> True)"

text \<open>A \<open>for\<close> loop whose body may return an error early.\<close>

fun for_each :: "('a \<Rightarrow> 'e + unit) \<Rightarrow> 'a list \<Rightarrow> 'e + unit" where
  "for_each f [] = Inr ()"
| "for_each f (x # xs) = bindR (f x) (\<lambda>_. for_each f xs)"

text \<open>A \<open>for\<close> loop that pushes one result per element and returns the vector.\<close>

fun collectR :: "('a \<Rightarrow> 'e + 'b) \<Rightarrow> 'a list \<Rightarrow> 'e + 'b list" where
  "collectR f [] = Inr []"
| "collectR f (x # xs) = bindR (f x) (\<lambda>y. bindR (collectR f xs) (\<lambda>ys. Inr (y # ys)))"

lemma bindR_simps [simp, result_simps]:
  "bindR (Inl e) f = Inl e"
  "bindR (Inr x) f = f x"
  by (simp_all add: bindR_def)

lemma map_err_simps [simp, result_simps]:
  "map_err g (Inl e) = Inl (g e)"
  "map_err g (Inr x) = Inr x"
  by (simp_all add: map_err_def)

lemma ok_or_simps [simp, result_simps]:
  "ok_or e None = Inl e"
  "ok_or e (Some x) = Inr x"
  by (simp_all add: ok_or_def)

lemma is_ok_simps [simp, result_simps]:
  "is_ok (Inl e) = False"
  "is_ok (Inr x) = True"
  by (simp_all add: is_ok_def)

lemma bindR_Inr_iff [result_simps]:
  "bindR m f = Inr y \<longleftrightarrow> (\<exists>x. m = Inr x \<and> f x = Inr y)"
  by (cases m) auto

lemma bindR_Inl_iff [result_simps]:
  "bindR m f = Inl e \<longleftrightarrow> m = Inl e \<or> (\<exists>x. m = Inr x \<and> f x = Inl e)"
  by (cases m) auto

lemma map_err_Inr_iff [result_simps]: "map_err g m = Inr y \<longleftrightarrow> m = Inr y"
  by (cases m) auto

lemma map_err_Inl_iff [result_simps]: "map_err g m = Inl e \<longleftrightarrow> (\<exists>d. m = Inl d \<and> e = g d)"
  by (cases m) auto

lemma ok_or_Inr_iff [result_simps]: "ok_or e m = Inr y \<longleftrightarrow> m = Some y"
  by (cases m) auto

lemma ok_or_Inl_iff [result_simps]: "ok_or e m = Inl d \<longleftrightarrow> m = None \<and> d = e"
  by (cases m) auto

lemma is_ok_iff: "is_ok m \<longleftrightarrow> (\<exists>x. m = Inr x)"
  by (cases m) auto

lemma bindR_assoc: "bindR (bindR m f) g = bindR m (\<lambda>x. bindR (f x) g)"
  by (cases m) auto

lemma for_each_Inr_iff: "for_each f xs = Inr () \<longleftrightarrow> (\<forall>x \<in> set xs. f x = Inr ())"
  by (induction xs) (auto simp: bindR_Inr_iff)

lemma for_each_Inl_dest: "for_each f xs = Inl e \<Longrightarrow> \<exists>x \<in> set xs. f x = Inl e"
  by (induction xs) (auto simp: bindR_Inl_iff)

lemma collectR_Inr_length: "collectR f xs = Inr ys \<Longrightarrow> length ys = length xs"
  by (induction xs arbitrary: ys) (auto simp: bindR_Inr_iff)

lemma collectR_Inr_nth:
  "collectR f xs = Inr ys \<Longrightarrow> i < length xs \<Longrightarrow> f (xs ! i) = Inr (ys ! i)"
proof (induction xs arbitrary: ys i)
  case Nil
  then show ?case by simp
next
  case (Cons x xs)
  then show ?case by (cases i) (auto simp: bindR_Inr_iff)
qed

lemma collectR_Inr_elem:
  assumes "collectR f xs = Inr ys" "y \<in> set ys"
  shows "\<exists>x \<in> set xs. f x = Inr y"
  using assms by (induction xs arbitrary: ys) (auto simp: bindR_Inr_iff)

lemma collectR_Inl_dest: "collectR f xs = Inl e \<Longrightarrow> \<exists>x \<in> set xs. f x = Inl e"
  by (induction xs) (auto simp: bindR_Inl_iff)

text \<open>
  Every error of a result has a property. The rules follow the structure of the code, so that
  the errors of an operation are those of the calls it makes.
\<close>

definition errs :: "('e \<Rightarrow> bool) \<Rightarrow> 'e + 'a \<Rightarrow> bool" where
  "errs P m \<longleftrightarrow> (\<forall>e. m = Inl e \<longrightarrow> P e)"

named_theorems errs_intros \<open>how the errors of a result arise\<close>

lemma errsD: "errs P m \<Longrightarrow> m = Inl e \<Longrightarrow> P e"
  by (simp add: errs_def)

lemma errsI: "(\<And>e. m = Inl e \<Longrightarrow> P e) \<Longrightarrow> errs P m"
  by (simp add: errs_def)

lemma errs_bindR [errs_intros]: "errs P m \<Longrightarrow> (\<And>x. errs P (f x)) \<Longrightarrow> errs P (bindR m f)"
  by (cases m) (simp_all add: errs_def)

lemma errs_basic [errs_intros]:
  "errs P (Inr x)"
  "P e \<Longrightarrow> errs P (Inl e)"
  "(\<And>d. P (g d)) \<Longrightarrow> errs P (map_err g m')"
  "P e \<Longrightarrow> errs P (ok_or e z)"
     apply (simp add: errs_def)
    apply (simp add: errs_def)
   apply (cases m'; simp add: errs_def)
  apply (cases z; simp add: errs_def)
  done

lemma errs_branches [errs_intros]:
  "(b \<Longrightarrow> errs P x) \<Longrightarrow> (\<not> b \<Longrightarrow> errs P y) \<Longrightarrow> errs P (if b then x else y)"
  "errs P x \<Longrightarrow> (\<And>a. errs P (h a)) \<Longrightarrow> errs P (case z of None \<Rightarrow> x | Some a \<Rightarrow> h a)"
  "(\<And>a c. errs P (k a c)) \<Longrightarrow> errs P (case w of (a, c) \<Rightarrow> k a c)"
  "errs P x \<Longrightarrow> (\<And>a as. errs P (l a as)) \<Longrightarrow> errs P (case v of [] \<Rightarrow> x | a # as \<Rightarrow> l a as)"
  by (auto split: option.split prod.split list.split)

lemma errs_loops [errs_intros]:
  "(\<And>x. errs P (f x)) \<Longrightarrow> errs P (for_each f xs)"
  "(\<And>x. errs P (g x)) \<Longrightarrow> errs P (collectR g xs)"
  by (induction xs) (auto intro: errs_intros)

section \<open>Searching and splitting strings\<close>

text \<open>
  The separators the program passes are ASCII, so looking for them byte by byte is what
  Rust's pattern search does on a UTF-8 string.
\<close>

fun strip_prefix :: "string \<Rightarrow> string \<Rightarrow> string option" where
  "strip_prefix [] s = Some s"
| "strip_prefix (p # ps) (c # cs) = (if p = c then strip_prefix ps cs else None)"
| "strip_prefix (p # ps) [] = None"

definition starts_with :: "string \<Rightarrow> string \<Rightarrow> bool" where
  "starts_with p s = (take (length p) s = p)"

definition strip_suffix :: "string \<Rightarrow> string \<Rightarrow> string option" where
  "strip_suffix p s = map_option rev (strip_prefix (rev p) (rev s))"

text \<open>\<open>find\<close>: the position of the first byte that satisfies a predicate.\<close>

fun find_index :: "('a \<Rightarrow> bool) \<Rightarrow> 'a list \<Rightarrow> nat option" where
  "find_index P [] = None"
| "find_index P (x # xs) = (if P x then Some 0 else map_option Suc (find_index P xs))"

text \<open>\<open>split_once\<close> on a one-character separator: before and after its first occurrence.\<close>

fun split_once :: "char \<Rightarrow> string \<Rightarrow> (string \<times> string) option" where
  "split_once sep [] = None"
| "split_once sep (c # cs) =
     (if c = sep then Some ([], cs)
      else map_option (\<lambda>(a, b). (c # a, b)) (split_once sep cs))"

text \<open>\<open>split_once\<close> on a longer separator.\<close>

fun split_once_str :: "string \<Rightarrow> string \<Rightarrow> (string \<times> string) option" where
  "split_once_str sep [] = (if sep = [] then Some ([], []) else None)"
| "split_once_str sep (c # cs) =
     (if starts_with sep (c # cs) then Some ([], drop (length sep) (c # cs))
      else map_option (\<lambda>(a, b). (c # a, b)) (split_once_str sep cs))"

definition rsplit_once :: "char \<Rightarrow> string \<Rightarrow> (string \<times> string) option" where
  "rsplit_once sep s = map_option (\<lambda>(a, b). (rev b, rev a)) (split_once sep (rev s))"

text \<open>\<open>str::contains\<close> of a string, and \<open>slice::windows\<close>.\<close>

fun contains_str :: "string \<Rightarrow> string \<Rightarrow> bool" where
  "contains_str p [] = (p = [])"
| "contains_str p (c # cs) = (starts_with p (c # cs) \<or> contains_str p cs)"

definition windows :: "nat \<Rightarrow> 'a list \<Rightarrow> 'a list list" where
  "windows n xs = map (\<lambda>i. take n (drop i xs)) [0 ..< Suc (length xs) - n]"

lemma strip_prefix_Some_iff [str_simps]: "strip_prefix p s = Some r \<longleftrightarrow> s = p @ r"
  by (induction p s rule: strip_prefix.induct) auto

lemma strip_suffix_Some_iff [str_simps]: "strip_suffix p s = Some r \<longleftrightarrow> s = r @ p"
proof -
  have "strip_suffix p s = Some r \<longleftrightarrow> strip_prefix (rev p) (rev s) = Some (rev r)"
    by (cases "strip_prefix (rev p) (rev s)") (auto simp: strip_suffix_def)
  also have "\<dots> \<longleftrightarrow> rev s = rev (r @ p)" by (simp add: strip_prefix_Some_iff)
  also have "\<dots> \<longleftrightarrow> s = r @ p" by (rule rev_is_rev_conv)
  finally show ?thesis .
qed

lemma starts_with_iff [str_simps]: "starts_with p s \<longleftrightarrow> prefix p s"
  unfolding starts_with_def
  by (metis append_eq_conv_conj prefix_def take_is_prefix)

lemma find_index_Some:
  "find_index P xs = Some i \<Longrightarrow> i < length xs \<and> P (xs ! i) \<and> (\<forall>j < i. \<not> P (xs ! j))"
proof (induction xs arbitrary: i)
  case Nil
  then show ?case by simp
next
  case (Cons x xs)
  then show ?case
    by (auto split: if_splits simp: less_Suc_eq_0_disj nth_Cons')
qed

lemma find_index_Some_take: "find_index P xs = Some i \<Longrightarrow> \<forall>x \<in> set (take i xs). \<not> P x"
  by (induction xs arbitrary: i) (auto split: if_splits)

lemma find_index_None_iff: "find_index P xs = None \<longleftrightarrow> (\<forall>x \<in> set xs. \<not> P x)"
  by (induction xs) auto

lemma find_index_append:
  "\<forall>x \<in> set xs. \<not> P x \<Longrightarrow> find_index P (xs @ ys) = map_option ((+) (length xs)) (find_index P ys)"
  by (cases "find_index P ys"; induction xs) simp_all

lemma split_once_Some_iff [str_simps]:
  "split_once sep s = Some (a, b) \<longleftrightarrow> s = a @ sep # b \<and> sep \<notin> set a"
proof (induction s arbitrary: a)
  case Nil
  then show ?case by simp
next
  case (Cons c cs)
  show ?case
  proof (cases "c = sep")
    case True
    then show ?thesis by (cases a) auto
  next
    case False
    with Cons.IH show ?thesis by (cases a) auto
  qed
qed

lemma split_once_None_iff [str_simps]: "split_once sep s = None \<longleftrightarrow> sep \<notin> set s"
  by (induction s) auto

lemma rsplit_once_Some_iff [str_simps]:
  "rsplit_once sep s = Some (a, b) \<longleftrightarrow> s = a @ sep # b \<and> sep \<notin> set b"
proof -
  have "rev s = rev b @ sep # rev a \<longleftrightarrow> s = a @ sep # b"
    by (metis append.assoc append_Cons append_Nil rev.simps(2) rev_append rev_rev_ident)
  moreover have "rsplit_once sep s = Some (a, b) \<longleftrightarrow> split_once sep (rev s) = Some (rev b, rev a)"
    by (cases "split_once sep (rev s)") (auto simp: rsplit_once_def)
  ultimately show ?thesis by (simp add: split_once_Some_iff)
qed

lemma split_once_str_Some: "split_once_str sep s = Some (a, b) \<Longrightarrow> s = a @ sep @ b"
proof (induction s arbitrary: a)
  case Nil
  then show ?case by (simp split: if_splits)
next
  case (Cons c cs)
  then show ?case
    by (auto split: if_splits simp: starts_with_def) (metis append_take_drop_id)
qed

lemma contains_str_iff [str_simps]: "contains_str p s \<longleftrightarrow> sublist p s"
  by (induction s) (auto simp: starts_with_iff sublist_Cons_right)

text \<open>A window of the right length equals the needle somewhere iff the needle occurs.\<close>

lemma sublist_iff_take_drop:
  "sublist ys xs \<longleftrightarrow> (\<exists>i. i + length ys \<le> length xs \<and> take (length ys) (drop i xs) = ys)"
proof
  assume "sublist ys xs"
  then obtain ps ss where "xs = ps @ ys @ ss" by (auto simp: sublist_def)
  then have "length ps + length ys \<le> length xs \<and> take (length ys) (drop (length ps) xs) = ys"
    by simp
  then show "\<exists>i. i + length ys \<le> length xs \<and> take (length ys) (drop i xs) = ys" ..
next
  assume "\<exists>i. i + length ys \<le> length xs \<and> take (length ys) (drop i xs) = ys"
  then obtain i where "take (length ys) (drop i xs) = ys" by blast
  then have "xs = take i xs @ ys @ drop (length ys) (drop i xs)"
    by (metis append_take_drop_id)
  then show "sublist ys xs" by (metis sublist_appendI)
qed

lemma windows_member_iff:
  "ys \<in> set (windows (length ys) xs) \<longleftrightarrow> sublist ys xs"
proof -
  have "i < Suc (length xs) - length ys \<longleftrightarrow> i + length ys \<le> length xs" for i
    by arith
  then have "ys \<in> set (windows (length ys) xs)
      \<longleftrightarrow> (\<exists>i. i + length ys \<le> length xs \<and> ys = take (length ys) (drop i xs))"
    by (auto simp: windows_def image_iff Bex_def)
  then show ?thesis by (simp add: sublist_iff_take_drop eq_commute)
qed

end
