(* ===== verification/Rust_Text.thy ===== *)
theory Rust_Text
  imports Prelude
begin

text \<open>
  Rust's standard text operations the program calls, on UTF-8 bytes: the decoder, the
  character classes, \<open>trim\<close>, ASCII case mapping, number formatting and parsing, and the
  \<open>{:?}\<close> formatting of \<open>str\<close> and \<open>OsStr\<close>. The tables of the Unicode database that
  decide which non-ASCII characters \<open>{:?}\<close> prints as they are stay a parameter
  (\<open>plain\<close>); ASCII is exact.
\<close>

section \<open>UTF-8\<close>

definition byte :: "char \<Rightarrow> nat" where
  "byte c = of_char c"

lemma byte_less_256 [simp]: "byte c < 256"
  using nat_of_char_less_256 by (simp add: byte_def)

lemma byte_inject [simp]: "byte c = byte d \<longleftrightarrow> c = d"
  by (simp add: byte_def)

lemma char_of_byte [simp]: "char_of (byte c) = c"
  by (simp add: byte_def)

text \<open>One decoded unit: a scalar value with its encoding, or a byte that decodes to none.\<close>

datatype utf8_item = Scalar nat string | Bad char

fun item_bytes :: "utf8_item \<Rightarrow> string" where
  "item_bytes (Scalar cp bs) = bs"
| "item_bytes (Bad b) = [b]"

definition cont :: "nat \<Rightarrow> bool" where
  "cont x \<longleftrightarrow> 0x80 \<le> x \<and> x < 0xC0"

text \<open>
  The scalar value that starts with byte \<open>b\<close>, and how many continuation bytes it takes:
  the well-formed sequences of the Unicode standard (no overlong forms, no surrogates,
  nothing above U+10FFFF).
\<close>

definition byte_at :: "string \<Rightarrow> nat \<Rightarrow> nat" where
  "byte_at bs i = (if i < length bs then byte (bs ! i) else 0)"

definition utf8_next :: "char \<Rightarrow> string \<Rightarrow> (nat \<times> nat) option" where
  "utf8_next b bs =
     (let x = byte b; c = byte_at bs in
      if x < 0x80 then Some (x, 0)
      else if x < 0xE0 then
        if 0xC2 \<le> x \<and> cont (c 0)
        then Some ((x - 0xC0) * 0x40 + (c 0 - 0x80), 1) else None
      else if x < 0xF0 then
        if cont (c 0) \<and> cont (c 1) \<and> (x = 0xE0 \<longrightarrow> 0xA0 \<le> c 0) \<and> (x = 0xED \<longrightarrow> c 0 \<le> 0x9F)
        then Some ((x - 0xE0) * 0x1000 + (c 0 - 0x80) * 0x40 + (c 1 - 0x80), 2) else None
      else
        if x \<le> 0xF4 \<and> cont (c 0) \<and> cont (c 1) \<and> cont (c 2)
           \<and> (x = 0xF0 \<longrightarrow> 0x90 \<le> c 0) \<and> (x = 0xF4 \<longrightarrow> c 0 \<le> 0x8F)
        then Some ((x - 0xF0) * 0x40000 + (c 0 - 0x80) * 0x1000 + (c 1 - 0x80) * 0x40
               + (c 2 - 0x80), 3)
        else None)"

fun utf8_items :: "string \<Rightarrow> utf8_item list" where
  "utf8_items [] = []"
| "utf8_items (b # bs) =
     (case utf8_next b bs of
        None \<Rightarrow> Bad b # utf8_items bs
      | Some (cp, n) \<Rightarrow> Scalar cp (b # take n bs) # utf8_items (drop n bs))"

fun item_char :: "utf8_item \<Rightarrow> nat option" where
  "item_char (Scalar cp bs) = Some cp"
| "item_char (Bad b) = None"

text \<open>\<open>chars()\<close>, and \<open>str::from_utf8(..).is_ok()\<close>.\<close>

definition str_chars :: "string \<Rightarrow> nat list" where
  "str_chars s = List.map_filter item_char (utf8_items s)"

definition valid_utf8 :: "string \<Rightarrow> bool" where
  "valid_utf8 s \<longleftrightarrow> list_all (\<lambda>it. item_char it \<noteq> None) (utf8_items s)"

text \<open>\<open>OsStr::to_str\<close>\<close>

definition to_str :: "string \<Rightarrow> string option" where
  "to_str s = (if valid_utf8 s then Some s else None)"

definition is_ascii :: "string \<Rightarrow> bool" where
  "is_ascii s \<longleftrightarrow> list_all (\<lambda>c. byte c < 0x80) s"

lemma utf8_items_concat [simp]: "concat (map item_bytes (utf8_items s)) = s"
  by (induction s rule: utf8_items.induct) (auto split: option.splits)

lemma utf8_next_ascii: "byte b < 0x80 \<Longrightarrow> utf8_next b bs = Some (byte b, 0)"
  by (simp add: utf8_next_def Let_def)

lemma utf8_items_ascii:
  "is_ascii s \<Longrightarrow> utf8_items s = map (\<lambda>c. Scalar (byte c) [c]) s"
  by (induction s) (simp_all add: is_ascii_def utf8_next_ascii)

lemma str_chars_ascii: "is_ascii s \<Longrightarrow> str_chars s = map byte s"
  by (simp add: str_chars_def utf8_items_ascii List.map_filter_def comp_def)

lemma valid_utf8_ascii: "is_ascii s \<Longrightarrow> valid_utf8 s"
  by (simp add: valid_utf8_def utf8_items_ascii list_all_iff)

text \<open>A byte below 0x80 is always a character of its own: ASCII search is bytewise.\<close>

lemma utf8_next_scalar_ascii:
  assumes "utf8_next b bs = Some (cp, n)"
  shows "cp < 0x80 \<longleftrightarrow> byte b < 0x80" "byte b < 0x80 \<Longrightarrow> n = 0 \<and> cp = byte b"
  using assms by (auto simp: utf8_next_def Let_def cont_def split: if_splits)

lemma utf8_next_cont:
  assumes "utf8_next b bs = Some (cp, n)"
  shows "\<forall>c \<in> set (take n bs). 0x80 \<le> byte c"
proof
  fix c assume "c \<in> set (take n bs)"
  then obtain i where i: "i < n" "i < length bs" "c = bs ! i"
    by (auto simp: in_set_conv_nth)
  with assms show "0x80 \<le> byte c"
    by (auto simp: utf8_next_def Let_def cont_def byte_at_def less_Suc_eq numeral_3_eq_3 numeral_2_eq_2
        split: if_splits)
qed

lemma ascii_char_in_str_chars:
  assumes "byte c < 0x80"
  shows "byte c \<in> set (str_chars s) \<longleftrightarrow> c \<in> set s"
proof (induction s rule: utf8_items.induct)
  case 1
  then show ?case by (simp add: str_chars_def List.map_filter_def)
next
  case (2 b bs)
  show ?case
  proof (cases "utf8_next b bs")
    case None
    then have "\<not> byte b < 0x80" by (auto simp: utf8_next_ascii)
    with assms have "c \<noteq> b" by auto
    with 2 None show ?thesis by (simp add: str_chars_def List.map_filter_simps)
  next
    case (Some r)
    obtain cp n where r: "r = (cp, n)" by (cases r)
    note nx = Some [unfolded r]
    have IH: "byte c \<in> set (str_chars (drop n bs)) \<longleftrightarrow> c \<in> set (drop n bs)"
      using 2 nx by simp
    have tk: "c \<notin> set (take n bs)"
      using utf8_next_cont [OF nx] assms by auto
    have cp: "cp = byte c \<longleftrightarrow> b = c"
      using utf8_next_scalar_ascii [OF nx] assms by auto
    have chars: "str_chars (b # bs) = cp # str_chars (drop n bs)"
      using nx by (simp add: str_chars_def List.map_filter_simps)
    have "set bs = set (take n bs) \<union> set (drop n bs)"
      by (metis append_take_drop_id set_append)
    with IH tk cp chars show ?thesis by auto
  qed
qed

section \<open>Character classes\<close>

text \<open>\<open>char::is_whitespace\<close> (White_Space) and \<open>char::is_control\<close> (category Cc).\<close>

definition is_whitespace :: "nat \<Rightarrow> bool" where
  "is_whitespace c \<longleftrightarrow> (9 \<le> c \<and> c \<le> 13) \<or> c = 0x20 \<or> c = 0x85 \<or> c = 0xA0 \<or> c = 0x1680
     \<or> (0x2000 \<le> c \<and> c \<le> 0x200A) \<or> c = 0x2028 \<or> c = 0x2029 \<or> c = 0x202F \<or> c = 0x205F
     \<or> c = 0x3000"

definition is_control :: "nat \<Rightarrow> bool" where
  "is_control c \<longleftrightarrow> c < 0x20 \<or> (0x7F \<le> c \<and> c < 0xA0)"

definition is_digit :: "char \<Rightarrow> bool" where
  "is_digit c \<longleftrightarrow> 48 \<le> byte c \<and> byte c \<le> 57"

definition is_upper :: "char \<Rightarrow> bool" where
  "is_upper c \<longleftrightarrow> 65 \<le> byte c \<and> byte c \<le> 90"

definition is_lower :: "char \<Rightarrow> bool" where
  "is_lower c \<longleftrightarrow> 97 \<le> byte c \<and> byte c \<le> 122"

definition is_alpha :: "char \<Rightarrow> bool" where
  "is_alpha c \<longleftrightarrow> is_upper c \<or> is_lower c"

definition is_alnum :: "char \<Rightarrow> bool" where
  "is_alnum c \<longleftrightarrow> is_alpha c \<or> is_digit c"

definition is_hexdigit :: "char \<Rightarrow> bool" where
  "is_hexdigit c \<longleftrightarrow> is_digit c \<or> (65 \<le> byte c \<and> byte c \<le> 70) \<or> (97 \<le> byte c \<and> byte c \<le> 102)"

definition ascii_upper :: "string \<Rightarrow> string" where
  "ascii_upper s = map (\<lambda>c. if is_lower c then char_of (byte c - 32) else c) s"

definition ascii_lower :: "string \<Rightarrow> string" where
  "ascii_lower s = map (\<lambda>c. if is_upper c then char_of (byte c + 32) else c) s"

definition eq_ignore_ascii_case :: "string \<Rightarrow> string \<Rightarrow> bool" where
  "eq_ignore_ascii_case a b \<longleftrightarrow> ascii_lower a = ascii_lower b"

lemmas char_class_defs = is_digit_def is_upper_def is_lower_def is_alpha_def is_alnum_def
  is_hexdigit_def

text \<open>\<open>str::trim\<close>\<close>

fun item_whitespace :: "utf8_item \<Rightarrow> bool" where
  "item_whitespace (Scalar cp bs) = is_whitespace cp"
| "item_whitespace (Bad b) = False"

definition trim :: "string \<Rightarrow> string" where
  "trim s = concat (map item_bytes
     (rev (dropWhile item_whitespace (rev (dropWhile item_whitespace (utf8_items s))))))"

lemma trim_sublist: "sublist (trim s) s"
proof -
  let ?a = "utf8_items s" and ?b = "dropWhile item_whitespace (utf8_items s)"
  let ?c = "rev (dropWhile item_whitespace (rev ?b))"
  obtain p where p: "?a = p @ ?b" by (metis takeWhile_dropWhile_id)
  obtain q where "rev ?b = q @ dropWhile item_whitespace (rev ?b)"
    by (metis takeWhile_dropWhile_id)
  then have "?b = ?c @ rev q" by (metis rev_append rev_rev_ident)
  with p have "concat (map item_bytes ?a) =
      concat (map item_bytes p) @ concat (map item_bytes ?c) @ concat (map item_bytes (rev q))"
    by (metis concat_append map_append)
  then have "s = concat (map item_bytes p) @ trim s @ concat (map item_bytes (rev q))"
    unfolding trim_def by simp
  then show ?thesis by (metis sublist_appendI)
qed

section \<open>Numbers\<close>

fun dec :: "nat \<Rightarrow> string" where
  "dec n = (if n < 10 then [char_of (48 + n)] else dec (n div 10) @ [char_of (48 + n mod 10)])"

declare dec.simps [simp del]

definition dec_int :: "int \<Rightarrow> string" where
  "dec_int i = (if i < 0 then CHR ''-'' # dec (nat (- i)) else dec (nat i))"

definition hex_digit :: "bool \<Rightarrow> nat \<Rightarrow> char" where
  "hex_digit upper n = char_of (if n < 10 then 48 + n else if upper then 55 + n else 87 + n)"

fun hex :: "bool \<Rightarrow> nat \<Rightarrow> string" where
  "hex upper n =
     (if n < 16 then [hex_digit upper n] else hex upper (n div 16) @ [hex_digit upper (n mod 16)])"

declare hex.simps [simp del]

text \<open>Zero padding to a minimal width, as in \<open>{:04X}\<close>.\<close>

definition zero_pad :: "nat \<Rightarrow> string \<Rightarrow> string" where
  "zero_pad w s = replicate (w - length s) (CHR ''0'') @ s"

definition digit_value :: "char \<Rightarrow> nat" where
  "digit_value c = byte c - 48"

definition digits_value :: "string \<Rightarrow> nat" where
  "digits_value s = foldl (\<lambda>a c. a * 10 + digit_value c) 0 s"

text \<open>\<open>u16::from_str\<close>: an optional plus sign, then digits, and no overflow.\<close>

definition parse_u16 :: "string \<Rightarrow> nat option" where
  "parse_u16 s =
     (let ds = (case strip_prefix ''+'' s of Some r \<Rightarrow> r | None \<Rightarrow> s) in
      if ds \<noteq> [] \<and> list_all is_digit ds \<and> digits_value ds \<le> 65535
      then Some (digits_value ds) else None)"

lemma digits_value_append:
  "digits_value (s @ [c]) = digits_value s * 10 + digit_value c"
  by (simp add: digits_value_def)

lemma byte_char_of [simp]: "n < 256 \<Longrightarrow> byte (char_of n) = n"
  by (simp add: byte_def)

lemma dec_digits: "list_all is_digit (dec n)"
proof (induction n rule: dec.induct)
  case (1 n)
  have "n mod 10 \<le> 9" using mod_less_divisor [of 10 n] by linarith
  with 1 show ?case by (subst dec.simps) (auto simp: is_digit_def list_all_iff)
qed

lemma dec_nonempty: "dec n \<noteq> []"
  by (subst dec.simps) simp

lemma digits_value_dec: "digits_value (dec n) = n"
proof (induction n rule: dec.induct)
  case (1 n)
  show ?case
  proof (cases "n < 10")
    case True
    then show ?thesis
      by (subst dec.simps) (simp add: digits_value_def digit_value_def)
  next
    case False
    with 1 show ?thesis
      by (subst dec.simps) (simp add: digits_value_append digit_value_def)
  qed
qed

lemma parse_u16_dec: "n \<le> 65535 \<Longrightarrow> parse_u16 (dec n) = Some n"
proof -
  assume n: "n \<le> 65535"
  have "strip_prefix ''+'' (dec n) = None"
  proof (cases "dec n")
    case Nil
    then show ?thesis by simp
  next
    case (Cons c cs)
    have "is_digit c" using dec_digits [of n] Cons by simp
    then have "CHR ''+'' \<noteq> c" by (auto simp: is_digit_def byte_def)
    with Cons show ?thesis by simp
  qed
  with n show ?thesis
    by (simp add: parse_u16_def Let_def dec_nonempty dec_digits digits_value_dec)
qed

section \<open>The \<open>{:?}\<close> formatting\<close>

abbreviation backslash :: char where "backslash \<equiv> CHR 0x5C"
abbreviation dquote :: char where "dquote \<equiv> CHR 0x22"
abbreviation squote :: char where "squote \<equiv> CHR 0x27"

definition unicode_escape :: "nat \<Rightarrow> string" where
  "unicode_escape c = backslash # ''u{'' @ hex False c @ ''}''"

text \<open>
  \<open>char::escape_debug\<close>; \<open>sq\<close> says whether a single quote is escaped, \<open>plain\<close> which
  non-ASCII characters are printed as they are.
\<close>

definition escape_debug :: "(nat \<Rightarrow> bool) \<Rightarrow> bool \<Rightarrow> utf8_item \<Rightarrow> string" where
  "escape_debug plain sq it =
     (case it of
        Bad b \<Rightarrow> backslash # CHR ''x'' # zero_pad 2 (hex True (byte b))
      | Scalar c bs \<Rightarrow>
          if c = 0 then [backslash, CHR ''0'']
          else if c = 9 then [backslash, CHR ''t'']
          else if c = 10 then [backslash, CHR ''n'']
          else if c = 13 then [backslash, CHR ''r'']
          else if c = 0x22 then [backslash, dquote]
          else if c = 0x27 \<and> sq then [backslash, squote]
          else if c = 0x5C then [backslash, backslash]
          else if (c < 0x80 \<and> 0x20 \<le> c \<and> c \<noteq> 0x7F) \<or> (0x80 \<le> c \<and> plain c) then bs
          else unicode_escape c)"

text \<open>\<open>format!("{s:?}")\<close> of a \<open>str\<close>, and of an \<open>OsStr\<close> or \<open>Path\<close> that is not UTF-8.\<close>

definition debug_str :: "(nat \<Rightarrow> bool) \<Rightarrow> string \<Rightarrow> string" where
  "debug_str plain s =
     dquote # concat (map (escape_debug plain False) (utf8_items s)) @ [dquote]"

definition debug_os_str :: "(nat \<Rightarrow> bool) \<Rightarrow> string \<Rightarrow> string" where
  "debug_os_str plain s =
     (if valid_utf8 s then debug_str plain s
      else dquote # concat (map (escape_debug plain True) (utf8_items s)) @ [dquote])"

text \<open>No formatted text holds an ASCII control byte: a diagnostic stays on one line.\<close>

definition control_byte :: "char \<Rightarrow> bool" where
  "control_byte c \<longleftrightarrow> byte c < 0x20 \<or> byte c = 0x7F"

definition one_line :: "string \<Rightarrow> bool" where
  "one_line s \<longleftrightarrow> list_all (\<lambda>c. \<not> control_byte c) s"

lemma one_line_simps [simp, str_simps]:
  "one_line []"
  "one_line (c # s) \<longleftrightarrow> \<not> control_byte c \<and> one_line s"
  "one_line (s @ t) \<longleftrightarrow> one_line s \<and> one_line t"
  "one_line (replicate n c) \<longleftrightarrow> n = 0 \<or> \<not> control_byte c"
  "one_line (concat ss) \<longleftrightarrow> (\<forall>s \<in> set ss. one_line s)"
  by (auto simp: one_line_def list_all_iff)

lemma control_byte_Char [simp]:
  "control_byte (Char b0 b1 b2 b3 b4 b5 b6 b7) \<longleftrightarrow>
     (\<not> b7 \<and> \<not> b6 \<and> \<not> b5) \<or> (\<not> b7 \<and> b6 \<and> b5 \<and> b4 \<and> b3 \<and> b2 \<and> b1 \<and> b0)"
  unfolding control_byte_def byte_def of_char_Char
  by (cases b0; cases b1; cases b2; cases b3; cases b4; cases b5; cases b6; cases b7; simp)

lemma control_byte_byte: "control_byte c \<longleftrightarrow> is_control (byte c) \<and> byte c < 0x80"
  by (auto simp: control_byte_def is_control_def)

lemma hex_digit_no_control [simp]: "n < 16 \<Longrightarrow> \<not> control_byte (hex_digit u n)"
  by (auto simp: hex_digit_def control_byte_def)

lemma hex_one_line [simp]: "one_line (hex u n)"
proof (induction u n rule: hex.induct)
  case (1 u n)
  then show ?case by (subst hex.simps) simp
qed

lemma dec_one_line [simp]: "one_line (dec n)"
  using dec_digits [of n] by (auto simp: one_line_def list_all_iff is_digit_def control_byte_def)

lemma zero_pad_one_line [simp]: "one_line s \<Longrightarrow> one_line (zero_pad w s)"
  by (simp add: zero_pad_def)

lemma unicode_escape_one_line [simp]: "one_line (unicode_escape c)"
  by (simp add: unicode_escape_def)

lemma utf8_items_wf:
  "Scalar c bs \<in> set (utf8_items s) \<Longrightarrow>
     (c < 0x80 \<longrightarrow> bs = [char_of c]) \<and> (0x80 \<le> c \<longrightarrow> list_all (\<lambda>b. 0x80 \<le> byte b) bs)"
proof (induction s rule: utf8_items.induct)
  case 1
  then show ?case by simp
next
  case (2 b bs')
  show ?case
  proof (cases "utf8_next b bs'")
    case None
    with 2 show ?thesis by simp
  next
    case (Some r)
    obtain cp n where r: "r = (cp, n)" by (cases r)
    note nx = Some [unfolded r]
    consider "c = cp" "bs = b # take n bs'" | "Scalar c bs \<in> set (utf8_items (drop n bs'))"
      using 2(3) nx by auto
    then show ?thesis
    proof cases
      case 1
      with utf8_next_scalar_ascii [OF nx] utf8_next_cont [OF nx]
      show ?thesis by (auto simp: list_all_iff not_less)
    next
      case 2
      with "2.IH"(2) nx show ?thesis by simp
    qed
  qed
qed

lemma scalar_bytes_one_line:
  assumes "Scalar c bs \<in> set (utf8_items s)" "0x20 \<le> c" "c \<noteq> 0x7F"
  shows "one_line bs"
  using utf8_items_wf [OF assms(1)] assms(2,3)
  by (cases "c < 0x80") (auto simp: one_line_def list_all_iff control_byte_def)

lemma escape_debug_one_line:
  assumes "it \<in> set (utf8_items s)"
  shows "one_line (escape_debug plain sq it)"
proof (cases it)
  case (Bad b)
  then show ?thesis by (simp add: escape_debug_def)
next
  case (Scalar c bs)
  with assms have "0x20 \<le> c \<Longrightarrow> c \<noteq> 0x7F \<Longrightarrow> one_line bs"
    by (auto intro: scalar_bytes_one_line)
  with Scalar show ?thesis by (simp add: escape_debug_def)
qed

lemma debug_str_one_line [simp]: "one_line (debug_str plain s)"
  by (auto simp: debug_str_def intro: escape_debug_one_line)

lemma debug_os_str_one_line [simp]: "one_line (debug_os_str plain s)"
  by (auto simp: debug_os_str_def intro: escape_debug_one_line)

end
