(* ===== verification/Externals.thy ===== *)
theory Externals
  imports Rust_Text
begin

text \<open>
  The code outside the repository: third-party crates, as a record of functions that the
  model's definitions take as their argument \<open>D\<close>. Nothing is assumed of a field here; the
  few theorems that rely on a documented behaviour of a crate state it as a hypothesis.
  \<open>plain\<close> is the Unicode table behind \<open>{:?}\<close> for non-ASCII characters.
\<close>

text \<open>\<open>std::io::Error\<close>: the kinds the program matches on, and the \<open>Display\<close> text.\<close>

datatype io_kind = NotFound | PermissionDenied | InvalidInput | OtherKind

record io_error =
  io_kind :: io_kind
  io_text :: string

text \<open>\<open>hyper::http::uri::Authority\<close> and \<open>hyper::Uri\<close>, by the accessors the program calls.\<close>

record authority =
  auth_str :: string
  auth_host :: string
  auth_port_u16 :: "nat option"

record uri =
  uri_scheme :: "string option"
  uri_authority :: "authority option"
  uri_path :: string
  uri_path_and_query :: "string option"

text \<open>\<open>hyper::Request<Empty<Bytes>>\<close>\<close>

record http_request =
  req_method :: string
  req_uri :: uri
  req_headers :: "(string \<times> string) list"

text \<open>
  tower's \<open>Service<Uri>\<close>, with which hyper and tonic open connections: whether it is ready for a
  call, and what a call gives.
\<close>

datatype 'a poll = Pending | Ready 'a

record ('e, 'k) uri_service =
  svc_poll_ready :: "('e + unit) poll"
  svc_call :: "uri \<Rightarrow> 'e + 'k"

text \<open>
  The functions. An error is its \<open>Display\<close> text. A duration is a number of nanoseconds.
  \<^item> \<open>format_duration\<close>, \<open>humantime_parse\<close>: the crate humantime;
  \<^item> \<open>parse_authority\<close>, \<open>parse_uri\<close>, \<open>build_uri\<close> (scheme, authority, path and query),
    \<open>uri_display\<close>, \<open>header_name\<close> (\<open>HeaderName::from_bytes\<close>, which lower-cases),
    \<open>header_value\<close> (\<open>HeaderValue::from_str\<close>), \<open>request_body\<close> (the last call of the request
    builder): hyper and http;
  \<^item> \<open>server_name\<close>: \<open>ServerName::try_from\<close> of rustls;
  \<^item> \<open>feature_webpki\<close>, \<open>feature_grpc\<close>: the cargo features the build has, and \<open>target_unix\<close>:
    whether it is a build for Unix.
\<close>

record deps =
  plain :: "nat \<Rightarrow> bool"
  format_duration :: "nat \<Rightarrow> string"
  humantime_parse :: "string \<Rightarrow> string + nat"
  parse_authority :: "string \<Rightarrow> string + authority"
  parse_uri :: "string \<Rightarrow> string + uri"
  build_uri :: "string \<Rightarrow> string \<Rightarrow> string \<Rightarrow> string + uri"
  uri_display :: "uri \<Rightarrow> string"
  header_name :: "string \<Rightarrow> string + string"
  header_value :: "string \<Rightarrow> string + string"
  request_body :: "http_request \<Rightarrow> string + http_request"
  server_name :: "string \<Rightarrow> string + string"
  feature_webpki :: bool
  feature_grpc :: bool
  target_unix :: bool

section \<open>An instance\<close>

text \<open>
  Functions for the fields, for the concrete examples: authorities and URIs are split at their
  separators, names are lower-cased and every other text is accepted. No theorem is about
  this instance only.
\<close>

definition example_authority :: "string \<Rightarrow> authority" where
  "example_authority raw =
     (case split_once (CHR '':'') raw of
        Some (h, p) \<Rightarrow> \<lparr>auth_str = raw, auth_host = h, auth_port_u16 = parse_u16 p\<rparr>
      | None \<Rightarrow> \<lparr>auth_str = raw, auth_host = raw, auth_port_u16 = None\<rparr>)"

definition example_uri :: "string \<Rightarrow> uri" where
  "example_uri raw =
     (case split_once_str ''://'' raw of
        None \<Rightarrow> \<lparr>uri_scheme = None, uri_authority = None, uri_path = raw, uri_path_and_query = Some raw\<rparr>
      | Some (scheme, rest) \<Rightarrow>
          (case split_once (CHR ''/'') rest of
             None \<Rightarrow> \<lparr>uri_scheme = Some scheme, uri_authority = Some (example_authority rest),
               uri_path = ''/'', uri_path_and_query = None\<rparr>
           | Some (a, pq) \<Rightarrow> \<lparr>uri_scheme = Some scheme, uri_authority = Some (example_authority a),
               uri_path = CHR ''/'' # pq, uri_path_and_query = Some (CHR ''/'' # pq)\<rparr>))"

definition example_deps :: deps where
  "example_deps =
     \<lparr>plain = (\<lambda>_. True), format_duration = (\<lambda>d. dec d @ ''ns''),
      humantime_parse = (\<lambda>_. Inl ''invalid duration''),
      parse_authority = (\<lambda>raw. Inr (example_authority raw)),
      parse_uri = (\<lambda>raw. Inr (example_uri raw)),
      build_uri = (\<lambda>scheme a pq. Inr \<lparr>uri_scheme = Some scheme,
        uri_authority = Some (example_authority a), uri_path = pq, uri_path_and_query = Some pq\<rparr>),
      uri_display = (\<lambda>_. ''uri''), header_name = (\<lambda>n. Inr (ascii_lower n)), header_value = Inr,
      request_body = Inr, server_name = Inr, feature_webpki = True, feature_grpc = True,
      target_unix = True\<rparr>"

lemma example_deps_simps [simp]:
  "parse_authority example_deps raw = Inr (example_authority raw)"
  "parse_uri example_deps raw = Inr (example_uri raw)"
  "header_value example_deps v = Inr v" "request_body example_deps r = Inr r"
  "server_name example_deps n = Inr n" "feature_webpki example_deps" "feature_grpc example_deps"
  "target_unix example_deps"
  by (simp_all add: example_deps_def)

end
