(* ===== verification/App_Error.thy ===== *)
theory App_Error
  imports Externals
begin

text \<open>
  \<open>error.rs\<close>, \<open>diagnostic.rs\<close> and \<open>output.rs\<close>: the error type with its exit codes, the
  quoting of values in diagnostics, and the success line. Output is a list of writes
  (stream and text), in order.
\<close>

section \<open>Errors and exit codes\<close>

datatype app_error = Failure string | InvalidConfig string | Internal string

type_synonym 'a result = "app_error + 'a"

fun exit_code :: "app_error \<Rightarrow> int" where
  "exit_code (Failure _) = 1"
| "exit_code (InvalidConfig _) = 3"
| "exit_code (Internal _) = 4"

fun error_text :: "app_error \<Rightarrow> string" where
  "error_text (Failure m) = m"
| "error_text (InvalidConfig m) = m"
| "error_text (Internal m) = m"

datatype stream = Stdout | Stderr

type_synonym writes = "(stream \<times> string) list"

abbreviation newline :: char where "newline \<equiv> CHR 0x0A"

definition print_stderr_line :: "string \<Rightarrow> writes" where
  "print_stderr_line m = [(Stderr, m @ [newline])]"

definition print_clap_error :: "string \<Rightarrow> bool \<Rightarrow> writes" where
  "print_clap_error m to_stdout = (if to_stdout then [(Stdout, m)] else [(Stderr, m)])"

definition error_print_and_exit :: "app_error \<Rightarrow> bool \<Rightarrow> int \<times> writes" where
  "error_print_and_exit e quiet =
     (exit_code e, if quiet then [] else print_stderr_line (error_text e))"

fun is_invalid_config :: "app_error \<Rightarrow> bool" where
  "is_invalid_config (InvalidConfig _) = True"
| "is_invalid_config _ = False"

fun is_failure :: "app_error \<Rightarrow> bool" where
  "is_failure (Failure _) = True"
| "is_failure _ = False"

lemma exit_code_iff:
  "exit_code e = 1 \<longleftrightarrow> is_failure e"
  "exit_code e = 3 \<longleftrightarrow> is_invalid_config e"
  "exit_code e \<in> {1, 3, 4}"
  by (cases e; simp)+

lemma exit_code_nonzero [simp]: "exit_code e \<noteq> 0"
  by (cases e) simp_all

section \<open>Diagnostics\<close>

definition contains_control :: "string \<Rightarrow> bool" where
  "contains_control raw \<longleftrightarrow> list_ex is_control (str_chars raw)"

definition contains_whitespace :: "string \<Rightarrow> bool" where
  "contains_whitespace raw \<longleftrightarrow> list_ex is_whitespace (str_chars raw)"

definition contains_quoted_char :: "string \<Rightarrow> bool" where
  "contains_quoted_char raw \<longleftrightarrow> list_ex (\<lambda>c. c = dquote \<or> c = backslash) raw"

definition diag_value :: "deps \<Rightarrow> string \<Rightarrow> string" where
  "diag_value D raw =
     (if raw = [] \<or> contains_whitespace raw \<or> contains_control raw \<or> contains_quoted_char raw
      then debug_str (plain D) raw else raw)"

definition diag_os_str :: "deps \<Rightarrow> string \<Rightarrow> string" where
  "diag_os_str D raw =
     (case to_str raw of Some s \<Rightarrow> diag_value D s | None \<Rightarrow> debug_os_str (plain D) raw)"

definition diag_path :: "deps \<Rightarrow> string \<Rightarrow> string" where
  "diag_path D p =
     (case to_str p of Some s \<Rightarrow> diag_value D s | None \<Rightarrow> debug_os_str (plain D) p)"

definition diag_path_field :: "deps \<Rightarrow> string \<Rightarrow> string" where
  "diag_path_field D p =
     (case to_str p of Some s \<Rightarrow> s | None \<Rightarrow> debug_os_str (plain D) p)"

lemma no_control_one_line: "\<not> contains_control raw \<Longrightarrow> one_line raw"
  using ascii_char_in_str_chars [where s = raw]
  by (auto simp: contains_control_def one_line_def list_all_iff list_ex_iff control_byte_byte)

lemma diag_value_one_line [simp]: "one_line (diag_value D raw)"
  by (simp add: diag_value_def no_control_one_line)

lemma diag_os_str_one_line [simp]: "one_line (diag_os_str D raw)"
  by (simp add: diag_os_str_def split: option.split)

lemma diag_path_one_line [simp]: "one_line (diag_path D p)"
  by (simp add: diag_path_def split: option.split)

text \<open>Text without spaces, controls, quotes and backslashes is printed as it is.\<close>

lemma diag_value_plain:
  assumes "raw \<noteq> []" "\<forall>c \<in> set raw. 0x20 < byte c \<and> byte c < 0x7F \<and> c \<noteq> dquote \<and> c \<noteq> backslash"
  shows "diag_value D raw = raw"
proof -
  have "byte c < 0x80" if "c \<in> set raw" for c
  proof -
    have "byte c < 0x7F" using assms(2) that by blast
    then show ?thesis by simp
  qed
  then have "is_ascii raw" by (simp add: is_ascii_def list_all_iff)
  then have "str_chars raw = map byte raw" by (rule str_chars_ascii)
  moreover have "\<not> is_control (byte c)" "\<not> is_whitespace (byte c)" if "c \<in> set raw" for c
  proof -
    have "0x20 < byte c" "byte c < 0x7F" using assms(2) that by blast+
    then show "\<not> is_control (byte c)" "\<not> is_whitespace (byte c)"
      by (simp_all add: is_control_def is_whitespace_def)
  qed
  ultimately have "\<not> contains_control raw" "\<not> contains_whitespace raw"
    by (auto simp: contains_control_def contains_whitespace_def list_ex_iff)
  moreover have "\<not> contains_quoted_char raw"
    using assms(2) unfolding contains_quoted_char_def list_ex_iff by blast
  ultimately show ?thesis using assms(1) by (simp add: diag_value_def)
qed

section \<open>The success line\<close>

fun quote_item :: "utf8_item \<Rightarrow> string" where
  "quote_item (Scalar c bs) =
     (if c = byte backslash then [backslash, backslash]
      else if c = byte dquote then [backslash, dquote]
      else if c = 10 then [backslash, CHR ''n'']
      else if c = 13 then [backslash, CHR ''r'']
      else if c = 9 then [backslash, CHR ''t'']
      else if is_control c then backslash # ''u{'' @ zero_pad 4 (hex True c) @ ''}''
      else bs)"
| "quote_item (Bad b) = [b]"

definition quote_field_value :: "string \<Rightarrow> string" where
  "quote_field_value v = dquote # concat (map quote_item (utf8_items v)) @ [dquote]"

definition format_success :: "string \<Rightarrow> string \<Rightarrow> nat \<Rightarrow> string option \<Rightarrow> string" where
  "format_success mode target duration_ms detail =
     (case detail of
        Some d \<Rightarrow>
          if d \<noteq> [] then
            ''result=healthy mode='' @ mode @ '' target='' @ quote_field_value target
            @ '' duration_ms='' @ dec duration_ms @ '' detail='' @ quote_field_value d
          else ''result=healthy mode='' @ mode @ '' target='' @ quote_field_value target
            @ '' duration_ms='' @ dec duration_ms
      | None \<Rightarrow>
          ''result=healthy mode='' @ mode @ '' target='' @ quote_field_value target
          @ '' duration_ms='' @ dec duration_ms)"

lemma byte_escapes [simp]: "byte backslash = 92" "byte dquote = 34"
  by (simp_all add: byte_def)

lemma char_of_escapes [simp]:
  "char_of (92 :: nat) = backslash" "char_of (34 :: nat) = dquote" "char_of (10 :: nat) = newline"
  "char_of (13 :: nat) = CHR 0x0D" "char_of (9 :: nat) = CHR 0x09"
  by code_simp+

lemma quote_item_one_line:
  assumes "it \<in> set (utf8_items v)" "valid_utf8 v"
  shows "one_line (quote_item it)"
proof (cases it)
  case (Bad b)
  with assms show ?thesis by (auto simp: valid_utf8_def list_all_iff)
next
  case (Scalar c bs)
  with assms have "\<not> is_control c \<Longrightarrow> one_line bs"
    by (auto intro: scalar_bytes_one_line simp: is_control_def)
  with Scalar show ?thesis by simp
qed

lemma quote_field_value_one_line: "valid_utf8 v \<Longrightarrow> one_line (quote_field_value v)"
  by (auto simp: quote_field_value_def intro: quote_item_one_line)

subsection \<open>A reader of quoted fields\<close>

text \<open>
  What a consumer of the success line does with a quoted field: undo the escapes up to the
  closing quote. This is the specification side, not code of the program.
\<close>

definition hex_value :: "string \<Rightarrow> nat" where
  "hex_value s = foldl (\<lambda>a c. a * 16 +
     (if is_digit c then byte c - 48 else if is_upper c then byte c - 55 else byte c - 87)) 0 s"

text \<open>UTF-8 of a scalar value below U+0800; the escaped controls are all below.\<close>

definition encode_small :: "nat \<Rightarrow> string" where
  "encode_small c =
     (if c < 0x80 then [char_of c] else [char_of (0xC0 + c div 0x40), char_of (0x80 + c mod 0x40)])"

definition simple_unescape :: "char \<Rightarrow> char" where
  "simple_unescape d =
     (if d = CHR ''n'' then CHR 0x0A else if d = CHR ''r'' then CHR 0x0D
      else if d = CHR ''t'' then CHR 0x09 else d)"

function read_quoted :: "string \<Rightarrow> (string \<times> string) option" where
  "read_quoted s =
     (case s of
        [] \<Rightarrow> None
      | c # cs \<Rightarrow>
          if c = dquote then Some ([], cs)
          else if c = backslash then
            (case cs of
               [] \<Rightarrow> None
             | d # ds \<Rightarrow>
                 if d = CHR ''u'' then
                   (case split_once (CHR ''}'') ds of
                      None \<Rightarrow> None
                    | Some (h, r) \<Rightarrow>
                        map_option (\<lambda>(v, t). (encode_small (hex_value (tl h)) @ v, t)) (read_quoted r))
                 else map_option (\<lambda>(v, t). (simple_unescape d # v, t)) (read_quoted ds))
          else map_option (\<lambda>(v, t). (c # v, t)) (read_quoted cs))"
  by pat_completeness auto
termination
  by (relation "measure length") (auto simp: split_once_Some_iff)

declare read_quoted.simps [simp del]

lemma read_quoted_raw:
  assumes "\<forall>c \<in> set bs. c \<noteq> dquote \<and> c \<noteq> backslash"
  shows "read_quoted (bs @ r) = map_option (\<lambda>(v, t). (bs @ v, t)) (read_quoted r)"
  using assms
proof (induction bs)
  case Nil
  then show ?case by (cases "read_quoted r") auto
next
  case (Cons b bs)
  then show ?case
    by (subst read_quoted.simps) (cases "read_quoted r"; auto)
qed

lemma hex_value_snoc:
  "hex_value (s @ [c]) = hex_value s * 16 + hex_value [c]"
  by (simp add: hex_value_def)

lemma hex_value_digit: "n < 16 \<Longrightarrow> hex_value [hex_digit True n] = n"
  by (simp add: hex_value_def hex_digit_def is_digit_def is_upper_def)

lemma hex_value_hex: "hex_value (hex True n) = n"
proof (induction n rule: less_induct)
  case (less n)
  show ?case
  proof (cases "n < 16")
    case True
    then show ?thesis by (subst hex.simps) (simp add: hex_value_digit)
  next
    case False
    with less [of "n div 16"] show ?thesis
      by (subst hex.simps) (simp add: hex_value_snoc hex_value_digit)
  qed
qed

lemma hex_value_zero_pad: "hex_value (zero_pad w s) = hex_value s"
proof -
  have "foldl (\<lambda>a c. a * 16 + (if is_digit c then byte c - 48
      else if is_upper c then byte c - 55 else byte c - 87)) 0 (replicate k (CHR ''0'')) = 0" for k
    by (induction k) (simp_all add: is_digit_def byte_def)
  then show ?thesis by (simp add: hex_value_def zero_pad_def)
qed

lemma hex_no_brace: "CHR ''}'' \<notin> set (hex True n)"
proof (induction n rule: less_induct)
  case (less n)
  have "CHR ''}'' \<noteq> hex_digit True k" if "k < 16" for k
  proof
    assume "CHR ''}'' = hex_digit True k"
    then have "byte (CHR ''}'') = byte (hex_digit True k)" by simp
    with that show False by (simp add: hex_digit_def byte_def split: if_splits)
  qed
  with less [of "n div 16"] show ?case by (subst hex.simps) simp
qed

lemma control_escape_value:
  "hex_value (zero_pad 4 (hex True c)) = c" "CHR ''}'' \<notin> set (zero_pad 4 (hex True c))"
  by (simp add: hex_value_zero_pad hex_value_hex) (simp add: zero_pad_def hex_no_brace)

lemma read_quoted_control:
  "read_quoted (backslash # ''u{'' @ zero_pad 4 (hex True c) @ ''}'' @ r)
    = map_option (\<lambda>(v, t). (encode_small c @ v, t)) (read_quoted r)"
proof -
  let ?h = "zero_pad 4 (hex True c)"
  have "split_once (CHR ''}'') (CHR ''{'' # ?h @ CHR ''}'' # r) = Some (CHR ''{'' # ?h, r)"
    using control_escape_value(2) by (simp add: split_once_Some_iff)
  then show ?thesis
    by (subst read_quoted.simps) (simp add: control_escape_value(1))
qed

lemma utf8_next_big:
  assumes nx: "utf8_next b bs = Some (c, n)" and b: "0xE0 \<le> byte b"
  shows "0x800 \<le> c"
proof -
  let ?c0 = "byte_at bs 0"
  have three: "0x800 \<le> (byte b - 0xE0) * 0x1000 + (?c0 - 0x80) * 0x40"
    if "byte b = 0xE0 \<longrightarrow> 0xA0 \<le> ?c0"
    using that b by (cases "byte b = 0xE0") auto
  have four: "0x800 \<le> (byte b - 0xF0) * 0x40000 + (?c0 - 0x80) * 0x1000"
    if "0xF0 \<le> byte b" "byte b = 0xF0 \<longrightarrow> 0x90 \<le> ?c0"
    using that by (cases "byte b = 0xF0") auto
  show ?thesis
  proof (cases "byte b < 0xF0")
    case True
    with nx b have "byte b = 0xE0 \<longrightarrow> 0xA0 \<le> ?c0"
      and "c = (byte b - 0xE0) * 0x1000 + (?c0 - 0x80) * 0x40 + (byte_at bs 1 - 0x80)"
      by (simp_all add: utf8_next_def Let_def split: if_split_asm)
    with three show ?thesis by simp
  next
    case False
    with nx b have "byte b = 0xF0 \<longrightarrow> 0x90 \<le> ?c0"
      and "c = (byte b - 0xF0) * 0x40000 + (?c0 - 0x80) * 0x1000
        + (byte_at bs 1 - 0x80) * 0x40 + (byte_at bs 2 - 0x80)"
      by (simp_all add: utf8_next_def Let_def split: if_split_asm)
    with four False show ?thesis by simp
  qed
qed

lemma utf8_next_small:
  assumes nx: "utf8_next b bs = Some (c, n)" and c: "0x80 \<le> c" "c < 0x800"
  shows "b # take n bs = encode_small c"
proof -
  have b: "\<not> byte b < 0x80" using utf8_next_scalar_ascii [OF nx] c(1) by simp
  have x: "byte b < 0xE0" using utf8_next_big [OF nx] c(2) by (cases "byte b < 0xE0") auto
  from nx b x have "0xC2 \<le> byte b" and n: "n = 1" and "bs \<noteq> []" and ct: "cont (byte (bs ! 0))"
    and cd: "c = (byte b - 0xC0) * 0x40 + (byte (bs ! 0) - 0x80)"
    by (auto simp: utf8_next_def Let_def cont_def byte_at_def split: if_split_asm)
  define y where "y = byte b - 0xC0"
  define z where "z = byte (bs ! 0) - 0x80"
  have yz: "byte b = 0xC0 + y" "byte (bs ! 0) = 0x80 + z" "z < 0x40" "c = y * 0x40 + z"
    using \<open>0xC2 \<le> byte b\<close> ct cd by (auto simp: y_def z_def cont_def)
  then have "c div 0x40 = y" "c mod 0x40 = z" by auto
  with yz(1,2) have "char_of (0xC0 + c div 0x40) = b" "char_of (0x80 + c mod 0x40) = bs ! 0"
    by (metis char_of_byte)+
  with n \<open>bs \<noteq> []\<close> c(1) show ?thesis by (cases bs) (simp_all add: encode_small_def)
qed

lemma utf8_items_small:
  "Scalar c bs \<in> set (utf8_items s) \<Longrightarrow> c < 0x800 \<Longrightarrow> bs = encode_small c"
proof (induction s rule: utf8_items.induct)
  case 1
  then show ?case by simp
next
  case (2 b bs')
  show ?case
  proof (cases "utf8_next b bs'")
    case None
    with 2 show ?thesis by simp
  next
    case (Some r)
    obtain cp n where r: "r = (cp, n)" by (cases r)
    note nx = Some [unfolded r]
    consider "c = cp" "bs = b # take n bs'" | "Scalar c bs \<in> set (utf8_items (drop n bs'))"
      using 2(3) nx by auto
    then show ?thesis
    proof cases
      case 1
      show ?thesis
      proof (cases "c < 0x80")
        case True
        with utf8_next_scalar_ascii [OF nx] 1 show ?thesis by (simp add: encode_small_def)
      next
        case False
        with utf8_next_small [OF nx] 1 2(4) show ?thesis by simp
      qed
    next
      case 2
      with "2.IH"(2) nx "2.prems" show ?thesis by simp
    qed
  qed
qed

lemma scalar_bytes_unescaped:
  assumes "Scalar c bs \<in> set (utf8_items s)" "c \<noteq> byte dquote" "c \<noteq> byte backslash"
  shows "\<forall>d \<in> set bs. d \<noteq> dquote \<and> d \<noteq> backslash"
proof (cases "c < 0x80")
  case True
  then have "bs = [char_of c]" "byte (char_of c) = c" using utf8_items_wf [OF assms(1)] by simp_all
  with assms(2,3) show ?thesis by auto
next
  case False
  then have "list_all (\<lambda>b. 0x80 \<le> byte b) bs" using utf8_items_wf [OF assms(1)] by simp
  then show ?thesis by (auto simp: list_all_iff)
qed

lemma read_quoted_item:
  assumes it: "it \<in> set (utf8_items v)" and ok: "valid_utf8 v"
  shows "read_quoted (quote_item it @ r)
    = map_option (\<lambda>(w, t). (item_bytes it @ w, t)) (read_quoted r)"
proof (cases it)
  case (Bad b)
  with assms show ?thesis by (auto simp: valid_utf8_def list_all_iff)
next
  case (Scalar c bs)
  note sc = it [unfolded Scalar]
  have small: "c < 0x800 \<Longrightarrow> bs = encode_small c" using utf8_items_small [OF sc] .
  consider "c \<in> {92, 34, 10, 13, 9}" | "is_control c" "c \<notin> {92, 34, 10, 13, 9}"
    | "\<not> is_control c" "c \<notin> {92, 34, 10, 13, 9}" by blast
  then show ?thesis
  proof cases
    case 1
    have un: "read_quoted (backslash # d # r)
        = map_option (\<lambda>(w, t). (simple_unescape d # w, t)) (read_quoted r)" if "d \<noteq> CHR ''u''" for d
      using that by (subst read_quoted.simps) simp
    from 1 small show ?thesis
      by (auto simp: Scalar un encode_small_def simple_unescape_def)
  next
    case 2
    then have "c < 0x800" by (auto simp: is_control_def)
    with 2 small read_quoted_control [of c] show ?thesis by (simp add: Scalar)
  next
    case 3
    then have "\<forall>d \<in> set bs. d \<noteq> dquote \<and> d \<noteq> backslash"
      using scalar_bytes_unescaped [OF sc] by simp
    with 3 read_quoted_raw show ?thesis by (simp add: Scalar)
  qed
qed

lemma read_quoted_items:
  assumes "set its \<subseteq> set (utf8_items v)" "valid_utf8 v"
  shows "read_quoted (concat (map quote_item its) @ dquote # r)
    = Some (concat (map item_bytes its), r)"
  using assms(1)
proof (induction its)
  case Nil
  show ?case by (subst read_quoted.simps) simp
next
  case (Cons it its)
  then show ?case using read_quoted_item [of it v] assms(2) by simp
qed

lemma read_quoted_quote_field_value:
  "valid_utf8 v \<Longrightarrow> read_quoted (tl (quote_field_value v) @ r) = Some (v, r)"
  using read_quoted_items [of "utf8_items v" v r] by (simp add: quote_field_value_def)

section \<open>Properties\<close>

text \<open>
  C25. The success line can be parsed back: after its fixed prefix stands the quoted target, and
  a reader that undoes the escapes up to the closing quote gets exactly the target and the
  rest of the line, whatever bytes (controls, quotes, backslashes) the target has.
\<close>

theorem success_line_target_roundtrip:
  assumes "valid_utf8 target"
  shows "\<exists>rest. format_success mode target ms detail
      = ''result=healthy mode='' @ mode @ '' target='' @ quote_field_value target @ rest
    \<and> hd (quote_field_value target) = dquote
    \<and> read_quoted (tl (quote_field_value target) @ rest) = Some (target, rest)"
proof -
  have "\<exists>rest. format_success mode target ms detail
      = ''result=healthy mode='' @ mode @ '' target='' @ quote_field_value target @ rest"
    by (auto simp: format_success_def split: option.split)
  moreover have "hd (quote_field_value target) = dquote" by (simp add: quote_field_value_def)
  ultimately show ?thesis using read_quoted_quote_field_value [OF assms] by blast
qed

theorem success_line_target_roundtrip_witness:
  "valid_utf8 [dquote, newline] \<and> (\<exists>rest. format_success ''file'' [dquote, newline] 7 None
      = ''result=healthy mode='' @ ''file'' @ '' target='' @ quote_field_value [dquote, newline] @ rest
    \<and> hd (quote_field_value [dquote, newline]) = dquote
    \<and> read_quoted (tl (quote_field_value [dquote, newline]) @ rest) = Some ([dquote, newline], rest))"
proof -
  have "valid_utf8 [dquote, newline]" by code_simp
  from this success_line_target_roundtrip [OF this, of "''file''" 7 None] show ?thesis by (rule conjI)
qed

text \<open>
  C40. No control byte of a target or a detail reaches the terminal: the success line stays one
  line without escapes, and so does every value quoted in a diagnostic, a string, an \<open>OsStr\<close>
  that need not be UTF-8, or a path.
\<close>

theorem success_line_is_one_line:
  assumes "valid_utf8 target" "valid_utf8 detail" "one_line mode"
  shows "one_line (format_success mode target ms (Some detail))
    \<and> one_line (diag_value D raw) \<and> one_line (diag_os_str D raw) \<and> one_line (diag_path D raw)"
  using assms quote_field_value_one_line by (simp add: format_success_def)

theorem success_line_is_one_line_witness:
  "valid_utf8 [newline] \<and> valid_utf8 ''size=3B'' \<and> one_line ''file''
   \<and> one_line (format_success ''file'' [newline] 7 (Some ''size=3B''))"
proof -
  have h: "valid_utf8 [newline]" "valid_utf8 ''size=3B''" "one_line ''file''" by code_simp+
  from h success_line_is_one_line [OF h, of 7] show ?thesis by blast
qed

end
