(* ===== verification/Cli.thy ===== *)
theory Cli
  imports App_Error
begin

text \<open>
  \<open>cli.rs\<close>: the parsed arguments as records, and the clap command the derive attributes
  describe, with what the argument scanner inspects and what clap enforces (clap's \<open>Command\<close>
  before it is built: no generated \<open>--help\<close>, global options only on the root). Help texts,
  headings and value names are left out. Paths and \<open>OsString\<close>s are byte strings, durations
  nanoseconds.
\<close>

section \<open>Parsed arguments\<close>

record tls_args =
  tls_ca :: "string option"
  tls_cert :: "string option"
  tls_key :: "string option"
  tls_server_name :: "string option"
  tls_insecure_skip_verify :: bool

record http_args =
  http_url :: "string option"
  http_sock :: "string option"
  http_path :: "string option"
  http_method :: string
  http_header :: "string list"
  http_host :: "string option"
  http_status :: "string list"
  http_header_present :: "string list"
  http_header_equals :: "string list"
  http_header_contains :: "string list"
  http_header_not_contains :: "string list"
  http_body_equals :: "string option"
  http_contains :: "string list"
  http_not_contains :: "string list"
  http_tls :: tls_args
  http_max_body :: nat

record tcp_args =
  tcp_addr :: string

record grpc_args =
  grpc_addr :: string
  grpc_service :: "string option"
  grpc_tls :: bool
  grpc_authority :: "string option"
  grpc_tls_args :: tls_args

record exec_args =
  exec_exit_code :: "int list"
  exec_stdout_contains :: "string list"
  exec_stderr_contains :: "string list"
  exec_max_output :: nat
  exec_command :: "string list"

record file_args =
  file_path :: string
  file_readable :: bool
  file_non_empty :: bool
  file_contains :: "string list"
  file_min_size :: "nat option"
  file_max_size :: "nat option"
  file_max_age :: "nat option"
  file_max_read :: nat

datatype command = Http http_args | Tcp tcp_args | Grpc grpc_args | Exec exec_args | File file_args

record cli =
  cli_timeout :: nat
  cli_max_latency :: "nat option"
  cli_quiet :: bool
  cli_verbose :: bool
  cli_command :: command

definition parse_duration :: "deps \<Rightarrow> string \<Rightarrow> nat result" where
  "parse_duration D raw =
     map_err (\<lambda>_. InvalidConfig (''invalid duration: '' @ diag_value D raw))
       (humantime_parse D (trim raw))"

section \<open>The clap command\<close>

datatype arg_action = ActSet | ActSetTrue | ActAppend

record clap_arg =
  arg_long :: "string option"
  arg_action :: arg_action
  arg_allow_hyphen_values :: bool
  arg_allow_negative_numbers :: bool
  arg_trailing_var_arg :: bool
  arg_global :: bool
  arg_required :: bool
  arg_default :: "string option"
  arg_conflicts_with :: "string option"

datatype clap_command = ClapCommand (cmd_name: string) (cmd_arguments: "clap_arg list")
  (cmd_subcommands: "clap_command list")

text \<open>
  The kinds of declarations in \<open>cli.rs\<close>: an optional value, a value that must be given, one that
  also allows negative numbers, one that appends to a vector, a boolean flag, and the trailing
  positional; any of them can be global or have a default.
\<close>

definition value_option :: "string \<Rightarrow> clap_arg" where
  "value_option l = \<lparr>arg_long = Some l, arg_action = ActSet, arg_allow_hyphen_values = False,
     arg_allow_negative_numbers = False, arg_trailing_var_arg = False, arg_global = False,
     arg_required = False, arg_default = None, arg_conflicts_with = None\<rparr>"

definition required_option :: "string \<Rightarrow> clap_arg" where
  "required_option l = (value_option l)\<lparr>arg_required := True\<rparr>"

definition number_option :: "string \<Rightarrow> clap_arg" where
  "number_option l = (value_option l)\<lparr>arg_allow_negative_numbers := True\<rparr>"

definition append_option :: "string \<Rightarrow> clap_arg" where
  "append_option l = (value_option l)\<lparr>arg_action := ActAppend\<rparr>"

definition append_number_option :: "string \<Rightarrow> clap_arg" where
  "append_number_option l = (append_option l)\<lparr>arg_allow_negative_numbers := True\<rparr>"

definition flag_option :: "string \<Rightarrow> clap_arg" where
  "flag_option l = (value_option l)\<lparr>arg_action := ActSetTrue\<rparr>"

definition trailing_positional :: clap_arg where
  "trailing_positional = \<lparr>arg_long = None, arg_action = ActAppend, arg_allow_hyphen_values = False,
     arg_allow_negative_numbers = False, arg_trailing_var_arg = True, arg_global = False,
     arg_required = True, arg_default = None, arg_conflicts_with = None\<rparr>"

definition with_default :: "string \<Rightarrow> clap_arg \<Rightarrow> clap_arg" where
  "with_default v a = a\<lparr>arg_default := Some v\<rparr>"

definition global_arg :: "clap_arg \<Rightarrow> clap_arg" where
  "global_arg a = a\<lparr>arg_global := True\<rparr>"

definition conflicts_with :: "string \<Rightarrow> clap_arg \<Rightarrow> clap_arg" where
  "conflicts_with l a = a\<lparr>arg_conflicts_with := Some l\<rparr>"

definition tls_arguments :: "clap_arg list" where
  "tls_arguments =
     [value_option ''ca'', value_option ''cert'', value_option ''key'',
      value_option ''server-name'', flag_option ''insecure-skip-verify'']"

definition http_command :: clap_command where
  "http_command = ClapCommand ''http''
     ([value_option ''url'', value_option ''sock'', value_option ''path'',
       with_default ''GET'' (value_option ''method''),
       append_option ''header'', value_option ''host'', append_number_option ''status'',
       append_option ''header-present'', append_option ''header-equals'',
       append_option ''header-contains'', append_option ''header-not-contains'',
       value_option ''body-equals'', append_option ''contains'', append_option ''not-contains'']
      @ tls_arguments @ [with_default ''65536'' (number_option ''max-body'')]) []"

definition tcp_command :: clap_command where
  "tcp_command = ClapCommand ''tcp'' [required_option ''addr''] []"

definition grpc_command :: clap_command where
  "grpc_command = ClapCommand ''grpc''
     ([required_option ''addr'', value_option ''service'', flag_option ''tls'',
       value_option ''authority''] @ tls_arguments) []"

definition exec_command_spec :: clap_command where
  "exec_command_spec = ClapCommand ''exec''
     [append_number_option ''exit-code'', append_option ''stdout-contains'',
      append_option ''stderr-contains'', with_default ''65536'' (number_option ''max-output''),
      trailing_positional] []"

definition file_command :: clap_command where
  "file_command = ClapCommand ''file''
     [required_option ''path'', flag_option ''readable'', flag_option ''non-empty'',
      append_option ''contains'', number_option ''min-size'', number_option ''max-size'',
      number_option ''max-age'', with_default ''65536'' (number_option ''max-read'')] []"

text \<open>\<open>Cli::command()\<close>; the argument says whether the \<open>grpc\<close> feature is compiled in.\<close>

definition root_command :: "bool \<Rightarrow> clap_command" where
  "root_command grpc = ClapCommand ''salus''
     (List.map global_arg
       [with_default ''3s'' (number_option ''timeout''), number_option ''max-latency'',
        conflicts_with ''verbose'' (flag_option ''quiet''),
        conflicts_with ''quiet'' (flag_option ''verbose'')])
     ([http_command, tcp_command] @ (if grpc then [grpc_command] else [])
      @ [exec_command_spec, file_command])"

section \<open>The command is well-formed\<close>

text \<open>
  What clap asserts when it builds a command: long options are unique, also against the global
  ones a subcommand inherits; an argument that must be given has no default, and only single
  values have one; a conflict names an option of the same command, and here it is mutual; only
  the last argument is trailing.
\<close>

definition arg_wf :: "clap_arg list \<Rightarrow> clap_arg \<Rightarrow> bool" where
  "arg_wf args a \<longleftrightarrow>
     (arg_required a \<longrightarrow> arg_default a = None)
     \<and> (arg_default a \<noteq> None \<longrightarrow> arg_action a = ActSet)
     \<and> (case arg_conflicts_with a of None \<Rightarrow> True
        | Some l \<Rightarrow> list_ex (\<lambda>b. arg_long b = Some l \<and> arg_conflicts_with b = arg_long a) args)
     \<and> (arg_long a = None \<longleftrightarrow> arg_trailing_var_arg a)"

definition arguments_wf :: "clap_arg list \<Rightarrow> clap_arg list \<Rightarrow> bool" where
  "arguments_wf inherited args =
     (let visible = inherited @ args in
      distinct (filter (\<lambda>l. l \<noteq> None) (List.map arg_long visible))
      \<and> list_all (arg_wf visible) args
      \<and> list_all (\<lambda>a. \<not> arg_trailing_var_arg a) (butlast args))"

definition command_wf :: "clap_command \<Rightarrow> bool" where
  "command_wf root \<longleftrightarrow>
     arguments_wf [] (cmd_arguments root) \<and> distinct (List.map cmd_name (cmd_subcommands root))
     \<and> list_all (\<lambda>c. cmd_subcommands c = []
         \<and> arguments_wf (filter arg_global (cmd_arguments root)) (cmd_arguments c)) (cmd_subcommands root)"

lemma root_command_wf: "command_wf (root_command grpc)"
  by (rule bool.induct; code_simp)

end
