(* ===== verification/Argv.thy ===== *)
theory Argv
  imports Cli
begin

text \<open>
  \<open>argv.rs\<close>: the scan of the raw arguments that is made before they are parsed: is it a request
  for help or for the version, and did the user ask for silence? The scanner is a record as
  in the code, each of its loops a function from the scanner's state, and an early return by
  \<open>?\<close> is \<open>None\<close>.
\<close>

definition with_raw_tail :: "string list \<Rightarrow> string list \<Rightarrow> string list" where
  "with_raw_tail partial_args raw_tail = partial_args @ raw_tail"

section \<open>Options\<close>

record option_spec =
  takes_value :: bool
  has_inline_value :: bool
  allow_hyphen_value :: bool
  allow_negative_number :: bool

fun action_takes_value :: "arg_action \<Rightarrow> bool" where
  "action_takes_value ActSet = True"
| "action_takes_value ActAppend = True"
| "action_takes_value ActSetTrue = False"

definition option_spec_from_arg :: "clap_arg \<Rightarrow> bool \<Rightarrow> option_spec" where
  "option_spec_from_arg arg inline_value =
     \<lparr>takes_value = action_takes_value (arg_action arg), has_inline_value = inline_value,
      allow_hyphen_value = arg_allow_hyphen_values arg,
      allow_negative_number = arg_allow_negative_numbers arg\<rparr>"

definition split_long_option :: "string \<Rightarrow> (string \<times> bool) option" where
  "split_long_option arg =
     (case strip_prefix ''--'' arg of
        None \<Rightarrow> None
      | Some arg' \<Rightarrow>
          (let (name, inline_value) =
             (case split_once (CHR ''='') arg' of Some (name, _) \<Rightarrow> (name, True) | None \<Rightarrow> (arg', False))
           in if name = [] then None else Some (name, inline_value)))"

definition find_long_option :: "clap_command \<Rightarrow> string \<Rightarrow> clap_arg option" where
  "find_long_option command long = find (\<lambda>arg. arg_long arg = Some long) (cmd_arguments command)"

definition find_subcommand :: "clap_command \<Rightarrow> string \<Rightarrow> clap_command option" where
  "find_subcommand root name = find (\<lambda>c. cmd_name c = name) (cmd_subcommands root)"

definition command_accepts_trailing_args :: "clap_command \<Rightarrow> bool" where
  "command_accepts_trailing_args command =
     list_ex arg_trailing_var_arg (filter (\<lambda>a. arg_long a = None) (cmd_arguments command))"

text \<open>The byte loop of \<open>is_negative_number_like\<close>: \<open>index\<close> is the position of its first byte.\<close>

fun negative_number_loop :: "string \<Rightarrow> nat \<Rightarrow> bool \<Rightarrow> nat option \<Rightarrow> nat option option" where
  "negative_number_loop [] index seen_dot exponent = Some exponent"
| "negative_number_loop (b # bytes) index seen_dot exponent =
     (if is_digit b then negative_number_loop bytes (index + 1) seen_dot exponent
      else if b = CHR ''.'' \<and> \<not> seen_dot \<and> exponent = None \<and> 0 < index then
        negative_number_loop bytes (index + 1) True exponent
      else if (b = CHR ''e'' \<or> b = CHR ''E'') \<and> exponent = None \<and> 0 < index then
        negative_number_loop bytes (index + 1) seen_dot (Some index)
      else None)"

definition is_negative_number_like :: "string \<Rightarrow> bool" where
  "is_negative_number_like value =
     (case strip_prefix ''-'' value of
        None \<Rightarrow> False
      | Some number \<Rightarrow>
          (case negative_number_loop number 0 False None of
             None \<Rightarrow> False
           | Some None \<Rightarrow> True
           | Some (Some index) \<Rightarrow> index \<noteq> length number - 1))"

definition value_can_follow_option :: "string \<Rightarrow> option_spec \<Rightarrow> bool" where
  "value_can_follow_option value spec =
     (case to_str value of
        None \<Rightarrow> True
      | Some value \<Rightarrow>
          if value = ''--'' then False
          else \<not> starts_with ''-'' value \<or> allow_hyphen_value spec
            \<or> (allow_negative_number spec \<and> is_negative_number_like value))"

definition is_help :: "string \<Rightarrow> bool" where
  "is_help arg \<longleftrightarrow> arg = ''-h'' \<or> arg = ''--help''"

definition is_version :: "string \<Rightarrow> bool" where
  "is_version arg \<longleftrightarrow> arg = ''-V'' \<or> arg = ''--version''"

definition control_args :: "string \<Rightarrow> string option \<Rightarrow> string \<Rightarrow> string list" where
  "control_args program command flag =
     [program] @ (case command of Some c \<Rightarrow> [c] | None \<Rightarrow> []) @ [flag]"

definition help_subcommand_args :: "string \<Rightarrow> string list \<Rightarrow> string list" where
  "help_subcommand_args program args =
     [program, ''help''] @
     (case args of
        [] \<Rightarrow> []
      | command # _ \<Rightarrow>
          (case to_str command of
             Some c \<Rightarrow> if is_help c then [''help''] else [command]
           | None \<Rightarrow> [command]))"

section \<open>The scanner\<close>

record scanner_state =
  sc_args :: "string list"
  sc_root :: clap_command
  sc_command :: "clap_command option"
  sc_index :: nat

definition scanner_new :: "string list \<Rightarrow> clap_command \<Rightarrow> scanner_state" where
  "scanner_new args root = \<lparr>sc_args = args, sc_root = root, sc_command = None, sc_index = 1\<rparr>"

definition arg_at :: "scanner_state \<Rightarrow> nat \<Rightarrow> string option" where
  "arg_at self i = (if i < length (sc_args self) then Some (sc_args self ! i) else None)"

definition current_arg :: "scanner_state \<Rightarrow> string option" where
  "current_arg self = arg_at self (sc_index self)"

definition command_name :: "scanner_state \<Rightarrow> string option" where
  "command_name self = map_option cmd_name (sc_command self)"

definition advance :: "nat \<Rightarrow> scanner_state \<Rightarrow> scanner_state" where
  "advance n self = self\<lparr>sc_index := sc_index self + n\<rparr>"

definition option_spec_of :: "scanner_state \<Rightarrow> string \<Rightarrow> option_spec option" where
  "option_spec_of self arg =
     (case split_long_option arg of
        None \<Rightarrow> None
      | Some (long, inline_value) \<Rightarrow>
          (case (case sc_command self of None \<Rightarrow> None | Some command \<Rightarrow> find_long_option command long) of
             Some a \<Rightarrow> Some (option_spec_from_arg a inline_value)
           | None \<Rightarrow>
               (case find_long_option (sc_root self) long of
                  Some a \<Rightarrow> Some (option_spec_from_arg a inline_value)
                | None \<Rightarrow> None)))"

definition consume_flag :: "scanner_state \<Rightarrow> string \<Rightarrow> scanner_state option" where
  "consume_flag self arg =
     (case option_spec_of self arg of
        None \<Rightarrow> None
      | Some spec \<Rightarrow>
          if takes_value spec then None
          else if has_inline_value spec then None
          else Some (advance 1 self))"

definition next_index_after_option_value :: "scanner_state \<Rightarrow> option_spec \<Rightarrow> nat option" where
  "next_index_after_option_value self spec =
     (if has_inline_value spec then Some (sc_index self + 1)
      else
        (case arg_at self (sc_index self + 1) of
           None \<Rightarrow> None
         | Some value \<Rightarrow>
             if value_can_follow_option value spec then Some (sc_index self + 2) else None))"

datatype skip = Consumed scanner_state | Stopped | NotOptionValue

text \<open>
  \<open>skip_option_value\<close> and \<open>skip_option_value_for_quiet\<close>: \<open>Stopped\<close> is the early \<open>None\<close> of
  the first and the \<open>QuietSkip::Stop\<close> (with the answer so far) of the second.
\<close>

definition skip_option_value :: "scanner_state \<Rightarrow> string \<Rightarrow> skip" where
  "skip_option_value self arg =
     (case option_spec_of self arg of
        None \<Rightarrow> NotOptionValue
      | Some spec \<Rightarrow>
          if \<not> takes_value spec then NotOptionValue
          else
            (case next_index_after_option_value self spec of
               None \<Rightarrow> Stopped
             | Some next_index \<Rightarrow> Consumed (self\<lparr>sc_index := next_index\<rparr>)))"

definition select_command :: "scanner_state \<Rightarrow> clap_command \<Rightarrow> scanner_state" where
  "select_command self command = (advance 1 self)\<lparr>sc_command := Some command\<rparr>"

lemma advance_simps [simp]:
  "sc_args (advance n self) = sc_args self" "sc_root (advance n self) = sc_root self"
  "sc_command (advance n self) = sc_command self" "sc_index (advance n self) = sc_index self + n"
  by (simp_all add: advance_def)

lemma select_command_simps [simp]:
  "sc_args (select_command self c) = sc_args self" "sc_root (select_command self c) = sc_root self"
  "sc_command (select_command self c) = Some c" "sc_index (select_command self c) = sc_index self + 1"
  by (simp_all add: select_command_def)

lemma consume_flag_SomeD:
  "consume_flag self arg = Some self' \<Longrightarrow> self' = advance 1 self"
  by (auto simp: consume_flag_def split: option.splits if_splits)

lemma skip_option_value_ConsumedD:
  assumes "skip_option_value self arg = Consumed self'"
  shows "\<exists>spec i. option_spec_of self arg = Some spec \<and> takes_value spec \<and> self' = self\<lparr>sc_index := i\<rparr>
    \<and> next_index_after_option_value self spec = Some i \<and> sc_index self < i"
  using assms
  by (auto simp: skip_option_value_def next_index_after_option_value_def split: option.splits if_splits)

lemma current_arg_Some_iff:
  "current_arg self = Some a \<longleftrightarrow> sc_index self < length (sc_args self) \<and> a = sc_args self ! sc_index self"
  by (auto simp: current_arg_def arg_at_def)

text \<open>The size of a scanner is what it has left to read; every step makes it smaller.\<close>

instantiation scanner_state_ext :: (type) size
begin

definition size_scanner_state_ext :: "'a scanner_state_scheme \<Rightarrow> nat" where
  "size_scanner_state_ext self = length (sc_args self) - sc_index self"

instance ..

end

lemma scan_measure:
  "current_arg self = Some a \<Longrightarrow> skip_option_value self b = Consumed self' \<Longrightarrow> size self' < size self"
  "current_arg self = Some a \<Longrightarrow> consume_flag self b = Some self' \<Longrightarrow> size self' < size self"
  "current_arg self = Some a \<Longrightarrow> size (advance 1 self) < size self"
  "current_arg self = Some a \<Longrightarrow> size (select_command self c) < size self"
  by (auto simp: size_scanner_state_ext_def current_arg_Some_iff
      dest!: skip_option_value_ConsumedD consume_flag_SomeD)

section \<open>Help and version requests\<close>

function trailing_help_loop :: "string \<Rightarrow> clap_command \<Rightarrow> scanner_state \<Rightarrow> string list option" where
  "trailing_help_loop program command self =
     (case current_arg self of
        None \<Rightarrow> None
      | Some raw \<Rightarrow>
          if raw = ''--'' then None
          else
            (case to_str raw of
               None \<Rightarrow> None
             | Some arg \<Rightarrow>
                 (case skip_option_value self arg of
                    Stopped \<Rightarrow> None
                  | Consumed self' \<Rightarrow> trailing_help_loop program command self'
                  | NotOptionValue \<Rightarrow>
                      if is_help arg then Some (control_args program (Some (cmd_name command)) arg)
                      else
                        (case consume_flag self arg of
                           Some self' \<Rightarrow> trailing_help_loop program command self'
                         | None \<Rightarrow> None))))"
  by pat_completeness auto
termination
  by (relation "measure (\<lambda>(p, c, self). size self)") (auto intro: scan_measure)

declare trailing_help_loop.simps [simp del]

definition trailing_help_or_version_args ::
    "scanner_state \<Rightarrow> string \<Rightarrow> clap_command \<Rightarrow> string list option" where
  "trailing_help_or_version_args self program command =
     trailing_help_loop program command (select_command self command)"

function help_loop :: "string \<Rightarrow> scanner_state \<Rightarrow> string list option" where
  "help_loop program self =
     (case current_arg self of
        None \<Rightarrow> None
      | Some raw \<Rightarrow>
          if raw = ''--'' then None
          else
            (case to_str raw of
               None \<Rightarrow> None
             | Some arg \<Rightarrow>
                 (case skip_option_value self arg of
                    Stopped \<Rightarrow> None
                  | Consumed self' \<Rightarrow> help_loop program self'
                  | NotOptionValue \<Rightarrow>
                      if is_help arg then Some (control_args program (command_name self) arg)
                      else if sc_command self = None \<and> is_version arg then
                        Some (control_args program None arg)
                      else if sc_command self = None \<and> arg = ''help'' then
                        Some (help_subcommand_args program (drop (sc_index self + 1) (sc_args self)))
                      else
                        (case consume_flag self arg of
                           Some self' \<Rightarrow> help_loop program self'
                         | None \<Rightarrow>
                             if sc_command self \<noteq> None then None
                             else
                               (case find_subcommand (sc_root self) arg of
                                  None \<Rightarrow> None
                                | Some command \<Rightarrow>
                                    if command_accepts_trailing_args command then
                                      trailing_help_or_version_args self program command
                                    else help_loop program (select_command self command))))))"
  by pat_completeness auto
termination
  by (relation "measure (\<lambda>(p, self). size self)")
    (auto intro: scan_measure simp del: One_nat_def)

declare help_loop.simps [simp del]

definition help_or_version_args :: "clap_command \<Rightarrow> string list \<Rightarrow> string list option" where
  "help_or_version_args root args =
     (case args of [] \<Rightarrow> None | program # _ \<Rightarrow> help_loop program (scanner_new args root))"

section \<open>Silence\<close>

record output_request =
  want_quiet :: bool
  want_verbose :: bool

definition output_default :: output_request where
  "output_default = \<lparr>want_quiet = False, want_verbose = False\<rparr>"

definition observe_flag :: "output_request \<Rightarrow> string \<Rightarrow> output_request option" where
  "observe_flag out arg =
     (if arg = ''--quiet'' then Some (out\<lparr>want_quiet := True\<rparr>)
      else if arg = ''--verbose'' then Some (out\<lparr>want_verbose := True\<rparr>)
      else None)"

definition output_quiet :: "output_request \<Rightarrow> bool" where
  "output_quiet out \<longleftrightarrow> want_quiet out \<and> \<not> want_verbose out"

function trailing_requests_quiet :: "scanner_state \<Rightarrow> output_request \<Rightarrow> bool" where
  "trailing_requests_quiet self out =
     (case current_arg self of
        None \<Rightarrow> output_quiet out
      | Some raw \<Rightarrow>
          if raw = ''--'' then output_quiet out
          else
            (case to_str raw of
               None \<Rightarrow> output_quiet out
             | Some arg \<Rightarrow>
                 (case skip_option_value self arg of
                    Consumed self' \<Rightarrow> trailing_requests_quiet self' out
                  | Stopped \<Rightarrow> output_quiet out
                  | NotOptionValue \<Rightarrow>
                      (case observe_flag out arg of
                         Some out' \<Rightarrow> trailing_requests_quiet (advance 1 self) out'
                       | None \<Rightarrow>
                           (case consume_flag self arg of
                              Some self' \<Rightarrow> trailing_requests_quiet self' out
                            | None \<Rightarrow>
                                if is_help arg then trailing_requests_quiet (advance 1 self) out
                                else output_quiet out)))))"
  by pat_completeness auto
termination
  by (relation "measure (\<lambda>(self, out). size self)")
    (auto intro: scan_measure simp del: One_nat_def)

declare trailing_requests_quiet.simps [simp del]

function quiet_loop :: "scanner_state \<Rightarrow> output_request \<Rightarrow> bool" where
  "quiet_loop self out =
     (case current_arg self of
        None \<Rightarrow> output_quiet out
      | Some raw \<Rightarrow>
          if raw = ''--'' then output_quiet out
          else
            (case to_str raw of
               None \<Rightarrow> output_quiet out
             | Some arg \<Rightarrow>
                 (case skip_option_value self arg of
                    Consumed self' \<Rightarrow> quiet_loop self' out
                  | Stopped \<Rightarrow> output_quiet out
                  | NotOptionValue \<Rightarrow>
                      (case observe_flag out arg of
                         Some out' \<Rightarrow> quiet_loop (advance 1 self) out'
                       | None \<Rightarrow>
                           (case consume_flag self arg of
                              Some self' \<Rightarrow> quiet_loop self' out
                            | None \<Rightarrow>
                                if sc_command self \<noteq> None then output_quiet out
                                else
                                  (case find_subcommand (sc_root self) arg of
                                     None \<Rightarrow> output_quiet out
                                   | Some command \<Rightarrow>
                                       if command_accepts_trailing_args command then
                                         trailing_requests_quiet (select_command self command) out
                                       else quiet_loop (select_command self command) out))))))"
  by pat_completeness auto
termination
  by (relation "measure (\<lambda>(self, out). size self)")
    (auto intro: scan_measure simp del: One_nat_def)

declare quiet_loop.simps [simp del]

definition requests_quiet :: "clap_command \<Rightarrow> string list \<Rightarrow> bool" where
  "requests_quiet root args = quiet_loop (scanner_new args root) output_default"

section \<open>The shape of a recognised request\<close>

definition control_request :: "clap_command \<Rightarrow> string \<Rightarrow> string list \<Rightarrow> bool" where
  "control_request root program out \<longleftrightarrow>
     (\<exists>flag. out = [program, flag] \<and> (is_help flag \<or> is_version flag))
   \<or> (\<exists>command flag. out = [program, cmd_name command, flag] \<and> is_help flag
        \<and> command \<in> set (cmd_subcommands root))
   \<or> out = [program, ''help'']
   \<or> (\<exists>topic. out = [program, ''help'', topic])"

lemma find_subcommand_Some:
  "find_subcommand root name = Some c \<Longrightarrow> c \<in> set (cmd_subcommands root) \<and> cmd_name c = name"
  by (auto simp: find_subcommand_def find_Some_iff)

lemma help_subcommand_args_control: "control_request root program (help_subcommand_args program args)"
  by (cases args) (auto simp: help_subcommand_args_def control_request_def split: option.splits)

lemma control_args_control:
  "is_help flag \<Longrightarrow> command \<in> set (cmd_subcommands root) \<Longrightarrow>
     control_request root program (control_args program (Some (cmd_name command)) flag)"
  "is_help flag \<or> is_version flag \<Longrightarrow> control_request root program (control_args program None flag)"
  by (auto simp: control_args_def control_request_def)

lemma trailing_help_loop_shape:
  assumes "trailing_help_loop program command self = Some out" "command \<in> set (cmd_subcommands root)"
  shows "control_request root program out"
  using assms
proof (induction program command self rule: trailing_help_loop.induct)
  case (1 program command self)
  from 1(3) show ?case
    by (subst (asm) trailing_help_loop.simps)
      (auto split: option.split_asm if_split_asm skip.split_asm
        intro: 1(1) [OF _ _ _ _ _ 1(4)] 1(2) [OF _ _ _ _ _ _ _ 1(4)] control_args_control 1(4))
qed

lemma help_loop_shape:
  assumes "help_loop program self = Some out"
    and "set_option (sc_command self) \<subseteq> set (cmd_subcommands (sc_root self))"
  shows "control_request (sc_root self) program out"
  using assms
proof (induction "size self" arbitrary: self rule: less_induct)
  case less
  have named: "is_help flag \<Longrightarrow> control_request (sc_root self) program (control_args program (command_name self) flag)" for flag
    using less.prems(2) by (cases "sc_command self") (auto simp: command_name_def intro: control_args_control)
  from less.prems(1) obtain raw arg where cur: "current_arg self = Some raw" "raw \<noteq> ''--''"
    and arg: "to_str raw = Some arg"
    by (auto simp: help_loop.simps [of program self] split: option.split_asm if_split_asm)
  note prog = scan_measure [OF cur(1)]
  show ?case
  proof (cases "skip_option_value self arg")
    case Stopped
    with cur arg less.prems(1) show ?thesis by (simp add: help_loop.simps [of program self])
  next
    case (Consumed self')
    with cur arg less.prems(1) have "help_loop program self' = Some out"
      by (simp add: help_loop.simps [of program self])
    with less.hyps [OF prog(1) [OF Consumed]] skip_option_value_ConsumedD [OF Consumed] less.prems(2)
    show ?thesis by auto
  next
    case NotOptionValue
    have flag: "control_request (sc_root self) program out"
      if "consume_flag self arg = Some self'" "help_loop program self' = Some out" for self'
      using less.hyps [OF prog(2) [OF that(1)] that(2)] consume_flag_SomeD [OF that(1)] less.prems(2)
      by simp
    have cmd: "control_request (sc_root self) program out"
      if "find_subcommand (sc_root self) name = Some c"
        "help_loop program (select_command self c) = Some out" for name c
      using less.hyps [OF prog(4) that(2)] find_subcommand_Some [OF that(1)] less.prems(2) by simp
    from less.prems(1) cur arg NotOptionValue show ?thesis
      by (auto simp: help_loop.simps [of program self] trailing_help_or_version_args_def
          split: option.split_asm if_split_asm
          intro: flag cmd named control_args_control help_subcommand_args_control
            trailing_help_loop_shape dest: find_subcommand_Some)
  qed
qed

section \<open>Nothing after the double dash is looked at\<close>

lemma option_spec_of_cong:
  "sc_root self = sc_root self' \<Longrightarrow> sc_command self = sc_command self' \<Longrightarrow>
    option_spec_of self arg = option_spec_of self' arg"
  by (simp add: option_spec_of_def cong: option.case_cong)

lemma value_can_follow_dashes: "\<not> value_can_follow_option ''--'' spec"
proof -
  have "to_str ''--'' = Some ''--''" by code_simp
  then show ?thesis by (simp add: value_can_follow_option_def)
qed

definition cut :: "string list \<Rightarrow> scanner_state \<Rightarrow> string list \<Rightarrow> bool" where
  "cut pre self post \<longleftrightarrow> sc_args self = pre @ ''--'' # post \<and> sc_index self \<le> length pre"

lemma arg_at_cut:
  assumes "cut pre self post" "i \<le> length pre"
  shows "arg_at (self\<lparr>sc_args := pre @ ''--'' # post'\<rparr>) i = arg_at self i"
  using assms by (auto simp: cut_def arg_at_def nth_append)

lemma current_arg_cut:
  "cut pre self post \<Longrightarrow> current_arg (self\<lparr>sc_args := pre @ ''--'' # post'\<rparr>) = current_arg self"
  by (simp add: current_arg_def arg_at_cut) (simp add: cut_def arg_at_def nth_append)

lemma current_arg_cut_less:
  "cut pre self post \<Longrightarrow> current_arg self = Some raw \<Longrightarrow> raw \<noteq> ''--'' \<Longrightarrow> sc_index self < length pre"
  by (cases "sc_index self = length pre") (auto simp: cut_def current_arg_Some_iff)

fun skip_map :: "(scanner_state \<Rightarrow> scanner_state) \<Rightarrow> skip \<Rightarrow> skip" where
  "skip_map f (Consumed self) = Consumed (f self)"
| "skip_map f Stopped = Stopped"
| "skip_map f NotOptionValue = NotOptionValue"

lemma skip_option_value_cut:
  assumes "cut pre self post" "sc_index self < length pre"
  shows "skip_option_value (self\<lparr>sc_args := pre @ ''--'' # post'\<rparr>) arg
    = skip_map (\<lambda>s. s\<lparr>sc_args := pre @ ''--'' # post'\<rparr>) (skip_option_value self arg)"
proof -
  let ?self = "self\<lparr>sc_args := pre @ ''--'' # post'\<rparr>"
  have "option_spec_of ?self arg = option_spec_of self arg" by (rule option_spec_of_cong) simp_all
  moreover have "next_index_after_option_value ?self spec = next_index_after_option_value self spec" for spec
    using arg_at_cut [OF assms(1), of "sc_index self + 1"] assms(2)
    by (simp add: next_index_after_option_value_def split: option.split)
  ultimately show ?thesis
    by (simp add: skip_option_value_def split: option.splits)
qed

lemma skip_option_value_keeps_cut:
  assumes "cut pre self post" "sc_index self < length pre" "skip_option_value self arg = Consumed self'"
  shows "cut pre self' post"
proof -
  obtain spec i where i: "self' = self\<lparr>sc_index := i\<rparr>" "next_index_after_option_value self spec = Some i"
    using skip_option_value_ConsumedD [OF assms(3)] by blast
  have "i \<le> length pre"
  proof (cases "has_inline_value spec")
    case True
    with i(2) assms(2) show ?thesis by (auto simp: next_index_after_option_value_def)
  next
    case False
    with i(2) obtain v where v: "arg_at self (sc_index self + 1) = Some v"
      "value_can_follow_option v spec" "i = sc_index self + 2"
      by (auto simp: next_index_after_option_value_def split: option.split_asm if_split_asm)
    have "sc_index self + 1 \<noteq> length pre"
    proof
      assume "sc_index self + 1 = length pre"
      with v(1) assms(1) have "v = ''--''" by (auto simp: cut_def arg_at_def nth_append split: if_split_asm)
      with v(2) value_can_follow_dashes show False by simp
    qed
    with v(3) assms(2) show ?thesis by simp
  qed
  with i(1) assms(1) show ?thesis by (simp add: cut_def)
qed

lemma consume_flag_cut:
  "consume_flag (self\<lparr>sc_args := xs\<rparr>) arg = map_option (\<lambda>s. s\<lparr>sc_args := xs\<rparr>) (consume_flag self arg)"
proof -
  have "option_spec_of (self\<lparr>sc_args := xs\<rparr>) arg = option_spec_of self arg"
    by (rule option_spec_of_cong) simp_all
  then show ?thesis by (simp add: consume_flag_def advance_def split: option.splits)
qed

lemma advance_cut:
  "advance n (self\<lparr>sc_args := xs\<rparr>) = (advance n self)\<lparr>sc_args := xs\<rparr>"
  "select_command (self\<lparr>sc_args := xs\<rparr>) c = (select_command self c)\<lparr>sc_args := xs\<rparr>"
  by (simp_all add: advance_def select_command_def)

lemma cut_step:
  assumes "cut pre self post" "sc_index self < length pre"
  shows "cut pre (advance 1 self) post" "cut pre (select_command self c) post"
    "consume_flag self arg = Some self' \<Longrightarrow> cut pre self' post"
  using assms by (auto simp: cut_def dest!: consume_flag_SomeD)

lemma trailing_requests_quiet_cut:
  assumes "cut pre self post"
  shows "trailing_requests_quiet (self\<lparr>sc_args := pre @ ''--'' # post'\<rparr>) out = trailing_requests_quiet self out"
  using assms
proof (induction "size self" arbitrary: self out rule: less_induct)
  case less
  let ?self = "self\<lparr>sc_args := pre @ ''--'' # post'\<rparr>"
  show ?case
  proof (cases "current_arg self")
    case None
    with current_arg_cut [OF less.prems] show ?thesis
      by (simp add: trailing_requests_quiet.simps [of self] trailing_requests_quiet.simps [of ?self])
  next
    case (Some raw)
    note cur = this
    show ?thesis
    proof (cases "raw = ''--''")
      case True
      with cur current_arg_cut [OF less.prems] show ?thesis
        by (simp add: trailing_requests_quiet.simps [of self] trailing_requests_quiet.simps [of ?self])
    next
      case False
      note lt = current_arg_cut_less [OF less.prems cur False]
      note step = cut_step [OF less.prems lt] skip_option_value_keeps_cut [OF less.prems lt]
      note prog = scan_measure [OF cur]
      have ih1: "trailing_requests_quiet (self'\<lparr>sc_args := pre @ ''--'' # post'\<rparr>) out' = trailing_requests_quiet self' out'"
        if "skip_option_value self arg = Consumed self'" for self' arg out'
        by (rule less.hyps [OF prog(1) [OF that] step(4) [OF that]])
      have ih2: "trailing_requests_quiet (self'\<lparr>sc_args := pre @ ''--'' # post'\<rparr>) out' = trailing_requests_quiet self' out'"
        if "consume_flag self arg = Some self'" for self' arg out'
        by (rule less.hyps [OF prog(2) [OF that] step(3) [OF that]])
      have ih3: "trailing_requests_quiet (advance 1 self\<lparr>sc_args := pre @ ''--'' # post'\<rparr>) out' = trailing_requests_quiet (advance 1 self) out'" for out'
        by (rule less.hyps [OF prog(3) step(1)])
      show ?thesis
        unfolding trailing_requests_quiet.simps [of self] trailing_requests_quiet.simps [of ?self]
          current_arg_cut [OF less.prems] skip_option_value_cut [OF less.prems lt] consume_flag_cut
          advance_cut
        by (auto split: option.split skip.split simp: ih1 ih2 ih3 [unfolded One_nat_def])
    qed
  qed
qed

lemma quiet_loop_cut:
  assumes "cut pre self post"
  shows "quiet_loop (self\<lparr>sc_args := pre @ ''--'' # post'\<rparr>) out = quiet_loop self out"
  using assms
proof (induction "size self" arbitrary: self out rule: less_induct)
  case less
  let ?self = "self\<lparr>sc_args := pre @ ''--'' # post'\<rparr>"
  show ?case
  proof (cases "\<exists>raw. current_arg self = Some raw \<and> raw \<noteq> ''--''")
    case False
    with current_arg_cut [OF less.prems] show ?thesis
      by (auto simp: quiet_loop.simps [of self] quiet_loop.simps [of ?self] split: option.split)
  next
    case True
    then obtain raw where cur: "current_arg self = Some raw" "raw \<noteq> ''--''" by blast
    note lt = current_arg_cut_less [OF less.prems cur]
    note step = cut_step [OF less.prems lt] skip_option_value_keeps_cut [OF less.prems lt]
    note prog = scan_measure [OF cur(1)]
    have ih1: "quiet_loop (self'\<lparr>sc_args := pre @ ''--'' # post'\<rparr>) out' = quiet_loop self' out'"
      if "skip_option_value self arg = Consumed self'" for self' arg out'
      by (rule less.hyps [OF prog(1) [OF that] step(4) [OF that]])
    have ih2: "quiet_loop (self'\<lparr>sc_args := pre @ ''--'' # post'\<rparr>) out' = quiet_loop self' out'"
      if "consume_flag self arg = Some self'" for self' arg out'
      by (rule less.hyps [OF prog(2) [OF that] step(3) [OF that]])
    have ih3: "quiet_loop (advance 1 self\<lparr>sc_args := pre @ ''--'' # post'\<rparr>) out' = quiet_loop (advance 1 self) out'" for out'
      by (rule less.hyps [OF prog(3) step(1)])
    have ih4: "quiet_loop (select_command self c\<lparr>sc_args := pre @ ''--'' # post'\<rparr>) out' = quiet_loop (select_command self c) out'" for out' c
      by (rule less.hyps [OF prog(4) step(2)])
    have tr: "trailing_requests_quiet (select_command self c\<lparr>sc_args := pre @ ''--'' # post'\<rparr>) out' = trailing_requests_quiet (select_command self c) out'" for out' c
      by (rule trailing_requests_quiet_cut [OF step(2)])
    show ?thesis
      unfolding quiet_loop.simps [of self] quiet_loop.simps [of ?self]
        current_arg_cut [OF less.prems] skip_option_value_cut [OF less.prems lt] consume_flag_cut
        advance_cut
      by (auto split: option.split skip.split simp: ih1 ih2 ih3 [unfolded One_nat_def] ih4 tr)
  qed
qed

lemma requests_quiet_cut:
  assumes "pre \<noteq> []"
  shows "requests_quiet root (pre @ ''--'' # post) = requests_quiet root (pre @ ''--'' # post')"
proof -
  have "cut pre (scanner_new (pre @ ''--'' # post') root) post'"
    using assms by (cases pre) (auto simp: cut_def scanner_new_def)
  from quiet_loop_cut [OF this, of post] show ?thesis
    by (simp add: requests_quiet_def scanner_new_def)
qed

lemma trailing_help_loop_cut:
  assumes "cut pre self post"
  shows "trailing_help_loop p c (self\<lparr>sc_args := pre @ ''--'' # post'\<rparr>) = trailing_help_loop p c self"
  using assms
proof (induction "size self" arbitrary: self rule: less_induct)
  case less
  let ?self = "self\<lparr>sc_args := pre @ ''--'' # post'\<rparr>"
  show ?case
  proof (cases "\<exists>raw. current_arg self = Some raw \<and> raw \<noteq> ''--''")
    case False
    with current_arg_cut [OF less.prems] show ?thesis
      by (auto simp: trailing_help_loop.simps [of p c self] trailing_help_loop.simps [of p c ?self]
          split: option.split)
  next
    case True
    then obtain raw where cur: "current_arg self = Some raw" "raw \<noteq> ''--''" by blast
    note lt = current_arg_cut_less [OF less.prems cur]
    note prog = scan_measure [OF cur(1)]
    have ih1: "trailing_help_loop p c (self'\<lparr>sc_args := pre @ ''--'' # post'\<rparr>) = trailing_help_loop p c self'"
      if "skip_option_value self arg = Consumed self'" for self' arg
      by (rule less.hyps [OF prog(1) [OF that] skip_option_value_keeps_cut [OF less.prems lt that]])
    have ih2: "trailing_help_loop p c (self'\<lparr>sc_args := pre @ ''--'' # post'\<rparr>) = trailing_help_loop p c self'"
      if "consume_flag self arg = Some self'" for self' arg
      by (rule less.hyps [OF prog(2) [OF that] cut_step(3) [OF less.prems lt that]])
    show ?thesis
      unfolding trailing_help_loop.simps [of p c self] trailing_help_loop.simps [of p c ?self]
        current_arg_cut [OF less.prems] skip_option_value_cut [OF less.prems lt] consume_flag_cut
      by (auto split: option.split skip.split simp: ih1 ih2)
  qed
qed

lemma help_subcommand_args_cut:
  assumes "i < length pre"
  shows "help_subcommand_args p (drop (i + 1) (pre @ ''--'' # post)) = help_subcommand_args p (drop (i + 1) (pre @ ''--'' # post'))"
  using assms by (cases "drop (i + 1) pre") (auto simp: help_subcommand_args_def)

lemma help_loop_cut:
  assumes "cut pre self post"
  shows "help_loop p (self\<lparr>sc_args := pre @ ''--'' # post'\<rparr>) = help_loop p self"
  using assms
proof (induction "size self" arbitrary: self rule: less_induct)
  case less
  let ?self = "self\<lparr>sc_args := pre @ ''--'' # post'\<rparr>"
  show ?case
  proof (cases "\<exists>raw. current_arg self = Some raw \<and> raw \<noteq> ''--''")
    case False
    with current_arg_cut [OF less.prems] show ?thesis
      by (auto simp: help_loop.simps [of p self] help_loop.simps [of p ?self] split: option.split)
  next
    case True
    then obtain raw where cur: "current_arg self = Some raw" "raw \<noteq> ''--''" by blast
    note lt = current_arg_cut_less [OF less.prems cur]
    note step = cut_step [OF less.prems lt] skip_option_value_keeps_cut [OF less.prems lt]
    note prog = scan_measure [OF cur(1)]
    have ih1: "help_loop p (self'\<lparr>sc_args := pre @ ''--'' # post'\<rparr>) = help_loop p self'"
      if "skip_option_value self arg = Consumed self'" for self' arg
      by (rule less.hyps [OF prog(1) [OF that] step(4) [OF that]])
    have ih2: "help_loop p (self'\<lparr>sc_args := pre @ ''--'' # post'\<rparr>) = help_loop p self'"
      if "consume_flag self arg = Some self'" for self' arg
      by (rule less.hyps [OF prog(2) [OF that] step(3) [OF that]])
    have ih3: "help_loop p (select_command self c\<lparr>sc_args := pre @ ''--'' # post'\<rparr>) = help_loop p (select_command self c)" for c
      by (rule less.hyps [OF prog(4) step(2)])
    have tr: "trailing_help_or_version_args ?self p c = trailing_help_or_version_args self p c" for c
      unfolding trailing_help_or_version_args_def advance_cut
      by (rule trailing_help_loop_cut [OF step(2)])
    have hs: "help_subcommand_args p (drop (Suc (sc_index self)) (pre @ ''--'' # post'))
        = help_subcommand_args p (drop (Suc (sc_index self)) (sc_args self))"
      using help_subcommand_args_cut [OF lt, of p post post'] less.prems by (simp add: cut_def)
    show ?thesis
      unfolding help_loop.simps [of p self] help_loop.simps [of p ?self]
        current_arg_cut [OF less.prems] skip_option_value_cut [OF less.prems lt] consume_flag_cut
        advance_cut
      by (auto split: option.split skip.split simp: ih1 ih2 ih3 tr hs command_name_def simp del: drop_append)
  qed
qed

lemma help_or_version_args_cut:
  assumes "pre \<noteq> []"
  shows "help_or_version_args root (pre @ ''--'' # post) = help_or_version_args root (pre @ ''--'' # post')"
proof -
  have "cut pre (scanner_new (pre @ ''--'' # post') root) post'"
    using assms by (cases pre) (auto simp: cut_def scanner_new_def)
  from help_loop_cut [OF this, of _ post] assms show ?thesis
    by (cases pre) (auto simp: help_or_version_args_def scanner_new_def)
qed

section \<open>What silences the program\<close>

text \<open>
  The specification: a list of complete options of a command (a flag, an option with its value
  inline, or an option and the argument that is its value), and the flags among them.
\<close>

definition spec_in :: "clap_command \<Rightarrow> clap_command option \<Rightarrow> string \<Rightarrow> option_spec option" where
  "spec_in root command arg =
     option_spec_of \<lparr>sc_args = [], sc_root = root, sc_command = command, sc_index = 0\<rparr> arg"

fun own_options :: "clap_command \<Rightarrow> clap_command option \<Rightarrow> string list \<Rightarrow> string list option" where
  "own_options root command [] = Some []"
| "own_options root command (a # rest) =
     (if \<not> valid_utf8 a then None
      else
        (case spec_in root command a of
           None \<Rightarrow> None
         | Some spec \<Rightarrow>
             if \<not> takes_value spec then
               (if has_inline_value spec then None
                else map_option (Cons a) (own_options root command rest))
             else if has_inline_value spec then own_options root command rest
             else
               (case rest of
                  [] \<Rightarrow> None
                | v # rest' \<Rightarrow>
                    if value_can_follow_option v spec then own_options root command rest' else None)))"

definition observe_all :: "output_request \<Rightarrow> string list \<Rightarrow> output_request" where
  "observe_all out flags =
     \<lparr>want_quiet = want_quiet out \<or> ''--quiet'' \<in> set flags,
      want_verbose = want_verbose out \<or> ''--verbose'' \<in> set flags\<rparr>"

lemma observe_all_Nil [simp]: "observe_all out [] = out"
  by (simp add: observe_all_def)

lemma observe_all_Cons:
  "observe_all out (f # fs) = observe_all (case observe_flag out f of Some out' \<Rightarrow> out' | None \<Rightarrow> out) fs"
  by (auto simp: observe_all_def observe_flag_def)

lemma split_long_option_dashes: "split_long_option ''--'' = None"
  by code_simp

lemma spec_not_dashes: "option_spec_of self ''--'' = None"
  by (simp add: option_spec_of_def split_long_option_dashes)

lemma spec_in_eq: "option_spec_of self arg = spec_in (sc_root self) (sc_command self) arg"
  unfolding spec_in_def by (rule option_spec_of_cong) simp_all

text \<open>
  All four loops consume a list of complete options, the loops for silence noting the flags in
  it, the loops for help only while no flag in it is one they look for.
\<close>

definition consumes_options :: "(string \<Rightarrow> bool) \<Rightarrow> (scanner_state \<Rightarrow> output_request \<Rightarrow> 'r) \<Rightarrow> bool" where
  "consumes_options plain_flag loop \<longleftrightarrow>
     (\<forall>self out arg. current_arg self = Some arg \<longrightarrow> valid_utf8 arg \<longrightarrow>
        (\<forall>self'. skip_option_value self arg = Consumed self' \<longrightarrow> loop self out = loop self' out)
      \<and> (skip_option_value self arg = NotOptionValue \<longrightarrow> consume_flag self arg = Some (advance 1 self) \<longrightarrow>
          plain_flag arg \<longrightarrow> loop self out = loop (advance 1 self) (observe_all out [arg])))"

lemma consumed_not_dashes:
  "skip_option_value self arg = Consumed self' \<or> consume_flag self arg = Some s \<Longrightarrow> arg \<noteq> ''--''"
  by (auto simp: skip_option_value_def consume_flag_def spec_not_dashes)




lemma quiet_loops_consume:
  "consumes_options (\<lambda>_. True) trailing_requests_quiet" "consumes_options (\<lambda>_. True) quiet_loop"
proof -
  note ne = consumed_not_dashes
  have t: "trailing_requests_quiet self out = trailing_requests_quiet self' out"
    if "current_arg self = Some arg" "valid_utf8 arg" "skip_option_value self arg = Consumed self'"
    for self out arg self'
    using that ne [of self arg self']
    by (simp add: trailing_requests_quiet.simps [of self] to_str_def)
  have t': "trailing_requests_quiet self out = trailing_requests_quiet (advance 1 self) (observe_all out [arg])"
    if "current_arg self = Some arg" "valid_utf8 arg" "skip_option_value self arg = NotOptionValue"
      "consume_flag self arg = Some (advance 1 self)"
    for self out arg
    using that ne [of self arg _ "advance 1 self"]
    by (simp add: trailing_requests_quiet.simps [of self] to_str_def observe_all_Cons split: option.split)
  have q: "quiet_loop self out = quiet_loop self' out"
    if "current_arg self = Some arg" "valid_utf8 arg" "skip_option_value self arg = Consumed self'"
    for self out arg self'
    using that ne [of self arg self']
    by (simp add: quiet_loop.simps [of self] to_str_def)
  have q': "quiet_loop self out = quiet_loop (advance 1 self) (observe_all out [arg])"
    if "current_arg self = Some arg" "valid_utf8 arg" "skip_option_value self arg = NotOptionValue"
      "consume_flag self arg = Some (advance 1 self)"
    for self out arg
    using that ne [of self arg _ "advance 1 self"]
    by (simp add: quiet_loop.simps [of self] to_str_def observe_all_Cons split: option.split)
  show "consumes_options (\<lambda>_. True) trailing_requests_quiet"
    unfolding consumes_options_def using t t' by blast
  show "consumes_options (\<lambda>_. True) quiet_loop"
    unfolding consumes_options_def using q q' by blast
qed

lemma consumes_own_options:
  assumes "consumes_options P loop" "own_options (sc_root self) (sc_command self) opts = Some flags"
    and "list_all P flags"
    and "sc_args self = pre @ opts @ post" "sc_index self = length pre"
  shows "loop self out = loop (self\<lparr>sc_index := length pre + length opts\<rparr>) (observe_all out flags)"
  using assms(2-)
proof (induction "sc_root self" "sc_command self" opts arbitrary: self out flags pre rule: own_options.induct)
  case 1
  then show ?case by (cases self) simp
next
  case (2 a rest)
  have cur: "current_arg self = Some a"
    using 2 by (simp add: current_arg_def arg_at_def)
  have utf: "valid_utf8 a" using 2(4) by (simp split: if_split_asm)
  then obtain spec where spec: "option_spec_of self a = Some spec"
    using 2(4) by (auto simp: spec_in_eq split: option.split_asm)
  note s = spec [unfolded spec_in_eq]
  show ?case
  proof (cases "takes_value spec")
    case False
    with utf s 2(4) obtain flags' where f: "\<not> has_inline_value spec"
      "own_options (sc_root self) (sc_command self) rest = Some flags'" "flags = a # flags'"
      by (auto split: if_split_asm)
    have c: "skip_option_value self a = NotOptionValue" "consume_flag self a = Some (advance 1 self)"
      using spec False f(1) by (simp_all add: skip_option_value_def consume_flag_def)
    have "loop self out = loop (advance 1 self) (observe_all out [a])"
      using assms(1) cur utf c 2(5) f(3) unfolding consumes_options_def by auto
    also have "\<dots> = loop ((advance 1 self)\<lparr>sc_index := length (pre @ [a]) + length rest\<rparr>)
        (observe_all (observe_all out [a]) flags')"
      by (rule 2(1)) (use utf s False f 2(5,6,7) in simp_all)
    finally show ?thesis using f(3) by (simp add: advance_def observe_all_Cons)
  next
    case True
    note tv = this
    show ?thesis
    proof (cases "has_inline_value spec")
      case True
      with tv utf s 2(4) have f: "own_options (sc_root self) (sc_command self) rest = Some flags" by simp
      have "skip_option_value self a = Consumed (self\<lparr>sc_index := sc_index self + 1\<rparr>)"
        using spec tv True by (simp add: skip_option_value_def next_index_after_option_value_def)
      then have "loop self out = loop (self\<lparr>sc_index := sc_index self + 1\<rparr>) out"
        using assms(1) cur utf unfolding consumes_options_def by blast
      also have "\<dots> = loop ((self\<lparr>sc_index := sc_index self + 1\<rparr>)\<lparr>sc_index := length (pre @ [a]) + length rest\<rparr>)
          (observe_all out flags)"
        by (rule 2(2)) (use utf s True tv f 2(5,6,7) in simp_all)
      finally show ?thesis by simp
    next
      case False
      with tv utf s 2(4) obtain v rest' where r: "rest = v # rest'" "value_can_follow_option v spec"
        and f: "own_options (sc_root self) (sc_command self) rest' = Some flags"
        by (auto split: list.split_asm if_split_asm)
      have "arg_at self (sc_index self + 1) = Some v"
        using 2(6,7) r(1) by (simp add: arg_at_def nth_append)
      then have "skip_option_value self a = Consumed (self\<lparr>sc_index := sc_index self + 2\<rparr>)"
        using spec tv False r(2) by (simp add: skip_option_value_def next_index_after_option_value_def)
      then have "loop self out = loop (self\<lparr>sc_index := sc_index self + 2\<rparr>) out"
        using assms(1) cur utf unfolding consumes_options_def by blast
      also have "\<dots> = loop ((self\<lparr>sc_index := sc_index self + 2\<rparr>)\<lparr>sc_index := length (pre @ [a, v]) + length rest'\<rparr>)
          (observe_all out flags)"
        by (rule 2(3)) (use utf s False tv r f 2(5,6,7) in simp_all)
      finally show ?thesis using r(1) by simp
    qed
  qed
qed

text \<open>Where the options of a command end, the answer is given.\<close>

definition ends_options :: "string list \<Rightarrow> bool" where
  "ends_options post \<longleftrightarrow> (case post of [] \<Rightarrow> True | c # _ \<Rightarrow> c = ''--'' \<or> \<not> starts_with ''-'' c)"

lemma not_an_option:
  assumes "\<not> starts_with ''-'' c"
  shows "option_spec_of self c = None" "observe_flag out c = None" "\<not> is_help c" "c \<noteq> ''--''"
  using assms by (auto simp: option_spec_of_def split_long_option_def observe_flag_def is_help_def
      starts_with_iff strip_prefix_Some_iff split: option.splits)

lemma loops_end:
  assumes "ends_options post" "sc_args self = pre @ post" "sc_index self = length pre"
    "sc_command self = Some c"
  shows "trailing_requests_quiet self out = output_quiet out" "quiet_loop self out = output_quiet out"
proof -
  have a: "current_arg self = (case post of [] \<Rightarrow> None | c # _ \<Rightarrow> Some c)"
    using assms(2,3) by (cases post) (simp_all add: current_arg_def arg_at_def)
  have b: "skip_option_value self c = NotOptionValue" "consume_flag self c = None"
    "observe_flag out c = None" "\<not> is_help c" if "\<not> starts_with ''-'' c" for c
    using not_an_option [OF that] by (simp_all add: skip_option_value_def consume_flag_def)
  show "trailing_requests_quiet self out = output_quiet out"
    using assms(1) a b
    by (cases post) (auto simp: trailing_requests_quiet.simps [of self] ends_options_def to_str_def)
  show "quiet_loop self out = output_quiet out"
    using assms(1,4) a b
    by (cases post) (auto simp: quiet_loop.simps [of self] ends_options_def to_str_def)
qed

lemma requests_quiet_spec:
  assumes name: "find_subcommand root name = Some command" "valid_utf8 name" "\<not> starts_with ''-'' name"
    and gs: "own_options root None gs = Some flags"
    and es: "own_options root (Some command) es = Some flags'"
    and post: "ends_options post"
  shows "requests_quiet root (program # gs @ name # es @ post) \<longleftrightarrow>
    ''--quiet'' \<in> set (flags @ flags') \<and> ''--verbose'' \<notin> set (flags @ flags')"
proof -
  let ?args = "program # gs @ name # es @ post"
  let ?s = "scanner_new ?args root"
  let ?t = "?s\<lparr>sc_index := 1 + length gs\<rparr>"
  let ?u = "select_command ?t command"
  let ?out = "observe_all output_default flags"
  have "quiet_loop ?s output_default = quiet_loop (?s\<lparr>sc_index := length [program] + length gs\<rparr>) ?out"
    by (rule consumes_own_options [OF quiet_loops_consume(2), where post = "name # es @ post"])
      (use gs in \<open>simp_all add: scanner_new_def list_all_iff\<close>)
  also have "\<dots> = quiet_loop ?t ?out" by simp
  also have "\<dots> = (if command_accepts_trailing_args command then trailing_requests_quiet ?u ?out
      else quiet_loop ?u ?out)"
  proof -
    have "current_arg ?t = Some name" by (simp add: current_arg_def arg_at_def scanner_new_def nth_append)
    moreover have "sc_command ?t = None" "sc_root ?t = root" by (simp_all add: scanner_new_def)
    ultimately show ?thesis
      using name not_an_option [OF name(3)]
      by (subst quiet_loop.simps) (simp add: to_str_def skip_option_value_def consume_flag_def)
  qed
  also have "\<dots> = output_quiet (observe_all ?out flags')"
  proof -
    let ?v = "?u\<lparr>sc_index := length (program # gs @ [name]) + length es\<rparr>"
    have c: "loop ?u ?out = loop ?v (observe_all ?out flags')" if "consumes_options (\<lambda>_. True) loop"
      for loop :: "scanner_state \<Rightarrow> output_request \<Rightarrow> bool"
      by (rule consumes_own_options [OF that, where post = post])
        (use es in \<open>simp_all add: scanner_new_def list_all_iff\<close>)
    have e: "trailing_requests_quiet ?v out = output_quiet out" "quiet_loop ?v out = output_quiet out" for out
      using loops_end [OF post, of ?v "program # gs @ name # es" command] by (simp_all add: scanner_new_def)
    show ?thesis
      using c [OF quiet_loops_consume(1)] c [OF quiet_loops_consume(2)] e by simp
  qed
  finally show ?thesis
    by (simp add: requests_quiet_def output_quiet_def observe_all_def output_default_def)
qed




section \<open>Properties\<close>

text \<open>
  C17. Whether a command line asks for silence is decided by salus' own options only: when the
  options before and after the command name are complete, the answer is whether \<open>--quiet\<close> is
  among the flags and \<open>--verbose\<close> is not, whatever the rest of the line holds (the child's
  command line of \<open>exec\<close> included).
\<close>

theorem quiet_is_decided_by_own_options:
  assumes "find_subcommand root name = Some command" "valid_utf8 name" "\<not> starts_with ''-'' name"
    and "own_options root None opts = Some flags"
    and "own_options root (Some command) opts' = Some flags'"
    and "ends_options rest"
  shows "requests_quiet root (program # opts @ name # opts' @ rest) \<longleftrightarrow>
    ''--quiet'' \<in> set (flags @ flags') \<and> ''--verbose'' \<notin> set (flags @ flags')"
  using assms by (rule requests_quiet_spec)

theorem quiet_is_decided_by_own_options_witness:
  "requests_quiet (root_command True)
     (''salus'' # [''--quiet''] @ ''exec'' # [''--max-output'', ''9''] @ [''sh'', ''--verbose''])
   \<longleftrightarrow> ''--quiet'' \<in> set ([''--quiet''] @ []) \<and> ''--verbose'' \<notin> set ([''--quiet''] @ [])"
proof (rule quiet_is_decided_by_own_options)
  show "find_subcommand (root_command True) ''exec'' = Some exec_command_spec" by code_simp
  show "valid_utf8 ''exec''" "\<not> starts_with ''-'' ''exec''" "ends_options [''sh'', ''--verbose'']"
    by code_simp+
  show "own_options (root_command True) None [''--quiet''] = Some [''--quiet'']" by code_simp
  show "own_options (root_command True) (Some exec_command_spec) [''--max-output'', ''9''] = Some []"
    by code_simp
qed



text \<open>
  Nothing after a double dash is looked at, wherever it stands: neither the request for silence
  nor the request for help depends on it.
\<close>

lemma double_dash_ends_the_scan:
  assumes "before \<noteq> []"
  shows "requests_quiet root (before @ ''--'' # after) = requests_quiet root (before @ ''--'' # after')
    \<and> help_or_version_args root (before @ ''--'' # after)
      = help_or_version_args root (before @ ''--'' # after')"
  using requests_quiet_cut [OF assms] help_or_version_args_cut [OF assms] by blast

text \<open>
  C32. A recognised request for help or the version is rewritten to a minimal command line: the
  program name, possibly the name of one of the subcommands, and a help or version flag, or
  the \<open>help\<close> subcommand with at most one topic.
\<close>

theorem help_request_shape:
  assumes "help_or_version_args root (program # args) = Some out"
  shows "control_request root program out"
  using help_loop_shape [of program "scanner_new (program # args) root" out] assms
  by (simp add: help_or_version_args_def scanner_new_def)

theorem help_request_shape_witness:
  "help_or_version_args (root_command True) [''salus'', ''--quiet'', ''tcp'', ''--help'']
     = Some [''salus'', ''tcp'', ''--help'']
   \<and> control_request (root_command True) ''salus'' [''salus'', ''tcp'', ''--help'']"
proof -
  have h: "help_or_version_args (root_command True) [''salus'', ''--quiet'', ''tcp'', ''--help'']
      = Some [''salus'', ''tcp'', ''--help'']" by code_simp
  from h help_request_shape [OF h] show ?thesis by blast
qed

end
