(* ===== verification/Env_Expand.thy ===== *)
theory Env_Expand
  imports App_Error
begin

text \<open>
  \<open>env_expand.rs\<close>: expansion of \<open>${NAME}\<close> and \<open>${NAME:-default}\<close> in
  the arguments before they are parsed. The syntax characters are ASCII, so the character
  loop of the code is a loop over bytes here. The process environment is a map from names to
  byte strings.
\<close>

definition lookup_env :: "(string \<rightharpoonup> string) \<Rightarrow> string \<Rightarrow> string option result" where
  "lookup_env env name =
     (case env name of
        Some value \<Rightarrow>
          if valid_utf8 value then Inr (Some value)
          else Inl (InvalidConfig (''environment variable '' @ name @ '' is not valid UTF-8''))
      | None \<Rightarrow> Inr None)"

definition invalid_env_name :: "deps \<Rightarrow> string \<Rightarrow> app_error" where
  "invalid_env_name D name =
     InvalidConfig (''invalid environment variable name '' @ debug_str (plain D) name)"

definition validate_env_name :: "deps \<Rightarrow> string \<Rightarrow> unit result" where
  "validate_env_name D name =
     (case name of
        [] \<Rightarrow> Inl (invalid_env_name D name)
      | ch # chars \<Rightarrow>
          if ch = CHR ''_'' \<or> is_alpha ch then
            if list_all (\<lambda>ch. ch = CHR ''_'' \<or> is_alnum ch) chars then Inr ()
            else Inl (invalid_env_name D name)
          else Inl (invalid_env_name D name))"

definition expand_expression ::
    "deps \<Rightarrow> (string \<Rightarrow> string option result) \<Rightarrow> string \<Rightarrow> string result" where
  "expand_expression D lookup expr =
     (let (name, dflt) =
        (case split_once_str '':-'' expr of
           Some (name, dflt) \<Rightarrow> (name, Some dflt)
         | None \<Rightarrow> (expr, None))
      in
      bindR (validate_env_name D name) (\<lambda>_.
      bindR (lookup name) (\<lambda>found.
        (case (found, dflt) of
           (Some value, Some dflt) \<Rightarrow> if value = [] then Inr dflt else Inr value
         | (Some value, None) \<Rightarrow> Inr value
         | (None, Some dflt) \<Rightarrow> Inr dflt
         | (None, None) \<Rightarrow>
             Inl (InvalidConfig (''environment variable '' @ name @ '' is not set''))))))"

function expand_text :: "deps \<Rightarrow> (string \<Rightarrow> string option result) \<Rightarrow> string \<Rightarrow> string result" where
  "expand_text D lookup [] = Inr []"
| "expand_text D lookup (ch # chars) =
     (if ch \<noteq> CHR ''$'' then bindR (expand_text D lookup chars) (\<lambda>expanded. Inr (ch # expanded))
      else
        (case chars of
           [] \<Rightarrow> bindR (expand_text D lookup chars) (\<lambda>expanded. Inr (CHR ''$'' # expanded))
         | next_ch # chars' \<Rightarrow>
             if next_ch = CHR ''$'' then
               bindR (expand_text D lookup chars') (\<lambda>expanded. Inr (CHR ''$'' # expanded))
             else if next_ch = CHR ''{'' then
               (case split_once (CHR ''}'') chars' of
                  None \<Rightarrow> Inl (InvalidConfig ''unterminated environment expansion'')
                | Some (expr, chars'') \<Rightarrow>
                    bindR (expand_expression D lookup expr) (\<lambda>value.
                    bindR (expand_text D lookup chars'') (\<lambda>expanded. Inr (value @ expanded))))
             else bindR (expand_text D lookup chars) (\<lambda>expanded. Inr (CHR ''$'' # expanded))))"
  by pat_completeness auto
termination
  by (relation "measure (\<lambda>(D, lookup, s). length s)") (auto simp: split_once_Some_iff)

text \<open>
  The two variants of \<open>expand_arg_os\<close>. An \<open>OsString\<close> that is not from Unix is its encoding, in
  which a dollar is a byte of its own as well, and which is text when it is valid UTF-8.
\<close>

definition expand_arg_os ::
    "deps \<Rightarrow> (string \<Rightarrow> string option result) \<Rightarrow> string \<Rightarrow> string result" where
  "expand_arg_os D lookup arg =
     (if target_unix D then
        (if CHR ''$'' \<notin> set arg then Inr arg
         else if \<not> valid_utf8 arg then
           Inl (InvalidConfig ''environment expansion only supports UTF-8 arguments'')
         else expand_text D lookup arg)
      else
        (if CHR ''$'' \<notin> set arg then Inr arg
         else if \<not> valid_utf8 arg then
           Inl (InvalidConfig ''environment expansion only supports Unicode arguments'')
         else expand_text D lookup arg))"

record expand_argv_error =
  ea_error :: app_error
  ea_partial_args :: "string list"
  ea_raw_tail :: "string list"

fun expand_argv_loop :: "deps \<Rightarrow> (string \<Rightarrow> string option result) \<Rightarrow> string list \<Rightarrow> string list
    \<Rightarrow> expand_argv_error + string list" where
  "expand_argv_loop D lookup expanded [] = Inr expanded"
| "expand_argv_loop D lookup expanded (arg # iter) =
     (case expand_arg_os D lookup arg of
        Inr arg' \<Rightarrow> expand_argv_loop D lookup (expanded @ [arg']) iter
      | Inl error \<Rightarrow>
          Inl \<lparr>ea_error = error, ea_partial_args = expanded, ea_raw_tail = arg # iter\<rparr>)"

definition expand_argv_with_partial ::
    "deps \<Rightarrow> (string \<rightharpoonup> string) \<Rightarrow> string list \<Rightarrow> expand_argv_error + string list" where
  "expand_argv_with_partial D env args =
     (case args of
        [] \<Rightarrow> expand_argv_loop D (lookup_env env) [] []
      | arg0 # iter \<Rightarrow> expand_argv_loop D (lookup_env env) [arg0] iter)"

section \<open>The platform\<close>

text \<open>The expansion of a text does not depend on the platform; only what is rejected is called differently.\<close>

lemma expand_text_cong:
  assumes "plain D' = plain D"
  shows "expand_text D' lookup s = expand_text D lookup s"
proof -
  have "invalid_env_name D' = invalid_env_name D"
    by (rule ext) (simp add: invalid_env_name_def assms)
  then have e: "expand_expression D' = expand_expression D"
    by (intro ext) (simp only: expand_expression_def validate_env_name_def)
  from e show ?thesis
    by (induction D lookup s rule: expand_text.induct) (simp_all split: list.split option.split)
qed

lemma expand_arg_os_platform:
  assumes "valid_utf8 arg"
  shows "expand_arg_os (D\<lparr>target_unix := b\<rparr>) lookup arg = expand_arg_os D lookup arg"
proof -
  have "expand_text (D\<lparr>target_unix := c\<rparr>) lookup arg = expand_text D lookup arg" for c
    by (rule expand_text_cong) simp
  with assms show ?thesis by (simp add: expand_arg_os_def)
qed

section \<open>Texts as templates\<close>

text \<open>
  The specification: a text is literal characters (a dollar written twice) and references
  with an optional default; its value is the concatenation of the values of its parts.
\<close>

datatype segment = Literal char | Reference string "string option"

fun render_segment :: "segment \<Rightarrow> string" where
  "render_segment (Literal c) = (if c = CHR ''$'' then ''$$'' else [c])"
| "render_segment (Reference name None) = ''${'' @ name @ ''}''"
| "render_segment (Reference name (Some d)) = ''${'' @ name @ '':-'' @ d @ ''}''"

definition render :: "segment list \<Rightarrow> string" where
  "render segs = concat (map render_segment segs)"

definition valid_name :: "string \<Rightarrow> bool" where
  "valid_name name \<longleftrightarrow> name \<noteq> [] \<and> (hd name = CHR ''_'' \<or> is_alpha (hd name))
     \<and> list_all (\<lambda>c. c = CHR ''_'' \<or> is_alnum c) name"

fun wf_segment :: "segment \<Rightarrow> bool" where
  "wf_segment (Literal c) = True"
| "wf_segment (Reference name d) = (valid_name name \<and> (\<forall>t. d = Some t \<longrightarrow> CHR ''}'' \<notin> set t))"

fun segment_value :: "(string \<Rightarrow> string option result) \<Rightarrow> segment \<Rightarrow> string result" where
  "segment_value lookup (Literal c) = Inr [c]"
| "segment_value lookup (Reference name d) =
     bindR (lookup name) (\<lambda>found.
       case found of
         Some v \<Rightarrow> (case d of Some t \<Rightarrow> Inr (if v = [] then t else v) | None \<Rightarrow> Inr v)
       | None \<Rightarrow>
           (case d of Some t \<Rightarrow> Inr t
            | None \<Rightarrow> Inl (InvalidConfig (''environment variable '' @ name @ '' is not set''))))"

definition template_value :: "(string \<Rightarrow> string option result) \<Rightarrow> segment list \<Rightarrow> string result" where
  "template_value lookup segs = bindR (collectR (segment_value lookup) segs) (\<lambda>vs. Inr (concat vs))"

lemma validate_env_name_Inr: "validate_env_name D name = Inr () \<longleftrightarrow> valid_name name"
  by (cases name) (auto simp: validate_env_name_def valid_name_def is_alnum_def)

lemma validate_env_name_Inl: "validate_env_name D name = Inl e \<Longrightarrow> is_invalid_config e"
  by (auto simp: validate_env_name_def invalid_env_name_def split: list.splits if_splits)

lemma valid_name_chars:
  assumes "valid_name name"
  shows "CHR ''}'' \<notin> set name" "CHR '':'' \<notin> set name"
proof -
  have "\<not> is_alnum (CHR ''}'')" "\<not> is_alnum (CHR '':'')"
    by (simp_all add: char_class_defs byte_def)
  with assms show "CHR ''}'' \<notin> set name" "CHR '':'' \<notin> set name"
    by (auto simp: valid_name_def list_all_iff)
qed

lemma split_once_str_name:
  assumes "CHR '':'' \<notin> set name"
  shows "split_once_str '':-'' (name @ '':-'' @ d) = Some (name, d)"
    "split_once_str '':-'' name = None"
  using assms by (induction name) (auto simp: starts_with_def)

lemma expand_reference:
  assumes "valid_name name"
  shows "expand_expression D lookup name = segment_value lookup (Reference name None)"
    "expand_expression D lookup (name @ '':-'' @ d) = segment_value lookup (Reference name (Some d))"
  using validate_env_name_Inr [of D name] assms
    split_once_str_name [OF valid_name_chars(2) [OF assms]]
  by (auto simp: expand_expression_def split: option.splits intro!: arg_cong2 [where f = bindR])

lemma expand_text_segment:
  assumes "wf_segment seg"
  shows "expand_text D lookup (render_segment seg @ s) =
    bindR (segment_value lookup seg) (\<lambda>v. bindR (expand_text D lookup s) (\<lambda>r. Inr (v @ r)))"
proof (cases seg)
  case (Literal c)
  then show ?thesis by simp
next
  case (Reference name d)
  with assms have v: "valid_name name" by simp
  note nb = valid_name_chars(1) [OF v]
  show ?thesis
  proof (cases d)
    case None
    have "split_once (CHR ''}'') (name @ CHR ''}'' # s) = Some (name, s)"
      using nb by (simp add: split_once_Some_iff)
    then show ?thesis using Reference None by (simp add: expand_reference [OF v])
  next
    case (Some t)
    with Reference assms have "CHR ''}'' \<notin> set t" by simp
    with nb have "split_once (CHR ''}'') ((name @ '':-'' @ t) @ CHR ''}'' # s) = Some (name @ '':-'' @ t, s)"
      unfolding split_once_Some_iff by simp
    then show ?thesis
      using Reference Some expand_reference(2) [OF v, of D lookup t] by simp
  qed
qed

lemma expand_text_render:
  assumes "list_all wf_segment segs"
  shows "expand_text D lookup (render segs) = template_value lookup segs"
  using assms
proof (induction segs)
  case Nil
  then show ?case by (simp add: render_def template_value_def)
next
  case (Cons seg segs)
  then have "expand_text D lookup (render (seg # segs)) =
      bindR (segment_value lookup seg) (\<lambda>v. bindR (template_value lookup segs) (\<lambda>r. Inr (v @ r)))"
    by (simp add: render_def expand_text_segment)
  then show ?case by (simp add: template_value_def bindR_assoc)
qed

text \<open>Doubling every dollar keeps a text literal.\<close>

definition escape_dollars :: "string \<Rightarrow> string" where
  "escape_dollars s = render (map Literal s)"

lemma expand_escape_dollars: "expand_text D lookup (escape_dollars s) = Inr s"
proof -
  have "expand_text D lookup (escape_dollars s) = template_value lookup (map Literal s)"
    unfolding escape_dollars_def by (rule expand_text_render) (simp add: list_all_iff)
  also have "collectR (segment_value lookup) (map Literal s) = Inr (map (\<lambda>c. [c]) s)"
    by (induction s) simp_all
  then have "template_value lookup (map Literal s) = Inr s"
    by (simp add: template_value_def)
  finally show ?thesis .
qed

lemma expand_text_no_dollar: "CHR ''$'' \<notin> set s \<Longrightarrow> expand_text D lookup s = Inr s"
  by (induction s) auto

section \<open>Errors\<close>

lemma lookup_env_Inl: "lookup_env env name = Inl e \<Longrightarrow> is_invalid_config e"
  by (auto simp: lookup_env_def split: option.splits if_splits)

lemma expand_expression_Inl:
  assumes "\<And>n e. lookup n = Inl e \<Longrightarrow> is_invalid_config e" "expand_expression D lookup expr = Inl e"
  shows "is_invalid_config e"
  using assms(2)
  by (auto simp: expand_expression_def Let_def bindR_Inl_iff
      dest: assms(1) validate_env_name_Inl split: option.splits if_splits prod.splits)

lemma expand_text_Inl:
  assumes "\<And>n e. lookup n = Inl e \<Longrightarrow> is_invalid_config e" "expand_text D lookup s = Inl e"
  shows "is_invalid_config e"
  using assms
proof (induction D lookup s rule: expand_text.induct)
  case (1 D lookup)
  then show ?case by simp
next
  case (2 D lookup ch chars)
  note l = 2(6)
  note e = expand_expression_Inl [OF l]
  note ih = 2(1) [OF _ l] 2(2) [OF _ _ l] 2(3) [OF _ _ _ l] 2(4) [OF _ _ _ _ _ refl l]
    2(5) [OF _ _ _ _ l]
  from 2(7) show ?case
    by (auto simp: bindR_Inl_iff split: if_splits list.splits option.splits intro: ih e)
qed

section \<open>The argument vector\<close>

text \<open>
  On success every argument after the program name is expanded; on failure the vector is cut
  at the first argument that does not expand: what comes before is expanded, that argument
  and everything after it is left as it was.
\<close>

lemma expand_argv_loop_Inr:
  "expand_argv_loop D lookup pfx args = Inr out \<longleftrightarrow>
     (\<exists>vs. collectR (expand_arg_os D lookup) args = Inr vs \<and> out = pfx @ vs)"
proof (induction args arbitrary: pfx)
  case Nil
  then show ?case by auto
next
  case (Cons a args)
  then show ?case by (cases "expand_arg_os D lookup a") (auto simp: bindR_Inr_iff)
qed

lemma expand_argv_loop_Inl:
  "expand_argv_loop D lookup pfx args = Inl err \<Longrightarrow>
     \<exists>pre a post vs. args = pre @ a # post \<and> collectR (expand_arg_os D lookup) pre = Inr vs
       \<and> expand_arg_os D lookup a = Inl (ea_error err)
       \<and> ea_partial_args err = pfx @ vs \<and> ea_raw_tail err = a # post"
proof (induction args arbitrary: pfx)
  case Nil
  then show ?case by simp
next
  case (Cons b args)
  show ?case
  proof (cases "expand_arg_os D lookup b")
    case (Inl e)
    with Cons.prems have "err = \<lparr>ea_error = e, ea_partial_args = pfx, ea_raw_tail = b # args\<rparr>"
      by simp
    with Inl have "b # args = [] @ b # args \<and> collectR (expand_arg_os D lookup) [] = Inr []
       \<and> expand_arg_os D lookup b = Inl (ea_error err)
       \<and> ea_partial_args err = pfx @ [] \<and> ea_raw_tail err = b # args" by simp
    then show ?thesis by blast
  next
    case (Inr b')
    with Cons.prems have "expand_argv_loop D lookup (pfx @ [b']) args = Inl err" by simp
    from Cons.IH [OF this] obtain pre a post vs where
      "args = pre @ a # post" "collectR (expand_arg_os D lookup) pre = Inr vs"
      "expand_arg_os D lookup a = Inl (ea_error err)"
      "ea_partial_args err = (pfx @ [b']) @ vs" "ea_raw_tail err = a # post" by blast
    with Inr show ?thesis
      by (intro exI [of _ "b # pre"] exI [of _ a] exI [of _ post] exI [of _ "b' # vs"]) simp
  qed
qed

section \<open>Properties\<close>

text \<open>
  C16. The expander implements its documentation: on every text written as literals (a dollar
  doubled) and references \<open>${NAME}\<close> and \<open>${NAME:-default}\<close> it returns the concatenation of
  their values, or the error of the first reference that has none.
\<close>

theorem expansion_implements_templates:
  assumes "list_all wf_segment segs"
  shows "expand_text D (lookup_env env) (render segs) = template_value (lookup_env env) segs"
  using assms by (rule expand_text_render)

theorem expansion_implements_templates_witness:
  "list_all wf_segment [Literal (CHR ''x''), Reference ''HOST'' (Some ''localhost'')]
   \<and> expand_text example_deps (lookup_env Map.empty)
        (render [Literal (CHR ''x''), Reference ''HOST'' (Some ''localhost'')]) = Inr ''xlocalhost''"
proof -
  have w: "list_all wf_segment [Literal (CHR ''x''), Reference ''HOST'' (Some ''localhost'')]"
    by (simp add: valid_name_def char_class_defs byte_def)
  moreover have "template_value (lookup_env Map.empty)
      [Literal (CHR ''x''), Reference ''HOST'' (Some ''localhost'')] = Inr ''xlocalhost''"
    by (simp add: template_value_def lookup_env_def)
  ultimately show ?thesis
    using expansion_implements_templates [OF w, of example_deps Map.empty] by simp
qed

text \<open>
  C30. A failed expansion cuts the arguments at the first one that does not expand: the program
  name and what precedes it are expanded, it and everything after it are kept raw, and the
  error is its own.
\<close>

theorem failed_expansion_partition:
  assumes "expand_argv_with_partial D env (program # args) = Inl err"
  shows "\<exists>pre bad post vs. args = pre @ bad # post
    \<and> collectR (expand_arg_os D (lookup_env env)) pre = Inr vs
    \<and> expand_arg_os D (lookup_env env) bad = Inl (ea_error err)
    \<and> ea_partial_args err = program # vs \<and> ea_raw_tail err = bad # post"
  using expand_argv_loop_Inl [OF assms [unfolded expand_argv_with_partial_def, simplified]] by simp

theorem failed_expansion_partition_witness:
  "\<exists>err. expand_argv_with_partial example_deps Map.empty [''salus'', ''tcp'', ''${A'', ''x''] = Inl err
    \<and> (\<exists>pre bad post vs. [''tcp'', ''${A'', ''x''] = pre @ bad # post
        \<and> collectR (expand_arg_os example_deps (lookup_env Map.empty)) pre = Inr vs
        \<and> expand_arg_os example_deps (lookup_env Map.empty) bad = Inl (ea_error err)
        \<and> ea_partial_args err = ''salus'' # vs \<and> ea_raw_tail err = bad # post)"
proof -
  have "valid_utf8 ''${A''" by code_simp
  then have "expand_argv_with_partial example_deps Map.empty [''salus'', ''tcp'', ''${A'', ''x'']
      = Inl \<lparr>ea_error = InvalidConfig ''unterminated environment expansion'',
          ea_partial_args = [''salus'', ''tcp''], ea_raw_tail = [''${A'', ''x'']\<rparr>"
    by (simp add: expand_argv_with_partial_def expand_arg_os_def)
  from this failed_expansion_partition [OF this] show ?thesis by blast
qed

end
