(* ===== verification/Probe.thy ===== *)
theory Probe
  imports Cli
begin

text \<open>
  \<open>probe.rs\<close>: the options and the report of a probe, the deadline, the latency threshold and
  the final exit code. Times are nanoseconds; what a clock shows is an argument. The outcome
  of \<open>tokio::time::timeout\<close> is \<open>Some\<close> of the future's result, or \<open>None\<close> when the time is up.
\<close>

record probe_options =
  opt_timeout :: nat
  opt_quiet :: bool
  opt_verbose :: bool
  opt_max_latency :: "nat option"

definition options_from :: "cli \<Rightarrow> probe_options" where
  "options_from c = \<lparr>opt_timeout = cli_timeout c, opt_quiet = cli_quiet c,
     opt_verbose = cli_verbose c, opt_max_latency = cli_max_latency c\<rparr>"

record probe_report =
  rep_mode :: string
  rep_target :: string
  rep_detail :: "string option"
  rep_elapsed :: nat
  rep_options :: probe_options

definition probe_timeout_error :: "deps \<Rightarrow> string \<Rightarrow> nat \<Rightarrow> app_error" where
  "probe_timeout_error D mode_label timeout =
     Failure (mode_label @ '' probe timed out after '' @ format_duration D timeout)"

definition with_probe_timeout :: "deps \<Rightarrow> string \<Rightarrow> nat \<Rightarrow> 'a result option \<Rightarrow> 'a result" where
  "with_probe_timeout D mode_label timeout outcome =
     (case outcome of Some r \<Rightarrow> r | None \<Rightarrow> Inl (probe_timeout_error D mode_label timeout))"

text \<open>
  A future is its result and the instant when that is ready. What \<open>tokio::time::timeout\<close> makes of
  one when the time is up at an instant:
\<close>

definition ready_by :: "nat \<Rightarrow> 'a \<times> nat \<Rightarrow> 'a option" where
  "ready_by instant future = (if snd future \<le> instant then Some (fst future) else None)"

text \<open>\<open>elapsed\<close> is what \<open>started.elapsed()\<close> returns when the report is made.\<close>

definition probe_report_new ::
    "string \<Rightarrow> string \<Rightarrow> string option \<Rightarrow> nat \<Rightarrow> probe_options \<Rightarrow> probe_report" where
  "probe_report_new mode target detail elapsed options =
     \<lparr>rep_mode = mode, rep_target = target, rep_detail = detail, rep_elapsed = elapsed,
      rep_options = options\<rparr>"

definition enforce_max_latency :: "deps \<Rightarrow> probe_report \<Rightarrow> probe_report result" where
  "enforce_max_latency D r =
     (case opt_max_latency (rep_options r) of
        Some limit \<Rightarrow>
          if rep_elapsed r > limit then
            Inl (Failure (rep_mode r @ '' probe to '' @ diag_value D (rep_target r)
              @ '' exceeded --max-latency '' @ format_duration D limit
              @ '' (observed '' @ format_duration D (rep_elapsed r) @ '')''))
          else Inr r
      | None \<Rightarrow> Inr r)"

definition report_print_and_exit_with_quiet :: "probe_report \<Rightarrow> bool \<Rightarrow> int \<times> writes" where
  "report_print_and_exit_with_quiet r quiet =
     (0, if opt_verbose (rep_options r) \<and> \<not> quiet
         then print_stderr_line (format_success (rep_mode r) (rep_target r)
                (rep_elapsed r div 1000000) (rep_detail r))
         else [])"

definition report_print_and_exit :: "probe_report \<Rightarrow> int \<times> writes" where
  "report_print_and_exit r = report_print_and_exit_with_quiet r (opt_quiet (rep_options r))"

text \<open>
  \<open>Instant::checked_add\<close> on Unix: the seconds of the clock are an \<open>i64\<close>.
\<close>

definition INSTANT_LIMIT :: nat where
  "INSTANT_LIMIT = 2 ^ 63 * 1000000000"

definition instant_checked_add :: "nat \<Rightarrow> nat \<Rightarrow> nat option" where
  "instant_checked_add t d = (if t + d < INSTANT_LIMIT then Some (t + d) else None)"

definition deadline_after :: "deps \<Rightarrow> nat \<Rightarrow> nat \<Rightarrow> nat result" where
  "deadline_after D now timeout =
     ok_or (InvalidConfig (''--timeout is too large: '' @ format_duration D timeout))
       (instant_checked_add now timeout)"

lemma with_probe_timeout_simps [simp]:
  "with_probe_timeout D m t (Some r) = r"
  "with_probe_timeout D m t None = Inl (probe_timeout_error D m t)"
  by (simp_all add: with_probe_timeout_def)

lemma with_probe_timeout_Inr: "with_probe_timeout D m t out = Inr x \<longleftrightarrow> out = Some (Inr x)"
  by (cases out) (simp_all add: with_probe_timeout_def)

lemma ready_by_Some: "ready_by t future = Some x \<longleftrightarrow> (\<exists>ready. future = (x, ready) \<and> ready \<le> t)"
  by (cases future) (auto simp: ready_by_def)

lemma enforce_max_latency_Inr:
  "enforce_max_latency D r = Inr r' \<longleftrightarrow>
     r' = r \<and> (\<forall>l. opt_max_latency (rep_options r) = Some l \<longrightarrow> rep_elapsed r \<le> l)"
  by (auto simp: enforce_max_latency_def split: option.splits)

lemma enforce_max_latency_Inl:
  "enforce_max_latency D r = Inl e \<Longrightarrow>
     is_failure e \<and> (\<exists>l. opt_max_latency (rep_options r) = Some l \<and> l < rep_elapsed r)"
  by (auto simp: enforce_max_latency_def split: option.splits if_splits)

lemma deadline_after_Inr: "deadline_after D now t = Inr d \<Longrightarrow> d = now + t \<and> d < INSTANT_LIMIT"
  by (auto simp: deadline_after_def instant_checked_add_def ok_or_Inr_iff split: if_splits)

lemma deadline_after_Inl: "deadline_after D now t = Inl e \<Longrightarrow> is_invalid_config e"
  by (auto simp: deadline_after_def ok_or_Inl_iff)

lemma probe_report_new_simps [simp]:
  "rep_mode (probe_report_new m t d e opts) = m"
  "rep_target (probe_report_new m t d e opts) = t"
  "rep_detail (probe_report_new m t d e opts) = d"
  "rep_elapsed (probe_report_new m t d e opts) = e"
  "rep_options (probe_report_new m t d e opts) = opts"
  by (simp_all add: probe_report_new_def)

section \<open>The interface of a probe\<close>

text \<open>
  What the dispatcher relies on: a probe is validated before anything is run, rejections of
  the validation are configuration errors, and the report of a healthy run carries the
  probe's mode and the options it was given. \<open>go\<close> is the whole probe on a world.
\<close>

locale probe =
  fixes check :: "'a \<Rightarrow> unit result"
    and go :: "probe_options \<Rightarrow> 'a \<Rightarrow> 'w \<Rightarrow> probe_report result"
    and mode :: string
  assumes check_rejects: "check a = Inl e \<Longrightarrow> is_invalid_config e \<and> go opts a w = Inl e"
    and report: "go opts a w = Inr r \<Longrightarrow> rep_mode r = mode \<and> rep_options r = opts"
begin

lemma healthy_checked: "go opts a w = Inr r \<Longrightarrow> check a = Inr ()"
  by (cases "check a") (auto dest: check_rejects [where opts = opts and w = w])

lemma rejected_exit_code: "check a = Inl e \<Longrightarrow> go opts a w = Inl e' \<Longrightarrow> exit_code e' = 3"
  using check_rejects [of a e opts w] by (simp add: exit_code_iff)

lemma world_independent_rejection: "check a = Inl e \<Longrightarrow> go opts a w = go opts a w'"
  using check_rejects by metis

lemma max_latency_respected:
  assumes "bindR (go opts a w) (enforce_max_latency D) = Inr r" "opt_max_latency opts = Some l"
  shows "rep_elapsed r \<le> l"
  using assms report by (fastforce simp: bindR_Inr_iff enforce_max_latency_Inr)

end

end
