(* ===== verification/Capture.thy ===== *)
theory Capture
  imports Prelude
begin

text \<open>
  \<open>capture.rs\<close> and \<open>text_match.rs\<close>: the bounded buffer that keeps the first \<open>limit\<close> bytes
  of a stream, and the incremental matcher that is told about every append. The two locales
  are the interfaces the three readers (file, HTTP body, child output) rely on: what a
  bounded capture keeps of a chunked stream, and that scanning only the appended tail of it
  finds exactly what a search of everything kept would find.
\<close>

section \<open>The capture buffer\<close>

record capture_buffer =
  cb_bytes :: string
  cb_incomplete :: bool

definition capture_default :: capture_buffer where
  "capture_default = \<lparr>cb_bytes = [], cb_incomplete = False\<rparr>"

text \<open>Returns the buffer and the length before the append.\<close>

definition append_limited :: "capture_buffer \<Rightarrow> string \<Rightarrow> nat \<Rightarrow> capture_buffer \<times> nat" where
  "append_limited b chunk limit =
     (let previous_len = length (cb_bytes b) in
      if length (cb_bytes b) < limit then
        let remaining = limit - length (cb_bytes b);
            b' = (if length chunk > remaining then b\<lparr>cb_incomplete := True\<rparr> else b)
        in (b'\<lparr>cb_bytes := cb_bytes b' @ take (min (length chunk) remaining) chunk\<rparr>, previous_len)
      else if chunk \<noteq> [] then (b\<lparr>cb_incomplete := True\<rparr>, previous_len)
      else (b, previous_len))"

definition mark_incomplete :: "capture_buffer \<Rightarrow> capture_buffer" where
  "mark_incomplete b = b\<lparr>cb_incomplete := True\<rparr>"

definition cb_wf :: "nat \<Rightarrow> capture_buffer \<Rightarrow> bool" where
  "cb_wf limit b \<longleftrightarrow> length (cb_bytes b) \<le> limit"

lemma append_limited_simps [simp]:
  "snd (append_limited b c l) = length (cb_bytes b)"
  "cb_wf l b \<Longrightarrow> cb_bytes (fst (append_limited b c l)) = take l (cb_bytes b @ c)"
  "cb_wf l b \<Longrightarrow>
     cb_incomplete (fst (append_limited b c l)) \<longleftrightarrow> cb_incomplete b \<or> l < length (cb_bytes b @ c)"
  "cb_wf l b \<Longrightarrow> cb_wf l (fst (append_limited b c l))"
  by (auto simp: append_limited_def Let_def cb_wf_def min_def)

lemma cb_wf_default [simp]: "cb_wf l capture_default"
  by (simp add: cb_wf_def capture_default_def)

section \<open>The text matcher\<close>

definition contains_slice :: "string \<Rightarrow> string \<Rightarrow> bool" where
  "contains_slice bytes needle \<longleftrightarrow>
     needle = [] \<or> list_ex (\<lambda>w. w = needle) (windows (length needle) bytes)"

definition contains_bytes :: "string \<Rightarrow> string \<Rightarrow> bool" where
  "contains_bytes bytes needle = contains_slice bytes needle"

record text_matcher =
  tm_needles :: "string list"
  tm_matched :: "bool list"
  tm_matched_count :: nat

definition text_matcher_new :: "string list \<Rightarrow> text_matcher" where
  "text_matcher_new needles =
     (let matched = map (\<lambda>n. n = []) needles
      in \<lparr>tm_needles = needles, tm_matched = matched,
          tm_matched_count = length (filter (\<lambda>m. m) matched)\<rparr>)"

text \<open>The loop body of \<open>observe_appended\<close> for the needle at \<open>index\<close>.\<close>

definition observe_needle :: "string \<Rightarrow> nat \<Rightarrow> nat \<Rightarrow> text_matcher \<Rightarrow> text_matcher" where
  "observe_needle haystack previous_len index m =
     (if tm_matched m ! index then m
      else
        let needle = tm_needles m ! index;
            start = previous_len - (length needle - 1)
        in if contains_slice (drop start haystack) needle
           then m\<lparr>tm_matched := (tm_matched m)[index := True],
                  tm_matched_count := tm_matched_count m + 1\<rparr>
           else m)"

definition observe_appended :: "text_matcher \<Rightarrow> string \<Rightarrow> nat \<Rightarrow> text_matcher" where
  "observe_appended m haystack previous_len =
     fold (observe_needle haystack (min previous_len (length haystack)))
       [0 ..< length (tm_needles m)] m"

definition all_matched :: "text_matcher \<Rightarrow> bool" where
  "all_matched m \<longleftrightarrow> tm_matched_count m = length (tm_needles m)"

definition any_matched :: "text_matcher \<Rightarrow> bool" where
  "any_matched m \<longleftrightarrow> tm_matched_count m > 0"

lemma contains_slice_iff: "contains_slice bs n \<longleftrightarrow> sublist n bs"
  by (auto simp: contains_slice_def list_ex_iff windows_member_iff)

lemma contains_bytes_iff: "contains_bytes bs n \<longleftrightarrow> sublist n bs"
  by (simp add: contains_bytes_def contains_slice_iff)

text \<open>
  An occurrence in a longer text lies in the part already seen, or in the tail that starts
  \<open>length needle - 1\<close> bytes before the append.
\<close>

lemma sublist_append_boundary:
  assumes "p \<le> length hs"
  shows "sublist n hs \<longleftrightarrow> sublist n (take p hs) \<or> sublist n (drop (p - (length n - 1)) hs)"
proof
  assume "sublist n hs"
  then obtain i where i: "i + length n \<le> length hs" "take (length n) (drop i hs) = n"
    by (auto simp: sublist_iff_take_drop)
  show "sublist n (take p hs) \<or> sublist n (drop (p - (length n - 1)) hs)"
  proof (cases "i + length n \<le> p")
    case True
    then have "take (length n) (drop i (take p hs)) = n"
      using i(2) by (simp add: drop_take min_absorb1)
    with True assms have "sublist n (take p hs)"
      unfolding sublist_iff_take_drop by (intro exI [of _ i]) simp
    then show ?thesis ..
  next
    case False
    define s where "s = p - (length n - 1)"
    from False have le: "s \<le> i" by (auto simp: s_def)
    then have "take (length n) (drop (i - s) (drop s hs)) = n"
      using i(2) by simp
    with le i(1) have "sublist n (drop s hs)"
      unfolding sublist_iff_take_drop by (intro exI [of _ "i - s"]) auto
    then show ?thesis by (simp add: s_def)
  qed
next
  assume "sublist n (take p hs) \<or> sublist n (drop (p - (length n - 1)) hs)"
  then show "sublist n hs"
    by (metis sublist_take sublist_drop sublist_order.order_trans)
qed

text \<open>
  The matcher's invariant, and the abstraction: it reflects a text when the flag of every
  needle says whether the needle occurs in the text.
\<close>

definition tm_wf :: "text_matcher \<Rightarrow> bool" where
  "tm_wf m \<longleftrightarrow> length (tm_matched m) = length (tm_needles m)
     \<and> tm_matched_count m = length (filter (\<lambda>x. x) (tm_matched m))"

definition tm_reflects :: "text_matcher \<Rightarrow> string \<Rightarrow> bool" where
  "tm_reflects m text \<longleftrightarrow> tm_matched m = map (\<lambda>n. sublist n text) (tm_needles m)"

lemma count_true_update:
  "i < length xs \<Longrightarrow> \<not> xs ! i \<Longrightarrow>
     length (filter (\<lambda>x. x) (xs[i := True])) = Suc (length (filter (\<lambda>x. x) xs))"
proof (induction xs arbitrary: i)
  case Nil
  then show ?case by simp
next
  case (Cons x xs)
  then show ?case by (cases i) auto
qed

lemma list_update_same_bool:
  "xs ! i \<Longrightarrow> xs[i := True] = xs" "\<not> xs ! i \<Longrightarrow> xs[i := False] = xs"
  by (metis (full_types) list_update_id)+

lemma observe_needle_simps:
  assumes "tm_wf m" "i < length (tm_needles m)"
  shows "tm_wf (observe_needle hs p i m)" "tm_needles (observe_needle hs p i m) = tm_needles m"
    "tm_matched (observe_needle hs p i m) = (tm_matched m)[i := tm_matched m ! i \<or>
       sublist (tm_needles m ! i) (drop (p - (length (tm_needles m ! i) - 1)) hs)]"
  using assms
  by (auto simp: observe_needle_def Let_def tm_wf_def contains_slice_iff count_true_update
      list_update_same_bool)

lemma fold_observe_needle:
  assumes "tm_wf m" "k \<le> length (tm_needles m)"
  shows "let m' = fold (observe_needle hs p) [0 ..< k] m in
    tm_wf m' \<and> tm_needles m' = tm_needles m \<and>
    (\<forall>i < length (tm_needles m). tm_matched m' ! i \<longleftrightarrow> tm_matched m ! i \<or>
       (i < k \<and> sublist (tm_needles m ! i) (drop (p - (length (tm_needles m ! i) - 1)) hs)))"
  using assms(2)
proof (induction k)
  case 0
  then show ?case using assms(1) by simp
next
  case (Suc k)
  define m' where "m' = fold (observe_needle hs p) [0 ..< k] m"
  have IH: "tm_wf m'" "tm_needles m' = tm_needles m"
    "\<forall>i < length (tm_needles m). tm_matched m' ! i \<longleftrightarrow> tm_matched m ! i \<or>
       (i < k \<and> sublist (tm_needles m ! i) (drop (p - (length (tm_needles m ! i) - 1)) hs))"
    using Suc by (simp_all add: m'_def Let_def)
  have k: "k < length (tm_needles m')" using Suc.prems IH(2) by simp
  have len: "length (tm_matched m') = length (tm_needles m)"
    using IH(1,2) by (simp add: tm_wf_def)
  note step = observe_needle_simps [OF IH(1) k, of hs p]
  have "fold (observe_needle hs p) [0 ..< Suc k] m = observe_needle hs p k m'"
    by (simp add: m'_def)
  moreover have "tm_matched (observe_needle hs p k m') ! i \<longleftrightarrow> tm_matched m ! i \<or>
       (i < Suc k \<and> sublist (tm_needles m ! i) (drop (p - (length (tm_needles m ! i) - 1)) hs))"
    if i: "i < length (tm_needles m)" for i
  proof (cases "i = k")
    case True
    then show ?thesis using step(3) IH(2,3) i len by simp
  next
    case False
    then show ?thesis using step(3) IH(3) i by (simp add: less_Suc_eq)
  qed
  ultimately show ?case using step(1,2) IH(2) by (simp add: Let_def)
qed

text \<open>One incremental step: from the text seen so far to the extended text.\<close>

lemma observe_appended_reflects:
  assumes wf: "tm_wf m" and re: "tm_reflects m (take p hs)" and p: "p \<le> length hs"
  shows "tm_wf (observe_appended m hs p)" "tm_reflects (observe_appended m hs p) hs"
    "tm_needles (observe_appended m hs p) = tm_needles m"
proof -
  let ?m = "observe_appended m hs p"
  have f: "tm_wf ?m" "tm_needles ?m = tm_needles m"
    "\<forall>i < length (tm_needles m). tm_matched ?m ! i \<longleftrightarrow> tm_matched m ! i \<or>
       sublist (tm_needles m ! i) (drop (p - (length (tm_needles m ! i) - 1)) hs)"
    using fold_observe_needle [OF wf order.refl, of hs p] p
    by (simp_all add: observe_appended_def Let_def min_absorb1)
  then show "tm_wf ?m" "tm_needles ?m = tm_needles m" by simp_all
  show "tm_reflects ?m hs"
    unfolding tm_reflects_def
  proof (rule nth_equalityI)
    show "length (tm_matched ?m) = length (map (\<lambda>n. sublist n hs) (tm_needles ?m))"
      using f(1) by (simp add: tm_wf_def)
    fix i assume "i < length (tm_matched ?m)"
    then have i: "i < length (tm_needles m)" using f(1,2) by (simp add: tm_wf_def)
    have "tm_matched m ! i = sublist (tm_needles m ! i) (take p hs)"
      using re i by (simp add: tm_reflects_def)
    with f(2,3) i sublist_append_boundary [OF p, of "tm_needles m ! i"]
    show "tm_matched ?m ! i = map (\<lambda>n. sublist n hs) (tm_needles ?m) ! i" by simp
  qed
qed

lemma text_matcher_new_simps [simp]:
  "tm_wf (text_matcher_new ns)" "tm_reflects (text_matcher_new ns) []"
  "tm_needles (text_matcher_new ns) = ns"
  by (simp_all add: text_matcher_new_def tm_wf_def tm_reflects_def Let_def)

lemma length_filter_eq: "length (filter P xs) = length xs \<longleftrightarrow> (\<forall>x \<in> set xs. P x)"
  by (metis filter_id_conv filter_True length_filter_less linorder_neq_iff)

lemma all_matched_iff:
  assumes "tm_wf m" "tm_reflects m text"
  shows "all_matched m \<longleftrightarrow> (\<forall>n \<in> set (tm_needles m). sublist n text)"
proof -
  have "all_matched m \<longleftrightarrow> length (filter (\<lambda>x. x) (tm_matched m)) = length (tm_matched m)"
    using assms(1) by (simp add: all_matched_def tm_wf_def)
  also have "\<dots> \<longleftrightarrow> (\<forall>x \<in> set (tm_matched m). x)" by (rule length_filter_eq)
  also have "\<dots> \<longleftrightarrow> (\<forall>n \<in> set (tm_needles m). sublist n text)"
    using assms(2) by (simp add: tm_reflects_def)
  finally show ?thesis .
qed

lemma any_matched_iff:
  assumes "tm_wf m" "tm_reflects m text"
  shows "any_matched m \<longleftrightarrow> (\<exists>n \<in> set (tm_needles m). sublist n text)"
proof -
  have "any_matched m \<longleftrightarrow> (\<exists>x \<in> set (tm_matched m). x)"
    using assms(1) by (auto simp: any_matched_def tm_wf_def filter_empty_conv)
  then show ?thesis using assms(2) by (auto simp: tm_reflects_def)
qed

section \<open>The interfaces of the readers\<close>

text \<open>
  What a bounded capture says of the stream read so far: it keeps the first \<open>limit\<close> bytes and
  knows whether there were more.
\<close>

definition represents :: "nat \<Rightarrow> string \<Rightarrow> bool \<Rightarrow> string \<Rightarrow> bool" where
  "represents limit kept lost text \<longleftrightarrow> kept = take limit text \<and> (lost \<longleftrightarrow> limit < length text)"

lemma represents_complete: "represents l k False t \<Longrightarrow> k = t"
  by (simp add: represents_def)

lemma represents_prefix: "represents l k lo t \<Longrightarrow> prefix k t"
  by (simp add: represents_def take_is_prefix)

lemma represents_sublist: "represents l k lo t \<Longrightarrow> sublist n k \<Longrightarrow> sublist n t"
  by (metis represents_prefix prefix_imp_sublist sublist_order.order_trans)

locale capture =
  fixes push :: "'s \<Rightarrow> string \<Rightarrow> 's"
    and kept :: "'s \<Rightarrow> string"
    and lost :: "'s \<Rightarrow> bool"
    and invar :: "'s \<Rightarrow> bool"
    and limit :: nat
  assumes invar_push: "invar s \<Longrightarrow> invar (push s c)"
    and kept_push: "invar s \<Longrightarrow> kept (push s c) = take limit (kept s @ c)"
    and lost_push: "invar s \<Longrightarrow> lost (push s c) \<longleftrightarrow> lost s \<or> limit < length (kept s @ c)"
begin

lemma represents_push:
  assumes "invar s" "represents limit (kept s) (lost s) t"
  shows "represents limit (kept (push s c)) (lost (push s c)) (t @ c)"
  using assms by (auto simp: represents_def kept_push lost_push min_def)

lemma invar_foldl: "invar s \<Longrightarrow> invar (foldl push s cs)"
  by (induction cs arbitrary: s) (simp_all add: invar_push)

lemma represents_foldl:
  assumes "invar s" "represents limit (kept s) (lost s) t"
  shows "represents limit (kept (foldl push s cs)) (lost (foldl push s cs)) (t @ concat cs)"
  using assms
proof (induction cs arbitrary: s t)
  case Nil
  then show ?case by simp
next
  case (Cons c cs)
  then show ?case
    using Cons.IH [of "push s c" "t @ c"] by (simp add: invar_push represents_push)
qed

end

text \<open>
  A capture whose state also says, for each of its needles, whether the needle occurs in what
  is kept; the push is only trusted to carry this over one step.
\<close>

locale scanner = capture +
  fixes hits :: "'s \<Rightarrow> bool list"
    and needles :: "string list"
  assumes hits_push: "invar s \<Longrightarrow> hits s = map (\<lambda>n. sublist n (kept s)) needles \<Longrightarrow>
    hits (push s c) = map (\<lambda>n. sublist n (kept (push s c))) needles"
begin

definition scanned :: "'s \<Rightarrow> string \<Rightarrow> bool" where
  "scanned s t \<longleftrightarrow> invar s \<and> represents limit (kept s) (lost s) t
     \<and> hits s = map (\<lambda>n. sublist n (kept s)) needles"

lemma scanned_push: "scanned s t \<Longrightarrow> scanned (push s c) (t @ c)"
  by (simp add: scanned_def invar_push represents_push hits_push)

lemma scanned_foldl: "scanned s t \<Longrightarrow> scanned (foldl push s cs) (t @ concat cs)"
proof (induction cs arbitrary: s t)
  case Nil
  then show ?case by simp
next
  case (Cons c cs)
  then show ?case using scanned_push [of s t c] Cons.IH [of "push s c" "t @ c"] by simp
qed

lemma scanned_hit: "scanned s t \<Longrightarrow> i < length needles \<Longrightarrow> hits s ! i \<Longrightarrow> sublist (needles ! i) t"
  by (auto simp: scanned_def intro: represents_sublist)

lemma scanned_miss:
  "scanned s t \<Longrightarrow> \<not> lost s \<Longrightarrow> i < length needles \<Longrightarrow> \<not> hits s ! i \<Longrightarrow> \<not> sublist (needles ! i) t"
  by (auto simp: scanned_def dest: represents_complete)

end

text \<open>
  The two statements every reader runs on a chunk it has read: append it to the buffer, then
  show the matcher the buffer and its previous length.
\<close>

definition scan_chunk :: "nat \<Rightarrow> capture_buffer \<times> text_matcher \<Rightarrow> string
    \<Rightarrow> capture_buffer \<times> text_matcher" where
  "scan_chunk limit s chunk =
     (let (body, previous_len) = append_limited (fst s) chunk limit
      in (body, observe_appended (snd s) (cb_bytes body) previous_len))"

interpretation buffer: capture "\<lambda>b c. fst (append_limited b c limit)" cb_bytes cb_incomplete
  "cb_wf limit" limit for limit
  by unfold_locales simp_all

definition scan_wf :: "nat \<Rightarrow> string list \<Rightarrow> capture_buffer \<times> text_matcher \<Rightarrow> bool" where
  "scan_wf limit ns s \<longleftrightarrow> cb_wf limit (fst s) \<and> tm_wf (snd s) \<and> tm_needles (snd s) = ns
     \<and> tm_reflects (snd s) (cb_bytes (fst s))"

lemma scan_chunk_fst [simp]: "fst (scan_chunk l s c) = fst (append_limited (fst s) c l)"
  by (simp add: scan_chunk_def case_prod_unfold Let_def)

lemma scan_chunk_wf:
  assumes "scan_wf l ns s"
  shows "scan_wf l ns (scan_chunk l s c)"
proof -
  obtain b m where s: "s = (b, m)" by (cases s)
  let ?hs = "take l (cb_bytes b @ c)"
  from assms s have b: "cb_wf l b" and m: "tm_wf m" "tm_needles m = ns" "tm_reflects m (cb_bytes b)"
    by (simp_all add: scan_wf_def)
  have le: "length (cb_bytes b) \<le> length ?hs" using b by (simp add: cb_wf_def)
  have "take (length (cb_bytes b)) ?hs = cb_bytes b"
    using b by (simp add: cb_wf_def min_absorb1)
  then have "tm_reflects m (take (length (cb_bytes b)) ?hs)" using m(3) by simp
  from observe_appended_reflects [OF m(1) this le] b m(2) show ?thesis
    by (simp add: s scan_wf_def scan_chunk_def case_prod_unfold Let_def)
qed

interpretation scan: scanner "scan_chunk limit" "\<lambda>s. cb_bytes (fst s)" "\<lambda>s. cb_incomplete (fst s)"
  "scan_wf limit ns" limit "\<lambda>s. tm_matched (snd s)" ns for limit ns
proof unfold_locales
  fix s :: "capture_buffer \<times> text_matcher" and c
  assume inv: "scan_wf limit ns s"
  then show "scan_wf limit ns (scan_chunk limit s c)" by (rule scan_chunk_wf)
  from inv have "cb_wf limit (fst s)" by (simp add: scan_wf_def)
  then show "cb_bytes (fst (scan_chunk limit s c)) = take limit (cb_bytes (fst s) @ c)"
    "cb_incomplete (fst (scan_chunk limit s c)) \<longleftrightarrow>
       cb_incomplete (fst s) \<or> limit < length (cb_bytes (fst s) @ c)" by simp_all
  show "tm_matched (snd (scan_chunk limit s c)) =
      map (\<lambda>n. sublist n (cb_bytes (fst (scan_chunk limit s c)))) ns"
    using scan_chunk_wf [OF inv, of c] by (simp add: scan_wf_def tm_reflects_def)
qed

definition scan_start :: "string list \<Rightarrow> capture_buffer \<times> text_matcher" where
  "scan_start ns = (capture_default, text_matcher_new ns)"

lemma scan_start_scanned: "scan.scanned limit ns (scan_start ns) []"
  using text_matcher_new_simps [of ns]
  by (auto simp: scan.scanned_def scan_wf_def scan_start_def represents_def capture_default_def
      cb_wf_def tm_reflects_def)

lemma scanned_matched_iff:
  assumes "scan.scanned limit ns s t"
  shows "all_matched (snd s) \<longleftrightarrow> (\<forall>n \<in> set ns. sublist n (cb_bytes (fst s)))"
    "any_matched (snd s) \<longleftrightarrow> (\<exists>n \<in> set ns. sublist n (cb_bytes (fst s)))"
  using assms all_matched_iff [of "snd s" "cb_bytes (fst s)"]
    any_matched_iff [of "snd s" "cb_bytes (fst s)"]
  by (simp_all add: scan.scanned_def scan_wf_def)

section \<open>Properties\<close>

text \<open>
  C9. Streaming a text through the bounded buffer and the incremental matcher, in whatever
  chunks, ends with the first \<open>limit\<close> bytes, a truncation flag that is exact, and for every
  needle the flag that a search of everything kept would give, which finds exactly the occurrences; the two summaries of the
  matcher are those of the same search.
\<close>

theorem incremental_scan_is_search:
  "let s = foldl (scan_chunk limit) (scan_start needles) chunks;
       kept = take limit (concat chunks)
   in cb_bytes (fst s) = kept
      \<and> (cb_incomplete (fst s) \<longleftrightarrow> limit < length (concat chunks))
      \<and> tm_matched (snd s) = map (contains_bytes kept) needles
      \<and> map (contains_bytes kept) needles = map (\<lambda>n. sublist n kept) needles
      \<and> (all_matched (snd s) \<longleftrightarrow> list_all (contains_bytes kept) needles)
      \<and> (any_matched (snd s) \<longleftrightarrow> list_ex (contains_bytes kept) needles)"
proof -
  let ?s = "foldl (scan_chunk limit) (scan_start needles) chunks"
  have sc: "scan.scanned limit needles ?s (concat chunks)"
    using scan.scanned_foldl [OF scan_start_scanned, of limit needles chunks] by simp
  then have k: "cb_bytes (fst ?s) = take limit (concat chunks)"
    "cb_incomplete (fst ?s) \<longleftrightarrow> limit < length (concat chunks)"
    "tm_matched (snd ?s) = map (\<lambda>n. sublist n (cb_bytes (fst ?s))) needles"
    by (simp_all add: scan.scanned_def represents_def)
  then show ?thesis
    using scanned_matched_iff [OF sc]
    by (simp add: Let_def contains_bytes_iff list_all_iff list_ex_iff fun_eq_iff)
qed

end
