(* ===== verification/Validation.thy ===== *)
theory Validation
  imports App_Error
begin

text \<open>
  \<open>validation.rs\<close>: the checks of argument values shared by the probes. Each returns an
  \<open>InvalidConfig\<close> error that names the flag, or unit.
\<close>

definition MAX_CAPTURE_BYTES :: nat where
  "MAX_CAPTURE_BYTES = 16 * 1024 * 1024"

definition validate_capture_limit :: "string \<Rightarrow> nat \<Rightarrow> string \<Rightarrow> bool \<Rightarrow> unit result" where
  "validate_capture_limit flag limit assertion_label enabled =
     (if \<not> enabled then Inr ()
      else if limit = 0 then
        Inl (InvalidConfig (flag @ '' must be greater than 0 when '' @ assertion_label @ '' are used''))
      else if limit > MAX_CAPTURE_BYTES then
        Inl (InvalidConfig (flag @ '' must be at most '' @ dec MAX_CAPTURE_BYTES @ '' bytes when ''
          @ assertion_label @ '' are used''))
      else Inr ())"

definition empty_value_error :: "string \<Rightarrow> app_error" where
  "empty_value_error flag = InvalidConfig (flag @ '' must not be empty'')"

definition validate_non_empty_str :: "string \<Rightarrow> string \<Rightarrow> unit result" where
  "validate_non_empty_str flag value = (if value = [] then Inl (empty_value_error flag) else Inr ())"

definition validate_non_empty_path :: "string \<Rightarrow> string \<Rightarrow> unit result" where
  "validate_non_empty_path flag value = (if value = [] then Inl (empty_value_error flag) else Inr ())"

definition validate_non_empty_values :: "string \<Rightarrow> string list \<Rightarrow> unit result" where
  "validate_non_empty_values flag values = for_each (validate_non_empty_str flag) values"

definition validate_positive_duration :: "string \<Rightarrow> nat \<Rightarrow> unit result" where
  "validate_positive_duration flag value =
     (if value = 0 then Inl (InvalidConfig (flag @ '' must be greater than 0'')) else Inr ())"

named_theorems validation_simps \<open>when the validators accept, and that they only report configuration errors\<close>

lemma validate_capture_limit_Inr [validation_simps]:
  "validate_capture_limit f l a e = Inr () \<longleftrightarrow> (e \<longrightarrow> 0 < l \<and> l \<le> MAX_CAPTURE_BYTES)"
  by (auto simp: validate_capture_limit_def)

lemma validate_non_empty_str_Inr [validation_simps]:
  "validate_non_empty_str f v = Inr () \<longleftrightarrow> v \<noteq> []"
  by (simp add: validate_non_empty_str_def)

lemma validate_non_empty_path_Inr [validation_simps]:
  "validate_non_empty_path f v = Inr () \<longleftrightarrow> v \<noteq> []"
  by (simp add: validate_non_empty_path_def)

lemma validate_non_empty_values_Inr [validation_simps]:
  "validate_non_empty_values f vs = Inr () \<longleftrightarrow> [] \<notin> set vs"
  by (auto simp: validate_non_empty_values_def for_each_Inr_iff validate_non_empty_str_Inr)

lemma validate_positive_duration_Inr [validation_simps]:
  "validate_positive_duration f v = Inr () \<longleftrightarrow> 0 < v"
  by (simp add: validate_positive_duration_def)

text \<open>Every rejection of a validator is a configuration error.\<close>

lemma validate_capture_limit_Inl:
  "validate_capture_limit f l a e = Inl err \<Longrightarrow> is_invalid_config err"
  by (auto simp: validate_capture_limit_def split: if_splits)

lemma validate_non_empty_str_Inl: "validate_non_empty_str f v = Inl err \<Longrightarrow> is_invalid_config err"
  by (auto simp: validate_non_empty_str_def empty_value_error_def split: if_splits)

lemma validate_non_empty_path_Inl: "validate_non_empty_path f v = Inl err \<Longrightarrow> is_invalid_config err"
  by (auto simp: validate_non_empty_path_def empty_value_error_def split: if_splits)

lemma validate_non_empty_values_Inl:
  "validate_non_empty_values f vs = Inl err \<Longrightarrow> is_invalid_config err"
  unfolding validate_non_empty_values_def
  by (drule for_each_Inl_dest) (auto dest: validate_non_empty_str_Inl)

lemma validate_positive_duration_Inl:
  "validate_positive_duration f v = Inl err \<Longrightarrow> is_invalid_config err"
  by (auto simp: validate_positive_duration_def split: if_splits)

lemmas validation_Inl = validate_capture_limit_Inl validate_non_empty_str_Inl
  validate_non_empty_path_Inl validate_non_empty_values_Inl validate_positive_duration_Inl

end
