(* ===== verification/File_Probe.thy ===== *)
theory File_Probe
  imports Probe Capture Validation
begin

text \<open>
  \<open>probes/file.rs\<close>: the file probe. The file system is a record of what the calls return:
  the metadata, the opened file as the sequence of its reads (an empty read or the end of the
  list is end of file), the system clock, and how long it all takes from \<open>fw_begun\<close>,
  when the timeout of the probe begins.
\<close>

section \<open>The file system\<close>

datatype read_event = Chunk string | ReadError string

record file_metadata =
  md_is_file :: bool
  md_len :: nat
  md_modified :: "string + int"

record file_world =
  fw_metadata :: "io_error + file_metadata"
  fw_open :: "string + read_event list"
  fw_now :: int
  fw_started :: nat
  fw_begun :: nat
  fw_duration :: nat

text \<open>The bytes of a stream up to its end, and whether every read succeeds.\<close>

fun stream_chunks :: "read_event list \<Rightarrow> string list" where
  "stream_chunks [] = []"
| "stream_chunks (ReadError e # evs) = []"
| "stream_chunks (Chunk c # evs) = (if c = [] then [] else c # stream_chunks evs)"

definition stream_data :: "read_event list \<Rightarrow> string" where
  "stream_data evs = concat (stream_chunks evs)"

fun stream_readable :: "read_event list \<Rightarrow> bool" where
  "stream_readable [] = True"
| "stream_readable (ReadError e # evs) = False"
| "stream_readable (Chunk c # evs) = (c = [] \<or> stream_readable evs)"

text \<open>\<open>SystemTime::duration_since\<close>: an error when the other time is later.\<close>

definition duration_since :: "int \<Rightarrow> int \<Rightarrow> unit + nat" where
  "duration_since now earlier = (if earlier \<le> now then Inr (nat (now - earlier)) else Inl ())"

section \<open>The probe\<close>

definition validate_file_args :: "file_args \<Rightarrow> unit result" where
  "validate_file_args args =
     bindR (validate_non_empty_path ''--path'' (file_path args)) (\<lambda>_.
     bindR (case (file_min_size args, file_max_size args) of
              (Some min_size, Some max_size) \<Rightarrow>
                if min_size > max_size then
                  Inl (InvalidConfig (''invalid file size range: min-size '' @ dec min_size
                    @ '' is greater than max-size '' @ dec max_size))
                else Inr ()
            | _ \<Rightarrow> Inr ()) (\<lambda>_.
     bindR (validate_non_empty_values ''--contains'' (file_contains args)) (\<lambda>_.
     bindR (validate_capture_limit ''--max-read'' (file_max_read args) ''file content assertions''
              (file_contains args \<noteq> [])) (\<lambda>_.
     (case file_max_age args of
        Some max_age \<Rightarrow> validate_positive_duration ''--max-age'' max_age
      | None \<Rightarrow> Inr ())))))"

text \<open>The loop of \<open>read_file\<close>, from a state of its buffer and matcher.\<close>

fun read_file_loop :: "deps \<Rightarrow> string \<Rightarrow> nat \<Rightarrow> string list \<Rightarrow> capture_buffer \<times> text_matcher
    \<Rightarrow> read_event list \<Rightarrow> capture_buffer result" where
  "read_file_loop D path limit required s [] = Inr (fst s)"
| "read_file_loop D path limit required s (ReadError e # evs) =
     Inl (Failure (''failed to read '' @ diag_path D path @ '': '' @ e))"
| "read_file_loop D path limit required s (Chunk c # evs) =
     (if c = [] then Inr (fst s)
      else
        let s' = scan_chunk limit s c
        in if (required \<noteq> [] \<and> all_matched (snd s')) \<or> cb_incomplete (fst s')
           then Inr (fst s')
           else read_file_loop D path limit required s' evs)"

definition read_file :: "deps \<Rightarrow> read_event list \<Rightarrow> string \<Rightarrow> nat \<Rightarrow> string list
    \<Rightarrow> capture_buffer result" where
  "read_file D file path limit required =
     read_file_loop D path limit required (capture_default, text_matcher_new required) file"

definition check_needle :: "deps \<Rightarrow> file_args \<Rightarrow> capture_buffer \<Rightarrow> string \<Rightarrow> unit result" where
  "check_needle D args file_body needle =
     (if \<not> contains_bytes (cb_bytes file_body) needle then
        if cb_incomplete file_body then
          Inl (Failure (''file '' @ diag_path D (file_path args) @ '' was truncated at ''
            @ dec (file_max_read args) @ '' bytes, cannot prove required text ''
            @ debug_str (plain D) needle))
        else
          Inl (Failure (''file '' @ diag_path D (file_path args)
            @ '' does not contain required text '' @ debug_str (plain D) needle))
      else Inr ())"

definition check_sizes :: "deps \<Rightarrow> file_args \<Rightarrow> file_metadata \<Rightarrow> unit result" where
  "check_sizes D args md =
     (let path_label = diag_path D (file_path args) in
      bindR (case file_min_size args of
               Some min_size \<Rightarrow>
                 if md_len md < min_size then
                   Inl (Failure (''file '' @ path_label @ '' is smaller than '' @ dec min_size @ '' bytes''))
                 else Inr ()
             | None \<Rightarrow> Inr ()) (\<lambda>_.
      bindR (case file_max_size args of
               Some max_size \<Rightarrow>
                 if md_len md > max_size then
                   Inl (Failure (''file '' @ path_label @ '' is larger than '' @ dec max_size @ '' bytes''))
                 else Inr ()
             | None \<Rightarrow> Inr ()) (\<lambda>_.
      if file_non_empty args \<and> md_len md = 0 then
        Inl (Failure (''file '' @ path_label @ '' is empty''))
      else Inr ())))"

definition check_age :: "deps \<Rightarrow> file_args \<Rightarrow> file_metadata \<Rightarrow> int \<Rightarrow> unit result" where
  "check_age D args md now =
     (let path_label = diag_path D (file_path args) in
      case file_max_age args of
        None \<Rightarrow> Inr ()
      | Some max_age \<Rightarrow>
          bindR (map_err (\<lambda>error. Failure (''failed to read modification time for '' @ path_label
                   @ '': '' @ error)) (md_modified md)) (\<lambda>modified.
          bindR (map_err (\<lambda>_. Failure (''file '' @ path_label
                   @ '' has a modification time in the future''))
                   (duration_since now modified)) (\<lambda>age.
          if age > max_age then
            Inl (Failure (''file '' @ path_label @ '' is older than '' @ format_duration D max_age))
          else Inr ())))"

definition check_contents :: "deps \<Rightarrow> file_args \<Rightarrow> file_world \<Rightarrow> unit result" where
  "check_contents D args w =
     (if file_readable args \<or> file_contains args \<noteq> [] then
        bindR (map_err (\<lambda>error. Failure (''failed to open '' @ diag_path D (file_path args)
                 @ '': '' @ error)) (fw_open w)) (\<lambda>file.
        if file_contains args \<noteq> [] then
          bindR (read_file D file (file_path args) (file_max_read args) (file_contains args))
            (\<lambda>file_body. for_each (check_needle D args file_body) (file_contains args))
        else Inr ())
      else Inr ())"

definition file_run_inner :: "deps \<Rightarrow> probe_options \<Rightarrow> file_args \<Rightarrow> file_world
    \<Rightarrow> probe_report result" where
  "file_run_inner D options args w =
     (let path_label = diag_path D (file_path args) in
      bindR (map_err (\<lambda>error.
               if io_kind error = NotFound then
                 Failure (''file '' @ path_label @ '' does not exist'')
               else Failure (''failed to read metadata for '' @ path_label @ '': '' @ io_text error))
             (fw_metadata w)) (\<lambda>metadata.
      if \<not> md_is_file metadata then Inl (Failure (path_label @ '' is not a regular file''))
      else
        bindR (check_sizes D args metadata) (\<lambda>_.
        bindR (check_age D args metadata (fw_now w)) (\<lambda>_.
        bindR (check_contents D args w) (\<lambda>_.
        Inr (probe_report_new ''file'' (diag_path_field D (file_path args))
               (Some (''size='' @ dec (md_len metadata) @ ''B''))
               (fw_begun w + fw_duration w - fw_started w) options))))))"

definition file_run :: "deps \<Rightarrow> probe_options \<Rightarrow> file_args \<Rightarrow> file_world \<Rightarrow> probe_report result" where
  "file_run D options args w =
     bindR (validate_file_args args) (\<lambda>_.
       with_probe_timeout D ''file'' (opt_timeout options)
         (ready_by (fw_begun w + opt_timeout options)
           (file_run_inner D options args w, fw_begun w + fw_duration w)))"

section \<open>Validation\<close>

lemma validate_file_args_Inr:
  "validate_file_args args = Inr () \<longleftrightarrow>
     file_path args \<noteq> []
     \<and> (\<forall>a b. file_min_size args = Some a \<and> file_max_size args = Some b \<longrightarrow> a \<le> b)
     \<and> [] \<notin> set (file_contains args)
     \<and> (file_contains args \<noteq> [] \<longrightarrow> 0 < file_max_read args \<and> file_max_read args \<le> MAX_CAPTURE_BYTES)
     \<and> (\<forall>m. file_max_age args = Some m \<longrightarrow> 0 < m)"
  by (auto simp: validate_file_args_def bindR_Inr_iff validation_simps split: option.splits)

lemma validate_file_args_Inl: "validate_file_args args = Inl e \<Longrightarrow> is_invalid_config e"
  by (auto simp: validate_file_args_def bindR_Inl_iff dest: validation_Inl
      split: option.splits if_splits)

section \<open>The read loop\<close>

text \<open>
  Whatever the loop returns is what the scanner keeps of a part of the stream that it read;
  if it stopped with a complete buffer and a needle missing, that part is the whole stream.
\<close>

lemma read_file_loop_spec:
  assumes "scan.scanned limit ns s t" "read_file_loop D path limit ns s evs = Inr b"
  shows "\<exists>u s'. scan.scanned limit ns s' u \<and> fst s' = b \<and> prefix u (t @ stream_data evs)
    \<and> (u = t @ stream_data evs \<and> stream_readable evs
       \<or> cb_incomplete b \<or> (\<forall>n \<in> set ns. sublist n (cb_bytes b)))"
  using assms
proof (induction D path limit ns s evs arbitrary: t rule: read_file_loop.induct)
  case (1 D path limit ns s)
  then show ?case by (intro exI [of _ t] exI [of _ s]) (simp add: stream_data_def)
next
  case (2 D path limit ns s e evs)
  then show ?case by simp
next
  case (3 D path limit ns s c evs)
  show ?case
  proof (cases "c = []")
    case True
    with 3(2,3) show ?thesis by (intro exI [of _ t] exI [of _ s]) (simp add: stream_data_def)
  next
    case False
    define s' where "s' = scan_chunk limit s c"
    have sc: "scan.scanned limit ns s' (t @ c)"
      unfolding s'_def by (rule scan.scanned_push) (rule 3(2))
    have dt: "stream_data (Chunk c # evs) = c @ stream_data evs"
      using False by (simp add: stream_data_def)
    show ?thesis
    proof (cases "(ns \<noteq> [] \<and> all_matched (snd s')) \<or> cb_incomplete (fst s')")
      case True
      with 3(3) False have "b = fst s'" by (simp add: s'_def Let_def split: if_splits)
      with True sc scanned_matched_iff(1) [OF sc] dt show ?thesis
        by (intro exI [of _ "t @ c"] exI [of _ s']) auto
    next
      case stay: False
      with 3(3) False have "read_file_loop D path limit ns s' evs = Inr b"
        by (simp add: s'_def Let_def split: if_splits)
      with 3(1) [OF False s'_def stay sc] dt False show ?thesis by simp
    qed
  qed
qed

lemma read_file_spec:
  assumes "read_file D evs path limit ns = Inr b"
  shows "\<exists>u. represents limit (cb_bytes b) (cb_incomplete b) u \<and> prefix u (stream_data evs)
    \<and> (u = stream_data evs \<and> stream_readable evs
       \<or> cb_incomplete b \<or> (\<forall>n \<in> set ns. sublist n (cb_bytes b)))"
  using read_file_loop_spec [OF scan_start_scanned [unfolded scan_start_def]
      assms [unfolded read_file_def]]
  by (auto simp: scan.scanned_def)

text \<open>A stream without read errors never makes the loop fail.\<close>

lemma read_file_loop_total: "stream_readable evs \<Longrightarrow> \<exists>b. read_file_loop D path limit ns s evs = Inr b"
proof (induction D path limit ns s evs rule: read_file_loop.induct)
  case (3 D path limit ns s c evs)
  then show ?case by (cases "c = []") (simp_all add: Let_def)
qed simp_all

lemma read_file_total: "stream_readable evs \<Longrightarrow> \<exists>b. read_file D evs path limit ns = Inr b"
  by (simp add: read_file_def read_file_loop_total)

text \<open>Within the limit the buffer decides membership in the whole stream, and is not truncated.\<close>

lemma read_file_decides:
  assumes r: "read_file D evs path limit ns = Inr b" and n: "n \<in> set ns"
  shows "contains_bytes (cb_bytes b) n \<Longrightarrow> sublist n (stream_data evs)"
    and "\<not> contains_bytes (cb_bytes b) n \<Longrightarrow> \<not> cb_incomplete b \<Longrightarrow>
      \<not> sublist n (stream_data evs) \<and> length (stream_data evs) \<le> limit"
    and "cb_incomplete b \<Longrightarrow> limit < length (stream_data evs)"
proof -
  from read_file_spec [OF r] obtain u where
    u: "represents limit (cb_bytes b) (cb_incomplete b) u" "prefix u (stream_data evs)"
      "u = stream_data evs \<and> stream_readable evs
       \<or> cb_incomplete b \<or> (\<forall>n \<in> set ns. sublist n (cb_bytes b))" by blast
  show "contains_bytes (cb_bytes b) n \<Longrightarrow> sublist n (stream_data evs)"
    using represents_sublist [OF u(1)] prefix_imp_sublist [OF u(2)]
    by (metis contains_bytes_iff sublist_order.order_trans)
  show "\<not> sublist n (stream_data evs) \<and> length (stream_data evs) \<le> limit"
    if "\<not> contains_bytes (cb_bytes b) n" "\<not> cb_incomplete b"
    using u(1,3) that n by (auto simp: contains_bytes_iff represents_def)
  show "cb_incomplete b \<Longrightarrow> limit < length (stream_data evs)"
    using u(1,2) prefix_length_le [OF u(2)] by (simp add: represents_def)
qed

section \<open>The verdict\<close>

text \<open>What a healthy file is, independent of how it is read.\<close>

definition file_healthy :: "file_args \<Rightarrow> file_world \<Rightarrow> bool" where
  "file_healthy args w \<longleftrightarrow>
     (\<exists>md. fw_metadata w = Inr md \<and> md_is_file md
       \<and> (\<forall>m. file_min_size args = Some m \<longrightarrow> m \<le> md_len md)
       \<and> (\<forall>m. file_max_size args = Some m \<longrightarrow> md_len md \<le> m)
       \<and> (file_non_empty args \<longrightarrow> 0 < md_len md)
       \<and> (\<forall>m. file_max_age args = Some m \<longrightarrow>
            (\<exists>t. md_modified md = Inr t \<and> t \<le> fw_now w \<and> fw_now w - t \<le> int m)))
     \<and> (file_readable args \<or> file_contains args \<noteq> [] \<longrightarrow> (\<exists>evs. fw_open w = Inr evs))
     \<and> (\<forall>evs. fw_open w = Inr evs \<longrightarrow>
          (\<forall>n \<in> set (file_contains args). sublist n (stream_data evs)))"

lemma check_sizes_Inr:
  "check_sizes D args md = Inr () \<longleftrightarrow>
     (\<forall>m. file_min_size args = Some m \<longrightarrow> m \<le> md_len md)
     \<and> (\<forall>m. file_max_size args = Some m \<longrightarrow> md_len md \<le> m)
     \<and> (file_non_empty args \<longrightarrow> 0 < md_len md)"
  by (auto simp: check_sizes_def Let_def bindR_Inr_iff split: option.splits)

lemma check_age_Inr:
  "check_age D args md now = Inr () \<longleftrightarrow>
     (\<forall>m. file_max_age args = Some m \<longrightarrow>
        (\<exists>t. md_modified md = Inr t \<and> t \<le> now \<and> now - t \<le> int m))"
  by (cases "md_modified md")
    (auto simp: check_age_def Let_def bindR_Inr_iff map_err_Inr_iff duration_since_def
      split: option.splits if_splits)

lemma check_needle_Inr: "check_needle D args b n = Inr () \<longleftrightarrow> contains_bytes (cb_bytes b) n"
  by (simp add: check_needle_def)

lemma check_contents_sound:
  assumes "check_contents D args w = Inr ()"
  shows "file_readable args \<or> file_contains args \<noteq> [] \<longrightarrow> (\<exists>evs. fw_open w = Inr evs)"
    and "fw_open w = Inr evs \<Longrightarrow> n \<in> set (file_contains args) \<Longrightarrow> sublist n (stream_data evs)"
  using assms
  by (auto simp: check_contents_def bindR_Inr_iff map_err_Inr_iff for_each_Inr_iff check_needle_Inr
      split: if_splits dest: read_file_decides(1))

lemma check_contents_complete:
  assumes op: "file_readable args \<or> file_contains args \<noteq> [] \<longrightarrow> fw_open w = Inr evs"
    and ok: "\<forall>n \<in> set (file_contains args). sublist n (stream_data evs)"
    and rd: "stream_readable evs" and le: "length (stream_data evs) \<le> file_max_read args"
  shows "check_contents D args w = Inr ()"
proof (cases "file_contains args = []")
  case True
  with op show ?thesis by (auto simp: check_contents_def)
next
  case False
  obtain b where b: "read_file D evs (file_path args) (file_max_read args) (file_contains args) = Inr b"
    using read_file_total [OF rd] by blast
  have "\<not> cb_incomplete b"
    using False read_file_decides(3) [OF b] le by (cases "file_contains args") auto
  then have "contains_bytes (cb_bytes b) n" if "n \<in> set (file_contains args)" for n
    using read_file_decides(2) [OF b that] ok that by blast
  with False op b show ?thesis
    by (simp add: check_contents_def for_each_Inr_iff check_needle_Inr)
qed

lemma file_run_Inr_iff:
  "file_run D opts args w = Inr r \<longleftrightarrow>
     validate_file_args args = Inr () \<and> fw_duration w \<le> opt_timeout opts
     \<and> (\<exists>md. fw_metadata w = Inr md \<and> md_is_file md \<and> check_sizes D args md = Inr ()
          \<and> check_age D args md (fw_now w) = Inr () \<and> check_contents D args w = Inr ()
          \<and> r = probe_report_new ''file'' (diag_path_field D (file_path args))
                 (Some (''size='' @ dec (md_len md) @ ''B'')) (fw_begun w + fw_duration w - fw_started w) opts)"
  by (auto simp: file_run_def file_run_inner_def Let_def bindR_Inr_iff map_err_Inr_iff
      with_probe_timeout_Inr ready_by_def split: if_splits)

lemma file_run_sound:
  assumes "file_run D opts args w = Inr r"
  shows "file_healthy args w" "fw_duration w \<le> opt_timeout opts"
proof -
  from assms obtain md where m: "fw_duration w \<le> opt_timeout opts"
    "fw_metadata w = Inr md" "md_is_file md" "check_sizes D args md = Inr ()"
    "check_age D args md (fw_now w) = Inr ()" "check_contents D args w = Inr ()"
    unfolding file_run_Inr_iff by blast
  then show "file_healthy args w"
    unfolding file_healthy_def check_sizes_Inr check_age_Inr using check_contents_sound by blast
  show "fw_duration w \<le> opt_timeout opts" by (rule m(1))
qed

interpretation file_probe: probe validate_file_args "\<lambda>opts args w. file_run D opts args w" "''file''" for D
proof unfold_locales
  fix args e opts w
  assume "validate_file_args args = Inl e"
  then show "is_invalid_config e \<and> file_run D opts args w = Inl e"
    by (simp add: file_run_def validate_file_args_Inl)
next
  fix opts args w r
  assume "file_run D opts args w = Inr r"
  then show "rep_mode r = ''file'' \<and> rep_options r = opts"
    by (auto simp: file_run_Inr_iff)
qed

section \<open>Properties\<close>

text \<open>
  C10. When every read succeeds and the file is within \<open>--max-read\<close>, the file probe reports
  healthy exactly for a healthy file: a regular file within the size bounds, not older than
  \<open>--max-age\<close>, that can be opened and whose bytes contain every required text.
\<close>

theorem file_verdict_exact:
  assumes "validate_file_args args = Inr ()" and "fw_duration w \<le> opt_timeout opts"
    and "\<forall>evs. fw_open w = Inr evs \<longrightarrow>
      stream_readable evs \<and> length (stream_data evs) \<le> file_max_read args"
  shows "(\<exists>r. file_run D opts args w = Inr r) \<longleftrightarrow> file_healthy args w"
proof
  assume "\<exists>r. file_run D opts args w = Inr r"
  then show "file_healthy args w" using file_run_sound(1) by blast
next
  assume h: "file_healthy args w"
  have "check_contents D args w = Inr ()"
  proof (cases "fw_open w")
    case (Inl e)
    with h show ?thesis by (auto simp: file_healthy_def check_contents_def)
  next
    case (Inr evs)
    with h assms(3) show ?thesis
      by (intro check_contents_complete [of args w evs]) (auto simp: file_healthy_def)
  qed
  with h assms(1,2) show "\<exists>r. file_run D opts args w = Inr r"
    unfolding file_run_Inr_iff file_healthy_def check_sizes_Inr check_age_Inr by blast
qed

definition example_file_args :: file_args where
  "example_file_args = \<lparr>file_path = ''/run/ready'', file_readable = True, file_non_empty = True,
     file_contains = [''ok''], file_min_size = Some 1, file_max_size = None,
     file_max_age = Some 5, file_max_read = 64\<rparr>"

definition example_file_world :: "string \<Rightarrow> string \<Rightarrow> file_world" where
  "example_file_world a b = \<lparr>
     fw_metadata = Inr \<lparr>md_is_file = True, md_len = length (a @ b), md_modified = Inr 7\<rparr>,
     fw_open = Inr [Chunk a, Chunk b], fw_now = 10, fw_started = 1, fw_begun = 2, fw_duration = 2\<rparr>"

theorem file_verdict_exact_witness:
  "(\<exists>r. file_run example_deps \<lparr>opt_timeout = 9, opt_quiet = False, opt_verbose = False,
     opt_max_latency = None\<rparr> example_file_args (example_file_world ''is o'' ''k now'') = Inr r)
   \<longleftrightarrow> file_healthy example_file_args (example_file_world ''is o'' ''k now'')"
proof (rule file_verdict_exact)
  show "validate_file_args example_file_args = Inr ()" by code_simp
  show "fw_duration (example_file_world ''is o'' ''k now'') \<le>
      opt_timeout \<lparr>opt_timeout = 9, opt_quiet = False, opt_verbose = False, opt_max_latency = None\<rparr>"
    by (simp add: example_file_world_def)
  show "\<forall>evs. fw_open (example_file_world ''is o'' ''k now'') = Inr evs \<longrightarrow>
      stream_readable evs \<and> length (stream_data evs) \<le> file_max_read example_file_args"
    by (simp add: example_file_world_def example_file_args_def stream_data_def)
qed

text \<open>
  A healthy verdict of the file probe is never wrong, whatever the reads do: the file
  is healthy, the report names its size, and the verdict was there within the timeout.
\<close>

lemma file_verdict_sound:
  assumes "file_run D opts args w = Inr r"
  shows "file_healthy args w \<and> validate_file_args args = Inr () \<and> fw_duration w \<le> opt_timeout opts
    \<and> (\<exists>md. fw_metadata w = Inr md \<and> rep_detail r = Some (''size='' @ dec (md_len md) @ ''B''))
    \<and> rep_target r = diag_path_field D (file_path args) \<and> rep_elapsed r = fw_begun w + fw_duration w - fw_started w"
  using file_run_sound [OF assms] assms unfolding file_run_Inr_iff by auto

lemma file_verdict_sound_example:
  "\<exists>r. file_run example_deps \<lparr>opt_timeout = 9, opt_quiet = False, opt_verbose = False,
     opt_max_latency = None\<rparr> example_file_args (example_file_world ''is o'' ''k now'') = Inr r
     \<and> file_healthy example_file_args (example_file_world ''is o'' ''k now'')"
proof -
  have "is_ok (file_run example_deps \<lparr>opt_timeout = 9, opt_quiet = False, opt_verbose = False,
     opt_max_latency = None\<rparr> example_file_args (example_file_world ''is o'' ''k now''))" by code_simp
  then obtain r where "file_run example_deps \<lparr>opt_timeout = 9, opt_quiet = False, opt_verbose = False,
     opt_max_latency = None\<rparr> example_file_args (example_file_world ''is o'' ''k now'') = Inr r"
    by (auto simp: is_ok_def split: sum.splits)
  with file_verdict_sound [OF this] show ?thesis by blast
qed



end
