(* ===== verification/Ipv6_Parser.thy ===== *)
theory Ipv6_Parser
  imports Rust_Text
begin

text \<open>
  \<open>str::parse::<Ipv6Addr>()\<close> of Rust's standard library, which the authority and server-name
  checks call: groups of up to four hexadecimal digits, at most one \<open>::\<close>, an optional
  dotted IPv4 tail. A parser takes the text and returns the value and the rest, or \<open>None\<close>
  without consuming anything.
\<close>

definition read_number ::
    "(char \<Rightarrow> bool) \<Rightarrow> (string \<Rightarrow> nat) \<Rightarrow> nat \<Rightarrow> bool \<Rightarrow> nat \<Rightarrow> string \<Rightarrow> (nat \<times> string) option" where
  "read_number digit val max_digits allow_zero_prefix bound s =
     (let ds = takeWhile digit s in
      if length ds > max_digits \<or> ds = [] then None
      else if \<not> allow_zero_prefix \<and> hd ds = CHR ''0'' \<and> length ds > 1 then None
      else if val ds < bound then Some (val ds, drop (length ds) s) else None)"

definition hexdigit_value :: "char \<Rightarrow> nat" where
  "hexdigit_value c =
     (if is_digit c then byte c - 48 else if is_upper c then byte c - 55 else byte c - 87)"

definition hex_digits_value :: "string \<Rightarrow> nat" where
  "hex_digits_value s = foldl (\<lambda>a c. a * 16 + hexdigit_value c) 0 s"

definition read_octet :: "string \<Rightarrow> (nat \<times> string) option" where
  "read_octet = read_number is_digit digits_value 3 False 256"

definition read_group :: "string \<Rightarrow> (nat \<times> string) option" where
  "read_group = read_number is_hexdigit hex_digits_value 4 True 65536"

text \<open>\<open>read_separator\<close>: from the second element on, the separator comes first.\<close>

definition read_separator ::
    "char \<Rightarrow> nat \<Rightarrow> (string \<Rightarrow> ('a \<times> string) option) \<Rightarrow> string \<Rightarrow> ('a \<times> string) option" where
  "read_separator sep index inner s =
     (if index > 0 then
        (case s of [] \<Rightarrow> None | c # cs \<Rightarrow> if c = sep then inner cs else None)
      else inner s)"

definition read_ipv4_addr :: "string \<Rightarrow> ((nat \<times> nat \<times> nat \<times> nat) \<times> string) option" where
  "read_ipv4_addr s =
     (case read_separator (CHR ''.'') 0 read_octet s of None \<Rightarrow> None | Some (a, s1) \<Rightarrow>
     (case read_separator (CHR ''.'') 1 read_octet s1 of None \<Rightarrow> None | Some (b, s2) \<Rightarrow>
     (case read_separator (CHR ''.'') 2 read_octet s2 of None \<Rightarrow> None | Some (c, s3) \<Rightarrow>
     (case read_separator (CHR ''.'') 3 read_octet s3 of None \<Rightarrow> None | Some (d, s4) \<Rightarrow>
       Some ((a, b, c, d), s4)))))"

text \<open>
  \<open>read_groups\<close> from slot \<open>i\<close>, with \<open>n\<close> slots left: the groups read, whether an IPv4 tail
  ended them, and the rest.
\<close>

fun read_groups :: "nat \<Rightarrow> nat \<Rightarrow> string \<Rightarrow> nat list \<times> bool \<times> string" where
  "read_groups 0 i s = ([], False, s)"
| "read_groups (Suc n) i s =
     (case (if n > 0 then read_separator (CHR '':'') i read_ipv4_addr s else None) of
        Some ((a, b, c, d), r) \<Rightarrow> ([a * 256 + b, c * 256 + d], True, r)
      | None \<Rightarrow>
          (case read_separator (CHR '':'') i read_group s of
             Some (g, r) \<Rightarrow>
               (case read_groups n (Suc i) r of (gs, v4, r') \<Rightarrow> (g # gs, v4, r'))
           | None \<Rightarrow> ([], False, s)))"

definition parse_ipv6 :: "string \<Rightarrow> nat list option" where
  "parse_ipv6 s =
     (case read_groups 8 0 s of
        (head, head_ipv4, r) \<Rightarrow>
          if length head = 8 then (if r = [] then Some head else None)
          else if head_ipv4 then None
          else
            (case strip_prefix ''::'' r of
               None \<Rightarrow> None
             | Some r2 \<Rightarrow>
                 (case read_groups (8 - (length head + 1)) 0 r2 of
                    (tail, _, r3) \<Rightarrow>
                      if r3 = [] then
                        Some (head @ replicate (8 - length head - length tail) 0 @ tail)
                      else None)))"

definition is_ipv6 :: "string \<Rightarrow> bool" where
  "is_ipv6 s \<longleftrightarrow> parse_ipv6 s \<noteq> None"

lemma read_number_bound: "read_number d v m z b s = Some (n, r) \<Longrightarrow> n < b"
  by (auto simp: read_number_def Let_def split: if_splits)

lemma read_separator_cases:
  "read_separator c i p s = Some (x, r) \<Longrightarrow> \<exists>s'. p s' = Some (x, r)"
  by (auto simp: read_separator_def split: if_splits list.splits)

lemma read_ipv4_addr_bound:
  assumes "read_ipv4_addr s = Some ((a, b, c, d), r)"
  shows "a < 256" "b < 256" "c < 256" "d < 256"
  using assms
  by (auto simp: read_ipv4_addr_def read_octet_def
      split: option.splits dest!: read_separator_cases read_number_bound)

lemma read_groups_bounds:
  assumes "read_groups n i s = (gs, v4, r)"
  shows "length gs \<le> n" "\<forall>g \<in> set gs. g < 65536"
proof -
  have "length gs \<le> n \<and> (\<forall>g \<in> set gs. g < 65536)"
    using assms
  proof (induction n i s arbitrary: gs v4 r rule: read_groups.induct)
    case (1 i s)
    then show ?case by simp
  next
    case (2 n i s)
    show ?case
    proof (cases "if n > 0 then read_separator (CHR '':'') i read_ipv4_addr s else None")
      case (Some q)
      obtain a b c d r' where q: "q = ((a, b, c, d), r')" by (metis prod.exhaust)
      then obtain s' where "read_ipv4_addr s' = Some ((a, b, c, d), r')"
        using Some read_separator_cases by (metis option.distinct(1))
      from read_ipv4_addr_bound [OF this] have "a * 256 + b < 65536" "c * 256 + d < 65536"
        by simp_all
      moreover have "0 < n" using Some by (auto split: if_splits)
      ultimately show ?thesis using 2(2) Some q by auto
    next
      case None
      show ?thesis
      proof (cases "read_separator (CHR '':'') i read_group s")
        case N: None
        with 2(2) None show ?thesis by simp
      next
        case (Some q)
        obtain g r1 where q: "q = (g, r1)" by (cases q)
        obtain gs' v' r2 where rec: "read_groups n (Suc i) r1 = (gs', v', r2)"
          by (metis prod.exhaust)
        have "g < 65536"
          using Some q by (auto simp: read_group_def dest!: read_separator_cases read_number_bound)
        with 2(1) [OF None Some q [symmetric] rec] 2(2) None Some q rec show ?thesis by auto
      qed
    qed
  qed
  then show "length gs \<le> n" "\<forall>g \<in> set gs. g < 65536" by blast+
qed

text \<open>A parsed address is eight 16-bit groups.\<close>

lemma parse_ipv6_groups:
  assumes "parse_ipv6 s = Some gs"
  shows "length gs = 8" "\<forall>g \<in> set gs. g < 65536"
proof -
  obtain head v4 r where h: "read_groups 8 0 s = (head, v4, r)" by (metis prod.exhaust)
  note hb = read_groups_bounds [OF h]
  have "length gs = 8 \<and> (\<forall>g \<in> set gs. g < 65536)"
  proof (cases "length head = 8")
    case True
    with assms h hb show ?thesis by (simp add: parse_ipv6_def split: if_splits)
  next
    case False
    with assms h obtain r2 where r2: "strip_prefix ''::'' r = Some r2"
      by (auto simp: parse_ipv6_def split: if_splits option.splits)
    obtain tail t3 r3 where t: "read_groups (8 - (length head + 1)) 0 r2 = (tail, t3, r3)"
      by (metis prod.exhaust)
    have "gs = head @ replicate (8 - length head - length tail) 0 @ tail"
      using assms h False r2 t by (simp add: parse_ipv6_def split: if_splits)
    with hb read_groups_bounds [OF t] False show ?thesis by auto
  qed
  then show "length gs = 8" "\<forall>g \<in> set gs. g < 65536" by blast+
qed

lemma is_ipv6_examples:
  "is_ipv6 ''::1''" "is_ipv6 ''2001:db8::1''" "is_ipv6 ''::ffff:1.2.3.4''"
  "\<not> is_ipv6 ''example.com''" "\<not> is_ipv6 ''2001:db8::1::2''" "\<not> is_ipv6 ''1:2:3''"
  "\<not> is_ipv6 ''12345::''"
  by code_simp+

end
