(* ===== verification/Authority.thy ===== *)
theory Authority
  imports Ipv6_Parser App_Error
begin

text \<open>
  \<open>authority.rs\<close>: the checks of a \<open>host:port\<close> text that run before and around hyper's own
  authority parser, which is the parameter \<open>parse_authority D\<close>.
\<close>

datatype port_policy = Optional | Required
datatype raw_format = Display | Debug
datatype port_error = NotInteger | OutOfRange

fun port_error_message :: "port_error \<Rightarrow> string" where
  "port_error_message NotInteger = ''port must be a valid integer''"
| "port_error_message OutOfRange = ''port must be between 1 and 65535''"

definition IPV6_BRACKETS_REQUIRED :: string where
  "IPV6_BRACKETS_REQUIRED = ''IPv6 addresses must be enclosed in brackets''"

definition forbidden_text_char :: "nat \<Rightarrow> bool" where
  "forbidden_text_char ch \<longleftrightarrow>
     ch = byte backslash \<or> ch = byte dquote \<or> is_whitespace ch \<or> is_control ch"

definition validate_authority_text :: "string \<Rightarrow> string + unit" where
  "validate_authority_text raw =
     (if list_ex forbidden_text_char (str_chars raw) then
        Inl ''authority must not contain whitespace, control characters, backslashes, or quotes''
      else if \<not> is_ascii raw then
        Inl ''authority must contain only ASCII characters; use punycode for internationalized names''
      else Inr ())"

definition raw_host_is_empty :: "string \<Rightarrow> bool" where
  "raw_host_is_empty raw =
     (case strip_prefix ''['' raw of
        Some rest \<Rightarrow> starts_with '']'' rest
      | None \<Rightarrow>
          (case split_once (CHR '':'') raw of Some (host, _) \<Rightarrow> host = [] | None \<Rightarrow> raw = []))"

definition is_unbracketed_ipv6_authority :: "string \<Rightarrow> bool" where
  "is_unbracketed_ipv6_authority raw =
     (if starts_with ''['' raw \<or> CHR '':'' \<notin> set raw then False
      else is_ipv6 raw
        \<or> (case rsplit_once (CHR '':'') raw of Some (host, _) \<Rightarrow> is_ipv6 host | None \<Rightarrow> False)
        \<or> contains_str ''::'' raw)"

definition validate_bracketed_host :: "string \<Rightarrow> string + unit" where
  "validate_bracketed_host raw =
     (case strip_prefix ''['' raw of
        None \<Rightarrow>
          if CHR ''['' \<in> set raw \<or> CHR '']'' \<in> set raw
          then Inl ''brackets are only allowed around IPv6 addresses'' else Inr ()
      | Some rest \<Rightarrow>
          (case find_index (\<lambda>c. c = CHR '']'') rest of
             None \<Rightarrow> Inl ''bracketed host is missing closing ]''
           | Some e \<Rightarrow>
               let host = take e rest; suffix = drop (e + 1) rest in
               if host = [] then Inl ''host must not be empty''
               else if \<not> is_ipv6 host then Inl ''bracketed host must be a valid IPv6 address''
               else if suffix \<noteq> [] \<and> \<not> starts_with '':'' suffix then
                 Inl ''bracketed host must be followed by :port or the end of the authority''
               else Inr ()))"

definition validate_port :: "string \<Rightarrow> port_error + nat" where
  "validate_port raw =
     (if raw = [] \<or> \<not> list_all is_digit raw then Inl NotInteger
      else
        (case parse_u16 raw of
           None \<Rightarrow> Inl OutOfRange
         | Some port \<Rightarrow> if port = 0 then Inl OutOfRange else Inr port))"

definition explicit_port :: "string \<Rightarrow> string option" where
  "explicit_port raw =
     (case strip_prefix ''['' raw of
        Some rest \<Rightarrow>
          Option.bind (find_index (\<lambda>c. c = CHR '']'') rest) (\<lambda>e. strip_prefix '':'' (drop (e + 1) rest))
      | None \<Rightarrow> map_option snd (split_once (CHR '':'') raw))"

definition invalid_authority :: "deps \<Rightarrow> string \<Rightarrow> string \<Rightarrow> raw_format \<Rightarrow> string \<Rightarrow> app_error" where
  "invalid_authority D label raw raw_format reason =
     (let raw = (case raw_format of Display \<Rightarrow> diag_value D raw | Debug \<Rightarrow> debug_str (plain D) raw)
      in InvalidConfig (''invalid '' @ label @ '' '' @ raw @ '': '' @ reason))"

definition validate_authority ::
    "deps \<Rightarrow> string \<Rightarrow> string \<Rightarrow> port_policy \<Rightarrow> raw_format \<Rightarrow> authority result" where
  "validate_authority D raw label port_policy raw_format =
     (let bad = invalid_authority D label raw raw_format in
      bindR (map_err bad (validate_authority_text raw)) (\<lambda>_.
      if CHR ''@'' \<in> set raw then Inl (bad ''user info is not allowed'')
      else if CHR ''/'' \<in> set raw \<or> CHR ''?'' \<in> set raw \<or> CHR ''#'' \<in> set raw then
        Inl (bad ''path, query, and fragment are not allowed'')
      else
        bindR (map_err bad (validate_bracketed_host raw)) (\<lambda>_.
        if is_unbracketed_ipv6_authority raw then Inl (bad IPV6_BRACKETS_REQUIRED)
        else if raw_host_is_empty raw then Inl (bad ''host must not be empty'')
        else
          bindR (case explicit_port raw of
                   Some port \<Rightarrow>
                     map_err (\<lambda>reason. bad (port_error_message reason))
                       (bindR (validate_port port) (\<lambda>_. Inr ()))
                 | None \<Rightarrow> Inr ()) (\<lambda>_.
          bindR (map_err bad (parse_authority D raw)) (\<lambda>authority.
          if auth_host authority = [] then Inl (bad ''host must not be empty'')
          else if explicit_port raw = None \<and> port_policy = Required then
            Inl (bad ''port is required'')
          else Inr authority)))))"

section \<open>Ports\<close>

lemma validate_port_Inr_iff:
  "validate_port raw = Inr p \<longleftrightarrow>
     raw \<noteq> [] \<and> list_all is_digit raw \<and> digits_value raw = p \<and> 1 \<le> p \<and> p \<le> 65535"
proof -
  have "strip_prefix ''+'' raw = None" if "list_all is_digit raw" "raw \<noteq> []"
    using that by (cases raw) (auto simp: is_digit_def byte_def)
  then show ?thesis
    by (auto simp: validate_port_def parse_u16_def Let_def split: option.splits if_splits)
qed

lemma validate_port_dec: "validate_port (dec n) = Inr n \<longleftrightarrow> 1 \<le> n \<and> n \<le> 65535"
  by (auto simp: validate_port_Inr_iff dec_nonempty dec_digits digits_value_dec)

section \<open>Accepted authorities\<close>

text \<open>The shape of the texts the checks let through, without reference to the checks.\<close>

definition host_port_shape :: "string \<Rightarrow> string option \<Rightarrow> bool" where
  "host_port_shape raw port \<longleftrightarrow>
     (\<exists>host. raw = host @ (case port of None \<Rightarrow> [] | Some p \<Rightarrow> CHR '':'' # p) \<and> host \<noteq> []
        \<and> ((\<exists>a. host = CHR ''['' # a @ '']'' \<and> CHR '']'' \<notin> set a \<and> is_ipv6 a)
           \<or> (CHR '':'' \<notin> set host \<and> CHR ''['' \<notin> set raw \<and> CHR '']'' \<notin> set raw)))"

lemma find_close:
  "find_index (\<lambda>c. c = x) s = Some e \<Longrightarrow> s = take e s @ x # drop (e + 1) s \<and> x \<notin> set (take e s)"
  using find_index_Some [of "\<lambda>c. c = x" s e] find_index_Some_take [of "\<lambda>c. c = x" s e]
  by (metis Suc_eq_plus1 id_take_nth_drop)

lemma validate_bracketed_host_bracket:
  assumes "validate_bracketed_host (CHR ''['' # rest) = Inr ()"
  obtains a suffix where "rest = a @ CHR '']'' # suffix" "CHR '']'' \<notin> set a" "is_ipv6 a" "a \<noteq> []"
    "suffix = [] \<or> (\<exists>p. suffix = CHR '':'' # p)"
    "explicit_port (CHR ''['' # rest) = strip_prefix '':'' suffix"
proof -
  from assms obtain e where e: "find_index (\<lambda>c. c = CHR '']'') rest = Some e"
    and h: "take e rest \<noteq> []" "is_ipv6 (take e rest)"
    and s: "drop (e + 1) rest = [] \<or> starts_with '':'' (drop (e + 1) rest)"
    by (auto simp: validate_bracketed_host_def Let_def split: option.splits if_splits)
  have "\<exists>p. drop (e + 1) rest = CHR '':'' # p" if "starts_with '':'' (drop (e + 1) rest)"
    using that by (auto simp: starts_with_iff prefix_def)
  moreover have "explicit_port (CHR ''['' # rest) = strip_prefix '':'' (drop (e + 1) rest)"
    using e by (simp add: explicit_port_def)
  ultimately show thesis
    using that find_close [OF e] h s by blast
qed

lemma checks_shape:
  assumes b: "validate_bracketed_host raw = Inr ()" and h: "\<not> raw_host_is_empty raw"
  shows "host_port_shape raw (explicit_port raw)"
proof (cases "strip_prefix ''['' raw")
  case (Some rest)
  then have raw: "raw = CHR ''['' # rest" by (simp add: strip_prefix_Some_iff)
  from validate_bracketed_host_bracket [OF b [unfolded raw]] obtain a suffix where
    a: "rest = a @ CHR '']'' # suffix" "CHR '']'' \<notin> set a" "is_ipv6 a" "a \<noteq> []"
    "suffix = [] \<or> (\<exists>p. suffix = CHR '':'' # p)"
    "explicit_port (CHR ''['' # rest) = strip_prefix '':'' suffix" by metis
  then show ?thesis
    unfolding host_port_shape_def raw
    by (intro exI [of _ "CHR ''['' # a @ '']''"]) auto
next
  case None
  with b have br: "CHR ''['' \<notin> set raw" "CHR '']'' \<notin> set raw"
    by (auto simp: validate_bracketed_host_def split: if_splits)
  show ?thesis
  proof (cases "split_once (CHR '':'') raw")
    case N: None
    then have "CHR '':'' \<notin> set raw" by (simp add: split_once_None_iff)
    moreover have "explicit_port raw = None" using None N by (simp add: explicit_port_def)
    moreover have "raw \<noteq> []" using None N h by (simp add: raw_host_is_empty_def)
    ultimately show ?thesis
      using br unfolding host_port_shape_def by (intro exI [of _ raw]) simp
  next
    case (Some hp)
    then obtain host p where hp: "split_once (CHR '':'') raw = Some (host, p)" by (cases hp) auto
    then have "explicit_port raw = Some p" "host \<noteq> []"
      using None h by (simp_all add: explicit_port_def raw_host_is_empty_def)
    with hp br show ?thesis
      unfolding host_port_shape_def
      by (intro exI [of _ host]) (auto simp: split_once_Some_iff)
  qed
qed

lemma validate_authority_Inr:
  "validate_authority D raw label pol fmt = Inr a \<longleftrightarrow>
     validate_authority_text raw = Inr ()
     \<and> CHR ''@'' \<notin> set raw \<and> CHR ''/'' \<notin> set raw \<and> CHR ''?'' \<notin> set raw \<and> CHR ''#'' \<notin> set raw
     \<and> validate_bracketed_host raw = Inr () \<and> \<not> is_unbracketed_ipv6_authority raw
     \<and> \<not> raw_host_is_empty raw
     \<and> (\<forall>p. explicit_port raw = Some p \<longrightarrow> (\<exists>n. validate_port p = Inr n))
     \<and> parse_authority D raw = Inr a \<and> auth_host a \<noteq> []
     \<and> (pol = Required \<longrightarrow> explicit_port raw \<noteq> None)"
  by (auto simp: validate_authority_def Let_def bindR_Inr_iff map_err_Inr_iff split: option.splits)

lemma validate_authority_Inl:
  "validate_authority D raw label pol fmt = Inl e \<Longrightarrow> is_invalid_config e"
  by (auto simp: validate_authority_def Let_def bindR_Inl_iff map_err_Inl_iff invalid_authority_def
      split: option.splits if_splits raw_format.splits)

lemma validate_authority_text_Inr:
  assumes "validate_authority_text raw = Inr ()"
  shows "is_ascii raw" "\<forall>c \<in> set raw. 0x20 < byte c \<and> byte c < 0x7F \<and> c \<noteq> dquote \<and> c \<noteq> backslash"
proof -
  show asc: "is_ascii raw"
    using assms by (auto simp: validate_authority_text_def split: if_splits)
  show "\<forall>c \<in> set raw. 0x20 < byte c \<and> byte c < 0x7F \<and> c \<noteq> dquote \<and> c \<noteq> backslash"
  proof
    fix c assume c: "c \<in> set raw"
    have ok: "\<not> forbidden_text_char (byte c)"
      using assms c str_chars_ascii [OF asc]
      by (auto simp: validate_authority_text_def list_ex_iff split: if_splits)
    have hi: "byte c < 0x80" using asc c by (simp add: is_ascii_def list_all_iff)
    from ok have "\<not> is_control (byte c)" "\<not> is_whitespace (byte c)"
      "c \<noteq> dquote" "c \<noteq> backslash"
      unfolding forbidden_text_char_def by blast+
    moreover from this hi have "0x20 < byte c" "byte c < 0x7F"
      by (simp_all add: is_control_def is_whitespace_def)
    ultimately show "0x20 < byte c \<and> byte c < 0x7F \<and> c \<noteq> dquote \<and> c \<noteq> backslash"
      by blast
  qed
qed

section \<open>Properties\<close>

text \<open>
  C27. An accepted authority has the shape \<open>host\<close> or \<open>host:port\<close>: the host is a bracketed IPv6
  address or has no brackets and no colon, it is not empty, a port is a decimal number from 1
  to 65535, a required port is there, and every byte is a printable ASCII character other than
  the separators of a URL, a quote or a backslash.
\<close>

theorem accepted_authority_shape:
  assumes "validate_authority D raw label policy format = Inr a"
  shows "host_port_shape raw (explicit_port raw)
    \<and> (policy = Required \<longrightarrow> explicit_port raw \<noteq> None)
    \<and> (\<forall>p. explicit_port raw = Some p \<longrightarrow>
         list_all is_digit p \<and> 1 \<le> digits_value p \<and> digits_value p \<le> 65535)
    \<and> list_all (\<lambda>c. 0x20 < byte c \<and> byte c < 0x7F \<and> c \<noteq> dquote \<and> c \<noteq> backslash) raw
    \<and> set raw \<inter> {CHR ''@'', CHR ''/'', CHR ''?'', CHR ''#''} = {}"
proof -
  note v = assms [unfolded validate_authority_Inr]
  then have "host_port_shape raw (explicit_port raw)" using checks_shape by blast
  moreover have "list_all (\<lambda>c. 0x20 < byte c \<and> byte c < 0x7F \<and> c \<noteq> dquote \<and> c \<noteq> backslash) raw"
    using v validate_authority_text_Inr(2) unfolding list_all_iff by blast
  ultimately show ?thesis using v by (auto simp: validate_port_Inr_iff)
qed

theorem accepted_authority_shape_witness:
  "\<exists>a. validate_authority example_deps ''db.local:5432'' ''TCP address'' Required Display = Inr a
    \<and> host_port_shape ''db.local:5432'' (Some ''5432'')"
proof -
  have x: "explicit_port ''db.local:5432'' = Some ''5432''" by code_simp
  have "validate_authority example_deps ''db.local:5432'' ''TCP address'' Required Display
      = Inr (example_authority ''db.local:5432'')"
    by code_simp
  from this accepted_authority_shape [OF this] x show ?thesis by auto
qed

text \<open>
  The port parser accepts the decimal form of a number exactly when the number is a port,
  and then returns it.
\<close>

lemma port_roundtrip: "validate_port (dec n) = Inr n \<longleftrightarrow> 1 \<le> n \<and> n \<le> 65535"
  by (rule validate_port_dec)

end
