(* ===== verification/Tcp_Probe.thy ===== *)
theory Tcp_Probe
  imports Probe Authority Validation
begin

text \<open>
  \<open>probes/tcp.rs\<close>: resolve the address, then try every socket address in turn, each with an
  equal share of the time that is left. The world gives what the resolver and the peers do:
  an attempt made at a time ends after a delay, or never. Times are nanoseconds; an operation
  under \<open>tokio::time::timeout\<close> is cut at the end of its duration.
\<close>

record tcp_world =
  tw_started :: nat
  tw_now :: nat
  tw_lookup :: "string \<Rightarrow> io_error + string list"
  tw_lookup_time :: nat
  tw_connect :: "nat \<Rightarrow> string \<Rightarrow> ((io_error + unit) \<times> nat) option"

definition MILLISECOND :: nat where
  "MILLISECOND = 1000000"

definition per_attempt_timeout :: "nat \<Rightarrow> nat \<Rightarrow> nat" where
  "per_attempt_timeout remaining attempts_left =
     (let attempts_left = min (max attempts_left 1) (2 ^ 32 - 1)
      in max (remaining div attempts_left) MILLISECOND)"

definition validate_tcp_addr :: "deps \<Rightarrow> string \<Rightarrow> unit result" where
  "validate_tcp_addr D raw =
     bindR (validate_authority D raw ''TCP address'' Required Display) (\<lambda>_. Inr ())"

definition validate_tcp_args :: "deps \<Rightarrow> tcp_args \<Rightarrow> unit result" where
  "validate_tcp_args D args =
     bindR (validate_non_empty_str ''--addr'' (tcp_addr args)) (\<lambda>_.
     validate_tcp_addr D (tcp_addr args))"

text \<open>
  The loop over the addresses that are left, of which there are \<open>attempts_left\<close>, at the time
  \<open>now\<close>; the result is \<open>Inr ()\<close> for the early return of a connection or the last error, with
  the time when the loop ends.
\<close>

fun connect_loop :: "tcp_world \<Rightarrow> nat \<Rightarrow> string list \<Rightarrow> nat \<Rightarrow> string option
    \<Rightarrow> (string option + unit) \<times> nat" where
  "connect_loop w deadline [] now last_error = (Inl last_error, now)"
| "connect_loop w deadline (addr # addrs) now last_error =
     (let remaining = deadline - now in
      if remaining = 0 then (Inl last_error, now)
      else
        (let per_attempt = per_attempt_timeout remaining (length (addr # addrs)) in
         (case tw_connect w now addr of
            Some (outcome, delay) \<Rightarrow>
              if delay \<le> per_attempt then
                (case outcome of
                   Inr _ \<Rightarrow> (Inr (), now + delay)
                 | Inl error \<Rightarrow> connect_loop w deadline addrs (now + delay) (Some (io_text error)))
              else connect_loop w deadline addrs (now + per_attempt)
                (Some (''connection to '' @ addr @ '' timed out''))
          | None \<Rightarrow> connect_loop w deadline addrs (now + per_attempt)
              (Some (''connection to '' @ addr @ '' timed out'')))))"

text \<open>The future under the probe's timeout: its result and the time when it is ready.\<close>

definition tcp_future :: "deps \<Rightarrow> tcp_world \<Rightarrow> probe_options \<Rightarrow> tcp_args
    \<Rightarrow> probe_report result \<times> nat" where
  "tcp_future D w options args =
     (let now = tw_now w + tw_lookup_time w in
      (case tw_lookup w (tcp_addr args) of
         Inl error \<Rightarrow>
           (Inl (case io_kind error of
                   InvalidInput \<Rightarrow> InvalidConfig (''invalid TCP address ''
                     @ diag_value D (tcp_addr args) @ '': '' @ io_text error)
                 | _ \<Rightarrow> Failure (''failed to resolve '' @ diag_value D (tcp_addr args) @ '': ''
                     @ io_text error)), now)
       | Inr addrs \<Rightarrow>
           if addrs = [] then
             (Inl (Failure (''no TCP addresses resolved for '' @ diag_value D (tcp_addr args))), now)
           else
             (case deadline_after D now (opt_timeout options) of
                Inl e \<Rightarrow> (Inl e, now)
              | Inr deadline \<Rightarrow>
                  (case connect_loop w deadline addrs now None of
                     (Inr _, finished) \<Rightarrow>
                       (Inr (probe_report_new ''tcp'' (tcp_addr args) (Some ''connected'')
                          (finished - tw_started w) options), finished)
                   | (Inl last_error, finished) \<Rightarrow>
                       (Inl (Failure (case last_error of
                          Some error \<Rightarrow> ''failed to connect to '' @ diag_value D (tcp_addr args)
                            @ '': '' @ error
                        | None \<Rightarrow> ''timed out connecting to '' @ diag_value D (tcp_addr args))),
                        finished)))))"

definition tcp_run :: "deps \<Rightarrow> probe_options \<Rightarrow> tcp_args \<Rightarrow> tcp_world \<Rightarrow> probe_report result" where
  "tcp_run D options args w =
     (let timeout = opt_timeout options in
      bindR (validate_tcp_args D args) (\<lambda>_.
      with_probe_timeout D ''TCP'' timeout
        (ready_by (tw_now w + timeout) (tcp_future D w options args))))"

section \<open>The shares of the time\<close>

lemma per_attempt_timeout_bounds:
  "MILLISECOND \<le> per_attempt_timeout remaining n"
  "per_attempt_timeout remaining n \<le> max remaining MILLISECOND"
proof -
  have "remaining div min (max n 1) (2 ^ 32 - 1) \<le> remaining" by (rule div_le_dividend)
  from max.mono [OF this order_refl]
  show "MILLISECOND \<le> per_attempt_timeout remaining n"
    "per_attempt_timeout remaining n \<le> max remaining MILLISECOND"
    unfolding per_attempt_timeout_def Let_def by simp_all
qed

lemma per_attempt_timeout_share:
  assumes "0 < n" "n < 2 ^ 32" "n * s \<le> remaining" "MILLISECOND \<le> s"
  shows "s \<le> per_attempt_timeout remaining n" "(n - 1) * s \<le> remaining - per_attempt_timeout remaining n"
proof -
  have p: "per_attempt_timeout remaining n = remaining div n"
  proof -
    have "s \<le> remaining div n" using assms(1,3) by (simp add: less_eq_div_iff_mult_less_eq mult.commute)
    with assms show ?thesis by (simp add: per_attempt_timeout_def)
  qed
  show "s \<le> per_attempt_timeout remaining n"
    using assms(1,3) by (simp add: p less_eq_div_iff_mult_less_eq mult.commute)
  have "(n - 1) * s \<le> (n - 1) * (remaining div n)"
    using assms(1,3) by (simp add: less_eq_div_iff_mult_less_eq mult.commute)
  also have "\<dots> \<le> remaining - remaining div n"
  proof -
    have "n * (remaining div n) \<le> remaining" by simp
    from diff_le_mono [OF this, of "remaining div n"] show ?thesis
      unfolding diff_mult_distrib by simp
  qed
  finally show "(n - 1) * s \<le> remaining - per_attempt_timeout remaining n" by (simp add: p)
qed

text \<open>The loop ends at most a millisecond after the deadline.\<close>

lemma connect_loop_deadline:
  "now \<le> deadline + MILLISECOND \<Longrightarrow> snd (connect_loop w deadline addrs now e) \<le> deadline + MILLISECOND"
proof (induction addrs arbitrary: now e)
  case Nil
  then show ?case by simp
next
  case (Cons a addrs)
  let ?p = "per_attempt_timeout (deadline - now) (length (a # addrs))"
  have p: "now + ?p \<le> deadline + MILLISECOND" if "now < deadline"
    using per_attempt_timeout_bounds(2) [of "deadline - now" "length (a # addrs)"] that by (simp add: max_def split: if_splits)
  show ?case
  proof (cases "now < deadline")
    case False
    with Cons.prems show ?thesis by (simp add: Let_def)
  next
    case True
    note p = p [OF True]
    show ?thesis
    proof (cases "tw_connect w now a")
      case None
      with True Cons.IH [OF p] show ?thesis by (simp add: Let_def)
    next
      case (Some od)
      obtain out d where od: "od = (out, d)" by (cases od)
      show ?thesis
      proof (cases "d \<le> ?p")
        case False
        with Some od True Cons.IH [OF p] show ?thesis by (simp add: Let_def)
      next
        case True2: True
        with p have "now + d \<le> deadline + MILLISECOND" by simp
        with Some od True True2 Cons.IH [OF this] show ?thesis
          by (cases out) (simp_all add: Let_def split: unit.split)
      qed
    qed
  qed
qed

lemma connect_loop_Inr:
  "connect_loop w deadline addrs now e = (Inr (), t) \<Longrightarrow>
     \<exists>a\<in>set addrs. \<exists>t0 d. tw_connect w t0 a = Some (Inr (), d) \<and> now \<le> t0 \<and> t0 < deadline \<and> t = t0 + d"
proof (induction addrs arbitrary: now e)
  case Nil
  then show ?case by simp
next
  case (Cons a addrs)
  let ?p = "per_attempt_timeout (deadline - now) (length (a # addrs))"
  from Cons.prems have lt: "now < deadline" by (simp add: Let_def split: if_split_asm)
  have ih: ?case if "connect_loop w deadline addrs (now + k) e' = (Inr (), t)" for k e'
  proof -
    from Cons.IH [OF that] obtain b t0 d where "b \<in> set addrs" "tw_connect w t0 b = Some (Inr (), d)"
      "now + k \<le> t0" "t0 < deadline" "t = t0 + d" by blast
    then show ?case by (intro bexI [of _ b] exI [of _ t0] exI [of _ d]) auto
  qed
  show ?case
  proof (cases "\<exists>d. tw_connect w now a = Some (Inr (), d) \<and> d \<le> ?p")
    case True
    then obtain d where "tw_connect w now a = Some (Inr (), d)" "d \<le> ?p" by blast
    with Cons.prems lt show ?thesis by (intro bexI [of _ a] exI [of _ now] exI [of _ d]) (simp_all add: Let_def)
  next
    case False
    with Cons.prems lt have "\<exists>k e'. connect_loop w deadline addrs (now + k) e' = (Inr (), t)"
      by (auto simp: Let_def split: option.split_asm prod.split_asm sum.split_asm if_split_asm)
    with ih show ?thesis by blast
  qed
qed

text \<open>
  The shares are fair: when each of the \<open>n\<close> addresses has a share \<open>s\<close> of the time, an address
  that accepts within its share is reached, whatever the addresses before it do.
\<close>

lemma connect_loop_reaches:
  assumes "length addrs * s \<le> deadline - now" "length addrs < 2 ^ 32" "MILLISECOND \<le> s"
    and "k < length addrs" "\<And>t. \<exists>d\<le>\<delta>. tw_connect w t (addrs ! k) = Some (Inr (), d)" "\<delta> \<le> s"
  shows "\<exists>t. connect_loop w deadline addrs now e = (Inr (), t) \<and>
    t + (length addrs - k) * s \<le> deadline + \<delta>"
  using assms(1,2,4,5)
proof (induction addrs arbitrary: now k e)
  case Nil
  then show ?case by simp
next
  case (Cons a addrs)
  let ?n = "length (a # addrs)"
  let ?p = "per_attempt_timeout (deadline - now) ?n"
  have s0: "0 < s" using assms(3) by (simp add: MILLISECOND_def)
  have lt: "now < deadline" using Cons.prems(1) s0 by (cases "now < deadline") auto
  have le: "now + ?n * s \<le> deadline" using Cons.prems(1) lt by simp
  have share: "s \<le> ?p" "(?n - 1) * s \<le> deadline - now - ?p"
    by (rule per_attempt_timeout_share; use Cons.prems(1,2) assms(3) in simp)+
  have pd: "?p \<le> deadline - now"
  proof -
    have "MILLISECOND \<le> deadline - now"
      using assms(3) le by simp
    with per_attempt_timeout_bounds(2) [of "deadline - now" ?n] show ?thesis by simp
  qed
  show ?case
  proof (cases k)
    case 0
    with Cons.prems(4) obtain d where d: "d \<le> \<delta>" "tw_connect w now a = Some (Inr (), d)" by force
    with share(1) assms(6) have "d \<le> ?p" by simp
    with d lt have "connect_loop w deadline (a # addrs) now e = (Inr (), now + d)"
      by (simp add: Let_def)
    moreover have "now + d + ?n * s \<le> deadline + \<delta>" using d(1) le by simp
    ultimately show ?thesis using 0 by simp
  next
    case (Suc k')
    have ih: "\<exists>t. connect_loop w deadline addrs now' e' = (Inr (), t) \<and>
        t + (?n - k) * s \<le> deadline + \<delta>" if "now' \<le> now + ?p" for now' e'
      using Cons.IH [of now' k' e'] Cons.prems(2-4) share(2) that Suc by force
    have fin: "now + d + (?n - k) * s \<le> deadline + \<delta>" if "d \<le> ?p" for d
    proof -
      have "(?n - k) * s \<le> (?n - 1) * s" using Suc by simp
      with share(2) that pd lt show ?thesis by linarith
    qed
    show ?thesis
    proof (cases "\<exists>out d. tw_connect w now a = Some (out, d) \<and> d \<le> ?p")
      case True
      then obtain out d where o: "tw_connect w now a = Some (out, d)" "d \<le> ?p" by blast
      with lt ih [of "now + d"] fin [OF o(2)] show ?thesis
        by (cases out) (simp_all add: Let_def)
    next
      case False
      then have "\<exists>e'. connect_loop w deadline (a # addrs) now e = connect_loop w deadline addrs (now + ?p) e'"
        using lt by (cases "tw_connect w now a") (auto simp: Let_def)
      with ih [of "now + ?p"] show ?thesis by (metis order_refl)
    qed
  qed
qed

section \<open>The probe\<close>

lemma validate_tcp_args_Inl: "validate_tcp_args D args = Inl e \<Longrightarrow> is_invalid_config e"
  by (auto simp: validate_tcp_args_def validate_tcp_addr_def bindR_Inl_iff
      dest: validate_authority_Inl validation_Inl)

lemma tcp_run_Inr_iff:
  "tcp_run D options args w = Inr r \<longleftrightarrow>
     (\<exists>addrs t. validate_tcp_args D args = Inr () \<and> tw_lookup w (tcp_addr args) = Inr addrs
       \<and> tw_now w + tw_lookup_time w + opt_timeout options < INSTANT_LIMIT
       \<and> connect_loop w (tw_now w + tw_lookup_time w + opt_timeout options) addrs
           (tw_now w + tw_lookup_time w) None = (Inr (), t)
       \<and> t \<le> tw_now w + opt_timeout options
       \<and> r = probe_report_new ''tcp'' (tcp_addr args) (Some ''connected'') (t - tw_started w) options)"
proof -
  have nil: "connect_loop w d [] n None \<noteq> (Inr (), t)" for d n t by simp
  show ?thesis
    unfolding tcp_run_def tcp_future_def Let_def bindR_Inr_iff with_probe_timeout_Inr ready_by_def
      deadline_after_def instant_checked_add_def
    by (auto simp: nil ok_or_def split: sum.splits prod.splits option.splits if_splits unit.splits)
qed

text \<open>A healthy verdict means that a resolved address accepted a connection within the timeout.\<close>

lemma tcp_run_sound:
  assumes "tcp_run D options args w = Inr r"
  shows "\<exists>addrs a t0 d. tw_lookup w (tcp_addr args) = Inr addrs \<and> a \<in> set addrs
    \<and> tw_connect w t0 a = Some (Inr (), d) \<and> tw_now w + tw_lookup_time w \<le> t0
    \<and> t0 + d \<le> tw_now w + opt_timeout options \<and> rep_elapsed r = t0 + d - tw_started w"
  using assms connect_loop_Inr unfolding tcp_run_Inr_iff by fastforce

lemma tcp_run_complete:
  assumes "validate_tcp_args D args = Inr ()" "tw_lookup w (tcp_addr args) = Inr addrs"
    and "tw_now w + tw_lookup_time w + opt_timeout options < INSTANT_LIMIT"
    and "length addrs < 2 ^ 32" "MILLISECOND \<le> s" "length addrs * s \<le> opt_timeout options"
    and "k < length addrs" "\<And>t. \<exists>d\<le>\<delta>. tw_connect w t (addrs ! k) = Some (Inr (), d)" "\<delta> \<le> s"
    and "tw_lookup_time w + \<delta> \<le> (length addrs - k) * s"
  shows "\<exists>r. tcp_run D options args w = Inr r"
proof -
  let ?now = "tw_now w + tw_lookup_time w"
  let ?deadline = "?now + opt_timeout options"
  obtain t where t: "connect_loop w ?deadline addrs ?now None = (Inr (), t)"
    "t + (length addrs - k) * s \<le> ?deadline + \<delta>"
    using connect_loop_reaches [of addrs s ?deadline ?now k \<delta> w None] assms(4-9) by auto
  from t(2) assms(10) have "t \<le> tw_now w + opt_timeout options" by linarith
  with t(1) assms(1-3) show ?thesis unfolding tcp_run_Inr_iff by blast
qed

interpretation tcp_probe: probe "validate_tcp_args D" "\<lambda>opts args w. tcp_run D opts args w" "''tcp''" for D
proof unfold_locales
  fix args e opts w
  assume "validate_tcp_args D args = Inl e"
  then show "is_invalid_config e \<and> tcp_run D opts args w = Inl e"
    by (simp add: tcp_run_def validate_tcp_args_Inl)
next
  fix opts args w r
  assume "tcp_run D opts args w = Inr r"
  then show "rep_mode r = ''tcp'' \<and> rep_options r = opts"
    by (auto simp: tcp_run_Inr_iff)
qed

section \<open>Properties\<close>

text \<open>
  C11. A healthy TCP verdict means that one of the resolved addresses accepted a connection,
  begun after the resolution and established within the probe's timeout.
\<close>

theorem tcp_verdict_sound:
  assumes "tcp_run D options args w = Inr r"
  shows "validate_tcp_args D args = Inr ()
    \<and> (\<exists>addrs a t0 d. tw_lookup w (tcp_addr args) = Inr addrs \<and> a \<in> set addrs
      \<and> tw_connect w t0 a = Some (Inr (), d) \<and> tw_now w + tw_lookup_time w \<le> t0
      \<and> t0 + d \<le> tw_now w + opt_timeout options \<and> rep_elapsed r = t0 + d - tw_started w)"
  using tcp_run_sound [OF assms] assms unfolding tcp_run_Inr_iff by blast

definition example_tcp_world :: tcp_world where
  "example_tcp_world = \<lparr>tw_started = 0, tw_now = 0, tw_lookup = (\<lambda>_. Inr [''a'', ''b'']),
     tw_lookup_time = 0,
     tw_connect = (\<lambda>t a. if a = ''b'' then Some (Inr (), 1000000) else None)\<rparr>"

definition example_tcp_options :: probe_options where
  "example_tcp_options = \<lparr>opt_timeout = 10000000, opt_quiet = False, opt_verbose = False,
     opt_max_latency = None\<rparr>"

definition example_tcp_args :: tcp_args where
  "example_tcp_args = \<lparr>tcp_addr = ''h:80''\<rparr>"

theorem tcp_verdict_sound_witness:
  "\<exists>r. tcp_run example_deps example_tcp_options example_tcp_args example_tcp_world = Inr r
     \<and> (\<exists>a t0 d. tw_connect example_tcp_world t0 a = Some (Inr (), d) \<and> rep_elapsed r = t0 + d)"
proof -
  have "is_ok (tcp_run example_deps example_tcp_options example_tcp_args example_tcp_world)" by code_simp
  then obtain r where r: "tcp_run example_deps example_tcp_options example_tcp_args example_tcp_world = Inr r"
    by (auto simp: is_ok_def split: sum.splits)
  have "tw_started example_tcp_world = 0" by (simp add: example_tcp_world_def)
  with r tcp_verdict_sound [OF r] show ?thesis by auto
qed

text \<open>
  C15. The time is shared fairly: an address that always accepts within \<open>\<delta>\<close> is reached in
  time, whatever the addresses before it do, provided each of the resolved addresses has a
  share of at least \<open>\<delta>\<close> and a millisecond, and resolution does not use up what the addresses
  from it on have left.
\<close>

theorem tcp_fair_shares:
  assumes "validate_tcp_args D args = Inr ()" "tw_lookup w (tcp_addr args) = Inr addrs"
    and "tw_now w + tw_lookup_time w + opt_timeout options < INSTANT_LIMIT"
    and "length addrs < 2 ^ 32" "MILLISECOND \<le> s" "length addrs * s \<le> opt_timeout options"
    and "k < length addrs" "\<forall>t. \<exists>d\<le>\<delta>. tw_connect w t (addrs ! k) = Some (Inr (), d)" "\<delta> \<le> s"
    and "tw_lookup_time w + \<delta> \<le> (length addrs - k) * s"
  shows "\<exists>r. tcp_run D options args w = Inr r"
  using assms(1-7) spec [OF assms(8)] assms(9,10) by (rule tcp_run_complete)

theorem tcp_fair_shares_witness:
  "\<exists>r. tcp_run example_deps example_tcp_options example_tcp_args example_tcp_world = Inr r"
proof (rule tcp_fair_shares [where addrs = "[''a'', ''b'']" and k = 1 and s = 2000000 and \<delta> = 1000000])
  show "validate_tcp_args example_deps example_tcp_args = Inr ()" by code_simp
  show "\<forall>t. \<exists>d\<le>1000000. tw_connect example_tcp_world t ([''a'', ''b''] ! 1) = Some (Inr (), d)"
    by (auto simp: example_tcp_world_def)
qed (simp_all add: example_tcp_world_def example_tcp_options_def INSTANT_LIMIT_def MILLISECOND_def)


section \<open>A slow resolution\<close>

text \<open>
  The deadline that is shared is taken after the resolution, while the probe's own timeout has
  run since before it. When the resolution is slow, the first address's share can therefore
  reach past the end of the probe, and a later address that would accept at once is not tried,
  although half of the time that was left when the resolution ended would have been enough.
\<close>

definition slow_lookup_world :: tcp_world where
  "slow_lookup_world = example_tcp_world\<lparr>tw_lookup_time := 6000000\<rparr>"

lemma slow_lookup_starves_later_addresses:
  "tcp_run example_deps example_tcp_options example_tcp_args slow_lookup_world
     = Inl (probe_timeout_error example_deps ''TCP'' 10000000)
   \<and> per_attempt_timeout (10000000 - 6000000) 2 = 2000000
   \<and> tw_connect slow_lookup_world (6000000 + 2000000) ''b'' = Some (Inr (), 1000000)"
proof (intro conjI)
  show "tcp_run example_deps example_tcp_options example_tcp_args slow_lookup_world
     = Inl (probe_timeout_error example_deps ''TCP'' 10000000)" by code_simp
  show "per_attempt_timeout (10000000 - 6000000) 2 = 2000000" by code_simp
  show "tw_connect slow_lookup_world (6000000 + 2000000) ''b'' = Some (Inr (), 1000000)"
    by (simp add: slow_lookup_world_def example_tcp_world_def)
qed

end
