(* ===== verification/Tls.thy ===== *)
theory Tls
  imports Cli Validation Ipv6_Parser
begin

text \<open>
  \<open>tls.rs\<close>: validation of the TLS options and the construction of the client configuration.
  The file system, the PEM parser and rustls are a record of functions; certificates, keys and
  trust anchors are opaque texts; \<open>TLS_SERVER_ROOTS\<close> are the anchors of webpki-roots, when the
  feature \<open>webpki\<close> is on.
\<close>

record tls_world =
  tls_server_roots :: "string list"
  tls_metadata_is_file :: "string \<Rightarrow> io_error + bool"
  tls_open :: "string \<Rightarrow> io_error + string"
  pem_certs :: "string \<Rightarrow> (string + string) list"
  pem_private_key :: "string \<Rightarrow> string + string option"
  root_store_add :: "string \<Rightarrow> string + string"
  client_auth_cert :: "string list \<times> string \<Rightarrow> string + unit"

section \<open>Validation\<close>

definition invalid_bracketed_server_name :: "deps \<Rightarrow> string \<Rightarrow> app_error" where
  "invalid_bracketed_server_name D raw =
     InvalidConfig (''invalid TLS server name override '' @ debug_str (plain D) raw
       @ '': brackets are only allowed around IPv6 addresses'')"

definition normalize_server_name_override :: "deps \<Rightarrow> string \<Rightarrow> string result" where
  "normalize_server_name_override D raw =
     (case strip_prefix ''['' raw of
        None \<Rightarrow>
          if CHR ''['' \<in> set raw \<or> CHR '']'' \<in> set raw then Inl (invalid_bracketed_server_name D raw)
          else Inr raw
      | Some inner \<Rightarrow>
          (case strip_suffix '']'' inner of
             None \<Rightarrow> Inl (invalid_bracketed_server_name D raw)
           | Some inner \<Rightarrow>
               if \<not> is_ipv6 inner then Inl (invalid_bracketed_server_name D raw) else Inr inner))"

definition parse_server_name_override :: "deps \<Rightarrow> string \<Rightarrow> string result" where
  "parse_server_name_override D raw =
     bindR (validate_non_empty_str ''--server-name'' raw) (\<lambda>_.
     bindR (normalize_server_name_override D raw) (\<lambda>name.
     map_err (\<lambda>error. InvalidConfig (''invalid TLS server name override '' @ debug_str (plain D) raw
         @ '': '' @ error))
       (server_name D name)))"

definition validate_client_identity_args :: "tls_args \<Rightarrow> unit result" where
  "validate_client_identity_args tls =
     (case (tls_cert tls, tls_key tls) of
        (Some _, None) \<Rightarrow> Inl (InvalidConfig ''--cert and --key must be provided together'')
      | (None, Some _) \<Rightarrow> Inl (InvalidConfig ''--cert and --key must be provided together'')
      | _ \<Rightarrow> Inr ())"

definition validate_trust_args :: "tls_args \<Rightarrow> unit result" where
  "validate_trust_args tls =
     (if tls_insecure_skip_verify tls \<and> tls_ca tls \<noteq> None then
        Inl (InvalidConfig ''--ca cannot be used with --insecure-skip-verify'')
      else Inr ())"

definition validate_optional_path :: "string \<Rightarrow> string option \<Rightarrow> unit result" where
  "validate_optional_path flag path =
     (case path of Some path \<Rightarrow> validate_non_empty_path flag path | None \<Rightarrow> Inr ())"

definition validate_tls_file_args :: "tls_args \<Rightarrow> unit result" where
  "validate_tls_file_args tls =
     bindR (validate_optional_path ''--ca'' (tls_ca tls)) (\<lambda>_.
     bindR (validate_optional_path ''--cert'' (tls_cert tls)) (\<lambda>_.
     validate_optional_path ''--key'' (tls_key tls)))"

definition validate_bundled_roots_available :: "deps \<Rightarrow> unit result" where
  "validate_bundled_roots_available D =
     (if feature_webpki D then Inr ()
      else Inl (InvalidConfig (''TLS trust store is empty because bundled roots are disabled; ''
        @ ''provide --ca or --insecure-skip-verify'')))"

definition validate_tls_trust_available :: "deps \<Rightarrow> tls_args \<Rightarrow> unit result" where
  "validate_tls_trust_available D tls =
     (if tls_insecure_skip_verify tls \<or> tls_ca tls \<noteq> None then Inr ()
      else validate_bundled_roots_available D)"

definition validate_tls_options :: "deps \<Rightarrow> tls_args \<Rightarrow> unit result" where
  "validate_tls_options D tls =
     bindR (case tls_server_name tls of
              Some name \<Rightarrow> bindR (parse_server_name_override D name) (\<lambda>_. Inr ())
            | None \<Rightarrow> Inr ()) (\<lambda>_.
     bindR (validate_client_identity_args tls) (\<lambda>_.
     bindR (validate_trust_args tls) (\<lambda>_.
     bindR (validate_tls_file_args tls) (\<lambda>_.
     validate_tls_trust_available D tls))))"

section \<open>The client configuration\<close>

text \<open>
  What the configuration verifies servers with: \<open>InsecureVerifier\<close>, whose methods assert
  every certificate and signature, or a store of trust anchors; and the client's identity.
\<close>

datatype verification = InsecureVerifier | RootCertificates "string list"

record client_config =
  cc_verification :: verification
  cc_client_auth :: "(string list \<times> string) option"

definition open_regular_pem_file :: "deps \<Rightarrow> tls_world \<Rightarrow> string \<Rightarrow> string \<Rightarrow> string result" where
  "open_regular_pem_file D w path label =
     bindR (map_err (\<lambda>error. InvalidConfig (''failed to inspect '' @ label @ '' '' @ diag_path D path
         @ '': '' @ io_text error))
       (tls_metadata_is_file w path)) (\<lambda>is_file.
     if \<not> is_file then
       Inl (InvalidConfig (label @ '' '' @ diag_path D path @ '' is not a regular file''))
     else
       map_err (\<lambda>error. InvalidConfig (''failed to open '' @ label @ '' '' @ diag_path D path @ '': ''
           @ io_text error))
         (tls_open w path))"

text \<open>The store after \<open>roots.add\<close> of every certificate, or the first error.\<close>

fun add_certificates :: "(string \<Rightarrow> string + string) \<Rightarrow> string list \<Rightarrow> string list
    \<Rightarrow> string + string list" where
  "add_certificates add roots [] = Inr roots"
| "add_certificates add roots (cert # certs) =
     bindR (add cert) (\<lambda>anchor. add_certificates add (roots @ [anchor]) certs)"

definition load_root_store :: "deps \<Rightarrow> tls_world \<Rightarrow> string option \<Rightarrow> string list result" where
  "load_root_store D w path =
     (let roots = (if feature_webpki D then tls_server_roots w else []) in
      (case path of
         None \<Rightarrow> Inr roots
       | Some path \<Rightarrow>
           bindR (open_regular_pem_file D w path ''CA file'') (\<lambda>content.
           bindR (map_err (\<lambda>error. InvalidConfig (''failed to parse CA file '' @ diag_path D path
               @ '': '' @ error))
             (collectR id (pem_certs w content))) (\<lambda>certs.
           if certs = [] then
             Inl (InvalidConfig (''CA file '' @ diag_path D path
               @ '' does not contain any certificates''))
           else
             map_err (\<lambda>error. InvalidConfig (''invalid CA certificate in '' @ diag_path D path
                 @ '': '' @ error))
               (add_certificates (root_store_add w) roots certs)))))"

definition load_client_identity :: "deps \<Rightarrow> tls_world \<Rightarrow> tls_args
    \<Rightarrow> (string list \<times> string) option result" where
  "load_client_identity D w tls =
     (case (tls_cert tls, tls_key tls) of
        (None, None) \<Rightarrow> Inr None
      | (Some cert_path, Some key_path) \<Rightarrow>
          bindR (open_regular_pem_file D w cert_path ''client certificate'') (\<lambda>cert_content.
          bindR (map_err (\<lambda>error. InvalidConfig (''failed to parse client certificate ''
              @ diag_path D cert_path @ '': '' @ error))
            (collectR id (pem_certs w cert_content))) (\<lambda>certs.
          if certs = [] then
            Inl (InvalidConfig (''client certificate '' @ diag_path D cert_path
              @ '' does not contain any certificates''))
          else
            bindR (open_regular_pem_file D w key_path ''client key'') (\<lambda>key_content.
            bindR (map_err (\<lambda>error. InvalidConfig (''failed to parse client key ''
                @ diag_path D key_path @ '': '' @ error))
              (pem_private_key w key_content)) (\<lambda>key.
            bindR (ok_or (InvalidConfig (''client key '' @ diag_path D key_path
                @ '' does not contain a supported private key'')) key) (\<lambda>key.
            Inr (Some (certs, key)))))))
      | _ \<Rightarrow> Inl (InvalidConfig ''--cert and --key must be provided together''))"

definition with_client_auth :: "tls_world \<Rightarrow> verification \<Rightarrow> (string list \<times> string) option
    \<Rightarrow> client_config result" where
  "with_client_auth w verifier identity =
     (case identity of
        Some (certs, key) \<Rightarrow>
          bindR (map_err (\<lambda>error. InvalidConfig (''invalid client certificate or key: '' @ error))
            (client_auth_cert w (certs, key))) (\<lambda>_.
          Inr \<lparr>cc_verification = verifier, cc_client_auth = Some (certs, key)\<rparr>)
      | None \<Rightarrow> Inr \<lparr>cc_verification = verifier, cc_client_auth = None\<rparr>)"

definition build_client_config :: "deps \<Rightarrow> tls_world \<Rightarrow> tls_args \<Rightarrow> client_config result" where
  "build_client_config D w tls =
     bindR (load_client_identity D w tls) (\<lambda>identity.
     if tls_insecure_skip_verify tls then with_client_auth w InsecureVerifier identity
     else
       bindR (load_root_store D w (tls_ca tls)) (\<lambda>roots.
       with_client_auth w (RootCertificates roots) identity))"

definition build_http_tls_config :: "deps \<Rightarrow> tls_world \<Rightarrow> tls_args \<Rightarrow> client_config result" where
  "build_http_tls_config D w tls =
     bindR (validate_tls_options D tls) (\<lambda>_. build_client_config D w tls)"

section \<open>The verifier that skips verification\<close>

text \<open>
  \<open>InsecureVerifier\<close>: what rustls asks it during a handshake. \<open>peer_verified\<close> is the check of the
  server's certificate under a configuration; with root certificates it is rustls' own, a
  parameter here.
\<close>

datatype signature_scheme = ECDSA_NISTP256_SHA256 | ECDSA_NISTP384_SHA384 | ECDSA_NISTP521_SHA512
  | ED25519 | RSA_PSS_SHA256 | RSA_PSS_SHA384 | RSA_PSS_SHA512
  | RSA_PKCS1_SHA256 | RSA_PKCS1_SHA384 | RSA_PKCS1_SHA512 | OtherScheme string

definition verify_server_cert :: "string \<Rightarrow> string list \<Rightarrow> string \<Rightarrow> string \<Rightarrow> nat \<Rightarrow> string + unit" where
  "verify_server_cert end_entity intermediates name ocsp_response now = Inr ()"

definition verify_tls12_signature :: "string \<Rightarrow> string \<Rightarrow> signature_scheme \<times> string \<Rightarrow> string + unit" where
  "verify_tls12_signature message cert dss = Inr ()"

definition verify_tls13_signature :: "string \<Rightarrow> string \<Rightarrow> signature_scheme \<times> string \<Rightarrow> string + unit" where
  "verify_tls13_signature message cert dss = Inr ()"

definition supported_verify_schemes :: "signature_scheme list" where
  "supported_verify_schemes =
     [ECDSA_NISTP256_SHA256, ECDSA_NISTP384_SHA384, ECDSA_NISTP521_SHA512, ED25519,
      RSA_PSS_SHA256, RSA_PSS_SHA384, RSA_PSS_SHA512,
      RSA_PKCS1_SHA256, RSA_PKCS1_SHA384, RSA_PKCS1_SHA512]"

definition peer_verified :: "(string list \<Rightarrow> string \<Rightarrow> string list \<Rightarrow> string \<Rightarrow> string \<Rightarrow> nat \<Rightarrow> string + unit)
    \<Rightarrow> client_config \<Rightarrow> string \<Rightarrow> string list \<Rightarrow> string \<Rightarrow> string \<Rightarrow> nat \<Rightarrow> bool" where
  "peer_verified webpki cfg end_entity intermediates name ocsp now \<longleftrightarrow>
     is_ok (case cc_verification cfg of
        InsecureVerifier \<Rightarrow> verify_server_cert end_entity intermediates name ocsp now
      | RootCertificates anchors \<Rightarrow> webpki anchors end_entity intermediates name ocsp now)"

section \<open>What the validation accepts\<close>

lemma normalize_server_name_override_Inr:
  "normalize_server_name_override D raw = Inr name \<longleftrightarrow>
     (CHR ''['' \<notin> set raw \<and> CHR '']'' \<notin> set raw \<and> name = raw)
   \<or> (raw = ''['' @ name @ '']'' \<and> is_ipv6 name)"
proof (cases "strip_prefix ''['' raw")
  case None
  then have "\<nexists>r. raw = CHR ''['' # r" by (metis append_Cons append_Nil option.distinct(1) strip_prefix_Some_iff)
  with None show ?thesis by (auto simp: normalize_server_name_override_def)
next
  case (Some inner)
  then have "raw = CHR ''['' # inner" by (simp add: strip_prefix_Some_iff)
  then show ?thesis
  proof (cases "strip_suffix '']'' inner")
    case None
    then have "\<nexists>n. inner = n @ '']''" by (metis option.distinct(1) strip_suffix_Some_iff)
    with Some None \<open>raw = _\<close> show ?thesis by (auto simp: normalize_server_name_override_def)
  next
    case (Some inner')
    then have "inner = inner' @ '']''" by (simp add: strip_suffix_Some_iff)
    with \<open>raw = _\<close> have "raw = CHR ''['' # inner' @ '']''" by simp
    with Some \<open>strip_prefix _ _ = _\<close> show ?thesis
      by (auto simp: normalize_server_name_override_def)
  qed
qed

definition tls_options_ok :: "deps \<Rightarrow> tls_args \<Rightarrow> bool" where
  "tls_options_ok D tls \<longleftrightarrow>
     (\<forall>n. tls_server_name tls = Some n \<longrightarrow> is_ok (parse_server_name_override D n))
   \<and> (tls_cert tls = None \<longleftrightarrow> tls_key tls = None)
   \<and> \<not> (tls_insecure_skip_verify tls \<and> tls_ca tls \<noteq> None)
   \<and> Some [] \<notin> {tls_ca tls, tls_cert tls, tls_key tls}
   \<and> (feature_webpki D \<or> tls_insecure_skip_verify tls \<or> tls_ca tls \<noteq> None)"

lemma validate_tls_options_Inr:
  "validate_tls_options D tls = Inr () \<longleftrightarrow> tls_options_ok D tls"
proof -
  have p: "validate_optional_path f p = Inr () \<longleftrightarrow> p \<noteq> Some []" for f p
    by (cases p) (auto simp: validate_optional_path_def validation_simps)
  have f: "validate_tls_file_args tls = Inr () \<longleftrightarrow> Some [] \<notin> {tls_ca tls, tls_cert tls, tls_key tls}"
    by (auto simp: validate_tls_file_args_def bindR_Inr_iff p)
  have i: "validate_client_identity_args tls = Inr () \<longleftrightarrow> (tls_cert tls = None \<longleftrightarrow> tls_key tls = None)"
    by (auto simp: validate_client_identity_args_def split: option.splits)
  have t: "validate_trust_args tls = Inr () \<longleftrightarrow> \<not> (tls_insecure_skip_verify tls \<and> tls_ca tls \<noteq> None)"
    by (simp add: validate_trust_args_def)
  have r: "validate_tls_trust_available D tls = Inr () \<longleftrightarrow>
      feature_webpki D \<or> tls_insecure_skip_verify tls \<or> tls_ca tls \<noteq> None"
    by (simp add: validate_tls_trust_available_def validate_bundled_roots_available_def)
  have n: "(case tls_server_name tls of
        Some n \<Rightarrow> bindR (parse_server_name_override D n) (\<lambda>_. Inr ()) | None \<Rightarrow> Inr ()) = Inr ()
      \<longleftrightarrow> (\<forall>n. tls_server_name tls = Some n \<longrightarrow> is_ok (parse_server_name_override D n))"
    by (auto simp: is_ok_def bindR_Inr_iff split: option.splits sum.splits)
  show ?thesis
    by (simp add: validate_tls_options_def bindR_Inr_iff f i t r n tls_options_ok_def)
qed

lemma parse_server_name_override_Inl: "parse_server_name_override D n = Inl e \<Longrightarrow> is_invalid_config e"
  by (auto simp: parse_server_name_override_def normalize_server_name_override_def bindR_Inl_iff
      map_err_Inl_iff invalid_bracketed_server_name_def dest: validation_Inl split: option.splits if_splits)

lemma validate_tls_options_Inl: "validate_tls_options D tls = Inl e \<Longrightarrow> is_invalid_config e"
  by (auto simp: validate_tls_options_def validate_client_identity_args_def validate_trust_args_def
      validate_tls_file_args_def validate_optional_path_def validate_tls_trust_available_def
      validate_bundled_roots_available_def bindR_Inl_iff
      dest: validation_Inl parse_server_name_override_Inl split: option.splits if_splits)

section \<open>What is trusted\<close>

lemma add_certificates_Inr:
  "add_certificates add roots certs = Inr out \<longleftrightarrow>
     (\<exists>anchors. collectR add certs = Inr anchors \<and> out = roots @ anchors)"
  by (induction certs arbitrary: roots) (auto simp: bindR_Inr_iff)

text \<open>
  The specification of what the options ask for, without reference to how it is built: the
  certificates of a PEM file, the trust anchors (the bundled ones of the build, and after them one
  for every certificate of the CA file), the client's identity, and the configuration of both.
\<close>

definition certificates_in :: "tls_world \<Rightarrow> string \<Rightarrow> string list \<Rightarrow> bool" where
  "certificates_in w path certs \<longleftrightarrow>
     tls_metadata_is_file w path = Inr True
     \<and> (\<exists>content. tls_open w path = Inr content \<and> pem_certs w content = map Inr certs) \<and> certs \<noteq> []"

definition anchors_asked_for :: "deps \<Rightarrow> tls_world \<Rightarrow> string option \<Rightarrow> string list \<Rightarrow> bool" where
  "anchors_asked_for D w ca anchors \<longleftrightarrow>
     (\<exists>added. anchors = (if feature_webpki D then tls_server_roots w else []) @ added
        \<and> (case ca of
             None \<Rightarrow> added = []
           | Some path \<Rightarrow> \<exists>certs. certificates_in w path certs
               \<and> list_all2 (\<lambda>cert anchor. root_store_add w cert = Inr anchor) certs added))"

definition identity_asked_for :: "tls_world \<Rightarrow> tls_args \<Rightarrow> (string list \<times> string) option \<Rightarrow> bool" where
  "identity_asked_for w tls identity \<longleftrightarrow>
     (case (tls_cert tls, tls_key tls) of
        (None, None) \<Rightarrow> identity = None
      | (Some cert_path, Some key_path) \<Rightarrow>
          (\<exists>certs content key. certificates_in w cert_path certs
             \<and> tls_metadata_is_file w key_path = Inr True \<and> tls_open w key_path = Inr content
             \<and> pem_private_key w content = Inr (Some key)
             \<and> client_auth_cert w (certs, key) = Inr () \<and> identity = Some (certs, key))
      | _ \<Rightarrow> False)"

definition tls_config_asked_for :: "deps \<Rightarrow> tls_world \<Rightarrow> tls_args \<Rightarrow> client_config \<Rightarrow> bool" where
  "tls_config_asked_for D w tls cfg \<longleftrightarrow>
     tls_options_ok D tls \<and> identity_asked_for w tls (cc_client_auth cfg)
     \<and> (if tls_insecure_skip_verify tls then cc_verification cfg = InsecureVerifier
        else \<exists>anchors. cc_verification cfg = RootCertificates anchors
          \<and> anchors_asked_for D w (tls_ca tls) anchors)"

text \<open>The name that \<open>--server-name\<close> asks for: brackets are those of an IPv6 address.\<close>

definition server_name_asked_for :: "deps \<Rightarrow> string option \<Rightarrow> string option \<Rightarrow> bool" where
  "server_name_asked_for D given name \<longleftrightarrow>
     (case given of
        None \<Rightarrow> name = None
      | Some raw \<Rightarrow> raw \<noteq> []
          \<and> (\<exists>host n. (if \<exists>inner. raw = ''['' @ inner @ '']'' then raw = ''['' @ host @ '']'' \<and> is_ipv6 host
               else raw = host \<and> CHR ''['' \<notin> set raw \<and> CHR '']'' \<notin> set raw)
             \<and> server_name D host = Inr n \<and> name = Some n))"

lemma collectR_list_all2: "collectR f xs = Inr ys \<longleftrightarrow> list_all2 (\<lambda>x y. f x = Inr y) xs ys"
proof (induction xs arbitrary: ys)
  case (Cons x xs)
  then show ?case by (cases ys) (auto simp: bindR_Inr_iff list_all2_Cons1)
qed auto

lemma collectR_id: "collectR id xs = Inr ys \<longleftrightarrow> xs = map Inr ys"
  unfolding collectR_list_all2 by (auto simp: list_all2_conv_all_nth list_eq_iff_nth_eq)

lemma open_regular_pem_file_Inr:
  "open_regular_pem_file D w path label = Inr content \<longleftrightarrow>
     tls_metadata_is_file w path = Inr True \<and> tls_open w path = Inr content"
  by (auto simp: open_regular_pem_file_def bindR_Inr_iff map_err_Inr_iff)

lemma add_certificates_list_all2:
  "add_certificates add roots certs = Inr out \<longleftrightarrow>
     (\<exists>anchors. list_all2 (\<lambda>cert anchor. add cert = Inr anchor) certs anchors \<and> out = roots @ anchors)"
  unfolding add_certificates_Inr collectR_list_all2 ..

lemma load_root_store_Inr:
  "load_root_store D w path = Inr anchors \<longleftrightarrow> anchors_asked_for D w path anchors"
  by (auto simp: load_root_store_def anchors_asked_for_def certificates_in_def open_regular_pem_file_Inr
      Let_def bindR_Inr_iff map_err_Inr_iff add_certificates_list_all2 collectR_id
      split: option.splits if_splits)

lemma anchors_asked_for_nonempty:
  assumes "anchors_asked_for D w ca anchors" "feature_webpki D \<longrightarrow> tls_server_roots w \<noteq> []"
    and "feature_webpki D \<or> ca \<noteq> None"
  shows "anchors \<noteq> []"
  using assms by (auto simp: anchors_asked_for_def certificates_in_def dest: list_all2_lengthD split: option.splits)

lemma load_client_identity_Inr:
  "load_client_identity D w tls = Inr identity
     \<and> (\<forall>x. identity = Some x \<longrightarrow> client_auth_cert w x = Inr ()) \<longleftrightarrow> identity_asked_for w tls identity"
  by (auto simp: load_client_identity_def identity_asked_for_def certificates_in_def
      open_regular_pem_file_Inr bindR_Inr_iff map_err_Inr_iff ok_or_Inr_iff collectR_id
      split: option.splits)

lemma identity_asked_for_Some:
  "identity_asked_for w tls identity \<Longrightarrow> identity \<noteq> None \<longleftrightarrow> tls_cert tls \<noteq> None \<and> tls_key tls \<noteq> None"
  by (auto simp: identity_asked_for_def split: option.splits)

lemma parse_server_name_override_asked_for:
  "(case given of
      Some raw \<Rightarrow> bindR (parse_server_name_override D raw) (\<lambda>n. Inr (Some n)) | None \<Rightarrow> Inr None) = Inr name
   \<longleftrightarrow> server_name_asked_for D given name"
  by (auto simp: server_name_asked_for_def parse_server_name_override_def bindR_Inr_iff map_err_Inr_iff
      validation_simps normalize_server_name_override_Inr split: option.splits)

lemma with_client_auth_Inr:
  "with_client_auth w v identity = Inr cfg \<longleftrightarrow> cc_verification cfg = v \<and> cc_client_auth cfg = identity
     \<and> (\<forall>x. identity = Some x \<longrightarrow> client_auth_cert w x = Inr ())"
  by (cases cfg) (auto simp: with_client_auth_def bindR_Inr_iff map_err_Inr_iff split: option.splits)

text \<open>The configuration is built exactly when it can be as asked, and then is that.\<close>

lemma build_http_tls_config_Inr:
  "build_http_tls_config D w tls = Inr cfg \<longleftrightarrow> tls_config_asked_for D w tls cfg"
  using load_client_identity_Inr [of D w tls "cc_client_auth cfg"]
  by (auto simp: build_http_tls_config_def build_client_config_def tls_config_asked_for_def bindR_Inr_iff
      validate_tls_options_Inr with_client_auth_Inr load_root_store_Inr)

lemma open_regular_pem_file_Inl: "open_regular_pem_file D w p l = Inl e \<Longrightarrow> is_invalid_config e"
  by (auto simp: open_regular_pem_file_def bindR_Inl_iff map_err_Inl_iff split: if_splits)

lemma load_root_store_Inl: "load_root_store D w p = Inl e \<Longrightarrow> is_invalid_config e"
  by (auto simp: load_root_store_def Let_def bindR_Inl_iff map_err_Inl_iff
      dest: open_regular_pem_file_Inl split: option.splits if_splits)

lemma load_client_identity_Inl: "load_client_identity D w tls = Inl e \<Longrightarrow> is_invalid_config e"
  by (auto simp: load_client_identity_def bindR_Inl_iff map_err_Inl_iff ok_or_Inl_iff
      dest: open_regular_pem_file_Inl split: option.splits if_splits)

lemma build_http_tls_config_Inl: "build_http_tls_config D w tls = Inl e \<Longrightarrow> is_invalid_config e"
  by (auto simp: build_http_tls_config_def build_client_config_def with_client_auth_def bindR_Inl_iff
      map_err_Inl_iff dest: validate_tls_options_Inl load_client_identity_Inl load_root_store_Inl
      split: option.splits if_splits)

section \<open>Properties\<close>

text \<open>
  C38. The TLS options are accepted exactly when the server name (if any) is valid, the client
  certificate and key come together, a CA is not combined with skipped verification, no path
  is empty, and there is something to trust; every rejection is a configuration error.
\<close>

theorem tls_options_exact:
  "(validate_tls_options D tls = Inr () \<longleftrightarrow> tls_options_ok D tls)
   \<and> errs is_invalid_config (validate_tls_options D tls)
   \<and> errs is_invalid_config (build_http_tls_config D w tls)"
  using validate_tls_options_Inr validate_tls_options_Inl build_http_tls_config_Inl
  by (auto simp: errs_def)

text \<open>
  C18. A client configuration is built exactly when the options are consistent and the files give
  what they ask for, and then it is that: verification is switched off exactly when
  \<open>--insecure-skip-verify\<close> is given; otherwise the trust anchors are the bundled ones followed by
  one for every certificate of the CA file, there is at least one, and a server is accepted
  exactly when rustls verifies its certificate against them. The client's identity is the
  certificates and the key of the two files, exactly when both are given.
\<close>

theorem tls_config_trust:
  assumes "feature_webpki D \<longrightarrow> tls_server_roots w \<noteq> []"
  shows "(build_http_tls_config D w tls = Inr cfg \<longleftrightarrow> tls_config_asked_for D w tls cfg)
    \<and> (build_http_tls_config D w tls = Inr cfg \<longrightarrow>
         (cc_verification cfg = InsecureVerifier \<longleftrightarrow> tls_insecure_skip_verify tls)
       \<and> (\<not> tls_insecure_skip_verify tls \<longrightarrow> (\<exists>anchors. anchors \<noteq> []
            \<and> cc_verification cfg = RootCertificates anchors
            \<and> anchors_asked_for D w (tls_ca tls) anchors
            \<and> (\<forall>webpki e chain n ocsp now. peer_verified webpki cfg e chain n ocsp now \<longleftrightarrow>
                 webpki anchors e chain n ocsp now = Inr ())))
       \<and> (cc_client_auth cfg \<noteq> None \<longleftrightarrow> tls_cert tls \<noteq> None \<and> tls_key tls \<noteq> None))"
proof -
  have "\<exists>anchors. anchors \<noteq> [] \<and> cc_verification cfg = RootCertificates anchors
         \<and> anchors_asked_for D w (tls_ca tls) anchors
         \<and> (\<forall>webpki e chain n ocsp now. peer_verified webpki cfg e chain n ocsp now \<longleftrightarrow>
              webpki anchors e chain n ocsp now = Inr ())"
    if c: "tls_config_asked_for D w tls cfg" and n: "\<not> tls_insecure_skip_verify tls"
  proof -
    from c n obtain anchors where a: "cc_verification cfg = RootCertificates anchors"
      "anchors_asked_for D w (tls_ca tls) anchors" and "feature_webpki D \<or> tls_ca tls \<noteq> None"
      by (auto simp: tls_config_asked_for_def tls_options_ok_def)
    then have "anchors \<noteq> []" using anchors_asked_for_nonempty assms by blast
    with a show ?thesis by (auto simp: peer_verified_def is_ok_iff)
  qed
  moreover have "cc_verification cfg = InsecureVerifier \<longleftrightarrow> tls_insecure_skip_verify tls"
    "cc_client_auth cfg \<noteq> None \<longleftrightarrow> tls_cert tls \<noteq> None \<and> tls_key tls \<noteq> None"
    if "tls_config_asked_for D w tls cfg"
    using that identity_asked_for_Some [of w tls "cc_client_auth cfg"]
    by (simp_all add: tls_config_asked_for_def split: if_splits) auto
  ultimately show ?thesis unfolding build_http_tls_config_Inr by blast
qed

definition example_tls_args :: tls_args where
  "example_tls_args = \<lparr>tls_ca = Some ''ca.pem'', tls_cert = None, tls_key = None,
     tls_server_name = None, tls_insecure_skip_verify = False\<rparr>"

definition example_tls_world :: tls_world where
  "example_tls_world = \<lparr>tls_server_roots = [''root''], tls_metadata_is_file = (\<lambda>_. Inr True),
     tls_open = Inr, pem_certs = (\<lambda>c. [Inr c]), pem_private_key = (\<lambda>k. Inr (Some k)),
     root_store_add = Inr, client_auth_cert = (\<lambda>_. Inr ())\<rparr>"

theorem tls_config_trust_witness:
  "\<exists>cfg. build_http_tls_config example_deps example_tls_world example_tls_args = Inr cfg
    \<and> tls_config_asked_for example_deps example_tls_world example_tls_args cfg
    \<and> cc_verification cfg = RootCertificates [''root'', ''ca.pem'']"
proof -
  let ?c = "\<lparr>cc_verification = RootCertificates [''root'', ''ca.pem''], cc_client_auth = None\<rparr>"
  have b: "build_http_tls_config example_deps example_tls_world example_tls_args = Inr ?c"
    by code_simp
  have r: "feature_webpki example_deps \<longrightarrow> tls_server_roots example_tls_world \<noteq> []" by code_simp
  from tls_config_trust [OF r, of example_tls_args ?c] b show ?thesis by auto
qed

end
