(* ===== verification/Http_Url.thy ===== *)
theory Http_Url
  imports Probe Validation Authority Tls
begin

text \<open>
  The targets of \<open>probes/http.rs\<close>: the textual checks of URLs and socket paths made before
  hyper's parser sees them, the \<open>Host\<close> header, and the preparation of the two kinds of target.
\<close>

section \<open>Textual checks\<close>

definition validate_no_unescaped_uri_text :: "string \<Rightarrow> string \<Rightarrow> unit result" where
  "validate_no_unescaped_uri_text label raw =
     (if list_ex (\<lambda>ch. ch = byte backslash \<or> ch = byte dquote \<or> is_whitespace ch \<or> is_control ch)
           (str_chars raw) then
        Inl (InvalidConfig (label @ '' must not contain unescaped whitespace, control characters, ''
          @ ''backslashes, or quotes''))
      else if \<not> is_ascii raw then
        Inl (InvalidConfig (label @ '' must contain only ASCII URI characters; ''
          @ ''percent-encode non-ASCII text''))
      else Inr ())"

definition hex_at :: "string \<Rightarrow> nat \<Rightarrow> bool" where
  "hex_at bytes i \<longleftrightarrow> i < length bytes \<and> is_hexdigit (bytes ! i)"

text \<open>The loop of \<open>validate_percent_encoding\<close> on \<open>bytes[index..]\<close>.\<close>

function percent_loop :: "string \<Rightarrow> bool" where
  "percent_loop bytes =
     (case find_index (\<lambda>b. b = CHR ''%'') bytes of
        None \<Rightarrow> True
      | Some percent \<Rightarrow>
          if hex_at bytes (percent + 1) \<and> hex_at bytes (percent + 2)
          then percent_loop (drop (percent + 3) bytes) else False)"
  by pat_completeness auto
termination
  by (relation "measure length") (auto simp: hex_at_def)

declare percent_loop.simps [simp del]

definition validate_percent_encoding :: "string \<Rightarrow> string \<Rightarrow> unit result" where
  "validate_percent_encoding raw label =
     (if percent_loop raw then Inr ()
      else Inl (InvalidConfig (label @ '' contains invalid percent encoding'')))"

definition validate_raw_url_text :: "string \<Rightarrow> unit result" where
  "validate_raw_url_text raw_url =
     bindR (validate_non_empty_str ''--url'' raw_url) (\<lambda>_.
     bindR (validate_no_unescaped_uri_text ''--url'' raw_url) (\<lambda>_.
     validate_percent_encoding raw_url ''--url''))"

definition is_url_scheme :: "string \<Rightarrow> bool" where
  "is_url_scheme scheme =
     (case scheme of
        [] \<Rightarrow> False
      | first # bytes \<Rightarrow> is_alpha first
          \<and> list_all (\<lambda>b. is_alnum b \<or> b = CHR ''+'' \<or> b = CHR ''-'' \<or> b = CHR ''.'') bytes)"

definition raw_url_scheme :: "string \<Rightarrow> string option" where
  "raw_url_scheme raw_url =
     (case split_once (CHR '':'') raw_url of
        None \<Rightarrow> None
      | Some (scheme, _) \<Rightarrow> if is_url_scheme scheme then Some scheme else None)"

definition is_http_url_scheme :: "string \<Rightarrow> bool" where
  "is_http_url_scheme scheme \<longleftrightarrow>
     eq_ignore_ascii_case scheme ''http'' \<or> eq_ignore_ascii_case scheme ''https''"

definition canonical_http_scheme :: "string \<Rightarrow> string" where
  "canonical_http_scheme scheme =
     (if eq_ignore_ascii_case scheme ''https'' then ''https'' else ''http'')"

definition unsupported_url_scheme :: "string \<Rightarrow> app_error" where
  "unsupported_url_scheme scheme =
     InvalidConfig (''unsupported URL scheme '' @ ascii_lower scheme @ '', expected http or https'')"

definition raw_url_port :: "string \<Rightarrow> string option" where
  "raw_url_port authority =
     (case strip_prefix ''['' authority of
        Some rest \<Rightarrow>
          (case find_index (\<lambda>c. c = CHR '']'') rest of
             None \<Rightarrow> None
           | Some e \<Rightarrow> strip_prefix '':'' (drop (e + 1) rest))
      | None \<Rightarrow>
          (case split_once (CHR '':'') authority of Some (_, port) \<Rightarrow> Some port | None \<Rightarrow> None))"

definition invalid_url_port_range :: app_error where
  "invalid_url_port_range = InvalidConfig ''URL port must be between 1 and 65535''"

definition url_port_error :: "port_error \<Rightarrow> app_error" where
  "url_port_error error =
     (case error of
        OutOfRange \<Rightarrow> invalid_url_port_range
      | NotInteger \<Rightarrow> InvalidConfig ''URL port must be a valid integer'')"

definition raw_url_authority :: "string \<Rightarrow> string option" where
  "raw_url_authority raw_url =
     (case split_once (CHR '':'') raw_url of
        None \<Rightarrow> None
      | Some (_, rest) \<Rightarrow>
          (case strip_prefix ''//'' rest of
             None \<Rightarrow> None
           | Some rest \<Rightarrow>
               let e = (case find_index (\<lambda>c. c = CHR ''/'' \<or> c = CHR ''?'' \<or> c = CHR ''#'') rest of
                          Some e \<Rightarrow> e | None \<Rightarrow> length rest)
               in Some (take e rest)))"

definition validate_raw_http_url_authority :: "deps \<Rightarrow> string \<Rightarrow> unit result" where
  "validate_raw_http_url_authority D raw_url =
     bindR (ok_or (InvalidConfig ''URL must include // before the host'') (raw_url_authority raw_url))
       (\<lambda>authority.
     if authority = [] then Inl (InvalidConfig ''URL must contain a host'')
     else if CHR ''@'' \<in> set authority then
       Inl (InvalidConfig ''URL user info is not supported for security reasons'')
     else if is_unbracketed_ipv6_authority authority then
       Inl (InvalidConfig (''URL host uses an IPv6 address; '' @ IPV6_BRACKETS_REQUIRED))
     else if raw_host_is_empty authority then Inl (InvalidConfig ''URL must contain a host'')
     else
       bindR (case raw_url_port authority of
                Some port \<Rightarrow>
                  if port = [] then Inl invalid_url_port_range
                  else map_err url_port_error (bindR (validate_port port) (\<lambda>_. Inr ()))
              | None \<Rightarrow> Inr ()) (\<lambda>_.
       bindR (validate_authority D authority ''URL authority'' Optional Debug) (\<lambda>_. Inr ())))"

section \<open>Host headers and request URIs\<close>

definition validate_host_header :: "deps \<Rightarrow> string \<Rightarrow> unit result" where
  "validate_host_header D host =
     bindR (validate_authority D host ''Host header'' Optional Debug) (\<lambda>_.
     bindR (map_err (\<lambda>error. InvalidConfig (''invalid Host header '' @ debug_str (plain D) host
         @ '': '' @ error))
       (header_value D host)) (\<lambda>_. Inr ()))"

definition explicit_host_header :: "deps \<Rightarrow> string \<Rightarrow> string result" where
  "explicit_host_header D raw =
     bindR (validate_non_empty_str ''--host'' raw) (\<lambda>_.
     bindR (validate_host_header D raw) (\<lambda>_. Inr raw))"

definition default_host_header :: "deps \<Rightarrow> uri \<Rightarrow> string option \<Rightarrow> string \<Rightarrow> string result" where
  "default_host_header D u override_host scheme =
     (case override_host of
        Some host \<Rightarrow> explicit_host_header D host
      | None \<Rightarrow>
          bindR (ok_or (InvalidConfig (''URL '' @ uri_display D u @ '' does not contain a host''))
            (uri_authority u)) (\<lambda>authority.
          let host = auth_host authority;
              default_port = (if scheme = ''http'' then Some 80
                else if scheme = ''https'' then Some 443 else None);
              header = (case auth_port_u16 authority of
                  Some port \<Rightarrow>
                    if Some port \<noteq> default_port then host @ '':'' @ dec port else host
                | None \<Rightarrow> host)
          in bindR (validate_host_header D header) (\<lambda>_. Inr header)))"

definition absolute_uri :: "deps \<Rightarrow> uri \<Rightarrow> string \<Rightarrow> string \<Rightarrow> uri result" where
  "absolute_uri D u scheme authority =
     (let path_and_query = (case uri_path_and_query u of Some v \<Rightarrow> v | None \<Rightarrow> ''/'') in
      map_err (\<lambda>error. InvalidConfig (''invalid HTTP URI: '' @ error))
        (build_uri D scheme authority path_and_query))"

section \<open>Targets\<close>

record unix_socket_target =
  ut_sock :: string
  ut_host :: string
  ut_label :: string
  ut_request_uri :: uri

record url_target =
  url_label :: string
  url_request_uri :: uri
  url_connect_uri :: uri
  url_host :: string
  url_uses_tls :: bool

datatype http_target = Url url_target | UnixSocket unix_socket_target

fun target_request_uri :: "http_target \<Rightarrow> uri" where
  "target_request_uri (Url t) = url_request_uri t"
| "target_request_uri (UnixSocket t) = ut_request_uri t"

fun target_host :: "http_target \<Rightarrow> string" where
  "target_host (Url t) = url_host t"
| "target_host (UnixSocket t) = ut_host t"

definition has_http_tls_flags :: "tls_args \<Rightarrow> bool" where
  "has_http_tls_flags tls \<longleftrightarrow> tls_ca tls \<noteq> None \<or> tls_cert tls \<noteq> None \<or> tls_key tls \<noteq> None
     \<or> tls_server_name tls \<noteq> None \<or> tls_insecure_skip_verify tls"

definition validate_url_tls_args :: "deps \<Rightarrow> tls_args \<Rightarrow> bool \<Rightarrow> unit result" where
  "validate_url_tls_args D tls uses_tls =
     (if \<not> uses_tls \<and> has_http_tls_flags tls then
        Inl (InvalidConfig ''TLS flags may only be used with https URLs'')
      else if uses_tls then validate_tls_options D tls
      else Inr ())"

definition validate_http_target_args :: "http_args \<Rightarrow> unit result" where
  "validate_http_target_args args =
     bindR (case (http_url args, http_sock args) of
              (Some _, Some _) \<Rightarrow> Inl (InvalidConfig ''--url and --sock cannot be used together'')
            | (None, None) \<Rightarrow> Inl (InvalidConfig ''either --url or --sock must be provided'')
            | _ \<Rightarrow> Inr ()) (\<lambda>_.
     if http_sock args \<noteq> None then Inr ()
     else if http_path args \<noteq> None then
       Inl (InvalidConfig ''--path may only be used with --sock'')
     else Inr ())"

definition prepare_uds_request_uri :: "deps \<Rightarrow> string \<Rightarrow> uri result" where
  "prepare_uds_request_uri D path =
     (if \<not> starts_with ''/'' path then
        Inl (InvalidConfig ''HTTP UDS --path must start with /'')
      else
        bindR (validate_no_unescaped_uri_text ''HTTP UDS --path'' path) (\<lambda>_.
        bindR (validate_percent_encoding path ''HTTP UDS --path'') (\<lambda>_.
        if CHR ''#'' \<in> set path then
          Inl (InvalidConfig ''HTTP UDS --path must not contain a URL fragment'')
        else
          bindR (map_err (\<lambda>error. InvalidConfig (''invalid HTTP UDS --path: '' @ error))
            (parse_uri D path)) (\<lambda>u.
          if uri_scheme u \<noteq> None \<or> uri_authority u \<noteq> None then
            Inl (InvalidConfig ''HTTP UDS --path must be an origin-form path, not an absolute URI'')
          else if uri_path u = [] then
            Inl (InvalidConfig ''HTTP UDS --path must contain a path'')
          else Inr u))))"

definition prepare_unix_socket_target :: "deps \<Rightarrow> http_args \<Rightarrow> string \<Rightarrow> unix_socket_target result" where
  "prepare_unix_socket_target D args sock =
     (if \<not> target_unix D then
        Inl (InvalidConfig ''HTTP over Unix sockets is only supported on Unix platforms'')
      else
     bindR (validate_non_empty_path ''--sock'' sock) (\<lambda>_.
     bindR (ok_or (InvalidConfig ''--path is required with --sock'') (http_path args)) (\<lambda>path.
     bindR (prepare_uds_request_uri D path) (\<lambda>request_uri.
     if has_http_tls_flags (http_tls args) then
       Inl (InvalidConfig ''TLS flags are not supported with --sock'')
     else
       bindR (case http_host args of
                Some host \<Rightarrow> explicit_host_header D host
              | None \<Rightarrow> Inr ''localhost'') (\<lambda>host.
       Inr \<lparr>ut_sock = sock, ut_host = host,
            ut_label = ''unix:'' @ diag_path D sock @ path, ut_request_uri = request_uri\<rparr>)))))"

definition prepare_url_target :: "deps \<Rightarrow> http_args \<Rightarrow> string \<Rightarrow> url_target result" where
  "prepare_url_target D args raw_url =
     bindR (validate_raw_url_text raw_url) (\<lambda>_.
     bindR (ok_or (InvalidConfig ''URL scheme is required, expected http or https'')
       (raw_url_scheme raw_url)) (\<lambda>raw_scheme.
     if \<not> is_http_url_scheme raw_scheme then Inl (unsupported_url_scheme raw_scheme)
     else if CHR ''#'' \<in> set raw_url then
       Inl (InvalidConfig ''URL fragments are not supported in HTTP probes'')
     else
       bindR (validate_raw_http_url_authority D raw_url) (\<lambda>_.
       let scheme = canonical_http_scheme raw_scheme in
       bindR (map_err (\<lambda>error. InvalidConfig (''invalid URL '' @ raw_url @ '': '' @ error))
         (parse_uri D raw_url)) (\<lambda>u.
       bindR (ok_or (InvalidConfig ''URL must contain a host'') (uri_authority u)) (\<lambda>authority.
       if auth_host authority = [] then Inl (InvalidConfig ''URL must contain a host'')
       else
         bindR (default_host_header D u (http_host args) scheme) (\<lambda>host.
         bindR (absolute_uri D u scheme (auth_str authority)) (\<lambda>connect_uri.
         bindR (case http_host args of
                  Some _ \<Rightarrow> absolute_uri D u scheme host
                | None \<Rightarrow> Inr connect_uri) (\<lambda>request_uri.
         Inr \<lparr>url_label = raw_url, url_request_uri = request_uri, url_connect_uri = connect_uri,
              url_host = host, url_uses_tls = (scheme = ''https'')\<rparr>))))))))"

definition prepare_http_target :: "deps \<Rightarrow> http_args \<Rightarrow> http_target result" where
  "prepare_http_target D args =
     bindR (validate_http_target_args args) (\<lambda>_.
     case http_sock args of
       Some sock \<Rightarrow> bindR (prepare_unix_socket_target D args sock) (\<lambda>t. Inr (UnixSocket t))
     | None \<Rightarrow>
         bindR (ok_or (InvalidConfig ''--url is required when --sock is not set'') (http_url args))
           (\<lambda>raw_url.
         bindR (prepare_url_target D args raw_url) (\<lambda>target.
         bindR (validate_url_tls_args D (http_tls args) (url_uses_tls target)) (\<lambda>_.
         Inr (Url target)))))"

section \<open>Percent encoding\<close>

text \<open>The loop accepts exactly the texts in which every percent sign is followed by two digits.\<close>

definition percent_encoded :: "string \<Rightarrow> bool" where
  "percent_encoded s \<longleftrightarrow> (\<forall>i < length s. s ! i = CHR ''%'' \<longrightarrow> hex_at s (i + 1) \<and> hex_at s (i + 2))"

lemma percent_not_hex: "\<not> is_hexdigit (CHR ''%'')"
  by (simp add: char_class_defs byte_def)

lemma percent_encoded_drop: "percent_encoded s \<Longrightarrow> percent_encoded (drop n s)"
  unfolding percent_encoded_def
proof (intro allI impI)
  fix i assume a: "\<forall>i<length s. s ! i = CHR ''%'' \<longrightarrow> hex_at s (i + 1) \<and> hex_at s (i + 2)"
    and i: "i < length (drop n s)" "drop n s ! i = CHR ''%''"
  then have "n + i < length s" "s ! (n + i) = CHR ''%''" by auto
  with a have "hex_at s (n + i + 1) \<and> hex_at s (n + i + 2)" by blast
  then show "hex_at (drop n s) (i + 1) \<and> hex_at (drop n s) (i + 2)"
    by (auto simp: hex_at_def)
qed

lemma percent_loop_iff: "percent_loop s \<longleftrightarrow> percent_encoded s"
proof (induction s rule: percent_loop.induct)
  case (1 s)
  show ?case
  proof (cases "find_index (\<lambda>b. b = CHR ''%'') s")
    case None
    then have "CHR ''%'' \<notin> set s" by (auto simp: find_index_None_iff)
    then have "percent_encoded s" unfolding percent_encoded_def by (metis nth_mem)
    with None show ?thesis by (simp add: percent_loop.simps [of s])
  next
    case (Some p)
    have p: "p < length s" "s ! p = CHR ''%''" "\<forall>j<p. s ! j \<noteq> CHR ''%''"
      using find_index_Some [OF Some] by auto
    show ?thesis
    proof (cases "hex_at s (p + 1) \<and> hex_at s (p + 2)")
      case False
      with p have "\<not> percent_encoded s" by (auto simp: percent_encoded_def)
      with Some False show ?thesis by (auto simp: percent_loop.simps [of s])
    next
      case True
      have "percent_encoded (drop (p + 3) s) \<Longrightarrow> percent_encoded s"
        unfolding percent_encoded_def
      proof (intro allI impI)
        fix i assume a: "\<forall>i<length (drop (p + 3) s). drop (p + 3) s ! i = CHR ''%'' \<longrightarrow>
            hex_at (drop (p + 3) s) (i + 1) \<and> hex_at (drop (p + 3) s) (i + 2)"
          and i: "i < length s" "s ! i = CHR ''%''"
        from i p(3) have "p \<le> i" using linorder_not_less by blast
        moreover have "i \<noteq> p + 1" "i \<noteq> p + 2" using True i(2) percent_not_hex by (auto simp: hex_at_def)
        ultimately consider "i = p" | "p + 3 \<le> i" by linarith
        then show "hex_at s (i + 1) \<and> hex_at s (i + 2)"
        proof cases
          case 1
          with True show ?thesis by simp
        next
          case 2
          then obtain k where k: "i = p + 3 + k" using le_Suc_ex by blast
          with a i have "hex_at (drop (p + 3) s) (k + 1) \<and> hex_at (drop (p + 3) s) (k + 2)" by auto
          with k show ?thesis by (auto simp: hex_at_def add.assoc)
        qed
      qed
      with True Some 1 percent_encoded_drop [of s "p + 3"] show ?thesis
        by (auto simp: percent_loop.simps [of s])
    qed
  qed
qed

section \<open>The shape of a URL\<close>

lemma raw_url_port_eq: "raw_url_port = explicit_port"
  by (rule ext) (auto simp: raw_url_port_def explicit_port_def split: option.splits)

definition authority_end :: "string \<Rightarrow> bool" where
  "authority_end tail \<longleftrightarrow> tail = [] \<or> hd tail \<in> {CHR ''/'', CHR ''?'', CHR ''#''}"

lemma raw_url_authority_Some_iff:
  "raw_url_authority raw = Some a \<longleftrightarrow>
     (\<exists>scheme tail. CHR '':'' \<notin> set scheme \<and> raw = scheme @ ''://'' @ a @ tail
        \<and> set a \<inter> {CHR ''/'', CHR ''?'', CHR ''#''} = {} \<and> authority_end tail)"
  (is "?l \<longleftrightarrow> ?r")
proof
  let ?P = "\<lambda>c. c = CHR ''/'' \<or> c = CHR ''?'' \<or> c = CHR ''#''"
  assume ?l
  then obtain scheme r rest where s: "split_once (CHR '':'') raw = Some (scheme, r)"
    "strip_prefix ''//'' r = Some rest"
    and a: "a = take (case find_index ?P rest of Some e \<Rightarrow> e | None \<Rightarrow> length rest) rest"
    by (auto simp: raw_url_authority_def Let_def split: option.split_asm)
  have raw: "CHR '':'' \<notin> set scheme" "raw = scheme @ ''://'' @ rest"
    using s by (auto simp: split_once_Some_iff strip_prefix_Some_iff)
  let ?e = "case find_index ?P rest of Some e \<Rightarrow> e | None \<Rightarrow> length rest"
  have "set a \<inter> {CHR ''/'', CHR ''?'', CHR ''#''} = {} \<and> authority_end (drop ?e rest)"
  proof (cases "find_index ?P rest")
    case None
    then have "set rest \<inter> {CHR ''/'', CHR ''?'', CHR ''#''} = {}"
      unfolding find_index_None_iff by blast
    with a None show ?thesis by (simp add: authority_end_def)
  next
    case (Some e)
    have "hd (drop e rest) = rest ! e" using find_index_Some [OF Some] by (simp add: hd_drop_conv_nth)
    moreover have "set (take e rest) \<inter> {CHR ''/'', CHR ''?'', CHR ''#''} = {}"
      using find_index_Some_take [OF Some] by blast
    moreover have "rest ! e \<in> {CHR ''/'', CHR ''?'', CHR ''#''}" using find_index_Some [OF Some] by blast
    ultimately show ?thesis using Some a by (simp add: authority_end_def)
  qed
  moreover have "raw = scheme @ ''://'' @ a @ drop ?e rest" using raw(2) a by simp
  ultimately show ?r using raw(1) by blast
next
  let ?P = "\<lambda>c. c = CHR ''/'' \<or> c = CHR ''?'' \<or> c = CHR ''#''"
  assume ?r
  then obtain scheme tail where s: "CHR '':'' \<notin> set scheme" "raw = scheme @ ''://'' @ a @ tail"
    and a: "set a \<inter> {CHR ''/'', CHR ''?'', CHR ''#''} = {}" and t: "authority_end tail" by blast
  have f: "find_index ?P (a @ tail) = (if tail = [] then None else Some (length a))"
  proof -
    have t0: "find_index ?P tail = (if tail = [] then None else Some 0)"
      using t by (cases tail) (simp_all add: authority_end_def)
    have m: "\<forall>x \<in> set a. \<not> ?P x" using a by blast
    show ?thesis unfolding find_index_append [OF m] t0 by simp
  qed
  have "split_once (CHR '':'') raw = Some (scheme, ''//'' @ a @ tail)"
    using s by (simp add: split_once_Some_iff)
  moreover have "strip_prefix ''//'' (''//'' @ a @ tail) = Some (a @ tail)" by simp
  ultimately show ?l using f by (simp add: raw_url_authority_def Let_def)
qed

definition uri_text_ok :: "string \<Rightarrow> bool" where
  "uri_text_ok raw \<longleftrightarrow> is_ascii raw \<and> percent_encoded raw
     \<and> list_all (\<lambda>c. c \<noteq> backslash \<and> c \<noteq> dquote \<and> \<not> is_whitespace (byte c) \<and> \<not> is_control (byte c)) raw"

lemma validate_no_unescaped_uri_text_Inr:
  "validate_no_unescaped_uri_text label raw = Inr () \<longleftrightarrow> is_ascii raw
     \<and> list_all (\<lambda>c. c \<noteq> backslash \<and> c \<noteq> dquote \<and> \<not> is_whitespace (byte c) \<and> \<not> is_control (byte c)) raw"
proof (cases "is_ascii raw")
  case True
  have b: "byte c = byte d \<longleftrightarrow> c = d" for c d by (simp add: byte_def)
  have "list_ex (\<lambda>ch. ch = byte backslash \<or> ch = byte dquote \<or> is_whitespace ch \<or> is_control ch) (map byte raw)
      \<longleftrightarrow> \<not> list_all (\<lambda>c. c \<noteq> backslash \<and> c \<noteq> dquote \<and> \<not> is_whitespace (byte c) \<and> \<not> is_control (byte c)) raw"
    unfolding b list_ex_iff list_all_iff set_map bex_simps(7) by blast
  with True show ?thesis
    by (simp add: validate_no_unescaped_uri_text_def str_chars_ascii)
qed (simp add: validate_no_unescaped_uri_text_def)

lemma uri_text_checks:
  "validate_no_unescaped_uri_text label raw = Inr () \<and> validate_percent_encoding raw label' = Inr ()
     \<longleftrightarrow> uri_text_ok raw"
  by (auto simp: validate_no_unescaped_uri_text_Inr validate_percent_encoding_def percent_loop_iff
      uri_text_ok_def)

definition port_ok :: "string \<Rightarrow> bool" where
  "port_ok p \<longleftrightarrow> list_all is_digit p \<and> 1 \<le> digits_value p \<and> digits_value p \<le> 65535"

lemma validate_port_ok: "(\<exists>n. validate_port p = Inr n) \<Longrightarrow> port_ok p"
  by (auto simp: validate_port_Inr_iff port_ok_def)

lemma prepare_url_target_Inr:
  assumes "prepare_url_target D args raw = Inr t"
  shows "\<exists>scheme auth tail. raw = scheme @ ''://'' @ auth @ tail \<and> authority_end tail
      \<and> ascii_lower scheme = (if url_uses_tls t then ''https'' else ''http'')
      \<and> uri_text_ok raw \<and> CHR ''#'' \<notin> set raw \<and> auth \<noteq> []
      \<and> set auth \<inter> {CHR ''@'', CHR ''/'', CHR ''?'', CHR ''#''} = {}
      \<and> (\<forall>p. explicit_port auth = Some p \<longrightarrow> port_ok p)"
    and "\<exists>u a. parse_uri D raw = Inr u \<and> uri_authority u = Some a
      \<and> absolute_uri D u (if url_uses_tls t then ''https'' else ''http'') (auth_str a) = Inr (url_connect_uri t)
      \<and> default_host_header D u (http_host args) (if url_uses_tls t then ''https'' else ''http'')
          = Inr (url_host t)
      \<and> (case http_host args of None \<Rightarrow> url_request_uri t = url_connect_uri t
         | Some h \<Rightarrow> url_host t = h \<and>
             absolute_uri D u (if url_uses_tls t then ''https'' else ''http'') h = Inr (url_request_uri t))"
    and "url_label t = raw"
proof -
  let ?s = "if url_uses_tls t then ''https'' else ''http''"
  from assms obtain scheme u a h c q where raw_ok: "validate_raw_url_text raw = Inr ()"
    and scheme: "raw_url_scheme raw = Some scheme" "is_http_url_scheme scheme"
    and frag: "CHR ''#'' \<notin> set raw" and auth: "validate_raw_http_url_authority D raw = Inr ()"
    and u: "parse_uri D raw = Inr u" "uri_authority u = Some a"
    and hcq: "default_host_header D u (http_host args) (canonical_http_scheme scheme) = Inr h"
      "absolute_uri D u (canonical_http_scheme scheme) (auth_str a) = Inr c"
      "(case http_host args of Some _ \<Rightarrow> absolute_uri D u (canonical_http_scheme scheme) h
        | None \<Rightarrow> Inr c) = Inr q"
    and tt: "t = \<lparr>url_label = raw, url_request_uri = q, url_connect_uri = c, url_host = h,
        url_uses_tls = (canonical_http_scheme scheme = ''https'')\<rparr>"
    unfolding prepare_url_target_def Let_def bindR_Inr_iff ok_or_Inr_iff map_err_Inr_iff
    by (auto simp: bindR_Inr_iff ok_or_Inr_iff map_err_Inr_iff split: if_split_asm)
  have t: "default_host_header D u (http_host args) (canonical_http_scheme scheme) = Inr (url_host t)"
      "absolute_uri D u (canonical_http_scheme scheme) (auth_str a) = Inr (url_connect_uri t)"
      "(case http_host args of Some _ \<Rightarrow> absolute_uri D u (canonical_http_scheme scheme) (url_host t)
        | None \<Rightarrow> Inr (url_connect_uri t)) = Inr (url_request_uri t)"
      "url_label t = raw" "url_uses_tls t \<longleftrightarrow> canonical_http_scheme scheme = ''https''"
    using hcq by (simp_all add: tt split: option.splits)
  have cs: "canonical_http_scheme scheme = ?s"
    using t(5) by (auto simp: canonical_http_scheme_def split: if_splits)
  have lower: "ascii_lower ''http'' = ''http''" "ascii_lower ''https'' = ''https''" by code_simp+
  have sl: "ascii_lower scheme = ?s"
    using scheme(2) t(5) lower
    by (auto simp: is_http_url_scheme_def eq_ignore_ascii_case_def canonical_http_scheme_def split: if_splits)
  obtain rest where r: "CHR '':'' \<notin> set scheme" "raw = scheme @ '':'' @ rest"
    using scheme(1) by (auto simp: raw_url_scheme_def split_once_Some_iff split: option.split_asm if_split_asm)
  obtain auth where a1: "raw_url_authority raw = Some auth" and a2: "auth \<noteq> []" "CHR ''@'' \<notin> set auth"
    and a3: "\<exists>b. validate_authority D auth ''URL authority'' Optional Debug = Inr b"
    using auth by (auto simp: validate_raw_http_url_authority_def bindR_Inr_iff ok_or_Inr_iff split: if_splits)
  obtain scheme' tail where s: "CHR '':'' \<notin> set scheme'" "raw = scheme' @ ''://'' @ auth @ tail"
    "set auth \<inter> {CHR ''/'', CHR ''?'', CHR ''#''} = {}" "authority_end tail"
    using a1 unfolding raw_url_authority_Some_iff by blast
  have "split_once (CHR '':'') raw = Some (scheme', ''//'' @ auth @ tail)"
    using s by (simp add: split_once_Some_iff)
  moreover have "split_once (CHR '':'') raw = Some (scheme, rest)" using r by (simp add: split_once_Some_iff)
  ultimately have "scheme' = scheme" by simp
  moreover have "\<forall>p. explicit_port auth = Some p \<longrightarrow> port_ok p"
    using a3 validate_port_ok by (auto simp: validate_authority_Inr)
  moreover have "uri_text_ok raw"
    using raw_ok uri_text_checks by (auto simp: validate_raw_url_text_def bindR_Inr_iff)
  ultimately show "\<exists>scheme auth tail. raw = scheme @ ''://'' @ auth @ tail \<and> authority_end tail
      \<and> ascii_lower scheme = ?s \<and> uri_text_ok raw \<and> CHR ''#'' \<notin> set raw \<and> auth \<noteq> []
      \<and> set auth \<inter> {CHR ''@'', CHR ''/'', CHR ''?'', CHR ''#''} = {}
      \<and> (\<forall>p. explicit_port auth = Some p \<longrightarrow> port_ok p)"
    using s a2 sl frag by (intro exI [of _ scheme] exI [of _ auth] exI [of _ tail]) simp
  have "url_host t = h" if "http_host args = Some h" for h
    using t(1) that by (auto simp: default_host_header_def explicit_host_header_def bindR_Inr_iff)
  then have q: "case http_host args of None \<Rightarrow> url_request_uri t = url_connect_uri t
       | Some h \<Rightarrow> url_host t = h \<and> absolute_uri D u ?s h = Inr (url_request_uri t)"
    using t(3) unfolding cs by (cases "http_host args") simp_all
  from u t(1,2) q show "\<exists>u a. parse_uri D raw = Inr u \<and> uri_authority u = Some a
      \<and> absolute_uri D u ?s (auth_str a) = Inr (url_connect_uri t)
      \<and> default_host_header D u (http_host args) ?s = Inr (url_host t)
      \<and> (case http_host args of None \<Rightarrow> url_request_uri t = url_connect_uri t
         | Some h \<Rightarrow> url_host t = h \<and> absolute_uri D u ?s h = Inr (url_request_uri t))"
    unfolding cs by blast
  show "url_label t = raw" by (rule t(4))
qed

text \<open>The default port is left out of the \<open>Host\<close> header, any other port is written.\<close>

lemma default_host_header_Inr:
  assumes "default_host_header D u None scheme = Inr h" "scheme = ''http'' \<or> scheme = ''https''"
  shows "\<exists>a. uri_authority u = Some a \<and>
    h = (case auth_port_u16 a of None \<Rightarrow> auth_host a
         | Some p \<Rightarrow> if p = (if scheme = ''https'' then 443 else 80) then auth_host a
             else auth_host a @ '':'' @ dec p)"
  using assms
  by (auto simp: default_host_header_def bindR_Inr_iff ok_or_Inr_iff Let_def split: option.splits if_splits)

section \<open>Rejections\<close>

lemma validate_host_header_Inl: "validate_host_header D h = Inl e \<Longrightarrow> is_invalid_config e"
  by (auto simp: validate_host_header_def bindR_Inl_iff map_err_Inl_iff dest: validate_authority_Inl)

lemma explicit_host_header_Inl: "explicit_host_header D h = Inl e \<Longrightarrow> is_invalid_config e"
  by (auto simp: explicit_host_header_def bindR_Inl_iff dest: validate_host_header_Inl validation_Inl)

lemma default_host_header_Inl: "default_host_header D u h s = Inl e \<Longrightarrow> is_invalid_config e"
  by (auto simp: default_host_header_def Let_def bindR_Inl_iff ok_or_Inl_iff
      dest: validate_host_header_Inl explicit_host_header_Inl split: option.splits)

lemma uri_text_Inl:
  "validate_no_unescaped_uri_text l r = Inl e \<Longrightarrow> is_invalid_config e"
  "validate_percent_encoding r l = Inl e \<Longrightarrow> is_invalid_config e"
  by (auto simp: validate_no_unescaped_uri_text_def validate_percent_encoding_def split: if_splits)

lemma validate_raw_http_url_authority_Inl:
  "validate_raw_http_url_authority D raw = Inl e \<Longrightarrow> is_invalid_config e"
proof -
  have p: "is_invalid_config (url_port_error x)" for x
    by (cases x) (simp_all add: url_port_error_def invalid_url_port_range_def)
  show "validate_raw_http_url_authority D raw = Inl e \<Longrightarrow> is_invalid_config e"
    by (auto simp: validate_raw_http_url_authority_def bindR_Inl_iff ok_or_Inl_iff map_err_Inl_iff
        invalid_url_port_range_def p dest: validate_authority_Inl split: option.split_asm if_split_asm)
qed

lemma absolute_uri_Inl: "absolute_uri D u s a = Inl e \<Longrightarrow> is_invalid_config e"
  by (auto simp: absolute_uri_def Let_def map_err_Inl_iff)

lemma prepare_url_target_Inl: "prepare_url_target D args raw = Inl e \<Longrightarrow> is_invalid_config e"
proof -
  have a: "errs is_invalid_config (validate_raw_http_url_authority D raw)"
    "errs is_invalid_config (default_host_header D u h sc)" "errs is_invalid_config (absolute_uri D u sc au)"
    for u h sc au
    by (rule errsI, erule validate_raw_http_url_authority_Inl default_host_header_Inl absolute_uri_Inl)+
  have t: "errs is_invalid_config (validate_raw_url_text raw)"
    unfolding validate_raw_url_text_def
    by (rule errsI) (auto simp: bindR_Inl_iff dest: validation_Inl uri_text_Inl)
  have "errs is_invalid_config (prepare_url_target D args raw)"
    unfolding prepare_url_target_def Let_def by (intro errs_intros a t) (simp_all add: unsupported_url_scheme_def)
  then show "prepare_url_target D args raw = Inl e \<Longrightarrow> is_invalid_config e" by (rule errsD)
qed

lemma prepare_unix_socket_target_Inl:
  "prepare_unix_socket_target D args sock = Inl e \<Longrightarrow> is_invalid_config e"
proof -
  have a: "errs is_invalid_config (explicit_host_header D h)"
    "errs is_invalid_config (validate_non_empty_path f v)"
    "errs is_invalid_config (validate_no_unescaped_uri_text l r)"
    "errs is_invalid_config (validate_percent_encoding r l)" for h f v l r
    by (rule errsI, erule explicit_host_header_Inl validation_Inl uri_text_Inl)+
  have "errs is_invalid_config (prepare_unix_socket_target D args sock)"
    unfolding prepare_unix_socket_target_def prepare_uds_request_uri_def
    by (intro errs_intros a) simp_all
  then show "prepare_unix_socket_target D args sock = Inl e \<Longrightarrow> is_invalid_config e" by (rule errsD)
qed

lemma prepare_http_target_Inl: "prepare_http_target D args = Inl e \<Longrightarrow> is_invalid_config e"
  unfolding prepare_http_target_def validate_http_target_args_def validate_url_tls_args_def
  by (auto simp: bindR_Inl_iff ok_or_Inl_iff dest: prepare_url_target_Inl
      prepare_unix_socket_target_Inl validate_tls_options_Inl split: option.splits if_splits)

text \<open>Outside Unix every probe of a socket is a configuration error.\<close>

lemma sockets_need_unix:
  assumes "\<not> target_unix D" "http_sock args = Some sock"
  shows "\<exists>e. prepare_http_target D args = Inl e \<and> is_invalid_config e"
proof -
  have "prepare_http_target D args \<noteq> Inr t" for t
    using assms by (auto simp: prepare_http_target_def prepare_unix_socket_target_def bindR_Inr_iff)
  then show ?thesis
    using prepare_http_target_Inl by (cases "prepare_http_target D args") auto
qed

section \<open>Properties\<close>

text \<open>
  C36. The percent-encoding loop, which skips over each escape it has checked, accepts exactly
  the texts in which every percent sign is followed by two hexadecimal digits.
\<close>

theorem percent_encoding_exact:
  "validate_percent_encoding raw label = Inr () \<longleftrightarrow> percent_encoded raw"
  by (simp add: validate_percent_encoding_def percent_loop_iff)

text \<open>
  C26. An accepted URL is \<open>scheme://authority\<close> with an optional rest: the scheme is http or
  https in any case, the authority is not empty, has no user information and no bad port, the
  text is plain ASCII without blanks, controls, quotes, backslashes, fragments or bad percent
  encoding; TLS is used exactly for https.
\<close>

theorem accepted_url_shape:
  assumes "prepare_url_target D args raw = Inr t"
  shows "\<exists>scheme auth tail. raw = scheme @ ''://'' @ auth @ tail \<and> authority_end tail
      \<and> ascii_lower scheme = (if url_uses_tls t then ''https'' else ''http'')
      \<and> uri_text_ok raw \<and> CHR ''#'' \<notin> set raw \<and> auth \<noteq> []
      \<and> set auth \<inter> {CHR ''@'', CHR ''/'', CHR ''?'', CHR ''#''} = {}
      \<and> (\<forall>p. explicit_port auth = Some p \<longrightarrow> port_ok p)"
  by (rule prepare_url_target_Inr(1) [OF assms])

definition example_http_args :: http_args where
  "example_http_args = \<lparr>http_url = Some ''HTTPS://web.local:443/up?x=%41'', http_sock = None,
     http_path = None, http_method = '' get '', http_header = [''X-Probe: salus''],
     http_host = Some ''front.local'', http_status = [''200-204''], http_header_present = [],
     http_header_equals = [''x-up:1''], http_header_contains = [], http_header_not_contains = [],
     http_body_equals = None, http_contains = [''ok''], http_not_contains = [''error''],
     http_tls = \<lparr>tls_ca = None, tls_cert = None, tls_key = None, tls_server_name = None,
       tls_insecure_skip_verify = False\<rparr>,
     http_max_body = 16\<rparr>"

theorem accepted_url_shape_witness:
  "\<exists>t. prepare_url_target example_deps example_http_args ''HTTPS://web.local:443/up?x=%41'' = Inr t
    \<and> url_uses_tls t \<and> uri_text_ok ''HTTPS://web.local:443/up?x=%41''"
proof -
  have "is_ok (prepare_url_target example_deps example_http_args ''HTTPS://web.local:443/up?x=%41'')"
    by code_simp
  then obtain t where t: "prepare_url_target example_deps example_http_args
      ''HTTPS://web.local:443/up?x=%41'' = Inr t" by (auto simp: is_ok_def split: sum.splits)
  have "map_option url_uses_tls (case prepare_url_target example_deps example_http_args
      ''HTTPS://web.local:443/up?x=%41'' of Inr t \<Rightarrow> Some t | Inl _ \<Rightarrow> None) = Some True"
    by code_simp
  with t accepted_url_shape [OF t] show ?thesis by auto
qed

text \<open>
  C35. Without \<open>--host\<close> the \<open>Host\<close> header is the URL's host, with the port exactly when it is
  not the scheme's default, and the request goes to the URI that is connected to; with
  \<open>--host\<close> it is that value, and only the authority of the request's URI changes.
\<close>

theorem host_header_exact:
  assumes "prepare_url_target D args raw = Inr t"
  shows "\<exists>u a. parse_uri D raw = Inr u \<and> uri_authority u = Some a
    \<and> absolute_uri D u (if url_uses_tls t then ''https'' else ''http'') (auth_str a) = Inr (url_connect_uri t)
    \<and> (case http_host args of
         None \<Rightarrow> url_request_uri t = url_connect_uri t
           \<and> url_host t = (case auth_port_u16 a of
               Some p \<Rightarrow> if p = (if url_uses_tls t then 443 else 80) then auth_host a
                 else auth_host a @ '':'' @ dec p
             | None \<Rightarrow> auth_host a)
       | Some h \<Rightarrow> url_host t = h
           \<and> absolute_uri D u (if url_uses_tls t then ''https'' else ''http'') h = Inr (url_request_uri t))"
proof -
  let ?s = "if url_uses_tls t then ''https'' else ''http''"
  obtain u a where u: "parse_uri D raw = Inr u" "uri_authority u = Some a"
    "absolute_uri D u ?s (auth_str a) = Inr (url_connect_uri t)"
    "default_host_header D u (http_host args) ?s = Inr (url_host t)"
    "case http_host args of None \<Rightarrow> url_request_uri t = url_connect_uri t
     | Some h \<Rightarrow> url_host t = h \<and> absolute_uri D u ?s h = Inr (url_request_uri t)"
    using prepare_url_target_Inr(2) [OF assms] by blast
  show ?thesis
  proof (cases "http_host args")
    case None
    with u(4) have "default_host_header D u None ?s = Inr (url_host t)" by simp
    from default_host_header_Inr [OF this] u(2)
    have "url_host t = (case auth_port_u16 a of
        Some p \<Rightarrow> if p = (if url_uses_tls t then 443 else 80) then auth_host a
          else auth_host a @ '':'' @ dec p
      | None \<Rightarrow> auth_host a)"
      by (cases "url_uses_tls t") (auto split: option.split)
    with u None show ?thesis by (intro exI [of _ u] exI [of _ a]) simp
  next
    case (Some h)
    with u show ?thesis by (intro exI [of _ u] exI [of _ a]) simp
  qed
qed

theorem host_header_exact_witness:
  "\<exists>t. prepare_url_target example_deps (example_http_args\<lparr>http_host := None\<rparr>) ''http://web.local:8080/'' = Inr t
    \<and> url_host t = ''web.local:8080'' \<and> (\<exists>u. parse_uri example_deps ''http://web.local:8080/'' = Inr u)"
proof -
  let ?p = "prepare_url_target example_deps (example_http_args\<lparr>http_host := None\<rparr>) ''http://web.local:8080/''"
  have "map_option url_host (case ?p of Inr t \<Rightarrow> Some t | Inl _ \<Rightarrow> None) = Some ''web.local:8080''"
    by code_simp
  then obtain t where t: "?p = Inr t" and h: "url_host t = ''web.local:8080''"
    by (auto split: sum.split_asm)
  from host_header_exact [OF t] h t show ?thesis by blast
qed

end
