(* ===== verification/Http_Request.thy ===== *)
theory Http_Request
  imports Probe Validation Capture Authority
begin

text \<open>
  The request and the response line of \<open>probes/http.rs\<close>: methods, request headers, header
  assertions, status ranges, the request that is sent, and the assertions on the response
  headers. A \<open>HeaderName\<close> is its lower-case text, a \<open>HeaderMap\<close> the list of its entries.
\<close>

section \<open>Methods\<close>

datatype http_method = GET | HEAD

fun method_str :: "http_method \<Rightarrow> string" where
  "method_str GET = ''GET''"
| "method_str HEAD = ''HEAD''"

definition parse_method :: "deps \<Rightarrow> string \<Rightarrow> http_method result" where
  "parse_method D raw =
     (let method = ascii_upper (trim raw) in
      if method = ''GET'' then Inr GET
      else if method = ''HEAD'' then Inr HEAD
      else Inl (InvalidConfig (''unsupported HTTP method '' @ diag_value D method
        @ '', expected GET or HEAD'')))"

section \<open>Headers\<close>

definition parse_header_name :: "deps \<Rightarrow> string \<Rightarrow> string \<Rightarrow> string result" where
  "parse_header_name D raw label =
     (let name = trim raw in
      bindR (validate_non_empty_str label name) (\<lambda>_.
      map_err (\<lambda>error. InvalidConfig (''invalid '' @ label @ '' '' @ diag_value D name @ '': '' @ error))
        (header_name D name)))"

definition is_hop_by_hop_header :: "string \<Rightarrow> bool" where
  "is_hop_by_hop_header name \<longleftrightarrow>
     name = ''connection'' \<or> name = ''keep-alive'' \<or> name = ''proxy-authenticate''
     \<or> name = ''proxy-authorization'' \<or> name = ''proxy-connection'' \<or> name = ''te''
     \<or> name = ''trailer'' \<or> name = ''upgrade''"

definition parse_header :: "deps \<Rightarrow> string \<Rightarrow> (string \<times> string) result" where
  "parse_header D raw =
     bindR (ok_or (InvalidConfig (''invalid header '' @ debug_str (plain D) raw
         @ '', expected name:value'')) (split_once (CHR '':'') raw)) (\<lambda>(name, val).
     bindR (parse_header_name D name ''--header name'') (\<lambda>name.
     if name = ''host'' then
       Inl (InvalidConfig ''--header cannot set Host; use --host instead'')
     else if name = ''content-length'' \<or> name = ''transfer-encoding'' then
       Inl (InvalidConfig (''--header cannot set HTTP framing header '' @ name))
     else if is_hop_by_hop_header name then
       Inl (InvalidConfig (''--header cannot set HTTP hop-by-hop header '' @ name))
     else
       bindR (map_err (\<lambda>error. InvalidConfig (''invalid header value for '' @ name @ '': '' @ error))
         (header_value D (trim val))) (\<lambda>val.
       Inr (name, val))))"

definition parse_headers :: "deps \<Rightarrow> string list \<Rightarrow> (string \<times> string) list result" where
  "parse_headers D raw_headers = collectR (parse_header D) raw_headers"

definition parse_header_names :: "deps \<Rightarrow> string list \<Rightarrow> string list result" where
  "parse_header_names D raw_names =
     collectR (\<lambda>raw. parse_header_name D raw ''--header-present'') raw_names"

record header_assertion =
  ha_name :: string
  ha_value :: string

definition parse_header_assertion :: "deps \<Rightarrow> string \<Rightarrow> bool \<Rightarrow> string \<Rightarrow> header_assertion result" where
  "parse_header_assertion D flag allow_empty_value raw =
     bindR (ok_or (InvalidConfig (''invalid header assertion '' @ debug_str (plain D) raw
         @ '', expected name:value'')) (split_once (CHR '':'') raw)) (\<lambda>(name, val).
     bindR (parse_header_name D name (flag @ '' name'')) (\<lambda>name.
     let val = trim val in
     if \<not> allow_empty_value \<and> val = [] then
       Inl (InvalidConfig (flag @ '' value must not be empty''))
     else Inr \<lparr>ha_name = name, ha_value = val\<rparr>))"

definition parse_header_assertions ::
    "deps \<Rightarrow> string list \<Rightarrow> string \<Rightarrow> bool \<Rightarrow> header_assertion list result" where
  "parse_header_assertions D raw_assertions flag allow_empty_value =
     collectR (parse_header_assertion D flag allow_empty_value) raw_assertions"

section \<open>Status ranges\<close>

record status_range =
  sr_start :: nat
  sr_end :: nat

definition parse_status_code :: "deps \<Rightarrow> string \<Rightarrow> nat result" where
  "parse_status_code D raw =
     bindR (ok_or (InvalidConfig (''invalid status code '' @ diag_value D raw @ '', expected integer''))
       (parse_u16 raw)) (\<lambda>code.
     if \<not> (100 \<le> code \<and> code \<le> 599) then
       Inl (InvalidConfig (''invalid status code '' @ dec code @ '', expected 100..=599''))
     else Inr code)"

definition parse_status_range :: "deps \<Rightarrow> string \<Rightarrow> status_range result" where
  "parse_status_range D raw =
     (let trimmed = trim raw;
          single = bindR (parse_status_code D trimmed) (\<lambda>code. Inr \<lparr>sr_start = code, sr_end = code\<rparr>)
      in
      case split_once (CHR ''-'') trimmed of
        None \<Rightarrow> single
      | Some (start, end') \<Rightarrow>
          if trim start \<noteq> [] \<and> trim end' \<noteq> [] then
            bindR (parse_status_code D (trim start)) (\<lambda>start.
            bindR (parse_status_code D (trim end')) (\<lambda>end'.
            if start > end' then
              Inl (InvalidConfig (''invalid status range '' @ diag_value D raw
                @ '', start is greater than end''))
            else Inr \<lparr>sr_start = start, sr_end = end'\<rparr>))
          else single)"

definition parse_status_ranges :: "deps \<Rightarrow> string list \<Rightarrow> status_range list result" where
  "parse_status_ranges D raw_ranges =
     (if raw_ranges = [] then Inr [\<lparr>sr_start = 200, sr_end = 299\<rparr>]
      else collectR (parse_status_range D) raw_ranges)"

definition status_range_contains :: "status_range \<Rightarrow> nat \<Rightarrow> bool" where
  "status_range_contains r code \<longleftrightarrow> sr_start r \<le> code \<and> code \<le> sr_end r"

definition status_ranges_match :: "status_range list \<Rightarrow> nat \<Rightarrow> bool" where
  "status_ranges_match ranges code = list_ex (\<lambda>r. status_range_contains r code) ranges"

section \<open>The prepared arguments and the request\<close>

record header_assertions =
  hs_present :: "string list"
  hs_equals :: "header_assertion list"
  hs_contains :: "header_assertion list"
  hs_not_contains :: "header_assertion list"

record prepared_http_args =
  pa_method :: http_method
  pa_headers :: "(string \<times> string) list"
  pa_assertions :: header_assertions
  pa_status_ranges :: "status_range list"

definition prepared_from_args :: "deps \<Rightarrow> http_args \<Rightarrow> http_method \<Rightarrow> prepared_http_args result" where
  "prepared_from_args D args method =
     bindR (parse_headers D (http_header args)) (\<lambda>headers.
     bindR (parse_header_names D (http_header_present args)) (\<lambda>present.
     bindR (parse_header_assertions D (http_header_equals args) ''--header-equals'' True) (\<lambda>equals.
     bindR (parse_header_assertions D (http_header_contains args) ''--header-contains'' False) (\<lambda>contains.
     bindR (parse_header_assertions D (http_header_not_contains args) ''--header-not-contains'' False)
       (\<lambda>not_contains.
     bindR (parse_status_ranges D (http_status args)) (\<lambda>ranges.
     Inr \<lparr>pa_method = method, pa_headers = headers,
          pa_assertions = \<lparr>hs_present = present, hs_equals = equals, hs_contains = contains,
            hs_not_contains = not_contains\<rparr>,
          pa_status_ranges = ranges\<rparr>))))))"

definition USER_AGENT_VALUE :: string where
  "USER_AGENT_VALUE = ''salus/0.1.10''"

definition build_request :: "deps \<Rightarrow> uri \<Rightarrow> string \<Rightarrow> prepared_http_args \<Rightarrow> http_request result" where
  "build_request D u host prepared =
     (let headers = [(''host'', host)]
        @ (if \<not> list_ex (\<lambda>(name, _). name = ''user-agent'') (pa_headers prepared)
           then [(''user-agent'', USER_AGENT_VALUE)] else [])
        @ pa_headers prepared
      in map_err (\<lambda>error. InvalidConfig (''invalid HTTP request: '' @ error))
           (request_body D \<lparr>req_method = method_str (pa_method prepared), req_uri = u,
              req_headers = headers\<rparr>))"

section \<open>Assertions on the response headers\<close>

type_synonym header_map = "(string \<times> string) list"

definition get_all :: "header_map \<Rightarrow> string \<Rightarrow> string list" where
  "get_all headers name = map snd (filter (\<lambda>(n, _). n = name) headers)"

definition assert_header_present :: "header_map \<Rightarrow> string \<Rightarrow> string \<Rightarrow> unit result" where
  "assert_header_present headers target name =
     (if get_all headers name = [] then
        Inl (Failure (''response header '' @ name @ '' is missing from '' @ target))
      else Inr ())"

definition assert_header_equals ::
    "deps \<Rightarrow> header_map \<Rightarrow> string \<Rightarrow> header_assertion \<Rightarrow> unit result" where
  "assert_header_equals D headers target a =
     (if \<not> list_ex (\<lambda>v. v = ha_value a) (get_all headers (ha_name a)) then
        Inl (Failure (''response header '' @ ha_name a @ '' from '' @ target
          @ '' does not equal required value '' @ debug_str (plain D) (ha_value a)))
      else Inr ())"

definition assert_header_contains ::
    "deps \<Rightarrow> header_map \<Rightarrow> string \<Rightarrow> header_assertion \<Rightarrow> unit result" where
  "assert_header_contains D headers target a =
     (if \<not> list_ex (\<lambda>v. contains_bytes v (ha_value a)) (get_all headers (ha_name a)) then
        Inl (Failure (''response header '' @ ha_name a @ '' from '' @ target
          @ '' does not contain required text '' @ debug_str (plain D) (ha_value a)))
      else Inr ())"

definition assert_header_not_contains ::
    "deps \<Rightarrow> header_map \<Rightarrow> string \<Rightarrow> header_assertion \<Rightarrow> unit result" where
  "assert_header_not_contains D headers target a =
     (if list_ex (\<lambda>v. contains_bytes v (ha_value a)) (get_all headers (ha_name a)) then
        Inl (Failure (''response header '' @ ha_name a @ '' from '' @ target
          @ '' contains forbidden text '' @ debug_str (plain D) (ha_value a)))
      else Inr ())"

definition assert_response_headers ::
    "deps \<Rightarrow> header_map \<Rightarrow> header_assertions \<Rightarrow> string \<Rightarrow> unit result" where
  "assert_response_headers D headers assertions target =
     bindR (for_each (assert_header_present headers target) (hs_present assertions)) (\<lambda>_.
     bindR (for_each (assert_header_equals D headers target) (hs_equals assertions)) (\<lambda>_.
     bindR (for_each (assert_header_contains D headers target) (hs_contains assertions)) (\<lambda>_.
     for_each (assert_header_not_contains D headers target) (hs_not_contains assertions))))"

section \<open>Properties of the parsers\<close>

lemma parse_header_name_Inl: "parse_header_name D raw label = Inl e \<Longrightarrow> is_invalid_config e"
  by (auto simp: parse_header_name_def Let_def bindR_Inl_iff map_err_Inl_iff dest: validation_Inl)

definition reserved_header :: "string \<Rightarrow> bool" where
  "reserved_header name \<longleftrightarrow> name \<in> {''host'', ''content-length'', ''transfer-encoding''}
     \<or> is_hop_by_hop_header name"

lemma parse_header_Inr:
  "parse_header D raw = Inr (n, v) \<longleftrightarrow>
     (\<exists>name val. CHR '':'' \<notin> set name \<and> raw = name @ '':'' @ val \<and> trim name \<noteq> []
       \<and> header_name D (trim name) = Inr n \<and> \<not> reserved_header n \<and> header_value D (trim val) = Inr v)"
  unfolding parse_header_def parse_header_name_def Let_def reserved_header_def
  by (auto simp: bindR_Inr_iff map_err_Inr_iff ok_or_Inr_iff split_once_Some_iff validation_simps)

lemma parse_header_Inl: "parse_header D raw = Inl e \<Longrightarrow> is_invalid_config e"
proof -
  have n: "errs is_invalid_config (parse_header_name D raw label)" for raw label
    by (rule errsI) (rule parse_header_name_Inl)
  have "errs is_invalid_config (parse_header D raw)"
    unfolding parse_header_def by (intro errs_intros n) simp_all
  then show "parse_header D raw = Inl e \<Longrightarrow> is_invalid_config e" by (rule errsD)
qed

lemma parse_headers_not_reserved:
  "parse_headers D raws = Inr hs \<Longrightarrow> (n, v) \<in> set hs \<Longrightarrow> \<not> reserved_header n"
  unfolding parse_headers_def by (drule (1) collectR_Inr_elem) (auto simp: parse_header_Inr)

text \<open>
  The request as it is sent: one host, the caller's headers after the program's own, a user
  agent, and no framing or connection header.
\<close>

lemma build_request_headers:
  assumes "build_request D u host prepared = Inr r"
    and "\<forall>q r. request_body D q = Inr r \<longrightarrow> r = q"
    and "\<forall>n v. (n, v) \<in> set (pa_headers prepared) \<longrightarrow> \<not> reserved_header n"
  shows "req_uri r = u \<and> req_method r = method_str (pa_method prepared)
    \<and> filter (\<lambda>(n, _). reserved_header n) (req_headers r) = [(''host'', host)]
    \<and> (\<exists>v. (''user-agent'', v) \<in> set (req_headers r))
    \<and> (\<exists>own. req_headers r = own @ pa_headers prepared)"
proof -
  let ?ua = "if \<not> list_ex (\<lambda>(name, _). name = ''user-agent'') (pa_headers prepared)
    then [(''user-agent'', USER_AGENT_VALUE)] else []"
  from assms(1,2) have r: "r = \<lparr>req_method = method_str (pa_method prepared), req_uri = u,
      req_headers = [(''host'', host)] @ ?ua @ pa_headers prepared\<rparr>"
    unfolding build_request_def Let_def map_err_Inr_iff by blast
  have "filter (\<lambda>(n, _). reserved_header n) (pa_headers prepared) = []"
    using assms(3) by (auto simp: filter_empty_conv)
  moreover have "filter (\<lambda>(n, _). reserved_header n) ?ua = []"
    by (simp add: reserved_header_def is_hop_by_hop_header_def)
  moreover have "reserved_header ''host''" by (simp add: reserved_header_def)
  ultimately show ?thesis
    unfolding r by (auto simp: list_ex_iff)
qed

lemma parse_status_code_Inr:
  "parse_status_code D raw = Inr c \<longleftrightarrow> parse_u16 raw = Some c \<and> 100 \<le> c \<and> c \<le> 599"
  by (auto simp: parse_status_code_def bindR_Inr_iff ok_or_Inr_iff)

lemma parse_status_code_Inl: "parse_status_code D raw = Inl e \<Longrightarrow> is_invalid_config e"
  by (auto simp: parse_status_code_def bindR_Inl_iff ok_or_Inl_iff split: if_splits)

definition status_range_wf :: "status_range \<Rightarrow> bool" where
  "status_range_wf r \<longleftrightarrow> 100 \<le> sr_start r \<and> sr_start r \<le> sr_end r \<and> sr_end r \<le> 599"

lemma parse_status_range_wf: "parse_status_range D raw = Inr r \<Longrightarrow> status_range_wf r"
  by (auto simp: parse_status_range_def Let_def bindR_Inr_iff parse_status_code_Inr status_range_wf_def
      split: option.splits prod.splits if_splits)

lemma parse_status_range_Inl: "parse_status_range D raw = Inl e \<Longrightarrow> is_invalid_config e"
  by (auto simp: parse_status_range_def Let_def bindR_Inl_iff dest: parse_status_code_Inl
      split: option.splits prod.splits if_splits)

lemma parse_status_ranges_wf:
  "parse_status_ranges D raws = Inr rs \<Longrightarrow> rs \<noteq> [] \<and> list_all status_range_wf rs"
proof (cases "raws = []")
  case False
  assume "parse_status_ranges D raws = Inr rs"
  with False have c: "collectR (parse_status_range D) raws = Inr rs" by (simp add: parse_status_ranges_def)
  from collectR_Inr_length [OF c] False have "rs \<noteq> []" by auto
  with c show ?thesis
    by (auto simp: list_all_iff dest!: collectR_Inr_elem parse_status_range_wf)
qed (auto simp: parse_status_ranges_def status_range_wf_def)

text \<open>Only three-digit codes from 100 to 599 can match.\<close>

lemma status_ranges_match_bounds:
  "parse_status_ranges D raws = Inr rs \<Longrightarrow> status_ranges_match rs code \<Longrightarrow> 100 \<le> code \<and> code \<le> 599"
  by (fastforce dest!: parse_status_ranges_wf
      simp: status_ranges_match_def list_ex_iff list_all_iff status_range_wf_def status_range_contains_def)

section \<open>Status ranges round trip\<close>

definition render_status_range :: "status_range \<Rightarrow> string" where
  "render_status_range r = (if sr_start r = sr_end r then dec (sr_start r)
     else dec (sr_start r) @ ''-'' @ dec (sr_end r))"

lemma trim_plain:
  assumes "list_all (\<lambda>c. 0x20 < byte c \<and> byte c < 0x80) s"
  shows "trim s = s"
proof -
  have a: "is_ascii s" using assms by (auto simp: is_ascii_def list_all_iff)
  have w: "\<not> is_whitespace (byte c)" if "c \<in> set s" for c
    using assms that by (auto simp: list_all_iff is_whitespace_def)
  have d: "dropWhile item_whitespace (map (\<lambda>c. Scalar (byte c) [c]) t) = map (\<lambda>c. Scalar (byte c) [c]) t"
    if "set t \<subseteq> set s" for t
    using that w by (cases t) auto
  have "concat (map item_bytes (map (\<lambda>c. Scalar (byte c) [c]) s)) = s" by (induction s) simp_all
  with d [of s] d [of "rev s"] show ?thesis
    by (simp add: trim_def utf8_items_ascii [OF a] rev_map)
qed

lemma digits_plain: "list_all (\<lambda>c. 0x20 < byte c \<and> byte c < 0x80) (dec n)"
  using dec_digits [of n] by (auto simp: list_all_iff is_digit_def)

lemma parse_status_code_dec: "100 \<le> n \<Longrightarrow> n \<le> 599 \<Longrightarrow> parse_status_code D (dec n) = Inr n"
  by (simp add: parse_status_code_Inr parse_u16_dec)

lemma parse_render_status_range:
  assumes "status_range_wf r"
  shows "parse_status_range D (render_status_range r) = Inr r"
proof -
  have nd: "CHR ''-'' \<notin> set (dec n)" for n
    using dec_digits [of n] by (auto simp: list_all_iff is_digit_def byte_def)
  have b: "(0x20::nat) < byte (CHR ''-'')" "byte (CHR ''-'') < 0x80" by (simp_all add: byte_def)
  note plain = trim_plain [OF digits_plain]
  show ?thesis
  proof (cases "sr_start r = sr_end r")
    case True
    have "split_once (CHR ''-'') (dec n) = None" for n using nd [of n] by (simp add: split_once_None_iff)
    moreover from True have "\<lparr>sr_start = sr_end r, sr_end = sr_end r\<rparr> = r" by (cases r) simp
    ultimately show ?thesis
      using True assms
      by (simp add: parse_status_range_def render_status_range_def plain parse_status_code_dec
          status_range_wf_def)
  next
    case False
    let ?s = "dec (sr_start r) @ ''-'' @ dec (sr_end r)"
    have t: "trim ?s = ?s" by (rule trim_plain) (use digits_plain b in simp)
    have "split_once (CHR ''-'') ?s = Some (dec (sr_start r), dec (sr_end r))"
      using nd by (simp add: split_once_Some_iff)
    with False t assms show ?thesis
      by (simp add: parse_status_range_def render_status_range_def plain dec_nonempty
          parse_status_code_dec status_range_wf_def)
  qed
qed

lemma parse_render_status_ranges:
  assumes "rs \<noteq> []" "list_all status_range_wf rs"
  shows "parse_status_ranges D (map render_status_range rs) = Inr rs"
proof -
  have "collectR (parse_status_range D) (map render_status_range rs) = Inr rs"
    using assms(2) by (induction rs) (simp_all add: parse_render_status_range)
  with assms(1) show ?thesis by (simp add: parse_status_ranges_def)
qed

section \<open>Header assertions\<close>

definition headers_satisfy :: "header_map \<Rightarrow> header_assertions \<Rightarrow> bool" where
  "headers_satisfy headers hs \<longleftrightarrow>
     (\<forall>n \<in> set (hs_present hs). \<exists>v. (n, v) \<in> set headers)
     \<and> (\<forall>a \<in> set (hs_equals hs). (ha_name a, ha_value a) \<in> set headers)
     \<and> (\<forall>a \<in> set (hs_contains hs). \<exists>v. (ha_name a, v) \<in> set headers \<and> sublist (ha_value a) v)
     \<and> (\<forall>a \<in> set (hs_not_contains hs). \<forall>v. (ha_name a, v) \<in> set headers \<longrightarrow> \<not> sublist (ha_value a) v)"

lemma get_all_mem: "v \<in> set (get_all headers n) \<longleftrightarrow> (n, v) \<in> set headers"
  by (force simp: get_all_def)

lemma get_all_Nil: "get_all headers n = [] \<longleftrightarrow> (\<nexists>v. (n, v) \<in> set headers)"
  using get_all_mem [of _ headers n] by (cases "get_all headers n") (force, auto)

lemma assert_response_headers_Inr:
  "assert_response_headers D headers hs target = Inr () \<longleftrightarrow> headers_satisfy headers hs"
proof -
  have p: "assert_header_present headers target n = Inr () \<longleftrightarrow> (\<exists>v. (n, v) \<in> set headers)" for n
    by (simp add: assert_header_present_def get_all_Nil)
  have e: "assert_header_equals D headers target a = Inr () \<longleftrightarrow> (ha_name a, ha_value a) \<in> set headers" for a
    by (auto simp: assert_header_equals_def list_ex_iff get_all_mem)
  have c: "assert_header_contains D headers target a = Inr () \<longleftrightarrow>
      (\<exists>v. (ha_name a, v) \<in> set headers \<and> sublist (ha_value a) v)" for a
    by (auto simp: assert_header_contains_def list_ex_iff get_all_mem contains_bytes_iff)
  have n: "assert_header_not_contains D headers target a = Inr () \<longleftrightarrow>
      (\<forall>v. (ha_name a, v) \<in> set headers \<longrightarrow> \<not> sublist (ha_value a) v)" for a
    by (auto simp: assert_header_not_contains_def list_ex_iff get_all_mem contains_bytes_iff)
  show ?thesis
    by (simp add: assert_response_headers_def bindR_Inr_iff for_each_Inr_iff p e c n headers_satisfy_def)
qed

lemma assert_response_headers_Inl:
  "assert_response_headers D headers hs target = Inl e \<Longrightarrow> is_failure e"
  by (auto simp: assert_response_headers_def bindR_Inl_iff assert_header_present_def
      assert_header_equals_def assert_header_contains_def assert_header_not_contains_def
      dest!: for_each_Inl_dest split: if_splits)

lemma prepared_from_args_Inl: "prepared_from_args D args m = Inl e \<Longrightarrow> is_invalid_config e"
proof -
  have a: "parse_header_assertions D raws flag b = Inl e \<Longrightarrow> is_invalid_config e" for raws flag b
    unfolding parse_header_assertions_def
    by (drule collectR_Inl_dest)
      (auto simp: parse_header_assertion_def Let_def bindR_Inl_iff ok_or_Inl_iff
        dest: parse_header_name_Inl split: prod.splits if_splits)
  have h: "parse_headers D raws = Inl e \<Longrightarrow> is_invalid_config e" for raws
    unfolding parse_headers_def by (drule collectR_Inl_dest) (auto dest: parse_header_Inl)
  have n: "parse_header_names D raws = Inl e \<Longrightarrow> is_invalid_config e" for raws
    unfolding parse_header_names_def by (drule collectR_Inl_dest) (auto dest: parse_header_name_Inl)
  have s: "parse_status_ranges D raws = Inl e \<Longrightarrow> is_invalid_config e" for raws
    unfolding parse_status_ranges_def
    by (auto split: if_splits dest!: collectR_Inl_dest dest: parse_status_range_Inl)
  show "prepared_from_args D args m = Inl e \<Longrightarrow> is_invalid_config e"
    by (auto simp: prepared_from_args_def bindR_Inl_iff dest: a h n s)
qed

section \<open>Properties\<close>

text \<open>
  C28. Status ranges round trip: every non-empty list of ranges between 100 and 599, written as
  \<open>a\<close> or \<open>a-b\<close>, is parsed back to itself.
\<close>

theorem status_ranges_roundtrip:
  assumes "ranges \<noteq> []" "list_all status_range_wf ranges"
  shows "parse_status_ranges D (map render_status_range ranges) = Inr ranges"
  using assms by (rule parse_render_status_ranges)

theorem status_ranges_roundtrip_witness:
  "parse_status_ranges example_deps (map render_status_range
     [\<lparr>sr_start = 200, sr_end = 204\<rparr>, \<lparr>sr_start = 301, sr_end = 301\<rparr>])
   = Inr [\<lparr>sr_start = 200, sr_end = 204\<rparr>, \<lparr>sr_start = 301, sr_end = 301\<rparr>]"
  by (rule status_ranges_roundtrip) (simp_all add: status_range_wf_def)

text \<open>
  C39. The response headers are accepted exactly when every required name is there, every
  required value is there, every required text occurs in some value of its header and no
  forbidden text occurs in any; repeated headers are all looked at.
\<close>

theorem header_assertions_exact:
  "assert_response_headers D headers assertions target = Inr () \<longleftrightarrow> headers_satisfy headers assertions"
  by (rule assert_response_headers_Inr)

end
