(* ===== verification/Http_Body.thy ===== *)
theory Http_Body
  imports Probe Capture
begin

text \<open>
  The response body of \<open>probes/http.rs\<close>: the streaming read with its early exits
  (\<open>read_body\<close>, \<open>wait_for_body_eof_after_limit\<close>) and the assertions on what was kept
  (\<open>assert_response_body\<close>). A body is what hyper reports of its size and the frames it
  delivers; the end of the list is the end of the body. \<open>grace\<close> is the number of frames that
  arrive before the grace timer fires, \<open>None\<close> when the timer never wins the race.
\<close>

section \<open>Bodies\<close>

datatype frame_event = Data string | Trailers | FrameError string

record http_body =
  hint_exact :: "nat option"
  hint_upper :: "nat option"
  body_frames :: "frame_event list"
  body_grace :: "nat option"

fun frame_data :: "frame_event \<Rightarrow> string" where
  "frame_data (Data d) = d"
| "frame_data _ = []"

definition frames_data :: "frame_event list \<Rightarrow> string" where
  "frames_data evs = concat (map frame_data evs)"

fun frame_ok :: "frame_event \<Rightarrow> bool" where
  "frame_ok (FrameError _) = False"
| "frame_ok _ = True"

definition frames_ok :: "frame_event list \<Rightarrow> bool" where
  "frames_ok evs \<longleftrightarrow> list_all frame_ok evs"

definition body_read_error :: "string \<Rightarrow> app_error" where
  "body_read_error error = Failure (''failed reading HTTP body: '' @ error)"

section \<open>Reading\<close>

record buffered_body =
  bb_content :: capture_buffer
  bb_exact_match_impossible :: bool

definition has_body_assertions :: "http_args \<Rightarrow> bool" where
  "has_body_assertions args \<longleftrightarrow>
     http_body_equals args \<noteq> None \<or> http_contains args \<noteq> [] \<or> http_not_contains args \<noteq> []"

definition body_assertion_is_decided ::
    "bool \<Rightarrow> text_matcher \<Rightarrow> text_matcher \<Rightarrow> http_args \<Rightarrow> bool" where
  "body_assertion_is_decided exact_match_impossible contains_matcher not_contains_matcher args =
     (if http_body_equals args \<noteq> None \<and> exact_match_impossible then True
      else if http_not_contains args \<noteq> [] \<and> any_matched not_contains_matcher then True
      else http_body_equals args = None \<and> http_not_contains args = [] \<and> http_contains args \<noteq> []
        \<and> all_matched contains_matcher)"

datatype body_limit_wait = Complete | StillOpen | MoreBody

fun wait_for_body_eof_after_limit :: "nat option \<Rightarrow> frame_event list \<Rightarrow> body_limit_wait result" where
  "wait_for_body_eof_after_limit grace [] =
     (if grace = Some 0 then Inr StillOpen else Inr Complete)"
| "wait_for_body_eof_after_limit grace (frame # evs) =
     (if grace = Some 0 then Inr StillOpen
      else
        (case frame of
           FrameError error \<Rightarrow> Inl (body_read_error error)
         | Data data \<Rightarrow>
             if data \<noteq> [] then Inr MoreBody
             else wait_for_body_eof_after_limit (map_option (\<lambda>k. k - 1) grace) evs
         | Trailers \<Rightarrow> wait_for_body_eof_after_limit (map_option (\<lambda>k. k - 1) grace) evs))"

text \<open>\<open>slice::get(a..b)\<close>\<close>

definition get_range :: "'a list \<Rightarrow> nat \<Rightarrow> nat \<Rightarrow> 'a list option" where
  "get_range xs a b = (if a \<le> b \<and> b \<le> length xs then Some (take (b - a) (drop a xs)) else None)"

text \<open>The variables of the loop of \<open>read_body\<close>.\<close>

record body_state =
  bs_content :: capture_buffer
  bs_contains :: text_matcher
  bs_not_contains :: text_matcher
  bs_exact_match_impossible :: bool

text \<open>The first half of the loop body: append the frame's data and update what is known.\<close>

definition absorb_data :: "http_args \<Rightarrow> nat \<Rightarrow> body_state \<Rightarrow> string \<Rightarrow> body_state" where
  "absorb_data args limit s data =
     (let (content, previous_len) = append_limited (bs_content s) data limit;
          impossible =
            (case http_body_equals args of
               Some expected \<Rightarrow>
                 let appended = drop previous_len (cb_bytes content);
                     expected_appended = get_range expected previous_len (length (cb_bytes content))
                 in if expected_appended \<noteq> Some appended then True else bs_exact_match_impossible s
             | None \<Rightarrow> bs_exact_match_impossible s)
      in \<lparr>bs_content = content,
          bs_contains = observe_appended (bs_contains s) (cb_bytes content) previous_len,
          bs_not_contains = observe_appended (bs_not_contains s) (cb_bytes content) previous_len,
          bs_exact_match_impossible = impossible\<rparr>)"

definition finish_body :: "body_state \<Rightarrow> buffered_body" where
  "finish_body s = \<lparr>bb_content = bs_content s,
     bb_exact_match_impossible = bs_exact_match_impossible s\<rparr>"

definition mark_body_incomplete :: "body_state \<Rightarrow> body_state" where
  "mark_body_incomplete s = s\<lparr>bs_content := mark_incomplete (bs_content s)\<rparr>"

fun read_body_loop :: "http_args \<Rightarrow> nat \<Rightarrow> nat option \<Rightarrow> nat option \<Rightarrow> body_state
    \<Rightarrow> frame_event list \<Rightarrow> buffered_body result" where
  "read_body_loop args limit upper grace s [] = Inr (finish_body s)"
| "read_body_loop args limit upper grace s (FrameError error # evs) = Inl (body_read_error error)"
| "read_body_loop args limit upper grace s (Trailers # evs) =
     read_body_loop args limit upper grace s evs"
| "read_body_loop args limit upper grace s (Data data # evs) =
     (let declared_body_exceeds_limit = (case upper of Some u \<Rightarrow> u > limit | None \<Rightarrow> False);
          body_may_exceed_limit = (case upper of Some u \<Rightarrow> u > limit | None \<Rightarrow> True);
          s = absorb_data args limit s data;
          content = bs_content s
      in if body_assertion_is_decided (bs_exact_match_impossible s) (bs_contains s)
              (bs_not_contains s) args
         then Inr (finish_body s)
         else if cb_incomplete content
              \<or> (declared_body_exceeds_limit \<and> length (cb_bytes content) = limit)
         then Inr (finish_body (if \<not> cb_incomplete content then mark_body_incomplete s else s))
         else if length (cb_bytes content) = limit \<and> body_may_exceed_limit
         then bindR (wait_for_body_eof_after_limit grace evs) (\<lambda>wait.
                Inr (finish_body (if wait \<noteq> Complete then mark_body_incomplete s else s)))
         else read_body_loop args limit upper grace s evs)"

definition read_body :: "http_body \<Rightarrow> nat \<Rightarrow> http_args \<Rightarrow> buffered_body result" where
  "read_body body limit args =
     (let content = capture_default;
          contains_matcher = text_matcher_new (http_contains args);
          not_contains_matcher = text_matcher_new (http_not_contains args);
          exact_match_impossible =
            (case http_body_equals args of
               Some expected \<Rightarrow>
                 (case hint_exact body of Some body_len \<Rightarrow> body_len \<noteq> length expected | None \<Rightarrow> False)
             | None \<Rightarrow> False)
      in if exact_match_impossible then
           Inr \<lparr>bb_content = content, bb_exact_match_impossible = exact_match_impossible\<rparr>
         else
           read_body_loop args limit (hint_upper body) (body_grace body)
             \<lparr>bs_content = content, bs_contains = contains_matcher,
              bs_not_contains = not_contains_matcher,
              bs_exact_match_impossible = exact_match_impossible\<rparr> (body_frames body))"

section \<open>Assertions\<close>

definition truncated_exact_error :: "http_args \<Rightarrow> string \<Rightarrow> app_error" where
  "truncated_exact_error args target =
     Failure (''response body from '' @ target @ '' was truncated at '' @ dec (http_max_body args)
       @ '' bytes, cannot prove exact body match'')"

definition assert_body_equals :: "deps \<Rightarrow> buffered_body \<Rightarrow> http_args \<Rightarrow> string \<Rightarrow> unit result" where
  "assert_body_equals D body args target =
     (let body_bytes = cb_bytes (bb_content body);
          body_incomplete = cb_incomplete (bb_content body)
      in case http_body_equals args of
           None \<Rightarrow> Inr ()
         | Some expected \<Rightarrow>
             if bb_exact_match_impossible body \<or> body_bytes \<noteq> expected then
               if body_incomplete \<and> starts_with body_bytes expected then
                 Inl (truncated_exact_error args target)
               else
                 Inl (Failure (''response body from '' @ target
                   @ '' does not equal required text '' @ debug_str (plain D) expected))
             else if body_incomplete then Inl (truncated_exact_error args target)
             else Inr ())"

definition assert_body_contains ::
    "deps \<Rightarrow> buffered_body \<Rightarrow> http_args \<Rightarrow> string \<Rightarrow> string \<Rightarrow> unit result" where
  "assert_body_contains D body args target needle =
     (if \<not> contains_bytes (cb_bytes (bb_content body)) needle then
        if cb_incomplete (bb_content body) then
          Inl (Failure (''response body from '' @ target @ '' was truncated at ''
            @ dec (http_max_body args) @ '' bytes, cannot prove required text ''
            @ debug_str (plain D) needle))
        else
          Inl (Failure (''response body from '' @ target @ '' does not contain required text ''
            @ debug_str (plain D) needle))
      else Inr ())"

definition assert_body_not_contains ::
    "deps \<Rightarrow> buffered_body \<Rightarrow> string \<Rightarrow> string \<Rightarrow> unit result" where
  "assert_body_not_contains D body target needle =
     (if contains_bytes (cb_bytes (bb_content body)) needle then
        Inl (Failure (''response body from '' @ target @ '' contains forbidden text ''
          @ debug_str (plain D) needle))
      else Inr ())"

definition assert_response_body :: "deps \<Rightarrow> buffered_body \<Rightarrow> http_args \<Rightarrow> string \<Rightarrow> unit result" where
  "assert_response_body D body args target =
     bindR (assert_body_equals D body args target) (\<lambda>_.
     bindR (for_each (assert_body_contains D body args target) (http_contains args)) (\<lambda>_.
     bindR (for_each (assert_body_not_contains D body target) (http_not_contains args)) (\<lambda>_.
     if cb_incomplete (bb_content body) \<and> http_not_contains args \<noteq> [] then
       Inl (Failure (''response body from '' @ target @ '' was truncated at ''
         @ dec (http_max_body args) @ '' bytes, cannot prove negative body assertions''))
     else Inr ())))"

text \<open>The two calls of \<open>evaluate_response\<close> on the body.\<close>

definition check_response_body :: "deps \<Rightarrow> http_args \<Rightarrow> string \<Rightarrow> http_body \<Rightarrow> unit result" where
  "check_response_body D args target body =
     bindR (read_body body (http_max_body args) args) (\<lambda>b. assert_response_body D b args target)"

section \<open>What the assertions say of the whole body\<close>

definition body_satisfies :: "http_args \<Rightarrow> string \<Rightarrow> bool" where
  "body_satisfies args full \<longleftrightarrow>
     (\<forall>e. http_body_equals args = Some e \<longrightarrow> full = e)
     \<and> (\<forall>n \<in> set (http_contains args). sublist n full)
     \<and> (\<forall>n \<in> set (http_not_contains args). \<not> sublist n full)"

lemma assert_response_body_Inr:
  "assert_response_body D b args target = Inr () \<longleftrightarrow>
     (\<forall>e. http_body_equals args = Some e \<longrightarrow>
        \<not> bb_exact_match_impossible b \<and> cb_bytes (bb_content b) = e \<and> \<not> cb_incomplete (bb_content b))
     \<and> (\<forall>n \<in> set (http_contains args). sublist n (cb_bytes (bb_content b)))
     \<and> (\<forall>n \<in> set (http_not_contains args). \<not> sublist n (cb_bytes (bb_content b)))
     \<and> (http_not_contains args \<noteq> [] \<longrightarrow> \<not> cb_incomplete (bb_content b))"
  by (auto simp: assert_response_body_def bindR_Inr_iff for_each_Inr_iff assert_body_equals_def
      assert_body_contains_def assert_body_not_contains_def contains_bytes_iff Let_def
      split: option.splits if_splits)

lemma assert_response_body_Inl:
  "assert_response_body D b args target = Inl e \<Longrightarrow> is_failure e"
  by (auto simp: assert_response_body_def bindR_Inl_iff assert_body_equals_def
      assert_body_contains_def assert_body_not_contains_def truncated_exact_error_def Let_def
      split: option.splits if_splits dest!: for_each_Inl_dest)

text \<open>
  The loop invariant: both matchers scan the data read so far, and the exact match is known
  impossible iff what is kept is no prefix of the expected text.
\<close>

definition body_inv :: "http_args \<Rightarrow> nat \<Rightarrow> body_state \<Rightarrow> string \<Rightarrow> bool" where
  "body_inv args limit s t \<longleftrightarrow>
     scan.scanned limit (http_contains args) (bs_content s, bs_contains s) t
     \<and> scan.scanned limit (http_not_contains args) (bs_content s, bs_not_contains s) t
     \<and> (\<forall>e. http_body_equals args = Some e \<longrightarrow>
          (bs_exact_match_impossible s \<longleftrightarrow> \<not> prefix (cb_bytes (bs_content s)) e))"

lemma get_range_prefix:
  assumes "prefix p e"
  shows "get_range e (length p) (length (p @ q)) = Some q \<longleftrightarrow> prefix (p @ q) e"
proof -
  from assms obtain r where r: "e = p @ r" by (auto simp: prefix_def)
  have "get_range e (length p) (length (p @ q)) = Some q \<longleftrightarrow> length q \<le> length r \<and> take (length q) r = q"
    by (auto simp: get_range_def r)
  also have "\<dots> \<longleftrightarrow> prefix q r"
    by (metis append_eq_conv_conj prefix_def prefix_length_le take_is_prefix)
  finally show ?thesis by (simp add: r)
qed

lemma body_inv_absorb:
  assumes inv: "body_inv args limit s t"
  shows "body_inv args limit (absorb_data args limit s d) (t @ d)"
proof -
  let ?s = "absorb_data args limit s d"
  let ?b = "fst (append_limited (bs_content s) d limit)"
  have wf: "cb_wf limit (bs_content s)"
    using inv by (simp add: body_inv_def scan.scanned_def scan_wf_def)
  have content: "bs_content ?s = ?b"
    by (simp add: absorb_data_def Let_def case_prod_unfold)
  have "(bs_content ?s, bs_contains ?s) = scan_chunk limit (bs_content s, bs_contains s) d"
    "(bs_content ?s, bs_not_contains ?s) = scan_chunk limit (bs_content s, bs_not_contains s) d"
    by (simp_all add: absorb_data_def Let_def case_prod_unfold scan_chunk_def)
  with inv have scans:
    "scan.scanned limit (http_contains args) (bs_content ?s, bs_contains ?s) (t @ d)"
    "scan.scanned limit (http_not_contains args) (bs_content ?s, bs_not_contains ?s) (t @ d)"
    by (simp_all add: body_inv_def scan.scanned_push)
  have "bs_exact_match_impossible ?s \<longleftrightarrow> \<not> prefix (cb_bytes ?b) e"
    if e: "http_body_equals args = Some e" for e
  proof -
    let ?p = "cb_bytes (bs_content s)"
    obtain q where q: "cb_bytes ?b = ?p @ q"
      using wf by (simp add: cb_wf_def)
    have imp: "bs_exact_match_impossible ?s \<longleftrightarrow>
        get_range e (length ?p) (length (?p @ q)) \<noteq> Some q \<or> \<not> prefix ?p e"
      using inv e q by (simp add: absorb_data_def Let_def case_prod_unfold body_inv_def)
    show ?thesis
    proof (cases "prefix ?p e")
      case True
      with imp q get_range_prefix [OF True, of q] show ?thesis by simp
    next
      case False
      with imp q show ?thesis by (metis append_prefixD)
    qed
  qed
  with scans content show ?thesis by (simp add: body_inv_def)
qed

lemma body_inv_content:
  assumes "body_inv args limit s t"
  shows "represents limit (cb_bytes (bs_content s)) (cb_incomplete (bs_content s)) t"
  using assms by (simp add: body_inv_def scan.scanned_def)

lemma body_inv_decided:
  assumes "body_inv args limit s t"
  shows "body_assertion_is_decided (bs_exact_match_impossible s) (bs_contains s)
      (bs_not_contains s) args \<longleftrightarrow>
    (\<exists>e. http_body_equals args = Some e \<and> \<not> prefix (cb_bytes (bs_content s)) e)
    \<or> (\<exists>n \<in> set (http_not_contains args). sublist n (cb_bytes (bs_content s)))
    \<or> (http_body_equals args = None \<and> http_not_contains args = [] \<and> http_contains args \<noteq> []
       \<and> (\<forall>n \<in> set (http_contains args). sublist n (cb_bytes (bs_content s))))"
proof -
  have "scan.scanned limit (http_contains args) (bs_content s, bs_contains s) t"
    "scan.scanned limit (http_not_contains args) (bs_content s, bs_not_contains s) t"
    using assms by (simp_all add: body_inv_def)
  note m = scanned_matched_iff [OF this(1)] scanned_matched_iff [OF this(2)]
  show ?thesis
    using m assms by (auto simp: body_assertion_is_decided_def body_inv_def)
qed

lemma wait_Complete:
  "wait_for_body_eof_after_limit g evs = Inr Complete \<Longrightarrow> frames_data evs = [] \<and> frames_ok evs"
  by (induction g evs rule: wait_for_body_eof_after_limit.induct)
    (auto simp: frames_data_def frames_ok_def split: if_splits frame_event.splits)

lemma wait_at_end:
  "frames_data evs = [] \<Longrightarrow> frames_ok evs \<Longrightarrow> wait_for_body_eof_after_limit None evs = Inr Complete"
  by (induction "None :: nat option" evs rule: wait_for_body_eof_after_limit.induct)
    (auto simp: frames_data_def frames_ok_def split: frame_event.splits)

lemma wait_Inl: "wait_for_body_eof_after_limit g evs = Inl e \<Longrightarrow> is_failure e"
  by (induction g evs rule: wait_for_body_eof_after_limit.induct)
    (auto simp: body_read_error_def split: if_splits frame_event.splits)

text \<open>
  How the loop can end: at the end of the body with everything kept, with a buffer marked
  incomplete, or early with a decided assertion.
\<close>

definition body_outcome :: "http_args \<Rightarrow> nat \<Rightarrow> buffered_body \<Rightarrow> string \<Rightarrow> bool" where
  "body_outcome args limit b full \<longleftrightarrow>
     (\<forall>e. http_body_equals args = Some e \<longrightarrow>
        (bb_exact_match_impossible b \<longleftrightarrow> \<not> prefix (cb_bytes (bb_content b)) e))
     \<and> prefix (cb_bytes (bb_content b)) full
     \<and> (cb_bytes (bb_content b) = full \<and> \<not> cb_incomplete (bb_content b)
        \<or> cb_incomplete (bb_content b)
        \<or> (\<exists>e. http_body_equals args = Some e \<and> \<not> prefix (cb_bytes (bb_content b)) e)
        \<or> (\<exists>n \<in> set (http_not_contains args). sublist n (cb_bytes (bb_content b)))
        \<or> (http_body_equals args = None \<and> http_not_contains args = []
           \<and> (\<forall>n \<in> set (http_contains args). sublist n (cb_bytes (bb_content b)))))"

lemma frames_data_simps [simp]:
  "frames_data [] = []" "frames_data (ev # evs) = frame_data ev @ frames_data evs"
  by (simp_all add: frames_data_def)

lemma frames_ok_simps [simp]:
  "frames_ok []" "frames_ok (ev # evs) \<longleftrightarrow> frame_ok ev \<and> frames_ok evs"
  by (simp_all add: frames_ok_def)

lemma finish_body_simps [simp]:
  "bb_content (finish_body s) = bs_content s"
  "bb_exact_match_impossible (finish_body s) = bs_exact_match_impossible s"
  "bs_content (mark_body_incomplete s) = mark_incomplete (bs_content s)"
  "bs_exact_match_impossible (mark_body_incomplete s) = bs_exact_match_impossible s"
  "cb_bytes (mark_incomplete b) = cb_bytes b"
  "cb_incomplete (mark_incomplete b)"
  by (simp_all add: finish_body_def mark_body_incomplete_def mark_incomplete_def)

lemma body_inv_outcome:
  assumes inv: "body_inv args limit s t" and full: "full = t @ rest"
    and stop: "b = finish_body s \<and>
        (cb_incomplete (bs_content s) \<or> rest = []
         \<or> body_assertion_is_decided (bs_exact_match_impossible s) (bs_contains s)
              (bs_not_contains s) args)
      \<or> b = finish_body (mark_body_incomplete s)"
  shows "body_outcome args limit b full"
proof -
  have r: "represents limit (cb_bytes (bs_content s)) (cb_incomplete (bs_content s)) t"
    using inv by (rule body_inv_content)
  have pre: "prefix (cb_bytes (bs_content s)) full"
    using represents_prefix [OF r] full by simp
  have whole: "cb_bytes (bs_content s) = full" if "\<not> cb_incomplete (bs_content s)" "rest = []"
    using that r full by (simp add: represents_def)
  have exm: "\<forall>e. http_body_equals args = Some e \<longrightarrow>
      (bs_exact_match_impossible s \<longleftrightarrow> \<not> prefix (cb_bytes (bs_content s)) e)"
    using inv by (simp add: body_inv_def)
  have cb: "cb_bytes (bb_content b) = cb_bytes (bs_content s)"
    "bb_exact_match_impossible b = bs_exact_match_impossible s"
    using stop by auto
  from stop consider "cb_incomplete (bb_content b)"
    | "\<not> cb_incomplete (bs_content s)" "b = finish_body s" "rest = []"
    | "body_assertion_is_decided (bs_exact_match_impossible s) (bs_contains s)
          (bs_not_contains s) args"
    by (cases "cb_incomplete (bs_content s)") auto
  then show ?thesis
  proof cases
    case 1
    with cb pre exm show ?thesis by (simp add: body_outcome_def)
  next
    case 2
    with pre exm whole show ?thesis by (simp add: body_outcome_def)
  next
    case 3
    with body_inv_decided [OF inv] cb pre exm show ?thesis
      unfolding body_outcome_def by auto
  qed
qed

lemma read_body_loop_outcome:
  assumes "body_inv args limit s t" "\<not> cb_incomplete (bs_content s)"
    and "read_body_loop args limit upper g s evs = Inr b"
  shows "body_outcome args limit b (t @ frames_data evs)"
  using assms
proof (induction args limit upper g s evs arbitrary: t rule: read_body_loop.induct)
  case (1 args limit upper g s)
  then show ?case using body_inv_outcome [OF "1.prems"(1), of t "[]" b] by simp
next
  case (2 args limit upper g s e evs)
  then show ?case by simp
next
  case (3 args limit upper g s evs)
  then show ?case by simp
next
  case (4 args limit upper g s d evs)
  define s' where "s' = absorb_data args limit s d"
  let ?dec = "body_assertion_is_decided (bs_exact_match_impossible s') (bs_contains s')
      (bs_not_contains s') args"
  let ?decl = "(case upper of Some u \<Rightarrow> u > limit | None \<Rightarrow> False)
      \<and> length (cb_bytes (bs_content s')) = limit"
  let ?may = "length (cb_bytes (bs_content s')) = limit
      \<and> (case upper of Some u \<Rightarrow> u > limit | None \<Rightarrow> True)"
  have inv: "body_inv args limit s' (t @ d)"
    unfolding s'_def by (rule body_inv_absorb) (rule "4.prems"(1))
  note out = body_inv_outcome [OF inv, of "t @ d @ frames_data evs" "frames_data evs" b]
  note loop = "4.prems"(3) [simplified, folded s'_def, unfolded Let_def]
  consider (dec) "?dec" | (lost) "\<not> ?dec" "cb_incomplete (bs_content s')"
    | (decl) "\<not> ?dec" "\<not> cb_incomplete (bs_content s')" "?decl"
    | (may) "\<not> ?dec" "\<not> cb_incomplete (bs_content s')" "\<not> ?decl" "?may"
    | (go) "\<not> ?dec" "\<not> cb_incomplete (bs_content s')" "\<not> ?decl" "\<not> ?may"
    by blast
  then show ?case
  proof cases
    case dec
    with loop out show ?thesis by simp
  next
    case lost
    with loop out show ?thesis by simp
  next
    case decl
    with loop out show ?thesis by simp
  next
    case may
    with loop obtain w where w: "wait_for_body_eof_after_limit g evs = Inr w"
      and b: "b = finish_body (if w \<noteq> Complete then mark_body_incomplete s' else s')"
      by (auto simp: bindR_Inr_iff split: option.splits if_splits)
    show ?thesis
    proof (cases "w = Complete")
      case True
      with w wait_Complete have "frames_data evs = []" by blast
      with b True out show ?thesis by simp
    next
      case False
      with b out show ?thesis by simp
    qed
  next
    case go
    with loop have "read_body_loop args limit upper g s' evs = Inr b"
      by (auto split: option.splits if_splits)
    with "4.IH" [unfolded Let_def, OF refl refl refl refl, folded s'_def, of "t @ d"] go inv
    show ?thesis by (simp add: s'_def)
  qed
qed

lemma body_outcome_sound:
  assumes "body_outcome args limit b full" "assert_response_body D b args target = Inr ()"
  shows "body_satisfies args full"
proof -
  note a = assms(2) [unfolded assert_response_body_Inr]
  have pre: "prefix (cb_bytes (bb_content b)) full"
    using assms(1) by (simp add: body_outcome_def)
  have whole: "cb_bytes (bb_content b) = full"
    if "http_body_equals args \<noteq> None \<or> http_not_contains args \<noteq> []"
    using assms(1) a that unfolding body_outcome_def by (metis option.exhaust)
  show ?thesis
    unfolding body_satisfies_def
  proof (intro conjI allI impI ballI)
    fix e assume "http_body_equals args = Some e"
    then show "full = e" using a whole by auto
  next
    fix n assume "n \<in> set (http_contains args)"
    then have "sublist n (cb_bytes (bb_content b))" using a by blast
    then show "sublist n full"
      using prefix_imp_sublist [OF pre] by (metis sublist_order.order_trans)
  next
    fix n assume n: "n \<in> set (http_not_contains args)"
    then have "http_not_contains args \<noteq> []" by auto
    with whole have "cb_bytes (bb_content b) = full" by blast
    with a n show "\<not> sublist n full" by blast
  qed
qed

lemma body_inv_start:
  "body_inv args limit \<lparr>bs_content = capture_default,
     bs_contains = text_matcher_new (http_contains args),
     bs_not_contains = text_matcher_new (http_not_contains args),
     bs_exact_match_impossible = False\<rparr> []"
  using scan_start_scanned [of limit "http_contains args"]
    scan_start_scanned [of limit "http_not_contains args"]
  by (simp add: body_inv_def scan_start_def capture_default_def)

lemma check_response_body_sound:
  assumes "check_response_body D args target body = Inr ()"
  shows "body_satisfies args (frames_data (body_frames body))"
proof -
  from assms obtain b where b: "read_body body (http_max_body args) args = Inr b"
    and a: "assert_response_body D b args target = Inr ()"
    by (auto simp: check_response_body_def bindR_Inr_iff)
  have "\<not> bb_exact_match_impossible b \<or> http_body_equals args = None"
    using a by (cases "http_body_equals args") (auto simp: assert_response_body_Inr)
  with b have "read_body_loop args (http_max_body args) (hint_upper body) (body_grace body)
      \<lparr>bs_content = capture_default, bs_contains = text_matcher_new (http_contains args),
       bs_not_contains = text_matcher_new (http_not_contains args),
       bs_exact_match_impossible = False\<rparr> (body_frames body) = Inr b"
    by (auto simp: read_body_def Let_def split: option.splits if_splits)
  from read_body_loop_outcome [OF body_inv_start _ this]
  have "body_outcome args (http_max_body args) b (frames_data (body_frames body))"
    by (simp add: capture_default_def)
  from body_outcome_sound [OF this a] show ?thesis .
qed

section \<open>Completeness\<close>

text \<open>
  What hyper documents of a body whose length is declared (the size hint is the length), a
  body read without errors, and an end of body that arrives within the grace period.
\<close>

definition well_behaved_body :: "http_body \<Rightarrow> bool" where
  "well_behaved_body body \<longleftrightarrow>
     frames_ok (body_frames body) \<and> body_grace body = None
     \<and> (\<forall>n. hint_exact body = Some n \<longrightarrow> n = length (frames_data (body_frames body)))
     \<and> (\<forall>n. hint_upper body = Some n \<longrightarrow> n = length (frames_data (body_frames body)))"

lemma read_body_loop_accepts:
  assumes "body_inv args limit s t" "\<not> cb_incomplete (bs_content s)"
    and "body_satisfies args (t @ frames_data evs)" "length (t @ frames_data evs) \<le> limit"
    and "frames_ok evs" "\<forall>u. upper = Some u \<longrightarrow> u = length (t @ frames_data evs)" "g = None"
  shows "\<exists>b. read_body_loop args limit upper g s evs = Inr b
    \<and> assert_response_body D b args target = Inr ()"
  using assms
proof (induction args limit upper g s evs arbitrary: t rule: read_body_loop.induct)
  case (1 args limit upper g s)
  have "cb_bytes (bs_content s) = t"
    using body_inv_content [OF "1.prems"(1)] "1.prems"(2) by (simp add: represents_def)
  with 1 show ?case
    by (auto simp: assert_response_body_Inr body_satisfies_def body_inv_def)
next
  case (2 args limit upper g s e evs)
  then show ?case by simp
next
  case (3 args limit upper g s evs)
  then show ?case by simp
next
  case (4 args limit upper g s d evs)
  define s' where "s' = absorb_data args limit s d"
  let ?full = "t @ d @ frames_data evs"
  have inv: "body_inv args limit s' (t @ d)"
    unfolding s'_def by (rule body_inv_absorb) (rule "4.prems"(1))
  have keep: "cb_bytes (bs_content s') = t @ d" "\<not> cb_incomplete (bs_content s')"
    using body_inv_content [OF inv] "4.prems"(4) by (auto simp: represents_def)
  have eq: "http_body_equals args = Some e \<Longrightarrow> e = ?full" for e
    using "4.prems"(3) by (auto simp: body_satisfies_def)
  have noforb: "\<not> sublist n (t @ d)" if "n \<in> set (http_not_contains args)" for n
  proof
    assume "sublist n (t @ d)"
    then have "sublist n ?full"
      by (metis append.assoc sublist_append_rightI sublist_order.order_trans)
    with "4.prems"(3) that show False by (simp add: body_satisfies_def)
  qed
  let ?dec = "body_assertion_is_decided (bs_exact_match_impossible s') (bs_contains s')
      (bs_not_contains s') args"
  have nodecl: "\<not> (case upper of Some u \<Rightarrow> u > limit | None \<Rightarrow> False)"
    using "4.prems"(4,6) by (cases upper) simp_all
  show ?case
  proof (cases ?dec)
    case True
    with body_inv_decided [OF inv] keep eq noforb
    have "http_body_equals args = None" "http_not_contains args = []"
      "\<forall>n \<in> set (http_contains args). sublist n (t @ d)"
      by (auto simp: prefix_def)
    with True keep show ?thesis
      by (simp add: Let_def s'_def [symmetric] assert_response_body_Inr)
  next
    case nodec: False
    show ?thesis
    proof (cases "length (cb_bytes (bs_content s')) = limit
        \<and> (case upper of Some u \<Rightarrow> u > limit | None \<Rightarrow> True)")
      case True
      then have e: "frames_data evs = []" using keep "4.prems"(4) by auto
      with "4.prems"(5,7) wait_at_end have "wait_for_body_eof_after_limit g evs = Inr Complete"
        by simp
      with True nodec nodecl keep have "read_body_loop args limit upper g s (Data d # evs)
          = Inr (finish_body s')"
        by (simp add: Let_def s'_def [symmetric])
      moreover have "assert_response_body D (finish_body s') args target = Inr ()"
        using "4.prems"(3) e keep inv eq
        by (auto simp: assert_response_body_Inr body_satisfies_def body_inv_def)
      ultimately show ?thesis by blast
    next
      case False
      have "\<exists>b. read_body_loop args limit upper g s' evs = Inr b
          \<and> assert_response_body D b args target = Inr ()"
        using "4.IH" [unfolded Let_def, OF refl refl refl refl, folded s'_def, of "t @ d"]
          nodec False nodecl keep inv "4.prems" by (simp add: s'_def)
      with False nodec nodecl keep show ?thesis
        by (auto simp: Let_def s'_def [symmetric])
    qed
  qed
qed

lemma check_response_body_complete:
  assumes "well_behaved_body body" "body_satisfies args (frames_data (body_frames body))"
    and "length (frames_data (body_frames body)) \<le> http_max_body args"
  shows "check_response_body D args target body = Inr ()"
proof -
  have "\<not> (case http_body_equals args of
      Some e \<Rightarrow> (case hint_exact body of Some n \<Rightarrow> n \<noteq> length e | None \<Rightarrow> False) | None \<Rightarrow> False)"
    using assms(1,2) by (auto simp: well_behaved_body_def body_satisfies_def split: option.splits)
  moreover have "\<exists>b. read_body_loop args (http_max_body args) (hint_upper body) (body_grace body)
      \<lparr>bs_content = capture_default, bs_contains = text_matcher_new (http_contains args),
       bs_not_contains = text_matcher_new (http_not_contains args),
       bs_exact_match_impossible = False\<rparr> (body_frames body) = Inr b
      \<and> assert_response_body D b args target = Inr ()"
    by (rule read_body_loop_accepts [OF body_inv_start])
      (use assms in \<open>auto simp: well_behaved_body_def capture_default_def\<close>)
  ultimately show ?thesis
    by (auto simp: check_response_body_def read_body_def bindR_Inr_iff Let_def split: option.splits)
qed

section \<open>An early exit\<close>

text \<open>
  The read stops as soon as a forbidden text is seen, without marking the buffer incomplete.
  The assertions look for the required texts first, so that the message can say that a text is
  missing which the body does contain, further on. The verdict, a failure, is right.
\<close>

definition early_exit_args :: http_args where
  "early_exit_args = \<lparr>http_url = Some ''http://h/'', http_sock = None, http_path = None,
     http_method = ''GET'', http_header = [], http_host = None, http_status = [],
     http_header_present = [], http_header_equals = [], http_header_contains = [],
     http_header_not_contains = [], http_body_equals = None, http_contains = [''up''],
     http_not_contains = [''bad''],
     http_tls = \<lparr>tls_ca = None, tls_cert = None, tls_key = None, tls_server_name = None,
       tls_insecure_skip_verify = False\<rparr>,
     http_max_body = 64\<rparr>"

definition early_exit_body :: http_body where
  "early_exit_body = \<lparr>hint_exact = None, hint_upper = None,
     body_frames = [Data ''bad '', Data ''but up''], body_grace = None\<rparr>"

lemma forbidden_text_hides_required_text:
  "check_response_body example_deps early_exit_args ''h'' early_exit_body
     = Inl (Failure (''response body from h does not contain required text ''
         @ [dquote] @ ''up'' @ [dquote]))
   \<and> ''up'' \<in> set (http_contains early_exit_args)
   \<and> sublist ''up'' (frames_data (body_frames early_exit_body))"
proof (intro conjI)
  show "check_response_body example_deps early_exit_args ''h'' early_exit_body
     = Inl (Failure (''response body from h does not contain required text ''
         @ [dquote] @ ''up'' @ [dquote]))" by code_simp
  show "''up'' \<in> set (http_contains early_exit_args)" by (simp add: early_exit_args_def)
  have "frames_data (body_frames early_exit_body) = ''bad but '' @ ''up'' @ []"
    by (simp add: early_exit_body_def)
  then show "sublist ''up'' (frames_data (body_frames early_exit_body))"
    unfolding sublist_def by blast
qed

end
