(* ===== verification/Http_Probe.thy ===== *)
theory Http_Probe
  imports Http_Url Http_Request Http_Body
begin

text \<open>
  The HTTP probe as a whole (\<open>probes/http.rs\<close>): preparation of the probe, the clients, the
  evaluation of the response and \<open>run\<close>. The world gives what hyper does with a connector and
  a request, what the sockets and peers answer, and how long each awaited operation takes;
  connections are opaque. Times are nanoseconds and pass while something is awaited.
\<close>

section \<open>Preparation\<close>

definition validate_http_body_assertion_values :: "http_args \<Rightarrow> unit result" where
  "validate_http_body_assertion_values args =
     bindR (validate_non_empty_values ''--contains'' (http_contains args)) (\<lambda>_.
     validate_non_empty_values ''--not-contains'' (http_not_contains args))"

definition validate_http_capture_args :: "http_args \<Rightarrow> unit result" where
  "validate_http_capture_args args =
     validate_capture_limit ''--max-body'' (http_max_body args) ''body assertions''
       (has_body_assertions args)"

definition validate_http_method_assertions :: "http_args \<Rightarrow> http_method \<Rightarrow> unit result" where
  "validate_http_method_assertions args method =
     (if method = HEAD \<and> has_body_assertions args then
        Inl (InvalidConfig ''HTTP body assertions are not supported with HEAD requests'')
      else Inr ())"

record prepared_http_probe =
  pp_target :: http_target
  pp_prepared :: prepared_http_args
  pp_request :: http_request

definition prepare_http_probe :: "deps \<Rightarrow> http_args \<Rightarrow> prepared_http_probe result" where
  "prepare_http_probe D args =
     bindR (prepare_http_target D args) (\<lambda>target.
     bindR (parse_method D (http_method args)) (\<lambda>method.
     bindR (validate_http_body_assertion_values args) (\<lambda>_.
     bindR (prepared_from_args D args method) (\<lambda>prepared.
     bindR (validate_http_capture_args args) (\<lambda>_.
     bindR (validate_http_method_assertions args (pa_method prepared)) (\<lambda>_.
     bindR (build_request D (target_request_uri target) (target_host target) prepared) (\<lambda>request.
     Inr \<lparr>pp_target = target, pp_prepared = prepared, pp_request = request\<rparr>)))))))"

section \<open>Clients\<close>

record http_response =
  hr_status :: nat
  hr_headers :: header_map
  hr_body :: http_body
  hr_body_time :: nat

text \<open>A connector is what hyper calls with the URI of a request to get a connection.\<close>

type_synonym 'k connector = "(string, 'k) uri_service"

text \<open>
  \<open>hw_started\<close> is the instant the probe was given and \<open>hw_now\<close> the one when its timeout begins.
\<close>

record 'k http_world =
  hw_tls :: tls_world
  hw_http_connector :: "'k connector"
  hw_https_connector :: "client_config \<Rightarrow> string option \<Rightarrow> 'k connector"
  hw_request :: "'k connector \<Rightarrow> http_request \<Rightarrow> string + http_response"
  hw_unix_connect :: "string \<Rightarrow> string + unit"
  hw_handshake :: "string + unit"
  hw_send_request :: "string \<Rightarrow> http_request \<Rightarrow> string + http_response"
  hw_started :: nat
  hw_now :: nat
  hw_request_time :: nat
  hw_connect_time :: nat
  hw_handshake_time :: nat
  hw_send_time :: nat

text \<open>
  \<open>FixedConnectUriConnector\<close> is ready when the inner connector is, and calls it with its own URI
  instead of the one it is called with.
\<close>

definition fixed_connect_uri :: "'k connector \<Rightarrow> uri \<Rightarrow> 'k connector" where
  "fixed_connect_uri inner connect_uri =
     \<lparr>svc_poll_ready = svc_poll_ready inner, svc_call = (\<lambda>_. svc_call inner connect_uri)\<rparr>"

definition build_https_client :: "deps \<Rightarrow> 'k http_world \<Rightarrow> tls_args \<Rightarrow> uri \<Rightarrow> 'k connector result" where
  "build_https_client D w tls connect_uri =
     bindR (build_http_tls_config D (hw_tls w) tls) (\<lambda>tls_config.
     bindR (case tls_server_name tls of
              Some name \<Rightarrow> bindR (parse_server_name_override D name) (\<lambda>n. Inr (Some n))
            | None \<Rightarrow> Inr None) (\<lambda>resolver.
     Inr (fixed_connect_uri (hw_https_connector w tls_config resolver) connect_uri)))"

definition build_plain_http_client :: "'k http_world \<Rightarrow> uri \<Rightarrow> 'k connector" where
  "build_plain_http_client w connect_uri = fixed_connect_uri (hw_http_connector w) connect_uri"

text \<open>hyper's client is its connector; the two clients of \<open>UrlHttpClient\<close> have different ones.\<close>

datatype 'k url_http_client = PlainClient "'k connector" | TlsClient "'k connector"

fun client_request :: "'k http_world \<Rightarrow> 'k url_http_client \<Rightarrow> http_request \<Rightarrow> string + http_response" where
  "client_request w (PlainClient client) request = hw_request w client request"
| "client_request w (TlsClient client) request = hw_request w client request"

definition build_url_http_client ::
    "deps \<Rightarrow> 'k http_world \<Rightarrow> bool \<Rightarrow> tls_args \<Rightarrow> uri \<Rightarrow> 'k url_http_client result" where
  "build_url_http_client D w uses_tls tls connect_uri =
     (if uses_tls then bindR (build_https_client D w tls connect_uri) (\<lambda>client. Inr (TlsClient client))
      else Inr (PlainClient (build_plain_http_client w connect_uri)))"

section \<open>Evaluation and run\<close>

text \<open>
  A future with the instant when it is ready, from the instant \<open>now\<close> when the head of the
  response is there.
\<close>

definition evaluate_response :: "deps \<Rightarrow> http_response \<Rightarrow> string \<Rightarrow> http_args \<Rightarrow> prepared_http_args
    \<Rightarrow> nat \<Rightarrow> nat \<Rightarrow> probe_options \<Rightarrow> probe_report result \<times> nat" where
  "evaluate_response D response target args prepared started now options =
     (let status = hr_status response;
          report = (\<lambda>now. probe_report_new ''http'' target (Some (''status='' @ dec status))
            (now - started) options)
      in
      if \<not> status_ranges_match (pa_status_ranges prepared) status then
        (Inl (Failure (''HTTP status '' @ dec status @ '' from '' @ target
          @ '' is outside the allowed range'')), now)
      else
        (case assert_response_headers D (hr_headers response) (pa_assertions prepared) target of
           Inl error \<Rightarrow> (Inl error, now)
         | Inr _ \<Rightarrow>
             if \<not> has_body_assertions args then (Inr (report now), now)
             else
               (let now = now + hr_body_time response
                in (bindR (check_response_body D args target (hr_body response))
                      (\<lambda>_. Inr (report now)), now))))"

definition url_future :: "deps \<Rightarrow> 'k http_world \<Rightarrow> probe_options \<Rightarrow> http_args \<Rightarrow> prepared_http_args
    \<Rightarrow> http_request \<Rightarrow> string \<Rightarrow> 'k url_http_client \<Rightarrow> probe_report result \<times> nat" where
  "url_future D w options args prepared request target_label client =
     (let now = hw_now w + hw_request_time w in
      case client_request w client request of
        Inl error \<Rightarrow>
          (Inl (Failure (''HTTP request to '' @ target_label @ '' failed: '' @ error)), now)
      | Inr response \<Rightarrow>
          evaluate_response D response target_label args prepared (hw_started w) now options)"

definition run_url :: "deps \<Rightarrow> 'k http_world \<Rightarrow> probe_options \<Rightarrow> http_args \<Rightarrow> prepared_http_args
    \<Rightarrow> http_request \<Rightarrow> url_target \<Rightarrow> probe_report result" where
  "run_url D w options args prepared request target =
     bindR (build_url_http_client D w (url_uses_tls target) (http_tls args) (url_connect_uri target))
       (\<lambda>client.
     with_probe_timeout D ''HTTP'' (opt_timeout options)
       (ready_by (hw_now w + opt_timeout options)
         (url_future D w options args prepared request (url_label target) client)))"

text \<open>
  The task that drives the connection of a Unix socket. \<open>AbortOnDrop\<close> aborts it when the future
  that holds it ends, or is dropped by the timeout.
\<close>

datatype connection_effect = SpawnConnection | AbortConnection

definition abort_on_drop :: "connection_effect list" where
  "abort_on_drop = [AbortConnection]"

text \<open>The future, and the instant when it spawns the task, if it does.\<close>

definition unix_socket_future :: "deps \<Rightarrow> 'k http_world \<Rightarrow> probe_options \<Rightarrow> http_args
    \<Rightarrow> prepared_http_args \<Rightarrow> http_request \<Rightarrow> unix_socket_target
    \<Rightarrow> (probe_report result \<times> nat) \<times> nat option" where
  "unix_socket_future D w options args prepared request target =
     (let sock_label = diag_path D (ut_sock target);
          connected = hw_now w + hw_connect_time w;
          spawned = connected + hw_handshake_time w;
          answered = spawned + hw_send_time w
      in case hw_unix_connect w (ut_sock target) of
        Inl error \<Rightarrow>
          ((Inl (Failure (''failed to connect to unix socket '' @ sock_label @ '': '' @ error)),
            connected), None)
      | Inr _ \<Rightarrow>
          (case hw_handshake w of
             Inl error \<Rightarrow> ((Inl (Failure (''HTTP handshake failed: '' @ error)), spawned), None)
           | Inr _ \<Rightarrow>
               (case hw_send_request w (ut_sock target) request of
                  Inl error \<Rightarrow>
                    ((Inl (Failure (''HTTP request over unix socket '' @ sock_label @ '' failed: ''
                       @ error)), answered), Some spawned)
                | Inr response \<Rightarrow>
                    (evaluate_response D response (ut_label target) args prepared (hw_started w)
                       answered options, Some spawned))))"

definition run_unix_socket :: "deps \<Rightarrow> 'k http_world \<Rightarrow> probe_options \<Rightarrow> http_args \<Rightarrow> prepared_http_args
    \<Rightarrow> http_request \<Rightarrow> unix_socket_target \<Rightarrow> probe_report result \<times> connection_effect list" where
  "run_unix_socket D w options args prepared request target =
     (if \<not> target_unix D then
        (Inl (InvalidConfig ''HTTP over Unix sockets is only supported on Unix platforms''), [])
      else
      let (future, spawned) = unix_socket_future D w options args prepared request target;
          end_of_time = hw_now w + opt_timeout options
      in (with_probe_timeout D ''HTTP'' (opt_timeout options) (ready_by end_of_time future),
          case spawned of
            Some t \<Rightarrow> if t \<le> end_of_time then SpawnConnection # abort_on_drop else []
          | None \<Rightarrow> []))"

definition http_run :: "deps \<Rightarrow> probe_options \<Rightarrow> http_args \<Rightarrow> 'k http_world
    \<Rightarrow> probe_report result \<times> connection_effect list" where
  "http_run D options args w =
     (case prepare_http_probe D args of
        Inl error \<Rightarrow> (Inl error, [])
      | Inr ready \<Rightarrow>
          (case pp_target ready of
             Url target \<Rightarrow>
               (run_url D w options args (pp_prepared ready) (pp_request ready) target, [])
           | UnixSocket target \<Rightarrow>
               run_unix_socket D w options args (pp_prepared ready) (pp_request ready) target))"

section \<open>Preparation\<close>

lemma parse_method_Inl: "parse_method D raw = Inl e \<Longrightarrow> is_invalid_config e"
  by (auto simp: parse_method_def Let_def split: if_splits)

lemma prepare_http_probe_Inl: "prepare_http_probe D args = Inl e \<Longrightarrow> is_invalid_config e"
  unfolding prepare_http_probe_def validate_http_body_assertion_values_def
    validate_http_capture_args_def validate_http_method_assertions_def build_request_def Let_def
  by (auto simp: bindR_Inl_iff map_err_Inl_iff dest: prepare_http_target_Inl parse_method_Inl
      prepared_from_args_Inl validation_Inl split: if_split_asm)

lemma prepare_http_probe_Inr:
  "prepare_http_probe D args = Inr p \<longleftrightarrow>
     prepare_http_target D args = Inr (pp_target p)
     \<and> parse_method D (http_method args) = Inr (pa_method (pp_prepared p))
     \<and> [] \<notin> set (http_contains args) \<and> [] \<notin> set (http_not_contains args)
     \<and> prepared_from_args D args (pa_method (pp_prepared p)) = Inr (pp_prepared p)
     \<and> (has_body_assertions args \<longrightarrow> 0 < http_max_body args \<and> http_max_body args \<le> MAX_CAPTURE_BYTES
          \<and> pa_method (pp_prepared p) \<noteq> HEAD)
     \<and> build_request D (target_request_uri (pp_target p)) (target_host (pp_target p)) (pp_prepared p)
         = Inr (pp_request p)"
proof -
  have m: "prepared_from_args D args m = Inr q \<Longrightarrow> pa_method q = m" for m q
    by (auto simp: prepared_from_args_def bindR_Inr_iff)
  have ma: "validate_http_method_assertions args m = Inr () \<longleftrightarrow> \<not> (m = HEAD \<and> has_body_assertions args)" for m
    by (simp add: validate_http_method_assertions_def)
  show ?thesis
    unfolding prepare_http_probe_def validate_http_body_assertion_values_def validate_http_capture_args_def
    by (cases p) (auto simp: bindR_Inr_iff validation_simps ma dest: m)
qed

lemma prepared_from_args_Inr:
  assumes "prepared_from_args D args m = Inr q"
  shows "parse_headers D (http_header args) = Inr (pa_headers q)"
    "parse_status_ranges D (http_status args) = Inr (pa_status_ranges q)"
  using assms by (auto simp: prepared_from_args_def bindR_Inr_iff)

section \<open>A healthy verdict\<close>

text \<open>The response the probe is judged on.\<close>

definition http_answer :: "deps \<Rightarrow> 'k http_world \<Rightarrow> http_args \<Rightarrow> prepared_http_probe \<Rightarrow> http_response \<Rightarrow> bool" where
  "http_answer D w args p response =
     (case pp_target p of
        Url t \<Rightarrow> (\<exists>client. build_url_http_client D w (url_uses_tls t) (http_tls args) (url_connect_uri t)
            = Inr client \<and> client_request w client (pp_request p) = Inr response)
      | UnixSocket t \<Rightarrow> hw_unix_connect w (ut_sock t) = Inr () \<and> hw_handshake w = Inr ()
          \<and> hw_send_request w (ut_sock t) (pp_request p) = Inr response)"

fun target_label :: "http_target \<Rightarrow> string" where
  "target_label (Url t) = url_label t"
| "target_label (UnixSocket t) = ut_label t"

text \<open>The instants when the head of the answer is there and when the verdict is.\<close>

fun answered_at :: "'k http_world \<Rightarrow> http_target \<Rightarrow> nat" where
  "answered_at w (Url t) = hw_now w + hw_request_time w"
| "answered_at w (UnixSocket t) = hw_now w + hw_connect_time w + hw_handshake_time w + hw_send_time w"

definition judged_at :: "http_args \<Rightarrow> http_response \<Rightarrow> nat \<Rightarrow> nat" where
  "judged_at args response now =
     now + (if has_body_assertions args then hr_body_time response else 0)"

lemma evaluate_response_Inr:
  "evaluate_response D response target args prepared started now options = (Inr r, ready) \<longleftrightarrow>
     status_ranges_match (pa_status_ranges prepared) (hr_status response)
     \<and> headers_satisfy (hr_headers response) (pa_assertions prepared)
     \<and> (has_body_assertions args \<longrightarrow> check_response_body D args target (hr_body response) = Inr ())
     \<and> ready = judged_at args response now
     \<and> r = probe_report_new ''http'' target (Some (''status='' @ dec (hr_status response)))
         (ready - started) options"
  by (auto simp: evaluate_response_def Let_def bindR_Inr_iff judged_at_def
      simp flip: assert_response_headers_Inr [of D _ _ target] split: sum.splits)

lemma url_future_Inr:
  "url_future D w options args prepared request target client = (Inr r, ready) \<longleftrightarrow>
     (\<exists>response. client_request w client request = Inr response
       \<and> evaluate_response D response target args prepared (hw_started w)
           (hw_now w + hw_request_time w) options = (Inr r, ready))"
  by (simp add: url_future_def Let_def split: sum.split)

lemma run_url_Inr:
  "run_url D w options args prepared request t = Inr r \<longleftrightarrow>
     (\<exists>client response ready.
       build_url_http_client D w (url_uses_tls t) (http_tls args) (url_connect_uri t) = Inr client
       \<and> client_request w client request = Inr response \<and> ready \<le> hw_now w + opt_timeout options
       \<and> evaluate_response D response (url_label t) args prepared (hw_started w)
           (answered_at w (Url t)) options = (Inr r, ready))"
  by (auto simp: run_url_def bindR_Inr_iff with_probe_timeout_Inr ready_by_Some url_future_Inr)

lemma run_unix_socket_Inr:
  "fst (run_unix_socket D w options args prepared request t) = Inr r \<longleftrightarrow>
     (\<exists>response ready. target_unix D \<and> hw_unix_connect w (ut_sock t) = Inr () \<and> hw_handshake w = Inr ()
       \<and> hw_send_request w (ut_sock t) request = Inr response
       \<and> ready \<le> hw_now w + opt_timeout options
       \<and> evaluate_response D response (ut_label t) args prepared (hw_started w)
           (answered_at w (UnixSocket t)) options = (Inr r, ready))"
  by (auto simp: run_unix_socket_def unix_socket_future_def Let_def with_probe_timeout_Inr ready_by_Some
      split: sum.splits)

lemma unix_socket_target_unix:
  "prepare_http_probe D args = Inr p \<Longrightarrow> pp_target p = UnixSocket t \<Longrightarrow> target_unix D"
  by (auto simp: prepare_http_probe_Inr prepare_http_target_def prepare_unix_socket_target_def
      bindR_Inr_iff split: option.splits if_splits)

lemma http_run_Inr_iff:
  "fst (http_run D options args w) = Inr r \<longleftrightarrow>
     (\<exists>p response ready. prepare_http_probe D args = Inr p
       \<and> http_answer D w args p response \<and> ready \<le> hw_now w + opt_timeout options
       \<and> evaluate_response D response (target_label (pp_target p)) args (pp_prepared p) (hw_started w)
           (answered_at w (pp_target p)) options = (Inr r, ready))"
  by (auto simp: http_run_def http_answer_def run_url_Inr run_unix_socket_Inr
      dest: unix_socket_target_unix split: sum.split http_target.split)



lemma body_satisfies_trivial: "\<not> has_body_assertions args \<Longrightarrow> body_satisfies args full"
  by (simp add: has_body_assertions_def body_satisfies_def)

lemma http_run_sound:
  assumes "fst (http_run D options args w) = Inr r"
  shows "\<exists>p response. prepare_http_probe D args = Inr p \<and> http_answer D w args p response
    \<and> status_ranges_match (pa_status_ranges (pp_prepared p)) (hr_status response)
    \<and> headers_satisfy (hr_headers response) (pa_assertions (pp_prepared p))
    \<and> body_satisfies args (frames_data (body_frames (hr_body response)))
    \<and> judged_at args response (answered_at w (pp_target p)) \<le> hw_now w + opt_timeout options
    \<and> rep_elapsed r = judged_at args response (answered_at w (pp_target p)) - hw_started w
    \<and> rep_target r = target_label (pp_target p)"
proof -
  from assms obtain p response ready where p: "prepare_http_probe D args = Inr p"
    "ready \<le> hw_now w + opt_timeout options" "http_answer D w args p response"
    and e: "evaluate_response D response (target_label (pp_target p)) args (pp_prepared p) (hw_started w)
        (answered_at w (pp_target p)) options = (Inr r, ready)"
    unfolding http_run_Inr_iff by blast
  have "body_satisfies args (frames_data (body_frames (hr_body response)))"
    using e check_response_body_sound body_satisfies_trivial
    by (cases "has_body_assertions args") (auto simp: evaluate_response_Inr)
  with p e show ?thesis by (intro exI [of _ p] exI [of _ response]) (auto simp: evaluate_response_Inr)
qed

lemma http_run_complete:
  assumes "prepare_http_probe D args = Inr p" "http_answer D w args p response"
    and "status_ranges_match (pa_status_ranges (pp_prepared p)) (hr_status response)"
    and "headers_satisfy (hr_headers response) (pa_assertions (pp_prepared p))"
    and "well_behaved_body (hr_body response)"
    and "body_satisfies args (frames_data (body_frames (hr_body response)))"
    and "length (frames_data (body_frames (hr_body response))) \<le> http_max_body args"
    and "judged_at args response (answered_at w (pp_target p)) \<le> hw_now w + opt_timeout options"
  shows "\<exists>r. fst (http_run D options args w) = Inr r"
proof -
  have "check_response_body D args (target_label (pp_target p)) (hr_body response) = Inr ()"
    using assms(5-7) by (rule check_response_body_complete)
  with assms(3,4) have "\<exists>r. evaluate_response D response (target_label (pp_target p)) args (pp_prepared p)
      (hw_started w) (answered_at w (pp_target p)) options
      = (Inr r, judged_at args response (answered_at w (pp_target p)))"
    by (simp add: evaluate_response_Inr)
  with assms(1,2,8) show ?thesis unfolding http_run_Inr_iff by blast
qed

text \<open>
  What the program makes of hyper's connectors for a URL: plain or TLS, the latter with the
  configuration and the server name its flags ask for; and always called with one fixed URI.
\<close>

definition connector_for :: "deps \<Rightarrow> 'k http_world \<Rightarrow> tls_args \<Rightarrow> bool \<Rightarrow> 'k connector \<Rightarrow> bool" where
  "connector_for D w tls uses_tls inner \<longleftrightarrow>
     (if uses_tls then
        \<exists>cfg name. tls_config_asked_for D (hw_tls w) tls cfg
          \<and> server_name_asked_for D (tls_server_name tls) name
          \<and> inner = hw_https_connector w cfg name
      else inner = hw_http_connector w)"

definition always_to :: "uri \<Rightarrow> 'k connector \<Rightarrow> 'k connector" where
  "always_to u inner = \<lparr>svc_poll_ready = svc_poll_ready inner, svc_call = (\<lambda>_. svc_call inner u)\<rparr>"

lemma url_client_connects_to_url:
  assumes "build_url_http_client D w uses_tls tls connect_uri = Inr client"
  shows "\<exists>inner. connector_for D w tls uses_tls inner
    \<and> client = (if uses_tls then TlsClient else PlainClient) (always_to connect_uri inner)"
  using assms
  by (fastforce simp: build_url_http_client_def build_https_client_def build_plain_http_client_def
      bindR_Inr_iff connector_for_def always_to_def fixed_connect_uri_def build_http_tls_config_Inr
      parse_server_name_override_asked_for split: if_splits)

text \<open>
  The only exchange of a URL probe is the request over its client: with the same answer to it, the
  run is the same, whatever hyper would do with other connectors and requests.
\<close>

lemma run_url_exchange:
  assumes "build_url_http_client D w (url_uses_tls t) (http_tls args) (url_connect_uri t) = Inr client"
    and "client_request (w\<lparr>hw_request := f\<rparr>) client request = client_request w client request"
  shows "run_url D (w\<lparr>hw_request := f\<rparr>) options args prepared request t
    = run_url D w options args prepared request t"
proof -
  have b: "build_url_http_client D (w\<lparr>hw_request := f\<rparr>) = build_url_http_client D w"
    by (simp add: build_url_http_client_def build_https_client_def build_plain_http_client_def fun_eq_iff)
  show ?thesis
    unfolding run_url_def b assms(1)
    by (cases "client_request w client request") (simp_all add: url_future_def assms(2))
qed

lemma prepared_url:
  assumes "prepare_http_probe D args = Inr p" "http_url args = Some raw"
  shows "\<exists>t. pp_target p = Url t \<and> prepare_url_target D args raw = Inr t"
  using assms by (auto simp: prepare_http_probe_Inr prepare_http_target_def validate_http_target_args_def
      bindR_Inr_iff ok_or_Inr_iff split: option.splits)

text \<open>The request carries no header the program reserves, whatever the arguments.\<close>

lemma prepared_request_headers:
  assumes "prepare_http_probe D args = Inr p" "\<forall>q r. request_body D q = Inr r \<longrightarrow> r = q"
  shows "filter (\<lambda>(n, _). reserved_header n) (req_headers (pp_request p))
      = [(''host'', target_host (pp_target p))]
    \<and> req_method (pp_request p) \<in> {''GET'', ''HEAD''}
    \<and> (\<exists>v. (''user-agent'', v) \<in> set (req_headers (pp_request p)))"
proof -
  note p = assms(1) [unfolded prepare_http_probe_Inr]
  have h: "parse_headers D (http_header args) = Inr (pa_headers (pp_prepared p))"
    using p prepared_from_args_Inr(1) by blast
  have b: "build_request D (target_request_uri (pp_target p)) (target_host (pp_target p)) (pp_prepared p)
      = Inr (pp_request p)" using p by blast
  have m: "method_str m \<in> {''GET'', ''HEAD''}" for m by (cases m) simp_all
  have n: "\<forall>n v. (n, v) \<in> set (pa_headers (pp_prepared p)) \<longrightarrow> \<not> reserved_header n"
    using parse_headers_not_reserved [OF h] by blast
  note q = build_request_headers [OF b assms(2) n]
  from q m show ?thesis by simp
qed

definition check_http_args :: "deps \<Rightarrow> http_args \<Rightarrow> unit result" where
  "check_http_args D args = bindR (prepare_http_probe D args) (\<lambda>_. Inr ())"

interpretation http_probe: probe "check_http_args D" "\<lambda>opts args w. fst (http_run D opts args w)" "''http''" for D
proof unfold_locales
  fix args e opts and w :: "'k http_world"
  assume "check_http_args D args = Inl e"
  then show "is_invalid_config e \<and> fst (http_run D opts args w) = Inl e"
    by (auto simp: check_http_args_def http_run_def bindR_Inl_iff prepare_http_probe_Inl)
next
  fix opts args r and w :: "'k http_world"
  assume "fst (http_run D opts args w) = Inr r"
  then show "rep_mode r = ''http'' \<and> rep_options r = opts"
    by (auto simp: http_run_Inr_iff evaluate_response_Inr)
qed

section \<open>Properties\<close>

text \<open>
  C5. A healthy HTTP verdict is never wrong, whatever the size and framing of the body: the
  peer answered the prepared request with an allowed status, the response headers satisfy the
  assertions, and so does the whole body the peer sent; all of it was there within the
  timeout, and the report says how long it took.
\<close>

theorem http_verdict_sound:
  assumes "fst (http_run D options args w) = Inr r"
  shows "\<exists>p response. prepare_http_probe D args = Inr p \<and> http_answer D w args p response
    \<and> status_ranges_match (pa_status_ranges (pp_prepared p)) (hr_status response)
    \<and> headers_satisfy (hr_headers response) (pa_assertions (pp_prepared p))
    \<and> body_satisfies args (frames_data (body_frames (hr_body response)))
    \<and> judged_at args response (answered_at w (pp_target p)) \<le> hw_now w + opt_timeout options
    \<and> rep_elapsed r = judged_at args response (answered_at w (pp_target p)) - hw_started w
    \<and> rep_target r = target_label (pp_target p)"
  using assms by (rule http_run_sound)

definition example_response :: "frame_event list \<Rightarrow> http_response" where
  "example_response evs = \<lparr>hr_status = 200, hr_headers = [(''x-up'', ''0''), (''x-up'', ''1'')],
     hr_body = \<lparr>hint_exact = None, hint_upper = None, body_frames = evs, body_grace = None\<rparr>, hr_body_time = 1\<rparr>"

definition example_http_world :: "frame_event list \<Rightarrow> uri http_world" where
  "example_http_world evs = \<lparr>hw_tls = example_tls_world, 
     hw_http_connector = \<lparr>svc_poll_ready = Ready (Inr ()), svc_call = Inr\<rparr>,
     hw_https_connector = (\<lambda>_ _. \<lparr>svc_poll_ready = Ready (Inr ()), svc_call = Inr\<rparr>),
     hw_request = (\<lambda>_ _. Inr (example_response evs)),
     hw_unix_connect = (\<lambda>_. Inr ()), hw_handshake = Inr (),
     hw_send_request = (\<lambda>_ _. Inr (example_response evs)),
     hw_started = 1, hw_now = 2, hw_request_time = 5, hw_connect_time = 1, hw_handshake_time = 1,
     hw_send_time = 3\<rparr>"

lemma example_http_answers:
  "client_request (example_http_world evs) client request = Inr (example_response evs)"
  "hw_send_request (example_http_world evs) sock request = Inr (example_response evs)"
  by (cases client) (simp_all add: example_http_world_def)

definition example_http_options :: probe_options where
  "example_http_options = \<lparr>opt_timeout = 9, opt_quiet = False, opt_verbose = True,
     opt_max_latency = None\<rparr>"

theorem http_verdict_sound_witness:
  "\<exists>r p response. fst (http_run example_deps example_http_options example_http_args
      (example_http_world [Data ''it is o'', Data ''k''])) = Inr r
    \<and> http_answer example_deps (example_http_world [Data ''it is o'', Data ''k'']) example_http_args p response
    \<and> body_satisfies example_http_args (frames_data (body_frames (hr_body response)))"
proof -
  have "is_ok (fst (http_run example_deps example_http_options example_http_args
      (example_http_world [Data ''it is o'', Data ''k''])))" by code_simp
  then obtain r where r: "fst (http_run example_deps example_http_options example_http_args
      (example_http_world [Data ''it is o'', Data ''k''])) = Inr r"
    by (auto simp: is_ok_def split: sum.splits)
  with http_verdict_sound [OF r] show ?thesis by blast
qed

text \<open>
  The timeout covers what is awaited: reading the TLS files comes before it, so that the time a
  healthy report names can be beyond the timeout.
\<close>

lemma setup_is_outside_the_timeout:
  "case fst (http_run example_deps example_http_options example_http_args
      ((example_http_world [Data ''it is o'', Data ''k''])\<lparr>hw_now := 100\<rparr>)) of
     Inr r \<Rightarrow> opt_timeout example_http_options < rep_elapsed r | Inl _ \<Rightarrow> False"
  by code_simp

text \<open>
  C6. For a peer that behaves as HTTP documents (declared lengths are true, the end of the body
  is seen) and a body within \<open>--max-body\<close>, an answer in time is judged exactly: healthy if and
  only if status, headers and the whole body satisfy the assertions.
\<close>

theorem http_verdict_exact:
  assumes "prepare_http_probe D args = Inr p" "http_answer D w args p response"
    and "well_behaved_body (hr_body response)"
    and "length (frames_data (body_frames (hr_body response))) \<le> http_max_body args"
    and "judged_at args response (answered_at w (pp_target p)) \<le> hw_now w + opt_timeout options"
  shows "(\<exists>r. fst (http_run D options args w) = Inr r) \<longleftrightarrow>
     status_ranges_match (pa_status_ranges (pp_prepared p)) (hr_status response)
     \<and> headers_satisfy (hr_headers response) (pa_assertions (pp_prepared p))
     \<and> body_satisfies args (frames_data (body_frames (hr_body response)))"
proof
  assume "\<exists>r. fst (http_run D options args w) = Inr r"
  then obtain q answer where q: "prepare_http_probe D args = Inr q" "http_answer D w args q answer"
    "status_ranges_match (pa_status_ranges (pp_prepared q)) (hr_status answer)
     \<and> headers_satisfy (hr_headers answer) (pa_assertions (pp_prepared q))
     \<and> body_satisfies args (frames_data (body_frames (hr_body answer)))"
    using http_run_sound by blast
  have "q = p" using q(1) assms(1) by simp
  with q(2) assms(2) have "answer = response"
    by (auto simp: http_answer_def split: http_target.splits)
  with q(3) \<open>q = p\<close> show "status_ranges_match (pa_status_ranges (pp_prepared p)) (hr_status response)
     \<and> headers_satisfy (hr_headers response) (pa_assertions (pp_prepared p))
     \<and> body_satisfies args (frames_data (body_frames (hr_body response)))" by simp
qed (use http_run_complete [OF assms(1,2) _ _ assms(3) _ assms(4,5)] in blast)

theorem http_verdict_exact_witness:
  "\<exists>p. prepare_http_probe example_deps example_http_args = Inr p
    \<and> ((\<exists>r. fst (http_run example_deps example_http_options example_http_args
          (example_http_world [Data ''it is o'', Data ''k''])) = Inr r) \<longleftrightarrow>
        status_ranges_match (pa_status_ranges (pp_prepared p)) 200
        \<and> headers_satisfy [(''x-up'', ''0''), (''x-up'', ''1'')] (pa_assertions (pp_prepared p))
        \<and> body_satisfies example_http_args ''it is ok'')"
proof -
  let ?w = "example_http_world [Data ''it is o'', Data ''k'']"
  let ?response = "example_response [Data ''it is o'', Data ''k'']"
  have "is_ok (prepare_http_probe example_deps example_http_args)" by code_simp
  then obtain p where p: "prepare_http_probe example_deps example_http_args = Inr p"
    by (auto simp: is_ok_def split: sum.splits)
  have "is_ok (fst (http_run example_deps example_http_options example_http_args ?w))" by code_simp
  then obtain r where "fst (http_run example_deps example_http_options example_http_args ?w) = Inr r"
    by (auto simp: is_ok_def split: sum.splits)
  from http_run_sound [OF this] p obtain answer where a: "http_answer example_deps ?w example_http_args p answer"
    by auto
  then have r: "answer = ?response"
    by (auto simp: http_answer_def example_http_answers split: http_target.splits sum.splits)
  have b: "well_behaved_body (hr_body ?response)"
    "length (frames_data (body_frames (hr_body ?response))) \<le> http_max_body example_http_args"
    by (simp_all add: example_response_def well_behaved_body_def frames_ok_def example_http_args_def)
  have c: "judged_at example_http_args ?response (answered_at ?w (pp_target p))
      \<le> hw_now ?w + opt_timeout example_http_options"
    by (cases "pp_target p")
      (simp_all add: judged_at_def example_response_def example_http_world_def example_http_options_def)
  have d: "hr_status ?response = 200" "hr_headers ?response = [(''x-up'', ''0''), (''x-up'', ''1'')]"
    "frames_data (body_frames (hr_body ?response)) = ''it is ok''"
    by (simp_all add: example_response_def)
  from http_verdict_exact [OF p a [unfolded r] b c] show ?thesis
    unfolding d using p by blast
qed


text \<open>
  C23. The connection and the request of a URL probe that is healthy: the answer it was judged on
  is that to one request over one client, and what any other connector or request would have
  given plays no part. That client connects, whatever URI it is called with, to the authority of
  the URL itself and not to the one of \<open>--host\<close>, over TLS with the trust, identity and server name
  of the flags exactly for \<open>https\<close>; \<open>--host\<close> is the request's \<open>Host\<close> header, of which there is
  exactly one, and the request is a GET or HEAD with a user agent and without any reserved header
  of the user. (http's URI builder keeps the scheme and the authority it is given, and its
  request builder the request.)
\<close>

theorem http_connection_and_request:
  assumes "fst (http_run D options args w) = Inr r" and "http_url args = Some raw"
    and "\<forall>s a p u. build_uri D s a p = Inr u \<longrightarrow>
      uri_scheme u = Some s \<and> (\<exists>x. uri_authority u = Some x \<and> auth_str x = a)"
    and "\<forall>q r. request_body D q = Inr r \<longrightarrow> r = q"
  shows "\<exists>scheme rest uses_tls u authority to_authority to inner request response host.
      raw = scheme @ ''://'' @ rest \<and> ascii_lower scheme = (if uses_tls then ''https'' else ''http'')
    \<and> parse_uri D raw = Inr u \<and> uri_authority u = Some authority
    \<and> uri_scheme to = Some (if uses_tls then ''https'' else ''http'')
    \<and> uri_authority to = Some to_authority \<and> auth_str to_authority = auth_str authority
    \<and> connector_for D w (http_tls args) uses_tls inner
    \<and> hw_request w (always_to to inner) request = Inr response
    \<and> (\<forall>f. f (always_to to inner) request = Inr response \<longrightarrow>
         http_run D options args (w\<lparr>hw_request := f\<rparr>) = http_run D options args w)
    \<and> filter (\<lambda>(n, _). reserved_header n) (req_headers request) = [(''host'', host)]
    \<and> (\<forall>h. http_host args = Some h \<longrightarrow> host = h)
    \<and> req_method request \<in> {''GET'', ''HEAD''}
    \<and> (\<exists>v. (''user-agent'', v) \<in> set (req_headers request))"
proof -
  from assms(1) obtain p response where p: "prepare_http_probe D args = Inr p"
    and a: "http_answer D w args p response" using http_run_sound by blast
  from prepared_url [OF p assms(2)] obtain t where t: "pp_target p = Url t"
    "prepare_url_target D args raw = Inr t" by blast
  from a t(1) obtain client where
    b: "build_url_http_client D w (url_uses_tls t) (http_tls args) (url_connect_uri t) = Inr client"
    and c: "client_request w client (pp_request p) = Inr response" by (auto simp: http_answer_def)
  from url_client_connects_to_url [OF b] obtain inner where
    i: "connector_for D w (http_tls args) (url_uses_tls t) inner"
    and cl: "client = (if url_uses_tls t then TlsClient else PlainClient) (always_to (url_connect_uri t) inner)"
    by blast
  have cr: "client_request v client q = hw_request v (always_to (url_connect_uri t) inner) q" for v q
    unfolding cl by simp
  have same: "http_run D options args (w\<lparr>hw_request := f\<rparr>) = http_run D options args w"
    if "f (always_to (url_connect_uri t) inner) (pp_request p) = Inr response" for f
  proof -
    have "client_request (w\<lparr>hw_request := f\<rparr>) client (pp_request p) = client_request w client (pp_request p)"
      using that c unfolding cr by simp
    from run_url_exchange [OF b this] show ?thesis by (simp add: http_run_def p t(1))
  qed
  from prepare_url_target_Inr(1) [OF t(2)] obtain scheme auth tail where sc:
    "raw = scheme @ ''://'' @ auth @ tail"
    "ascii_lower scheme = (if url_uses_tls t then ''https'' else ''http'')"
    by (elim exE conjE) (rule that; assumption)
  from prepare_url_target_Inr(2) [OF t(2)] obtain u authority where u:
    "parse_uri D raw = Inr u" "uri_authority u = Some authority"
    and to: "absolute_uri D u (if url_uses_tls t then ''https'' else ''http'') (auth_str authority)
      = Inr (url_connect_uri t)"
    and h: "\<forall>h. http_host args = Some h \<longrightarrow> url_host t = h"
    by (auto split: option.splits)
  from to assms(3) obtain x where x:
    "uri_scheme (url_connect_uri t) = Some (if url_uses_tls t then ''https'' else ''http'')"
    "uri_authority (url_connect_uri t) = Some x" "auth_str x = auth_str authority"
    unfolding absolute_uri_def Let_def map_err_Inr_iff by blast
  have q: "filter (\<lambda>(n, _). reserved_header n) (req_headers (pp_request p)) = [(''host'', url_host t)]"
    "req_method (pp_request p) \<in> {''GET'', ''HEAD''}"
    "\<exists>v. (''user-agent'', v) \<in> set (req_headers (pp_request p))"
    using prepared_request_headers [OF p assms(4)] t(1) by simp_all
  show ?thesis
  proof (rule exI [where x = scheme], rule exI [where x = "auth @ tail"], rule exI [where x = "url_uses_tls t"],
      rule exI [where x = u], rule exI [where x = authority], rule exI [where x = x],
      rule exI [where x = "url_connect_uri t"], rule exI [where x = inner],
      rule exI [where x = "pp_request p"], rule exI [where x = response],
      rule exI [where x = "url_host t"], intro conjI)
    show "\<forall>f. f (always_to (url_connect_uri t) inner) (pp_request p) = Inr response \<longrightarrow>
        http_run D options args (w\<lparr>hw_request := f\<rparr>) = http_run D options args w"
      using same by blast
    show "hw_request w (always_to (url_connect_uri t) inner) (pp_request p) = Inr response"
      using c unfolding cr .
  qed (fact sc u x i h q)+
qed

lemma example_run_healthy:
  "\<exists>r. fst (http_run example_deps example_http_options example_http_args
      (example_http_world [Data ''it is o'', Data ''k''])) = Inr r"
proof -
  have "is_ok (fst (http_run example_deps example_http_options example_http_args
      (example_http_world [Data ''it is o'', Data ''k''])))" by code_simp
  then show ?thesis by (auto simp: is_ok_def split: sum.splits)
qed

theorem http_connection_and_request_witness:
  "\<exists>to x inner request response. uri_authority to = Some x \<and> auth_str x = ''web.local:443''
    \<and> uri_scheme to = Some ''https''
    \<and> connector_for example_deps (example_http_world [Data ''it is o'', Data ''k''])
        (http_tls example_http_args) True inner
    \<and> hw_request (example_http_world [Data ''it is o'', Data ''k'']) (always_to to inner) request = Inr response
    \<and> filter (\<lambda>(n, _). reserved_header n) (req_headers request) = [(''host'', ''front.local'')]"
proof -
  let ?raw = "''HTTPS://web.local:443/up?x=%41''"
  obtain r where r: "fst (http_run example_deps example_http_options example_http_args
      (example_http_world [Data ''it is o'', Data ''k''])) = Inr r" using example_run_healthy by blast
  have u: "http_url example_http_args = Some ?raw" "http_host example_http_args = Some ''front.local''"
    by (simp_all add: example_http_args_def)
  have b: "\<forall>s a p u. build_uri example_deps s a p = Inr u \<longrightarrow>
      uri_scheme u = Some s \<and> (\<exists>x. uri_authority u = Some x \<and> auth_str x = a)"
    by (auto simp: example_deps_def example_authority_def split: option.split prod.split)
  have q: "\<forall>q r. request_body example_deps q = Inr r \<longrightarrow> r = q" by simp
  have a: "map_option auth_str (uri_authority (example_uri ?raw)) = Some ''web.local:443''" by code_simp
  have s: "uses_tls" if "?raw = scheme @ ''://'' @ rest"
    "ascii_lower scheme = (if uses_tls then ''https'' else ''http'')" for scheme rest uses_tls
  proof -
    have "ascii_lower ?raw = ascii_lower scheme @ ascii_lower (''://'' @ rest)"
      unfolding that(1) ascii_lower_def by (rule map_append)
    moreover have "ascii_lower (''://'' @ rest) = ascii_lower ''://'' @ ascii_lower rest"
      unfolding ascii_lower_def by (rule map_append)
    moreover have "ascii_lower ''://'' = ''://''" "take 5 (ascii_lower ?raw) = ''https''" by code_simp+
    ultimately have "take 5 (ascii_lower scheme @ ''://'' @ ascii_lower rest) = ''https''" by simp
    then have "ascii_lower scheme \<noteq> ''http''" by auto
    with that(2) show ?thesis by (cases uses_tls) simp_all
  qed
  from http_connection_and_request [OF r u(1) b q] show ?thesis
  proof (elim exE conjE)
    fix scheme rest uses_tls u' authority to_authority to inner request response host
    assume raw: "?raw = scheme @ ''://'' @ rest" "ascii_lower scheme = (if uses_tls then ''https'' else ''http'')"
      and c: "parse_uri example_deps ?raw = Inr u'" "uri_authority u' = Some authority"
      "uri_scheme to = Some (if uses_tls then ''https'' else ''http'')"
      "uri_authority to = Some to_authority" "auth_str to_authority = auth_str authority"
      and e: "connector_for example_deps (example_http_world [Data ''it is o'', Data ''k''])
        (http_tls example_http_args) uses_tls inner"
      "hw_request (example_http_world [Data ''it is o'', Data ''k'']) (always_to to inner) request = Inr response"
      and f: "filter (\<lambda>(n, _). reserved_header n) (req_headers request) = [(''host'', host)]"
      "\<forall>h. http_host example_http_args = Some h \<longrightarrow> host = h"
    have "auth_str authority = ''web.local:443''" using a c(1,2) by simp
    moreover have "uses_tls = True" using s [OF raw] by simp
    moreover have "host = ''front.local''" using f(2) u(2) by blast
    ultimately show ?thesis using c(3-5) e f(1)
      by (intro exI [where x = to], intro exI [where x = to_authority], intro exI [where x = inner],
          intro exI [where x = request], intro exI [where x = response]) simp
  qed
qed

end
