(* ===== verification/Grpc_Probe.thy ===== *)
theory Grpc_Probe
  imports Probe Authority Tls
begin

text \<open>
  \<open>probes/grpc.rs\<close>: the gRPC health check. tonic, hyper and the peer are a record of
  functions: what connecting to an endpoint gives, with tonic's own connector or with the
  program's TLS connector, what the health service answers on a channel, and how long each
  takes from \<open>gw_now\<close>, when the timeout of the probe begins. Channels and connections are
  opaque; times are nanoseconds.
\<close>

record endpoint =
  ep_uri :: uri
  ep_connect_timeout :: nat
  ep_timeout :: nat
  ep_origin :: "uri option"

record grpc_status =
  status_code :: string
  status_message :: string

datatype serving_status = Serving | OtherStatus string

text \<open>The \<open>HttpsConnector\<close> built for the probe: its configuration and its fixed server name.\<close>

record grpc_tls_connector =
  gc_config :: client_config
  gc_server_name :: "string option"

record ('c, 'k) grpc_world =
  gw_tls :: tls_world
  gw_from_shared :: "string \<Rightarrow> string + uri"
  gw_from_parts :: "uri \<Rightarrow> string + uri"
  gw_https_connector :: "grpc_tls_connector \<Rightarrow> (string, 'k) uri_service"
  gw_connect :: "endpoint \<Rightarrow> string + 'c"
  gw_connect_with_connector :: "endpoint \<Rightarrow> (io_error, 'k) uri_service \<Rightarrow> string + 'c"
  gw_check :: "'c \<Rightarrow> string \<Rightarrow> grpc_status + int"
  gw_serving_status :: "int \<Rightarrow> serving_status option"
  gw_started :: nat
  gw_now :: nat
  gw_connect_time :: nat
  gw_check_time :: nat

definition has_tls_flags :: "grpc_args \<Rightarrow> bool" where
  "has_tls_flags args \<longleftrightarrow> tls_ca (grpc_tls_args args) \<noteq> None
     \<or> tls_cert (grpc_tls_args args) \<noteq> None
     \<or> tls_key (grpc_tls_args args) \<noteq> None
     \<or> tls_server_name (grpc_tls_args args) \<noteq> None
     \<or> tls_insecure_skip_verify (grpc_tls_args args)"

text \<open>The checks at the beginning of \<open>run\<close>, in their order.\<close>

definition validate_grpc_args :: "deps \<Rightarrow> grpc_args \<Rightarrow> unit result" where
  "validate_grpc_args D args =
     bindR (validate_non_empty_str ''--addr'' (grpc_addr args)) (\<lambda>_.
     bindR (case grpc_service args of
              Some service \<Rightarrow> validate_non_empty_str ''--service'' service | None \<Rightarrow> Inr ()) (\<lambda>_.
     bindR (case grpc_authority args of
              Some a \<Rightarrow> validate_non_empty_str ''--authority'' a | None \<Rightarrow> Inr ()) (\<lambda>_.
     bindR (validate_authority D (grpc_addr args) ''gRPC address'' Required Debug) (\<lambda>_.
     bindR (case grpc_authority args of
              Some a \<Rightarrow> bindR (validate_authority D a ''gRPC authority'' Optional Debug) (\<lambda>_. Inr ())
            | None \<Rightarrow> Inr ()) (\<lambda>_.
     if \<not> grpc_tls args \<and> has_tls_flags args then
       Inl (InvalidConfig ''gRPC TLS flags require --tls'')
     else if grpc_tls args then validate_tls_options D (grpc_tls_args args)
     else Inr ())))))"

definition grpc_target :: "deps \<Rightarrow> string \<Rightarrow> string option \<Rightarrow> string" where
  "grpc_target D addr service =
     (case service of
        Some service \<Rightarrow> if service \<noteq> [] then addr @ '' service='' @ diag_value D service else addr
      | None \<Rightarrow> addr)"

definition grpc_status_error :: "deps \<Rightarrow> string \<Rightarrow> grpc_status \<Rightarrow> app_error" where
  "grpc_status_error D target status =
     Failure (''gRPC health check for '' @ target @ '' failed: code='' @ status_code status
       @ '' message='' @ diag_value D (status_message status))"

definition prepare_grpc_endpoint :: "deps \<Rightarrow> ('c, 'k) grpc_world \<Rightarrow> grpc_args \<Rightarrow> string \<Rightarrow> string \<Rightarrow> nat
    \<Rightarrow> endpoint result" where
  "prepare_grpc_endpoint D w args endpoint_uri request_scheme timeout =
     bindR (map_err (\<lambda>error. InvalidConfig (''invalid gRPC endpoint '' @ endpoint_uri @ '': '' @ error))
       (gw_from_shared w endpoint_uri)) (\<lambda>u.
     (let endpoint = \<lparr>ep_uri = u, ep_connect_timeout = timeout, ep_timeout = timeout, ep_origin = None\<rparr> in
      (case grpc_authority args of
         Some a \<Rightarrow>
           bindR (map_err (\<lambda>error. InvalidConfig (''invalid gRPC authority '' @ a @ '': '' @ error))
             (parse_uri D (request_scheme @ ''://'' @ a))) (\<lambda>origin.
           Inr (endpoint\<lparr>ep_origin := Some origin\<rparr>))
       | None \<Rightarrow>
           if grpc_tls args then
             bindR (map_err (\<lambda>error. InvalidConfig (''invalid gRPC TLS origin https://''
                 @ grpc_addr args @ '': '' @ error))
               (parse_uri D (''https://'' @ grpc_addr args))) (\<lambda>origin.
             Inr (endpoint\<lparr>ep_origin := Some origin\<rparr>))
           else Inr endpoint)))"

definition build_grpc_tls_connector :: "deps \<Rightarrow> tls_world \<Rightarrow> tls_args \<Rightarrow> grpc_tls_connector result" where
  "build_grpc_tls_connector D w tls =
     bindR (build_http_tls_config D w tls) (\<lambda>tls_config.
     (case tls_server_name tls of
        Some name \<Rightarrow>
          bindR (parse_server_name_override D name) (\<lambda>n.
          Inr \<lparr>gc_config = tls_config, gc_server_name = Some n\<rparr>)
      | None \<Rightarrow> Inr \<lparr>gc_config = tls_config, gc_server_name = None\<rparr>))"

text \<open>
  \<open>GrpcTlsConnector\<close>: ready when the inner connector is, and called with a URI that has been given
  the scheme \<open>https\<close>; the inner connector's errors become those of \<open>io\<close>.
\<close>

definition io_error_other :: "string \<Rightarrow> io_error" where
  "io_error_other error = \<lparr>io_kind = OtherKind, io_text = error\<rparr>"

definition grpc_tls_poll_ready :: "('c, 'k) grpc_world \<Rightarrow> grpc_tls_connector \<Rightarrow> (io_error + unit) poll" where
  "grpc_tls_poll_ready w inner =
     (case svc_poll_ready (gw_https_connector w inner) of
        Pending \<Rightarrow> Pending | Ready r \<Rightarrow> Ready (map_err io_error_other r))"

definition grpc_tls_call :: "('c, 'k) grpc_world \<Rightarrow> grpc_tls_connector \<Rightarrow> uri \<Rightarrow> io_error + 'k" where
  "grpc_tls_call w inner u =
     (case gw_from_parts w (u\<lparr>uri_scheme := Some ''https''\<rparr>) of
        Inl error \<Rightarrow> Inl \<lparr>io_kind = InvalidInput,
          io_text = ''failed to construct HTTPS gRPC URI: '' @ error\<rparr>
      | Inr u \<Rightarrow> map_err io_error_other (svc_call (gw_https_connector w inner) u))"

definition grpc_tls_service :: "('c, 'k) grpc_world \<Rightarrow> grpc_tls_connector \<Rightarrow> (io_error, 'k) uri_service" where
  "grpc_tls_service w inner =
     \<lparr>svc_poll_ready = grpc_tls_poll_ready w inner, svc_call = grpc_tls_call w inner\<rparr>"

definition connect_grpc_channel :: "('c, 'k) grpc_world \<Rightarrow> endpoint \<Rightarrow> grpc_tls_connector option
    \<Rightarrow> string \<Rightarrow> 'c result" where
  "connect_grpc_channel w endpoint tls_connector addr =
     map_err (\<lambda>error. Failure (''failed to connect to gRPC target '' @ addr @ '': '' @ error))
       (case tls_connector of
          Some connector \<Rightarrow> gw_connect_with_connector w endpoint (grpc_tls_service w connector)
        | None \<Rightarrow> gw_connect w endpoint)"

definition grpc_future :: "deps \<Rightarrow> ('c, 'k) grpc_world \<Rightarrow> probe_options \<Rightarrow> grpc_args \<Rightarrow> endpoint
    \<Rightarrow> grpc_tls_connector option \<Rightarrow> probe_report result \<times> nat" where
  "grpc_future D w options args endpoint tls_connector =
     (let target = grpc_target D (grpc_addr args) (grpc_service args);
          now = gw_now w + gw_connect_time w in
      case connect_grpc_channel w endpoint tls_connector (grpc_addr args) of
        Inl error \<Rightarrow> (Inl error, now)
      | Inr channel \<Rightarrow>
          (let now = now + gw_check_time w in
           (bindR (map_err (grpc_status_error D target)
              (gw_check w channel (case grpc_service args of Some service \<Rightarrow> service | None \<Rightarrow> [])))
              (\<lambda>response.
            bindR (ok_or (Failure (''gRPC health check for '' @ target
                @ '' returned an unknown serving status''))
              (gw_serving_status w response)) (\<lambda>status.
            (case status of
               OtherStatus text \<Rightarrow>
                 Inl (Failure (''gRPC health check for '' @ target @ '' returned '' @ text))
             | Serving \<Rightarrow>
                 Inr (probe_report_new ''grpc'' target (Some ''status=SERVING'')
                   (now - gw_started w) options)))), now)))"

definition grpc_run :: "deps \<Rightarrow> probe_options \<Rightarrow> grpc_args \<Rightarrow> ('c, 'k) grpc_world \<Rightarrow> probe_report result" where
  "grpc_run D options args w =
     bindR (validate_grpc_args D args) (\<lambda>_.
     (let endpoint_uri = ''http://'' @ grpc_addr args;
          request_scheme = (if grpc_tls args then ''https'' else ''http'') in
      bindR (prepare_grpc_endpoint D w args endpoint_uri request_scheme (opt_timeout options)) (\<lambda>endpoint.
      bindR (if grpc_tls args then
               bindR (build_grpc_tls_connector D (gw_tls w) (grpc_tls_args args)) (\<lambda>c. Inr (Some c))
             else Inr None) (\<lambda>tls_connector.
      with_probe_timeout D ''gRPC'' (opt_timeout options)
        (ready_by (gw_now w + opt_timeout options)
          (grpc_future D w options args endpoint tls_connector))))))"

section \<open>Validation\<close>

lemma validate_grpc_args_Inl: "validate_grpc_args D args = Inl e \<Longrightarrow> is_invalid_config e"
  by (auto simp: validate_grpc_args_def bindR_Inl_iff
      dest: validation_Inl validate_authority_Inl validate_tls_options_Inl
      split: option.splits if_splits)

section \<open>A healthy verdict\<close>

text \<open>
  What the arguments ask for, without reference to how it is prepared. Arguments are in order when
  no text is empty, the addresses are authorities (with a port for \<open>--addr\<close>), and the TLS flags
  are consistent, or absent without \<open>--tls\<close>.
\<close>

definition grpc_args_ok :: "deps \<Rightarrow> grpc_args \<Rightarrow> bool" where
  "grpc_args_ok D args \<longleftrightarrow>
     grpc_addr args \<noteq> [] \<and> grpc_service args \<noteq> Some []
     \<and> (\<exists>a. validate_authority D (grpc_addr args) ''gRPC address'' Required Debug = Inr a)
     \<and> (\<forall>raw. grpc_authority args = Some raw \<longrightarrow>
          raw \<noteq> [] \<and> (\<exists>a. validate_authority D raw ''gRPC authority'' Optional Debug = Inr a))
     \<and> (if grpc_tls args then tls_options_ok D (grpc_tls_args args)
        else grpc_tls_args args = \<lparr>tls_ca = None, tls_cert = None, tls_key = None,
          tls_server_name = None, tls_insecure_skip_verify = False\<rparr>)"

text \<open>
  The endpoint: it connects to \<open>--addr\<close>, within the timeout of the probe, and asks within it too;
  requests are for \<open>--authority\<close> if there is one, and else for \<open>--addr\<close>, with the scheme of the
  connection (tonic's own default without TLS).
\<close>

definition endpoint_asked_for :: "deps \<Rightarrow> ('c, 'k) grpc_world \<Rightarrow> grpc_args \<Rightarrow> nat \<Rightarrow> endpoint \<Rightarrow> bool" where
  "endpoint_asked_for D w args timeout endpoint \<longleftrightarrow>
     gw_from_shared w (''http://'' @ grpc_addr args) = Inr (ep_uri endpoint)
     \<and> ep_connect_timeout endpoint = timeout \<and> ep_timeout endpoint = timeout
     \<and> (case (grpc_authority args, grpc_tls args) of
          (None, False) \<Rightarrow> ep_origin endpoint = None
        | (None, True) \<Rightarrow> (\<exists>u. parse_uri D (''https://'' @ grpc_addr args) = Inr u \<and> ep_origin endpoint = Some u)
        | (Some a, False) \<Rightarrow> (\<exists>u. parse_uri D (''http://'' @ a) = Inr u \<and> ep_origin endpoint = Some u)
        | (Some a, True) \<Rightarrow> (\<exists>u. parse_uri D (''https://'' @ a) = Inr u \<and> ep_origin endpoint = Some u))"

text \<open>The connector: its configuration and server name are what the TLS flags ask for.\<close>

definition connector_asked_for :: "deps \<Rightarrow> tls_world \<Rightarrow> tls_args \<Rightarrow> grpc_tls_connector \<Rightarrow> bool" where
  "connector_asked_for D w tls c \<longleftrightarrow>
     tls_config_asked_for D w tls (gc_config c)
     \<and> server_name_asked_for D (tls_server_name tls) (gc_server_name c)"

text \<open>
  The channel on which the health service answered: over the program's TLS connector, with
  the configuration its flags ask for, exactly when \<open>--tls\<close> is given.
\<close>

definition grpc_channel :: "deps \<Rightarrow> ('c, 'k) grpc_world \<Rightarrow> grpc_args \<Rightarrow> endpoint \<Rightarrow> 'c \<Rightarrow> bool" where
  "grpc_channel D w args endpoint channel \<longleftrightarrow>
     (if grpc_tls args then
        \<exists>c. connector_asked_for D (gw_tls w) (grpc_tls_args args) c
          \<and> gw_connect_with_connector w endpoint (grpc_tls_service w c) = Inr channel
      else gw_connect w endpoint = Inr channel)"

text \<open>The answer of the health service on a channel, for the service that was asked for.\<close>

definition serving :: "('c, 'k) grpc_world \<Rightarrow> grpc_args \<Rightarrow> 'c \<Rightarrow> bool" where
  "serving w args channel \<longleftrightarrow>
     (\<exists>n. gw_check w channel (case grpc_service args of Some service \<Rightarrow> service | None \<Rightarrow> []) = Inr n
        \<and> gw_serving_status w n = Some Serving)"

lemma validate_grpc_args_Inr: "validate_grpc_args D args = Inr () \<longleftrightarrow> grpc_args_ok D args"
proof -
  have t: "grpc_tls_args args = \<lparr>tls_ca = None, tls_cert = None, tls_key = None,
      tls_server_name = None, tls_insecure_skip_verify = False\<rparr> \<longleftrightarrow> \<not> has_tls_flags args"
    by (cases "grpc_tls_args args") (auto simp: has_tls_flags_def)
  show ?thesis
    unfolding grpc_args_ok_def t
    by (auto simp: validate_grpc_args_def bindR_Inr_iff validation_simps validate_tls_options_Inr
        split: option.splits)
qed

lemma prepare_grpc_endpoint_Inr:
  "prepare_grpc_endpoint D w args (''http://'' @ grpc_addr args)
     (if grpc_tls args then ''https'' else ''http'') timeout = Inr endpoint
   \<longleftrightarrow> endpoint_asked_for D w args timeout endpoint"
  by (cases endpoint) (auto simp: prepare_grpc_endpoint_def endpoint_asked_for_def bindR_Inr_iff
      map_err_Inr_iff Let_def split: option.splits bool.splits)

lemma build_grpc_tls_connector_Inr:
  "build_grpc_tls_connector D w tls = Inr c \<longleftrightarrow> connector_asked_for D w tls c"
  unfolding connector_asked_for_def
  by (cases c) (auto simp: build_grpc_tls_connector_def bindR_Inr_iff build_http_tls_config_Inr
      simp flip: parse_server_name_override_asked_for split: option.splits)

text \<open>The instant when the answer of the health service is there.\<close>

definition grpc_answered_at :: "('c, 'k) grpc_world \<Rightarrow> nat" where
  "grpc_answered_at w = gw_now w + gw_connect_time w + gw_check_time w"

lemma grpc_future_Inr:
  "grpc_future D w options args endpoint tc = (Inr r, ready) \<longleftrightarrow>
     (\<exists>channel. connect_grpc_channel w endpoint tc (grpc_addr args) = Inr channel
       \<and> serving w args channel \<and> ready = grpc_answered_at w
       \<and> r = probe_report_new ''grpc'' (grpc_target D (grpc_addr args) (grpc_service args))
               (Some ''status=SERVING'') (ready - gw_started w) options)"
proof -
  have s: "(case st of OtherStatus t \<Rightarrow> Inl (f t) | Serving \<Rightarrow> Inr x) = Inr y \<longleftrightarrow> st = Serving \<and> x = y"
    for st f and x y :: probe_report
    by (cases st) simp_all
  show ?thesis
    unfolding grpc_future_def grpc_answered_at_def serving_def Let_def
    by (cases "connect_grpc_channel w endpoint tc (grpc_addr args)")
      (auto simp: bindR_Inr_iff map_err_Inr_iff ok_or_Inr_iff s)
qed

lemma grpc_future_ready:
  "ready_by t (grpc_future D w options args endpoint tc) = Some (Inr r) \<longleftrightarrow>
     grpc_answered_at w \<le> t
     \<and> (\<exists>channel. connect_grpc_channel w endpoint tc (grpc_addr args) = Inr channel
       \<and> serving w args channel)
     \<and> r = probe_report_new ''grpc'' (grpc_target D (grpc_addr args) (grpc_service args))
             (Some ''status=SERVING'') (grpc_answered_at w - gw_started w) options"
  unfolding ready_by_Some grpc_future_Inr by blast

lemma grpc_run_Inr_iff:
  "grpc_run D options args w = Inr r \<longleftrightarrow>
     grpc_args_ok D args \<and> grpc_answered_at w \<le> gw_now w + opt_timeout options
     \<and> (\<exists>endpoint channel. endpoint_asked_for D w args (opt_timeout options) endpoint
          \<and> grpc_channel D w args endpoint channel \<and> serving w args channel)
     \<and> r = probe_report_new ''grpc'' (grpc_target D (grpc_addr args) (grpc_service args))
             (Some ''status=SERVING'') (grpc_answered_at w - gw_started w) options"
proof (cases "grpc_tls args")
  case True
  then show ?thesis
    using prepare_grpc_endpoint_Inr [of D w args "opt_timeout options"]
    unfolding grpc_run_def Let_def grpc_channel_def
    by (auto simp: bindR_assoc bindR_Inr_iff with_probe_timeout_Inr grpc_future_ready
        validate_grpc_args_Inr build_grpc_tls_connector_Inr connect_grpc_channel_def map_err_Inr_iff)
next
  case False
  then show ?thesis
    using prepare_grpc_endpoint_Inr [of D w args "opt_timeout options"]
    unfolding grpc_run_def Let_def grpc_channel_def
    by (auto simp: bindR_Inr_iff with_probe_timeout_Inr grpc_future_ready
        validate_grpc_args_Inr connect_grpc_channel_def map_err_Inr_iff)
qed

text \<open>With \<open>--tls\<close> the probe does not use tonic's own, plain, connector at all.\<close>

lemma grpc_tls_never_plain:
  assumes "grpc_tls args"
  shows "grpc_run D options args (w\<lparr>gw_connect := other\<rparr>) = grpc_run D options args w"
proof -
  have s: "grpc_tls_service (w\<lparr>gw_connect := other\<rparr>) c = grpc_tls_service w c" for c
    by (simp add: grpc_tls_service_def grpc_tls_poll_ready_def grpc_tls_call_def fun_eq_iff cong: sum.case_cong)
  have f: "grpc_future D (w\<lparr>gw_connect := other\<rparr>) options args e (Some c)
      = grpc_future D w options args e (Some c)" for e c
    by (cases "gw_connect_with_connector w e (grpc_tls_service w c)")
      (simp_all add: grpc_future_def connect_grpc_channel_def s)
  have p: "prepare_grpc_endpoint D (w\<lparr>gw_connect := other\<rparr>) args u rs t
      = prepare_grpc_endpoint D w args u rs t" for u rs t
    by (simp add: prepare_grpc_endpoint_def)
  show ?thesis
    using assms by (simp add: grpc_run_def bindR_assoc f p)
qed

text \<open>Every connection of the TLS connector is made to an \<open>https\<close> URI.\<close>

lemma grpc_tls_call_https:
  assumes "grpc_tls_call w c u = Inr k"
    and "\<And>p u'. gw_from_parts w p = Inr u' \<Longrightarrow> uri_scheme u' = uri_scheme p"
  shows "\<exists>u'. uri_scheme u' = Some ''https'' \<and> svc_call (gw_https_connector w c) u' = Inr k"
  using assms(1) by (fastforce simp: grpc_tls_call_def map_err_Inr_iff dest: assms(2) split: sum.splits)

interpretation grpc_probe: probe "validate_grpc_args D" "\<lambda>opts args w. grpc_run D opts args w" "''grpc''" for D
proof unfold_locales
  fix args e opts and w :: "('c, 'k) grpc_world"
  assume "validate_grpc_args D args = Inl e"
  then show "is_invalid_config e \<and> grpc_run D opts args w = Inl e"
    by (simp add: grpc_run_def validate_grpc_args_Inl)
next
  fix opts args r and w :: "('c, 'k) grpc_world"
  assume "grpc_run D opts args w = Inr r"
  then show "rep_mode r = ''grpc'' \<and> rep_options r = opts"
    by (auto simp: grpc_run_Inr_iff)
qed

section \<open>Properties\<close>

text \<open>
  C12. The gRPC probe reports healthy exactly when its arguments are in order, the endpoint is the
  one they ask for (connection address, both timeouts, and the origin with \<open>--authority\<close> or
  \<open>--addr\<close> and the scheme of the connection), the channel to it is established, with \<open>--tls\<close> over
  a connector with the trust, identity and server name of the flags and without it over
  tonic's own, and the health service answers \<open>SERVING\<close> on this channel for the requested
  service, all within the timeout; the report names the target and how long it took.
\<close>

theorem grpc_verdict_exact:
  "grpc_run D options args w = Inr r \<longleftrightarrow>
     grpc_args_ok D args \<and> grpc_answered_at w \<le> gw_now w + opt_timeout options
     \<and> (\<exists>endpoint channel. endpoint_asked_for D w args (opt_timeout options) endpoint
          \<and> grpc_channel D w args endpoint channel \<and> serving w args channel)
     \<and> r = probe_report_new ''grpc'' (grpc_target D (grpc_addr args) (grpc_service args))
             (Some ''status=SERVING'') (grpc_answered_at w - gw_started w) options"
  by (rule grpc_run_Inr_iff)

text \<open>
  C24. TLS flags are never silently ignored: with any of them, a healthy verdict is the \<open>SERVING\<close>
  of a channel that was established over the program's own TLS connector, to the endpoint the
  arguments ask for. What the plain connector would give plays no part. The connector opens
  connections to \<open>https\<close> URIs only (http keeps the scheme it is given), presents the server name of
  \<open>--server-name\<close> and the identity of \<open>--cert\<close> and \<open>--key\<close>, and verifies the peer against the
  bundled anchors and those of \<open>--ca\<close>, unless \<open>--insecure-skip-verify\<close> asks it not to.
\<close>

theorem grpc_tls_flags_honoured:
  assumes "grpc_run D options args w = Inr r" and "has_tls_flags args"
    and "\<forall>p u'. gw_from_parts w p = Inr u' \<longrightarrow> uri_scheme u' = uri_scheme p"
  shows "(\<forall>other. grpc_run D options args (w\<lparr>gw_connect := other\<rparr>) = Inr r)
    \<and> (\<exists>endpoint c channel. endpoint_asked_for D w args (opt_timeout options) endpoint
        \<and> gw_connect_with_connector w endpoint (grpc_tls_service w c) = Inr channel
        \<and> serving w args channel
        \<and> (\<forall>u k. svc_call (grpc_tls_service w c) u = Inr k \<longrightarrow>
             (\<exists>u'. uri_scheme u' = Some ''https'' \<and> svc_call (gw_https_connector w c) u' = Inr k))
        \<and> server_name_asked_for D (tls_server_name (grpc_tls_args args)) (gc_server_name c)
        \<and> identity_asked_for (gw_tls w) (grpc_tls_args args) (cc_client_auth (gc_config c))
        \<and> (if tls_insecure_skip_verify (grpc_tls_args args)
           then cc_verification (gc_config c) = InsecureVerifier
           else \<exists>anchors. cc_verification (gc_config c) = RootCertificates anchors
             \<and> anchors_asked_for D (gw_tls w) (tls_ca (grpc_tls_args args)) anchors))"
proof -
  from assms(1) obtain endpoint channel where v: "grpc_args_ok D args"
    and e: "endpoint_asked_for D w args (opt_timeout options) endpoint"
    and ch: "grpc_channel D w args endpoint channel" "serving w args channel"
    unfolding grpc_run_Inr_iff by blast
  from v assms(2) have tls: "grpc_tls args" by (auto simp: grpc_args_ok_def has_tls_flags_def split: if_splits)
  from ch(1) tls obtain c where c: "connector_asked_for D (gw_tls w) (grpc_tls_args args) c"
    "gw_connect_with_connector w endpoint (grpc_tls_service w c) = Inr channel"
    unfolding grpc_channel_def by auto
  have "\<exists>u'. uri_scheme u' = Some ''https'' \<and> svc_call (gw_https_connector w c) u' = Inr k"
    if "svc_call (grpc_tls_service w c) u = Inr k" for u k
    using grpc_tls_call_https [of w c u k] that assms(3) by (simp add: grpc_tls_service_def)
  with c e ch(2) have "\<exists>endpoint c channel. endpoint_asked_for D w args (opt_timeout options) endpoint
        \<and> gw_connect_with_connector w endpoint (grpc_tls_service w c) = Inr channel
        \<and> serving w args channel
        \<and> (\<forall>u k. svc_call (grpc_tls_service w c) u = Inr k \<longrightarrow>
             (\<exists>u'. uri_scheme u' = Some ''https'' \<and> svc_call (gw_https_connector w c) u' = Inr k))
        \<and> connector_asked_for D (gw_tls w) (grpc_tls_args args) c" by blast
  then show ?thesis
    using assms(1) grpc_tls_never_plain [OF tls] unfolding connector_asked_for_def tls_config_asked_for_def
    by metis
qed

definition example_grpc_world :: "(uri, uri) grpc_world" where
  "example_grpc_world = \<lparr>gw_tls = example_tls_world, gw_from_shared = (\<lambda>u. Inr (example_uri u)),
     gw_from_parts = Inr, 
     gw_https_connector = (\<lambda>_. \<lparr>svc_poll_ready = Ready (Inr ()), svc_call = Inr\<rparr>),
     gw_connect = (\<lambda>e. Inr (ep_uri e)),
     gw_connect_with_connector = (\<lambda>e service. map_err io_text (svc_call service (ep_uri e))),
     gw_check = (\<lambda>c service. if uri_scheme c = Some ''https'' then Inr 1 else Inr 2),
     gw_serving_status = (\<lambda>n. if n = 1 then Some Serving
       else if n = 2 then Some (OtherStatus ''NotServing'') else None),
     gw_started = 1, gw_now = 2, gw_connect_time = 3, gw_check_time = 2\<rparr>"

definition example_grpc_args :: grpc_args where
  "example_grpc_args = \<lparr>grpc_addr = ''h:50051'', grpc_service = Some ''db'', grpc_tls = True,
     grpc_authority = None, grpc_tls_args = example_tls_args\<rparr>"

theorem grpc_tls_flags_honoured_witness:
  "\<exists>c channel. gw_connect_with_connector example_grpc_world
       \<lparr>ep_uri = example_uri ''http://h:50051'', ep_connect_timeout = 9, ep_timeout = 9,
        ep_origin = Some (example_uri ''https://h:50051'')\<rparr>
       (grpc_tls_service example_grpc_world c) = Inr channel
    \<and> serving example_grpc_world example_grpc_args channel
    \<and> (\<exists>anchors. cc_verification (gc_config c) = RootCertificates anchors
         \<and> anchors_asked_for example_deps example_tls_world (Some ''ca.pem'') anchors)"
proof -
  let ?run = "grpc_run example_deps \<lparr>opt_timeout = 9, opt_quiet = False, opt_verbose = False,
     opt_max_latency = None\<rparr> example_grpc_args example_grpc_world"
  have "is_ok ?run" by code_simp
  then obtain r where r: "?run = Inr r" by (auto simp: is_ok_def split: sum.splits)
  have f: "has_tls_flags example_grpc_args" by code_simp
  have p: "\<forall>p u'. gw_from_parts example_grpc_world p = Inr u' \<longrightarrow> uri_scheme u' = uri_scheme p"
    by (simp add: example_grpc_world_def)
  have e: "endpoint = \<lparr>ep_uri = example_uri ''http://h:50051'', ep_connect_timeout = 9, ep_timeout = 9,
        ep_origin = Some (example_uri ''https://h:50051'')\<rparr>"
    if "endpoint_asked_for example_deps example_grpc_world example_grpc_args 9 endpoint" for endpoint
    using that by (cases endpoint) (simp add: endpoint_asked_for_def example_grpc_world_def example_grpc_args_def)
  have "gw_tls example_grpc_world = example_tls_world" by (simp add: example_grpc_world_def)
  moreover have "tls_ca (grpc_tls_args example_grpc_args) = Some ''ca.pem''"
    "\<not> tls_insecure_skip_verify (grpc_tls_args example_grpc_args)"
    by (simp_all add: example_grpc_args_def example_tls_args_def)
  ultimately show ?thesis
    using conjunct2 [OF grpc_tls_flags_honoured [OF r f p]] e by auto
qed

end
