(* ===== verification/Exec_Output.thy ===== *)
theory Exec_Output
  imports Probe Capture
begin

text \<open>
  The output capture of \<open>probes/exec.rs\<close>: the task that reads a pipe of the child into a
  shared buffer and publishes its progress, and \<open>await_output_task\<close>, which waits for it after
  the child has exited. The two run concurrently, so they are step relations: the task
  between its awaits, the waiter between its own, in any order. Times are nanoseconds.

  The pipe is the text \<open>stream\<close> that is written to it in all; a read returns any next piece of
  it, and the end of file only after the last. A writer that stays alive never lets the end
  of file happen. The mutex of the shared state is never poisoned, because nothing panics
  while it is held.
\<close>

section \<open>The reading task\<close>

record buffered_output =
  bo_content :: capture_buffer
  bo_matched :: bool
  bo_limit_reached :: bool
  bo_complete :: bool

definition buffered_output_default :: buffered_output where
  "buffered_output_default = \<lparr>bo_content = capture_default, bo_matched = False,
     bo_limit_reached = False, bo_complete = False\<rparr>"

record output_progress =
  op_incomplete :: bool
  op_matched :: bool
  op_limit_reached :: bool

definition output_progress_from :: "buffered_output \<Rightarrow> output_progress" where
  "output_progress_from out = \<lparr>op_incomplete = cb_incomplete (bo_content out),
     op_matched = bo_matched out, op_limit_reached = bo_limit_reached out\<rparr>"

definition output_progress_default :: output_progress where
  "output_progress_default = \<lparr>op_incomplete = False, op_matched = False, op_limit_reached = False\<rparr>"

text \<open>
  Where the task is: before a read, before the \<open>progress.send\<close> of the loop, before the last
  \<open>progress.send\<close>, finished with a result, or aborted.
\<close>

datatype task_pc = Reading | Sending output_progress | Closing buffered_output
  | Ended "buffered_output result" | Aborted

text \<open>
  The task and what it shares: the mutex (\<open>ot_state\<close>), the watch channel (value and version)
  and, for the proofs, the bytes it has read.
\<close>

record output_task =
  ot_pc :: task_pc
  ot_matcher :: text_matcher
  ot_state :: buffered_output
  ot_progress :: output_progress
  ot_version :: nat
  ot_read :: string

definition spawn_output_capture :: "string list \<Rightarrow> output_task" where
  "spawn_output_capture required_texts =
     \<lparr>ot_pc = Reading, ot_matcher = text_matcher_new required_texts,
      ot_state = buffered_output_default, ot_progress = output_progress_default,
      ot_version = 0, ot_read = []\<rparr>"

definition READ_BUFFER :: nat where
  "READ_BUFFER = 4096"

text \<open>The body of the loop of \<open>read_limited_with_snapshots\<close> on the bytes of one read.\<close>

definition absorb_read :: "nat \<Rightarrow> string list \<Rightarrow> string \<Rightarrow> output_task \<Rightarrow> output_task" where
  "absorb_read limit required_texts data t =
     (let (content, previous_len) = append_limited (bo_content (ot_state t)) data limit;
          matcher = observe_appended (ot_matcher t) (cb_bytes content) previous_len;
          out = \<lparr>bo_content = content,
            bo_matched = (required_texts \<noteq> [] \<and> all_matched matcher),
            bo_limit_reached = (required_texts \<noteq> [] \<and> length (cb_bytes content) = limit),
            bo_complete = False\<rparr>
      in t\<lparr>ot_pc := Sending (output_progress_from out), ot_matcher := matcher, ot_state := out,
           ot_read := ot_read t @ data\<rparr>)"

definition send_progress :: "output_progress \<Rightarrow> output_task \<Rightarrow> output_task" where
  "send_progress p t = t\<lparr>ot_progress := p, ot_version := ot_version t + 1\<rparr>"

definition mark_complete :: "output_task \<Rightarrow> output_task" where
  "mark_complete t =
     (let out = (ot_state t)\<lparr>bo_complete := True\<rparr> in t\<lparr>ot_pc := Closing out, ot_state := out\<rparr>)"

definition read_error :: "string \<Rightarrow> app_error" where
  "read_error error = Failure (''failed reading child output: '' @ error)"

inductive task_step :: "nat \<Rightarrow> string list \<Rightarrow> string \<Rightarrow> output_task \<Rightarrow> output_task \<Rightarrow> bool"
  for limit required_texts stream where
  step_read: "ot_pc t = Reading \<Longrightarrow> data \<noteq> [] \<Longrightarrow> length data \<le> READ_BUFFER \<Longrightarrow>
    prefix (ot_read t @ data) stream \<Longrightarrow>
    task_step limit required_texts stream t (absorb_read limit required_texts data t)"
| step_send: "ot_pc t = Sending p \<Longrightarrow>
    task_step limit required_texts stream t ((send_progress p t)\<lparr>ot_pc := Reading\<rparr>)"
| step_eof: "ot_pc t = Reading \<Longrightarrow> ot_read t = stream \<Longrightarrow>
    task_step limit required_texts stream t (mark_complete t)"
| step_close: "ot_pc t = Closing out \<Longrightarrow>
    task_step limit required_texts stream t
      ((send_progress (output_progress_from out) t)\<lparr>ot_pc := Ended (Inr out)\<rparr>)"
| step_fail: "ot_pc t = Reading \<Longrightarrow>
    task_step limit required_texts stream t (t\<lparr>ot_pc := Ended (Inl (read_error error))\<rparr>)"

inductive_cases task_stepE: "task_step limit required_texts stream t t'"

text \<open>A task that has ended or was aborted does nothing more.\<close>

lemma ended_task_is_still:
  "ot_pc t = Ended r \<or> ot_pc t = Aborted \<Longrightarrow> \<not> task_step limit required_texts stream t t'"
  by (auto elim: task_stepE)

section \<open>The waiter\<close>

definition OUTPUT_EOF_GRACE_AFTER_LIMIT :: nat where
  "OUTPUT_EOF_GRACE_AFTER_LIMIT = 50000000"

definition OUTPUT_IDLE_GRACE_AFTER_EXIT :: nat where
  "OUTPUT_IDLE_GRACE_AFTER_EXIT = 50000000"

definition OUTPUT_MAX_GRACE_AFTER_EXIT :: nat where
  "OUTPUT_MAX_GRACE_AFTER_EXIT = 250000000"

text \<open>
  Where the waiter is: at the head of its loop, in the \<open>select!\<close> of \<open>wait_for_output_settle\<close>
  until a time, or returned.
\<close>

datatype await_pc = Loop | Settle nat | Returned "buffered_output result"

record await_state =
  aw_task :: output_task
  aw_seen :: nat
  aw_now :: nat
  aw_pc :: await_pc

text \<open>The deadline for an output that stays idle, of a wait that begins at \<open>now\<close>.\<close>

definition output_deadline :: "nat \<Rightarrow> nat \<Rightarrow> nat" where
  "output_deadline now deadline =
     (case instant_checked_add now OUTPUT_MAX_GRACE_AFTER_EXIT of
        None \<Rightarrow> deadline
      | Some grace_deadline \<Rightarrow> min grace_deadline deadline)"

lemma output_deadline_le: "output_deadline now deadline \<le> deadline"
  by (simp add: output_deadline_def split: option.split)

lemma output_deadline_grace:
  "now + OUTPUT_MAX_GRACE_AFTER_EXIT < INSTANT_LIMIT \<Longrightarrow>
     output_deadline now deadline = min (now + OUTPUT_MAX_GRACE_AFTER_EXIT) deadline"
  by (simp add: output_deadline_def instant_checked_add_def)

definition abort_task :: "output_task \<Rightarrow> output_task" where
  "abort_task t = (case ot_pc t of Ended _ \<Rightarrow> t | _ \<Rightarrow> t\<lparr>ot_pc := Aborted\<rparr>)"

text \<open>Abort the task and return the snapshot of its state.\<close>

definition return_snapshot :: "await_state \<Rightarrow> await_state" where
  "return_snapshot s = s\<lparr>aw_task := abort_task (aw_task s),
     aw_pc := Returned (Inr (ot_state (aw_task s)))\<rparr>"

definition start_settle :: "nat \<Rightarrow> nat \<Rightarrow> await_state \<Rightarrow> await_state" where
  "start_settle deadline max_grace s =
     (let remaining = deadline - aw_now s;
          grace = min remaining max_grace
      in if grace = 0 then return_snapshot s else s\<lparr>aw_pc := Settle (aw_now s + grace)\<rparr>)"

definition await_loop_body :: "nat \<Rightarrow> nat \<Rightarrow> await_state \<Rightarrow> await_state" where
  "await_loop_body deadline out_deadline s =
     (case ot_pc (aw_task s) of
        Ended r \<Rightarrow> s\<lparr>aw_pc := Returned r\<rparr>
      | _ \<Rightarrow>
          let progress = ot_progress (aw_task s) in
          if op_matched progress then return_snapshot s
          else if op_incomplete progress then return_snapshot s
          else if op_limit_reached progress then
            start_settle deadline OUTPUT_EOF_GRACE_AFTER_LIMIT s
          else start_settle out_deadline OUTPUT_IDLE_GRACE_AFTER_EXIT s)"

inductive await_step :: "nat \<Rightarrow> string list \<Rightarrow> string \<Rightarrow> nat \<Rightarrow> nat \<Rightarrow> await_state \<Rightarrow> await_state \<Rightarrow> bool"
  for limit required_texts stream deadline out_deadline where
  await_task: "task_step limit required_texts stream (aw_task s) t' \<Longrightarrow>
    await_step limit required_texts stream deadline out_deadline s (s\<lparr>aw_task := t'\<rparr>)"
| await_loop: "aw_pc s = Loop \<Longrightarrow>
    await_step limit required_texts stream deadline out_deadline s (await_loop_body deadline out_deadline s)"
| await_tick: "aw_pc s = Settle until \<Longrightarrow> 0 < d \<Longrightarrow> aw_now s + d \<le> until \<Longrightarrow>
    await_step limit required_texts stream deadline out_deadline s (s\<lparr>aw_now := aw_now s + d\<rparr>)"
| await_join: "aw_pc s = Settle until \<Longrightarrow> ot_pc (aw_task s) = Ended r \<Longrightarrow>
    await_step limit required_texts stream deadline out_deadline s (s\<lparr>aw_pc := Returned r\<rparr>)"
| await_changed: "aw_pc s = Settle until \<Longrightarrow> aw_seen s \<noteq> ot_version (aw_task s) \<Longrightarrow>
    await_step limit required_texts stream deadline out_deadline s
      (s\<lparr>aw_seen := ot_version (aw_task s), aw_pc := Loop\<rparr>)"
| await_timer: "aw_pc s = Settle until \<Longrightarrow> until \<le> aw_now s \<Longrightarrow>
    await_step limit required_texts stream deadline out_deadline s (return_snapshot s)"

text \<open>
  The states of a wait that starts at the time \<open>now\<close>, when the task has run for a while.
\<close>

definition await_start :: "output_task \<Rightarrow> nat \<Rightarrow> await_state" where
  "await_start t now = \<lparr>aw_task = t, aw_seen = 0, aw_now = now, aw_pc = Loop\<rparr>"

inductive await_reachable :: "nat \<Rightarrow> string list \<Rightarrow> string \<Rightarrow> nat \<Rightarrow> nat \<Rightarrow> await_state \<Rightarrow> bool"
  for limit required_texts stream deadline now where
  reach_start: "(task_step limit required_texts stream)\<^sup>*\<^sup>* (spawn_output_capture required_texts) t \<Longrightarrow>
    await_reachable limit required_texts stream deadline now (await_start t now)"
| reach_step: "await_reachable limit required_texts stream deadline now s \<Longrightarrow>
    await_step limit required_texts stream deadline (output_deadline now deadline) s s' \<Longrightarrow>
    await_reachable limit required_texts stream deadline now s'"

section \<open>The task's invariant\<close>

text \<open>What a buffer says of the bytes read when it was made.\<close>

definition output_reflects :: "nat \<Rightarrow> string list \<Rightarrow> buffered_output \<Rightarrow> string \<Rightarrow> bool" where
  "output_reflects limit texts out text \<longleftrightarrow>
     represents limit (cb_bytes (bo_content out)) (cb_incomplete (bo_content out)) text
     \<and> (bo_matched out \<longrightarrow> (\<forall>n \<in> set texts. sublist n (cb_bytes (bo_content out))))
     \<and> (bo_limit_reached out \<longrightarrow> length (cb_bytes (bo_content out)) = limit)"

definition progress_ok :: "nat \<Rightarrow> output_progress \<Rightarrow> buffered_output \<Rightarrow> string list \<Rightarrow> bool" where
  "progress_ok limit p out texts \<longleftrightarrow>
     (op_matched p \<longrightarrow> (\<forall>n \<in> set texts. sublist n (cb_bytes (bo_content out))))
     \<and> (op_incomplete p \<longrightarrow> cb_incomplete (bo_content out))
     \<and> (op_limit_reached p \<longrightarrow> length (cb_bytes (bo_content out)) = limit)"

definition pc_ok :: "nat \<Rightarrow> output_task \<Rightarrow> string list \<Rightarrow> string \<Rightarrow> bool" where
  "pc_ok limit t texts stream \<longleftrightarrow>
     (case ot_pc t of
        Reading \<Rightarrow> \<not> bo_complete (ot_state t)
      | Sending p \<Rightarrow> \<not> bo_complete (ot_state t) \<and> progress_ok limit p (ot_state t) texts
      | Closing out \<Rightarrow> out = ot_state t \<and> bo_complete out \<and> ot_read t = stream
      | Ended (Inr out) \<Rightarrow> out = ot_state t \<and> bo_complete out \<and> ot_read t = stream
      | Ended (Inl e) \<Rightarrow> \<not> bo_complete (ot_state t) \<and> (\<exists>error. e = read_error error)
      | Aborted \<Rightarrow> bo_complete (ot_state t) \<longrightarrow> ot_read t = stream)"

definition task_inv :: "nat \<Rightarrow> string list \<Rightarrow> string \<Rightarrow> output_task \<Rightarrow> bool" where
  "task_inv limit texts stream t \<longleftrightarrow>
     prefix (ot_read t) stream
     \<and> scan.scanned limit texts (bo_content (ot_state t), ot_matcher t) (ot_read t)
     \<and> output_reflects limit texts (ot_state t) (ot_read t)
     \<and> progress_ok limit (ot_progress t) (ot_state t) texts
     \<and> pc_ok limit t texts stream"

lemma task_inv_start: "task_inv limit texts stream (spawn_output_capture texts)"
  using scan_start_scanned [of limit texts]
  by (simp add: task_inv_def spawn_output_capture_def scan_start_def output_reflects_def
      buffered_output_default_def progress_ok_def output_progress_default_def pc_ok_def
      represents_def capture_default_def)

lemma absorb_read_simps [simp]:
  "ot_read (absorb_read l ts d t) = ot_read t @ d"
  "ot_progress (absorb_read l ts d t) = ot_progress t"
  "ot_version (absorb_read l ts d t) = ot_version t"
  "ot_pc (absorb_read l ts d t) = Sending (output_progress_from (ot_state (absorb_read l ts d t)))"
  "\<not> bo_complete (ot_state (absorb_read l ts d t))"
  "bo_matched (ot_state (absorb_read l ts d t)) \<longleftrightarrow> ts \<noteq> [] \<and> all_matched (ot_matcher (absorb_read l ts d t))"
  "bo_limit_reached (ot_state (absorb_read l ts d t)) \<longleftrightarrow>
     ts \<noteq> [] \<and> length (cb_bytes (bo_content (ot_state (absorb_read l ts d t)))) = l"
  by (simp_all add: absorb_read_def Let_def case_prod_unfold scan_chunk_def)

lemma absorb_read_scan:
  "scan_chunk l (bo_content (ot_state t), ot_matcher t) d
     = (bo_content (ot_state (absorb_read l ts d t)), ot_matcher (absorb_read l ts d t))"
  by (simp add: absorb_read_def Let_def case_prod_unfold scan_chunk_def)

text \<open>Reading more keeps what was kept, so progress that was published stays true.\<close>

lemma absorb_read_grows:
  assumes "scan.scanned limit texts (bo_content (ot_state t), ot_matcher t) (ot_read t)"
  shows "prefix (cb_bytes (bo_content (ot_state t))) (cb_bytes (bo_content (ot_state (absorb_read limit ts d t))))"
    "cb_incomplete (bo_content (ot_state t)) \<Longrightarrow> cb_incomplete (bo_content (ot_state (absorb_read limit ts d t)))"
proof -
  have wf: "cb_wf limit (bo_content (ot_state t))"
    using assms by (simp add: scan.scanned_def scan_wf_def)
  have c: "bo_content (ot_state (absorb_read limit ts d t)) = fst (append_limited (bo_content (ot_state t)) d limit)"
    by (simp add: absorb_read_def Let_def case_prod_unfold)
  show "prefix (cb_bytes (bo_content (ot_state t))) (cb_bytes (bo_content (ot_state (absorb_read limit ts d t))))"
    using wf by (simp add: c) (simp add: cb_wf_def)
  show "cb_incomplete (bo_content (ot_state t)) \<Longrightarrow> cb_incomplete (bo_content (ot_state (absorb_read limit ts d t)))"
    using wf by (simp add: c)
qed

lemma progress_ok_mono:
  assumes "progress_ok limit p out texts" "prefix (cb_bytes (bo_content out)) (cb_bytes (bo_content out'))"
    "cb_incomplete (bo_content out) \<longrightarrow> cb_incomplete (bo_content out')"
    "length (cb_bytes (bo_content out')) \<le> limit"
  shows "progress_ok limit p out' texts"
  using assms prefix_imp_sublist [OF assms(2)] prefix_length_le [OF assms(2)]
  by (auto simp: progress_ok_def intro: sublist_order.order_trans)

lemma progress_ok_from:
  "output_reflects limit texts out text \<Longrightarrow> progress_ok limit (output_progress_from out) out texts"
  by (auto simp: progress_ok_def output_progress_from_def output_reflects_def)

lemma task_inv_absorb:
  assumes inv: "task_inv limit texts stream t" and d: "prefix (ot_read t @ d) stream"
  shows "task_inv limit texts stream (absorb_read limit texts d t)"
proof -
  let ?t = "absorb_read limit texts d t"
  have sc: "scan.scanned limit texts (bo_content (ot_state t), ot_matcher t) (ot_read t)"
    using inv by (simp add: task_inv_def)
  have sc': "scan.scanned limit texts (bo_content (ot_state ?t), ot_matcher ?t) (ot_read ?t)"
    using scan.scanned_push [OF sc, of d] by (simp add: absorb_read_scan [of limit t d texts])
  have re: "output_reflects limit texts (ot_state ?t) (ot_read ?t)"
    using sc' [unfolded scan.scanned_def] scanned_matched_iff(1) [OF sc']
    by (auto simp: output_reflects_def)
  have "length (cb_bytes (bo_content (ot_state ?t))) \<le> limit"
    using re by (simp add: output_reflects_def represents_def)
  then have pr: "progress_ok limit (ot_progress ?t) (ot_state ?t) texts"
    using inv absorb_read_grows [OF sc, of texts d] by (auto simp: task_inv_def intro: progress_ok_mono)
  show ?thesis
    using sc' re pr d progress_ok_from [OF re] by (simp add: task_inv_def pc_ok_def)
qed

lemma task_inv_step:
  assumes "task_step limit texts stream t t'" "task_inv limit texts stream t"
  shows "task_inv limit texts stream t'"
  using assms
proof (induction rule: task_step.induct)
  case (step_read t data)
  then show ?case by (simp add: task_inv_absorb)
next
  case (step_send t p)
  then show ?case by (simp add: task_inv_def pc_ok_def send_progress_def)
next
  case (step_eof t)
  then show ?case
    by (simp add: task_inv_def pc_ok_def mark_complete_def output_reflects_def progress_ok_def Let_def)
next
  case (step_close t out)
  from step_close(2) have i: "prefix (ot_read t) stream"
      "scan.scanned limit texts (bo_content (ot_state t), ot_matcher t) (ot_read t)"
      "output_reflects limit texts (ot_state t) (ot_read t)" and pc: "pc_ok limit t texts stream"
    unfolding task_inv_def by blast+
  from pc step_close(1) have o: "out = ot_state t" "bo_complete (ot_state t)" "ot_read t = stream"
    by (auto simp: pc_ok_def)
  from o(2,3) i progress_ok_from [OF i(3)] show ?case
    by (simp add: task_inv_def pc_ok_def send_progress_def o(1))
next
  case (step_fail t error)
  then show ?case by (auto simp: task_inv_def pc_ok_def)
qed

lemma task_inv_abort: "task_inv limit texts stream t \<Longrightarrow> task_inv limit texts stream (abort_task t)"
  by (auto simp: task_inv_def pc_ok_def abort_task_def split: task_pc.splits sum.splits)

lemma task_inv_steps:
  "(task_step limit texts stream)\<^sup>*\<^sup>* t t' \<Longrightarrow> task_inv limit texts stream t \<Longrightarrow> task_inv limit texts stream t'"
  by (induction rule: rtranclp_induct) (auto intro: task_inv_step)

section \<open>The task on its own\<close>

text \<open>
  \<open>read_limited_with_snapshots\<close> run from one read to the next with nothing in between: the data
  of the reads, and then the end of the stream or an error.
\<close>

definition send_current :: "output_task \<Rightarrow> output_task" where
  "send_current t = send_progress (output_progress_from (ot_state t)) t"

fun run_task :: "nat \<Rightarrow> string list \<Rightarrow> string list \<Rightarrow> string option \<Rightarrow> output_task \<Rightarrow> output_task" where
  "run_task limit texts [] (Some error) t = t\<lparr>ot_pc := Ended (Inl (read_error error))\<rparr>"
| "run_task limit texts [] None t =
     (send_current (mark_complete t))\<lparr>ot_pc := Ended (Inr (ot_state (mark_complete t)))\<rparr>"
| "run_task limit texts (data # reads) failure t =
     run_task limit texts reads failure ((send_current (absorb_read limit texts data t))\<lparr>ot_pc := Reading\<rparr>)"

fun task_result :: "output_task \<Rightarrow> buffered_output result option" where
  "task_result t = (case ot_pc t of Ended r \<Rightarrow> Some r | _ \<Rightarrow> None)"

definition read_limited :: "string list \<Rightarrow> string option \<Rightarrow> nat \<Rightarrow> string list
    \<Rightarrow> buffered_output result option" where
  "read_limited reads failure limit texts =
     task_result (run_task limit texts reads failure (spawn_output_capture texts))"

text \<open>It is one of the executions of the step relation.\<close>

lemma run_task_steps:
  assumes "ot_pc t = Reading" "\<forall>d \<in> set reads. d \<noteq> [] \<and> length d \<le> READ_BUFFER"
    and "prefix (ot_read t @ concat reads) stream" "failure = None \<Longrightarrow> ot_read t @ concat reads = stream"
  shows "(task_step limit texts stream)\<^sup>*\<^sup>* t (run_task limit texts reads failure t)"
  using assms
proof (induction limit texts reads failure t rule: run_task.induct)
  case (1 limit texts error t)
  then show ?case by (auto intro: step_fail)
next
  case (2 limit texts t)
  have m: "ot_pc (mark_complete t) = Closing (ot_state (mark_complete t))"
    by (simp add: mark_complete_def Let_def)
  have "task_step limit texts stream t (mark_complete t)" using 2 by (intro step_eof) simp_all
  moreover have "task_step limit texts stream (mark_complete t) (run_task limit texts [] None t)"
    using step_close [OF m] by (simp add: send_current_def)
  ultimately show ?case by (meson converse_rtranclp_into_rtranclp r_into_rtranclp)
next
  case (3 limit texts data reads failure t)
  let ?a = "absorb_read limit texts data t"
  let ?b = "(send_current ?a)\<lparr>ot_pc := Reading\<rparr>"
  have r: "ot_read ?b = ot_read t @ data" by (simp add: send_current_def send_progress_def)
  have "prefix (ot_read t @ data) stream"
    using 3(4) by (auto simp: prefix_def)
  then have "task_step limit texts stream t ?a" using 3(2,3) by (intro step_read) simp_all
  moreover have "task_step limit texts stream ?a ?b"
    unfolding send_current_def by (rule step_send) simp
  moreover have "(task_step limit texts stream)\<^sup>*\<^sup>* ?b (run_task limit texts reads failure ?b)"
    by (rule 3(1)) (use 3(3-5) r in simp_all)
  ultimately show ?case by (metis converse_rtranclp_into_rtranclp run_task.simps(3))
qed

lemma run_task_read: "ot_read (run_task limit texts reads failure t) = ot_read t @ concat reads"
  by (induction limit texts reads failure t rule: run_task.induct)
    (simp_all add: send_current_def send_progress_def mark_complete_def Let_def)

lemma run_task_complete:
  "ot_pc (run_task limit texts reads None t) = Ended (Inr (ot_state (run_task limit texts reads None t)))
   \<and> bo_complete (ot_state (run_task limit texts reads None t))"
proof (induction reads arbitrary: t)
  case Nil
  then show ?case by (simp add: send_current_def send_progress_def mark_complete_def Let_def)
qed simp

text \<open>
  However the text of the pipe is cut into reads, the result is the one that taking the limit off
  the text and searching what is left gives.
\<close>

lemma matched_flag:
  "ot_pc t = Reading \<Longrightarrow> reads \<noteq> [] \<Longrightarrow> bo_matched (ot_state (run_task limit texts reads None t)) \<longleftrightarrow>
     texts \<noteq> [] \<and> all_matched (ot_matcher (run_task limit texts reads None t))"
proof (induction reads arbitrary: t)
  case (Cons data reads)
  let ?b = "(send_current (absorb_read limit texts data t))\<lparr>ot_pc := Reading\<rparr>"
  show ?case
  proof (cases "reads = []")
    case True
    then show ?thesis by (simp add: send_current_def send_progress_def mark_complete_def Let_def)
  next
    case False
    then show ?thesis using Cons(1) [of ?b] by simp
  qed
qed simp

lemma read_limited_exact:
  assumes "reads \<noteq> []" "\<forall>d \<in> set reads. d \<noteq> [] \<and> length d \<le> READ_BUFFER"
  shows "\<exists>out. read_limited reads None limit texts = Some (Inr out) \<and> bo_complete out
    \<and> cb_bytes (bo_content out) = take limit (concat reads)
    \<and> (cb_incomplete (bo_content out) \<longleftrightarrow> limit < length (concat reads))
    \<and> (bo_matched out \<longleftrightarrow> texts \<noteq> [] \<and> (\<forall>n \<in> set texts. sublist n (take limit (concat reads))))"
proof -
  let ?t = "run_task limit texts reads None (spawn_output_capture texts)"
  let ?out = "ot_state ?t"
  have p: "ot_pc (spawn_output_capture texts) = Reading" "ot_read (spawn_output_capture texts) = []"
    by (simp_all add: spawn_output_capture_def)
  have "(task_step limit texts (concat reads))\<^sup>*\<^sup>* (spawn_output_capture texts) ?t"
    by (rule run_task_steps) (use p assms(2) in simp_all)
  then have inv: "task_inv limit texts (concat reads) ?t"
    using task_inv_steps task_inv_start by blast
  have rd: "ot_read ?t = concat reads" by (simp add: run_task_read p)
  then have sc: "scan.scanned limit texts (bo_content ?out, ot_matcher ?t) (concat reads)"
    and re: "represents limit (cb_bytes (bo_content ?out)) (cb_incomplete (bo_content ?out)) (concat reads)"
    using inv by (simp_all add: task_inv_def output_reflects_def)
  have "read_limited reads None limit texts = Some (Inr ?out)" "bo_complete ?out"
    using run_task_complete [of limit texts reads "spawn_output_capture texts"]
    by (simp_all add: read_limited_def)
  moreover have "cb_bytes (bo_content ?out) = take limit (concat reads)"
    "cb_incomplete (bo_content ?out) \<longleftrightarrow> limit < length (concat reads)"
    using re by (auto simp: represents_def)
  ultimately show ?thesis
    using matched_flag [OF p(1) assms(1)] scanned_matched_iff(1) [OF sc] by auto
qed

section \<open>What the waiter returns\<close>

definition returned_ok :: "nat \<Rightarrow> string list \<Rightarrow> string \<Rightarrow> buffered_output result \<Rightarrow> bool" where
  "returned_ok limit texts stream r \<longleftrightarrow>
     (case r of
        Inl e \<Rightarrow> \<exists>error. e = read_error error
      | Inr out \<Rightarrow> \<exists>text. prefix text stream \<and> output_reflects limit texts out text
          \<and> (bo_complete out \<longrightarrow> text = stream))"

lemma task_inv_snapshot:
  "task_inv limit texts stream t \<Longrightarrow> returned_ok limit texts stream (Inr (ot_state t))"
  by (auto simp: task_inv_def returned_ok_def pc_ok_def split: task_pc.splits sum.splits)

lemma task_inv_ended:
  "task_inv limit texts stream t \<Longrightarrow> ot_pc t = Ended r \<Longrightarrow> returned_ok limit texts stream r"
  by (auto simp: task_inv_def returned_ok_def pc_ok_def split: sum.splits)

text \<open>
  The clock: it stays before the deadline, and before the deadline of an idle output unless the
  kept bytes have reached the limit, when the end of the stream is waited for.
\<close>

fun latest :: "await_pc \<Rightarrow> nat \<Rightarrow> nat" where
  "latest (Settle until) now = max now until"
| "latest Loop now = now"
| "latest (Returned _) now = now"

lemma latest_now: "now \<le> latest pc now"
  by (cases pc) simp_all

definition in_time :: "nat \<Rightarrow> nat \<Rightarrow> nat \<Rightarrow> nat \<Rightarrow> await_state \<Rightarrow> bool" where
  "in_time limit deadline out_deadline start s \<longleftrightarrow>
     (let t = latest (aw_pc s) (aw_now s)
      in t \<le> max start deadline
        \<and> (t \<le> max start out_deadline
           \<or> length (cb_bytes (bo_content (ot_state (aw_task s)))) = limit))"

definition await_inv :: "nat \<Rightarrow> string list \<Rightarrow> string \<Rightarrow> nat \<Rightarrow> nat \<Rightarrow> nat \<Rightarrow> await_state \<Rightarrow> bool" where
  "await_inv limit texts stream deadline out_deadline start s \<longleftrightarrow>
     task_inv limit texts stream (aw_task s) \<and> in_time limit deadline out_deadline start s
     \<and> (\<forall>r. aw_pc s = Returned r \<longrightarrow> returned_ok limit texts stream r)"

lemma abort_task_state [simp]: "ot_state (abort_task t) = ot_state t" "ot_version (abort_task t) = ot_version t"
  by (simp_all add: abort_task_def split: task_pc.split)

lemma return_snapshot_inv:
  assumes "await_inv limit texts stream dl odl start s"
  shows "await_inv limit texts stream dl odl start (return_snapshot s)"
proof -
  have "in_time limit dl odl start (return_snapshot s)"
    using assms order_trans [OF latest_now [of "aw_now s" "aw_pc s"]]
    by (simp add: await_inv_def in_time_def return_snapshot_def Let_def) blast
  with assms show ?thesis
    by (simp add: await_inv_def return_snapshot_def task_inv_abort task_inv_snapshot)
qed

lemma start_settle_inv:
  assumes inv: "await_inv limit texts stream dl odl start s" and "aw_pc s = Loop"
    and d: "d \<le> odl \<or> d \<le> dl \<and> length (cb_bytes (bo_content (ot_state (aw_task s)))) = limit" "odl \<le> dl"
  shows "await_inv limit texts stream dl odl start (start_settle d g s)"
proof (cases "min (d - aw_now s) g = 0")
  case True
  then have "start_settle d g s = return_snapshot s" unfolding start_settle_def Let_def by (rule if_P)
  with return_snapshot_inv [OF inv] show ?thesis by simp
next
  case False
  then have s: "start_settle d g s = s\<lparr>aw_pc := Settle (aw_now s + min (d - aw_now s) g)\<rparr>"
    unfolding start_settle_def Let_def by (rule if_not_P)
  from False have "aw_now s + min (d - aw_now s) g \<le> d" by (auto simp: min_def)
  with assms show ?thesis unfolding s by (auto simp: await_inv_def in_time_def Let_def)
qed

lemma await_loop_body_inv:
  assumes inv: "await_inv limit texts stream dl odl start s" and l: "aw_pc s = Loop" and o: "odl \<le> dl"
  shows "await_inv limit texts stream dl odl start (await_loop_body dl odl s)"
proof -
  have lim: "length (cb_bytes (bo_content (ot_state (aw_task s)))) = limit"
    if "op_limit_reached (ot_progress (aw_task s))"
    using inv that by (simp add: await_inv_def task_inv_def progress_ok_def)
  have "await_inv limit texts stream dl odl start (s\<lparr>aw_pc := Returned r\<rparr>)"
    if "ot_pc (aw_task s) = Ended r" for r
    using inv l that by (auto simp: await_inv_def in_time_def intro: task_inv_ended)
  then show ?thesis
    using lim return_snapshot_inv [OF inv] start_settle_inv [OF inv l _ o] o
    by (auto simp: await_loop_body_def Let_def split: task_pc.split)
qed

lemma task_step_keeps_limit:
  assumes "task_step limit texts stream t t'" "task_inv limit texts stream t"
    and "length (cb_bytes (bo_content (ot_state t))) = limit"
  shows "length (cb_bytes (bo_content (ot_state t'))) = limit"
  using assms(1)
proof (cases rule: task_step.cases)
  case (step_read data)
  have sc: "scan.scanned limit texts (bo_content (ot_state t), ot_matcher t) (ot_read t)"
    using assms(2) by (simp add: task_inv_def)
  have "length (cb_bytes (bo_content (ot_state t'))) \<le> limit"
    using task_inv_step [OF assms(1,2)] by (simp add: task_inv_def output_reflects_def represents_def)
  with prefix_length_le [OF absorb_read_grows(1) [OF sc, of texts data]] assms(3) step_read show ?thesis
    by simp
qed (use assms(3) in \<open>simp_all add: send_progress_def mark_complete_def Let_def\<close>)

lemma await_step_inv:
  assumes "await_step limit texts stream dl odl s s'" "await_inv limit texts stream dl odl start s"
    "odl \<le> dl"
  shows "await_inv limit texts stream dl odl start s'"
  using assms
proof (induction rule: await_step.induct)
  case (await_task s t')
  then have "task_inv limit texts stream (aw_task s)" by (simp add: await_inv_def)
  from task_inv_step [OF await_task(1) this] task_step_keeps_limit [OF await_task(1) this] await_task(2)
  show ?case by (auto simp: await_inv_def in_time_def Let_def)
next
  case (await_loop s)
  then show ?case by (simp add: await_loop_body_inv)
next
  case (await_tick s until d)
  then show ?case by (auto simp: await_inv_def in_time_def Let_def)
next
  case (await_join s until r)
  then show ?case by (auto simp: await_inv_def in_time_def Let_def intro: task_inv_ended)
next
  case (await_changed s until)
  then show ?case by (auto simp: await_inv_def in_time_def Let_def)
next
  case (await_timer s until)
  then show ?case by (simp add: return_snapshot_inv)
qed

lemma await_start_inv:
  assumes "(task_step limit texts stream)\<^sup>*\<^sup>* (spawn_output_capture texts) t"
  shows "await_inv limit texts stream dl odl now (await_start t now)"
  using task_inv_steps [OF assms task_inv_start]
  by (simp add: await_inv_def in_time_def await_start_def Let_def)

lemma await_reachable_inv:
  "await_reachable limit texts stream dl now s \<Longrightarrow>
     await_inv limit texts stream dl (output_deadline now dl) now s"
proof (induction rule: await_reachable.induct)
  case (reach_start t)
  then show ?case by (rule await_start_inv)
next
  case (reach_step s s')
  then show ?case using await_step_inv output_deadline_le by blast
qed

section \<open>Termination\<close>

text \<open>
  The work the task has left: two steps for every byte it may still read, and the steps of its
  current position. Every step of the task does some of it.
\<close>

fun pc_work :: "task_pc \<Rightarrow> nat" where
  "pc_work Reading = 2"
| "pc_work (Sending _) = 3"
| "pc_work (Closing _) = 1"
| "pc_work (Ended _) = 0"
| "pc_work Aborted = 0"

definition task_work :: "string \<Rightarrow> output_task \<Rightarrow> nat" where
  "task_work stream t = 2 * (length stream - length (ot_read t)) + pc_work (ot_pc t)"

lemma task_step_work:
  "task_step limit texts stream t t' \<Longrightarrow> task_work stream t' < task_work stream t"
proof (induction rule: task_step.induct)
  case (step_read t data)
  from prefix_length_le [OF step_read(4)] have "length (ot_read t) + length data \<le> length stream" by simp
  moreover have "0 < length data" using step_read(2) by simp
  ultimately have "2 * (length stream - (length (ot_read t) + length data)) + 3
      < 2 * (length stream - length (ot_read t)) + 2" by linarith
  then show ?case using step_read(1) by (simp add: task_work_def)
qed (simp_all add: task_work_def send_progress_def mark_complete_def Let_def)

lemma abort_task_work: "task_work stream (abort_task t) \<le> task_work stream t"
  by (simp add: task_work_def abort_task_def split: task_pc.split)

fun await_work :: "await_pc \<Rightarrow> nat" where
  "await_work Loop = 2"
| "await_work (Settle _) = 1"
| "await_work (Returned _) = 0"

fun settle_left :: "await_pc \<Rightarrow> nat \<Rightarrow> nat" where
  "settle_left (Settle until) now = until - now"
| "settle_left _ _ = 0"

text \<open>
  The measure of the wait: the task's work, then whether there is unseen progress, then the
  waiter's position, then the time until its timer.
\<close>

definition await_less :: "string \<Rightarrow> (await_state \<times> await_state) set" where
  "await_less stream = measures
     [\<lambda>s. task_work stream (aw_task s), \<lambda>s. if aw_seen s \<noteq> ot_version (aw_task s) then 1 else 0,
      \<lambda>s. await_work (aw_pc s), \<lambda>s. settle_left (aw_pc s) (aw_now s)]"

lemma wf_await_less: "wf (await_less stream)"
  by (simp add: await_less_def)

lemma return_snapshot_less: "0 < await_work (aw_pc s) \<Longrightarrow> (return_snapshot s, s) \<in> await_less stream"
  using abort_task_work [of stream "aw_task s"] by (auto simp: await_less_def return_snapshot_def)

lemma await_step_less:
  "await_step limit texts stream dl odl s s' \<Longrightarrow> (s', s) \<in> await_less stream"
proof (induction rule: await_step.induct)
  case (await_task s t')
  then show ?case by (simp add: await_less_def task_step_work)
next
  case (await_loop s)
  have "(s\<lparr>aw_pc := Settle u\<rparr>, s) \<in> await_less stream" for u
    using await_loop by (simp add: await_less_def)
  then have st: "(start_settle d g s, s) \<in> await_less stream" for d g
    using return_snapshot_less [of s stream] await_loop by (simp add: start_settle_def Let_def)
  have "(s\<lparr>aw_pc := Returned r\<rparr>, s) \<in> await_less stream" for r
    using await_loop by (simp add: await_less_def)
  then show ?case
    using st return_snapshot_less [of s stream] await_loop
    by (auto simp: await_loop_body_def Let_def split: task_pc.split)
next
  case (await_timer s until)
  then show ?case by (simp add: return_snapshot_less)
qed (simp_all add: await_less_def)

lemma await_progress:
  "(\<exists>s'. await_step limit texts stream dl odl s s') \<or> (\<exists>r. aw_pc s = Returned r)"
proof (cases "aw_pc s")
  case Loop
  then show ?thesis using await_step.await_loop by blast
next
  case (Settle u)
  have "await_step limit texts stream dl odl s (s\<lparr>aw_now := aw_now s + (u - aw_now s)\<rparr>)"
    if "aw_now s < u" using that by (intro await_tick [OF Settle]) simp_all
  moreover have "await_step limit texts stream dl odl s (return_snapshot s)" if "u \<le> aw_now s"
    by (rule await_timer [OF Settle that])
  ultimately show ?thesis by (meson not_le)
qed simp

section \<open>A task that ends during the wait\<close>

text \<open>
  A waiter whose task has ended takes the result of the task, not the snapshot: until its timer
  runs out, nothing else can happen.
\<close>

inductive_cases await_stepE: "await_step limit required_texts stream deadline out_deadline s s'"

lemma await_step_now: "await_step limit texts stream dl odl s s' \<Longrightarrow> aw_now s \<le> aw_now s'"
  by (erule await_stepE) (auto simp: await_loop_body_def start_settle_def return_snapshot_def Let_def
      split: task_pc.split)

lemma ended_task_step:
  assumes "await_step limit texts stream dl odl s s'" "ot_pc (aw_task s) = Ended r"
    and "aw_seen s = ot_version (aw_task s)" "aw_pc s = Settle until \<or> aw_pc s = Returned r"
    and "aw_now s < until"
  shows "aw_task s' = aw_task s \<and> aw_seen s' = aw_seen s
    \<and> (aw_pc s' = Settle until \<or> aw_pc s' = Returned r)"
  using assms by (auto elim!: await_stepE simp: ended_task_is_still)

lemma ended_task_is_joined:
  assumes "(await_step limit texts stream dl odl)\<^sup>*\<^sup>* s s'" "ot_pc (aw_task s) = Ended r"
    and "aw_seen s = ot_version (aw_task s)" "aw_pc s = Settle until" "aw_now s' < until"
  shows "aw_pc s' = Settle until \<or> aw_pc s' = Returned r"
proof -
  have "aw_task s' = aw_task s \<and> aw_seen s' = aw_seen s
      \<and> (aw_pc s' = Settle until \<or> aw_pc s' = Returned r)"
    using assms(1,5)
  proof (induction rule: rtranclp_induct)
    case base
    then show ?case using assms(4) by simp
  next
    case (step y z)
    from await_step_now [OF step(2)] step(4) have "aw_now y < until" by simp
    with step(3) have "ot_pc (aw_task y) = Ended r" "aw_seen y = ot_version (aw_task y)"
      "aw_pc y = Settle until \<or> aw_pc y = Returned r" using assms(2,3) by simp_all
    from ended_task_step [OF step(2) this \<open>aw_now y < until\<close>] step(3) \<open>aw_now y < until\<close>
    show ?case by simp
  qed
  then show ?thesis by simp
qed

section \<open>Nothing is lost\<close>

text \<open>What was kept when the wait began is still kept when it returns.\<close>

definition keeps :: "string \<Rightarrow> await_state \<Rightarrow> bool" where
  "keeps k s \<longleftrightarrow> prefix k (cb_bytes (bo_content (ot_state (aw_task s))))
     \<and> (\<forall>out. ot_pc (aw_task s) = Ended (Inr out) \<or> ot_pc (aw_task s) = Closing out
          \<longrightarrow> prefix k (cb_bytes (bo_content out)))
     \<and> (\<forall>out. aw_pc s = Returned (Inr out) \<longrightarrow> prefix k (cb_bytes (bo_content out)))"

lemma keeps_step:
  assumes "await_step limit texts stream dl odl s s'" "keeps k s" "task_inv limit texts stream (aw_task s)"
  shows "keeps k s'"
  using assms
proof (induction rule: await_step.induct)
  case (await_task s t')
  from await_task(1) show ?case
  proof (cases rule: task_step.cases)
    case (step_read data)
    have sc: "scan.scanned limit texts (bo_content (ot_state (aw_task s)), ot_matcher (aw_task s))
        (ot_read (aw_task s))" using await_task(3) by (simp add: task_inv_def)
    from absorb_read_grows(1) [OF sc, of texts data] step_read await_task(2) show ?thesis
      by (auto simp: keeps_def)
  qed (use await_task(2) in \<open>auto simp: keeps_def send_progress_def mark_complete_def Let_def\<close>)
next
  case (await_loop s)
  have r: "keeps k (return_snapshot s)"
    using await_loop(2) by (auto simp: keeps_def return_snapshot_def abort_task_def split: task_pc.splits)
  moreover have "keeps k (start_settle a b s)" for a b
    using r await_loop(2) by (auto simp: start_settle_def Let_def keeps_def)
  ultimately show ?case
    using await_loop(2) by (auto simp: await_loop_body_def Let_def keeps_def split: task_pc.splits)
next
  case (await_timer s until)
  then show ?case by (auto simp: keeps_def return_snapshot_def abort_task_def split: task_pc.splits)
qed (auto simp: keeps_def)

lemma await_reachable_keeps:
  assumes "(await_step limit texts stream dl odl)\<^sup>*\<^sup>* s s'" "keeps k s"
    "await_inv limit texts stream dl odl start s" "odl \<le> dl"
  shows "keeps k s'"
proof -
  have "keeps k s' \<and> await_inv limit texts stream dl odl start s'"
    using assms(1)
  proof (induction rule: rtranclp_induct)
    case base
    then show ?case using assms by blast
  next
    case (step y z)
    then show ?case
      using keeps_step await_step_inv assms(4) by (metis await_inv_def)
  qed
  then show ?thesis ..
qed

section \<open>Properties\<close>

text \<open>A capture of one text, as an example: it is read, sent, and found by the waiter.\<close>

definition example_task :: output_task where
  "example_task = (send_progress \<lparr>op_incomplete = False, op_matched = True, op_limit_reached = False\<rparr>
     (absorb_read 16 [''up''] ''is up'' (spawn_output_capture [''up''])))\<lparr>ot_pc := Reading\<rparr>"

lemma example_task_reachable:
  "(task_step 16 [''up''] ''is up'')\<^sup>*\<^sup>* (spawn_output_capture [''up'']) example_task"
proof -
  let ?t = "absorb_read 16 [''up''] ''is up'' (spawn_output_capture [''up''])"
  have "task_step 16 [''up''] ''is up'' (spawn_output_capture [''up'']) ?t"
    by (rule step_read) (simp_all add: spawn_output_capture_def READ_BUFFER_def)
  moreover have pc: "ot_pc ?t = Sending \<lparr>op_incomplete = False, op_matched = True, op_limit_reached = False\<rparr>"
    by code_simp
  have "task_step 16 [''up''] ''is up'' ?t example_task"
    unfolding example_task_def by (rule step_send [OF pc])
  ultimately show ?thesis by (meson converse_rtranclp_into_rtranclp r_into_rtranclp)
qed

lemma await_loop_body_matched:
  "ot_pc (aw_task s) = Reading \<Longrightarrow> op_matched (ot_progress (aw_task s)) \<Longrightarrow>
     await_loop_body deadline out_deadline s = return_snapshot s"
  by (simp add: await_loop_body_def Let_def)

lemma example_wait_step:
  "await_step 16 [''up''] ''is up'' deadline (output_deadline now deadline) (await_start example_task now)
     (return_snapshot (await_start example_task now))"
proof -
  have "ot_pc example_task = Reading" "op_matched (ot_progress example_task)"
    unfolding example_task_def send_progress_def by simp_all
  then have "await_loop_body deadline (output_deadline now deadline) (await_start example_task now)
      = return_snapshot (await_start example_task now)"
    by (intro await_loop_body_matched) (simp_all only: await_start_def await_state.simps)
  with await_step.await_loop [of "await_start example_task now"] show ?thesis
    by (metis await_start_def await_state.select_convs(4))
qed

lemma example_wait_returns:
  "await_reachable 16 [''up''] ''is up'' deadline now (return_snapshot (await_start example_task now))"
  by (rule reach_step [OF reach_start [OF example_task_reachable] example_wait_step])

text \<open>
  C3. The capture of a child's output, concurrent with the wait for it: in every state that the
  two can reach, the shared buffer is the kept part of a prefix of what was written, published
  progress is true of it, and a returned buffer that is called complete has seen everything
  written. The clock has not passed the deadline of the probe (or the start of the wait, if that
  was later), and not 250 milliseconds from the start either, unless the limit is reached.
\<close>

theorem capture_invariant:
  assumes "await_reachable limit texts stream deadline now s"
    and "now + OUTPUT_MAX_GRACE_AFTER_EXIT < INSTANT_LIMIT"
  shows "task_inv limit texts stream (aw_task s)
    \<and> (\<forall>r. aw_pc s = Returned r \<longrightarrow> returned_ok limit texts stream r)
    \<and> aw_now s \<le> max now deadline
    \<and> (aw_now s \<le> now + OUTPUT_MAX_GRACE_AFTER_EXIT
       \<or> length (cb_bytes (bo_content (ot_state (aw_task s)))) = limit)"
proof -
  from await_reachable_inv [OF assms(1)]
  have inv: "task_inv limit texts stream (aw_task s)" "\<forall>r. aw_pc s = Returned r \<longrightarrow> returned_ok limit texts stream r"
    and t: "in_time limit deadline (output_deadline now deadline) now s"
    unfolding await_inv_def by blast+
  have "aw_now s \<le> max now deadline \<and> (aw_now s \<le> max now (output_deadline now deadline)
       \<or> length (cb_bytes (bo_content (ot_state (aw_task s)))) = limit)"
    using t order_trans [OF latest_now [of "aw_now s" "aw_pc s"]]
    by (simp only: in_time_def Let_def) blast
  moreover have "max now (output_deadline now deadline) \<le> now + OUTPUT_MAX_GRACE_AFTER_EXIT"
    by (simp add: output_deadline_grace [OF assms(2)])
  ultimately show ?thesis using inv order_trans by blast
qed

theorem capture_invariant_witness:
  "task_inv 16 [''up''] ''is up'' (abort_task example_task)
    \<and> returned_ok 16 [''up''] ''is up'' (Inr (ot_state example_task))"
proof -
  have "(0::nat) + OUTPUT_MAX_GRACE_AFTER_EXIT < INSTANT_LIMIT"
    by (simp add: OUTPUT_MAX_GRACE_AFTER_EXIT_def INSTANT_LIMIT_def)
  from capture_invariant [OF example_wait_returns [of 9 0] this] show ?thesis
    by (simp add: return_snapshot_def await_start_def)
qed

text \<open>
  C8. The wait for a child's output always ends, however the reading task, the clock and the
  timers are interleaved: no execution is infinite, and one can only stop by returning.
\<close>

theorem capture_wait_terminates:
  "wf {(s', s). await_step limit texts stream deadline out_deadline s s'}
   \<and> ((\<exists>s'. await_step limit texts stream deadline out_deadline s s') \<or> (\<exists>r. aw_pc s = Returned r))"
proof
  have "{(s', s). await_step limit texts stream deadline out_deadline s s'} \<subseteq> await_less stream"
    using await_step_less by auto
  then show "wf {(s', s). await_step limit texts stream deadline out_deadline s s'}"
    by (rule wf_subset [OF wf_await_less])
qed (rule await_progress)

end
