(* ===== verification/Exec_Probe.thy ===== *)
theory Exec_Probe
  imports Probe Validation Exec_Output
begin

text \<open>
  \<open>probes/exec.rs\<close>: \<open>run\<close>, from the validation of the arguments to the verdict on the exit
  code and the captured output. The world gives what the operating system does: the spawn,
  the exit status and when it is there (\<open>None\<close> for a child that never exits), and what the two
  waits of \<open>Exec_Output\<close> return and when, given the deadline and the time they begin. A run
  returns its result, its effects on the process and on the reading tasks, in the order in
  which they happen (the destructors at the end of \<open>run\<close> included), and the time it ends.
  Times are nanoseconds; they pass in the spawn and while something is awaited.
\<close>

section \<open>Validation\<close>

definition success_codes :: "exec_args \<Rightarrow> int list" where
  "success_codes args = (if exec_exit_code args = [] then [0] else exec_exit_code args)"

definition validate_success_code :: "int \<Rightarrow> unit result" where
  "validate_success_code code =
     (if \<not> (0 \<le> code \<and> code \<le> 255) then
        Inl (InvalidConfig (''invalid exit code '' @ dec_int code @ '', expected 0..=255''))
      else Inr ())"

definition validate_exec_args :: "exec_args \<Rightarrow> unit result" where
  "validate_exec_args args =
     bindR (validate_non_empty_values ''--stdout-contains'' (exec_stdout_contains args)) (\<lambda>_.
     bindR (validate_non_empty_values ''--stderr-contains'' (exec_stderr_contains args)) (\<lambda>_.
     bindR (validate_capture_limit ''--max-output'' (exec_max_output args) ''output assertions''
       (exec_stdout_contains args \<noteq> [] \<or> exec_stderr_contains args \<noteq> [])) (\<lambda>_.
     bindR (for_each validate_success_code (success_codes args)) (\<lambda>_.
     (case exec_command args of
        [] \<Rightarrow> Inl (InvalidConfig ''missing command to execute'')
      | program # _ \<Rightarrow>
          if program = [] then Inl (InvalidConfig ''command must not be empty'') else Inr ())))))"

section \<open>The child\<close>

datatype stdio = Null | Piped

text \<open>The \<open>Command\<close>: all its settings are made by \<open>run\<close>.\<close>

record child_command =
  cc_program :: string
  cc_args :: "string list"
  cc_kill_on_drop :: bool
  cc_process_group :: "int option"
  cc_stdin :: stdio
  cc_stdout :: stdio
  cc_stderr :: stdio

definition configure_process_group :: "deps \<Rightarrow> child_command \<Rightarrow> child_command" where
  "configure_process_group D command =
     (if target_unix D then command\<lparr>cc_process_group := Some 0\<rparr> else command)"

definition child_command_of :: "deps \<Rightarrow> exec_args \<Rightarrow> child_command" where
  "child_command_of D args = configure_process_group D
     \<lparr>cc_program = hd (exec_command args), cc_args = tl (exec_command args), cc_kill_on_drop = True,
      cc_process_group = None, cc_stdin = Null,
      cc_stdout = (if exec_stdout_contains args \<noteq> [] then Piped else Null),
      cc_stderr = (if exec_stderr_contains args \<noteq> [] then Piped else Null)\<rparr>"

record exit_status =
  es_code :: "int option"
  es_signal :: "int option"

text \<open>
  \<open>ew_started\<close> is the instant the probe was given, \<open>ew_now\<close> the one when the spawn has returned;
  the delay of \<open>ew_wait\<close> counts from there.
\<close>

record exec_world =
  ew_started :: nat
  ew_spawn :: "child_command \<Rightarrow> io_error + nat option"
  ew_stdout_taken :: bool
  ew_stderr_taken :: bool
  ew_now :: nat
  ew_wait :: "((string + exit_status) \<times> nat) option"
  ew_await_stdout :: "nat \<Rightarrow> nat \<Rightarrow> buffered_output result \<times> nat"
  ew_await_stderr :: "nat \<Rightarrow> nat \<Rightarrow> buffered_output result \<times> nat"

text \<open>
  \<open>tokio::time::timeout\<close> of a future that is ready after a delay, or never: its outcome and the
  time it takes.
\<close>

definition tokio_timeout :: "nat \<Rightarrow> ('a \<times> nat) option \<Rightarrow> 'a option \<times> nat" where
  "tokio_timeout duration future =
     (case future of
        Some (value, delay) \<Rightarrow> if delay \<le> duration then (Some value, delay) else (None, duration)
      | None \<Rightarrow> (None, duration))"

text \<open>
  \<open>child.id()\<close> as a \<open>Pid\<close>: it must fit an \<open>i32\<close> and not be zero. There are no process groups
  outside Unix: what is done with one is then done with \<open>None\<close>.
\<close>

definition child_process_group :: "deps \<Rightarrow> nat option \<Rightarrow> nat option" where
  "child_process_group D pid =
     (if target_unix D then
        (case pid of None \<Rightarrow> None | Some n \<Rightarrow> if n < 2 ^ 31 \<and> n \<noteq> 0 then Some n else None)
      else None)"

datatype exec_effect = KillGroup nat | StartKill | AbortStdout | AbortStderr | SpawnReaper | DropChild

definition terminate_process_group :: "nat option \<Rightarrow> exec_effect list" where
  "terminate_process_group g = (case g of Some g \<Rightarrow> [KillGroup g] | None \<Rightarrow> [])"

definition terminate_child :: "nat option \<Rightarrow> exec_effect list" where
  "terminate_child g = terminate_process_group g @ [StartKill]"

text \<open>\<open>ProcessGroupCleanup::terminate\<close> takes the group, so that the destructor finds none.\<close>

definition cleanup_terminate :: "nat option \<Rightarrow> nat option \<times> exec_effect list" where
  "cleanup_terminate g = (None, terminate_process_group g)"

definition cleanup_drop :: "nat option \<Rightarrow> exec_effect list" where
  "cleanup_drop g = snd (cleanup_terminate g)"

definition abort_output_tasks :: "exec_args \<Rightarrow> exec_effect list" where
  "abort_output_tasks args =
     (if exec_stdout_contains args \<noteq> [] then [AbortStdout] else [])
     @ (if exec_stderr_contains args \<noteq> [] then [AbortStderr] else [])"

section \<open>Messages\<close>

definition spawn_error :: "string \<Rightarrow> io_error \<Rightarrow> app_error" where
  "spawn_error command_label error =
     InvalidConfig (case io_kind error of
         NotFound \<Rightarrow> ''command '' @ command_label @ '' was not found''
       | PermissionDenied \<Rightarrow> ''command '' @ command_label @ '' is not executable''
       | _ \<Rightarrow> ''failed to spawn '' @ command_label @ '': '' @ io_text error)"

definition command_timeout_error :: "deps \<Rightarrow> string \<Rightarrow> nat \<Rightarrow> app_error" where
  "command_timeout_error D command_label timeout =
     Failure (''command '' @ command_label @ '' timed out after '' @ format_duration D timeout)"

definition termination_suffix :: "deps \<Rightarrow> exit_status \<Rightarrow> string" where
  "termination_suffix D status =
     (if target_unix D then
        (case es_signal status of Some s \<Rightarrow> '' (signal '' @ dec_int s @ '')'' | None \<Rightarrow> [])
      else [])"

definition reached_capture_boundary_before_eof :: "buffered_output \<Rightarrow> bool" where
  "reached_capture_boundary_before_eof out \<longleftrightarrow>
     cb_incomplete (bo_content out) \<or> (bo_limit_reached out \<and> \<not> bo_complete out)"

definition output_limit_error :: "deps \<Rightarrow> string \<Rightarrow> string \<Rightarrow> nat \<Rightarrow> string \<Rightarrow> app_error" where
  "output_limit_error D stream_name command_label max_output needle =
     Failure (stream_name @ '' of '' @ command_label @ '' reached --max-output '' @ dec max_output
       @ '' bytes, cannot prove required text '' @ debug_str (plain D) needle)"

definition output_open_error :: "deps \<Rightarrow> string \<Rightarrow> string \<Rightarrow> string \<Rightarrow> app_error" where
  "output_open_error D stream_name command_label needle =
     Failure (stream_name @ '' of '' @ command_label
       @ '' remained open after the command exited, cannot prove required text ''
       @ debug_str (plain D) needle)"

definition output_absent_error :: "deps \<Rightarrow> string \<Rightarrow> string \<Rightarrow> string \<Rightarrow> app_error" where
  "output_absent_error D stream_name command_label needle =
     Failure (stream_name @ '' of '' @ command_label @ '' does not contain required text ''
       @ debug_str (plain D) needle)"

definition missing_required_output_error ::
    "deps \<Rightarrow> buffered_output \<Rightarrow> string \<Rightarrow> string \<Rightarrow> nat \<Rightarrow> string \<Rightarrow> app_error" where
  "missing_required_output_error D out stream_name command_label max_output needle =
     (if reached_capture_boundary_before_eof out then
        output_limit_error D stream_name command_label max_output needle
      else if \<not> bo_complete out then output_open_error D stream_name command_label needle
      else output_absent_error D stream_name command_label needle)"

section \<open>The run\<close>

definition check_output :: "deps \<Rightarrow> buffered_output \<Rightarrow> string \<Rightarrow> string \<Rightarrow> nat \<Rightarrow> string \<Rightarrow> unit result" where
  "check_output D out stream_name command_label max_output needle =
     (if \<not> contains_bytes (cb_bytes (bo_content out)) needle then
        Inl (missing_required_output_error D out stream_name command_label max_output needle)
      else Inr ())"

text \<open>A run, from the outside: its result, its effects and the time it ends.\<close>

type_synonym exec_outcome = "probe_report result \<times> exec_effect list \<times> nat"

abbreviation exec_effects :: "exec_outcome \<Rightarrow> exec_effect list" where
  "exec_effects outcome \<equiv> fst (snd outcome)"

abbreviation exec_ended :: "exec_outcome \<Rightarrow> nat" where
  "exec_ended outcome \<equiv> snd (snd outcome)"

definition await_captured :: "bool \<Rightarrow> (nat \<Rightarrow> buffered_output result \<times> nat) \<Rightarrow> nat
    \<Rightarrow> buffered_output result \<times> nat" where
  "await_captured captured wait now =
     (if captured then wait now else (Inr buffered_output_default, now))"

text \<open>From the accepted exit code, at the time \<open>now\<close>, to the report.\<close>

definition exec_judge_output :: "deps \<Rightarrow> exec_world \<Rightarrow> probe_options \<Rightarrow> exec_args \<Rightarrow> string \<Rightarrow> int
    \<Rightarrow> nat \<Rightarrow> nat \<Rightarrow> exec_outcome" where
  "exec_judge_output D w options args command_label code deadline now =
     (let (captured, now) =
        await_captured (exec_stdout_contains args \<noteq> []) (ew_await_stdout w deadline) now
      in case captured of
        Inl error \<Rightarrow>
          (Inl error, if exec_stderr_contains args \<noteq> [] then [AbortStderr] else [], now)
      | Inr stdout \<Rightarrow>
          (let (captured, now) =
             await_captured (exec_stderr_contains args \<noteq> []) (ew_await_stderr w deadline) now
           in
           (bindR captured (\<lambda>stderr.
            bindR (for_each (check_output D stdout ''stdout'' command_label (exec_max_output args))
              (exec_stdout_contains args)) (\<lambda>_.
            bindR (for_each (check_output D stderr ''stderr'' command_label (exec_max_output args))
              (exec_stderr_contains args)) (\<lambda>_.
            Inr (probe_report_new ''exec'' command_label (Some (''exit_code='' @ dec_int code))
              (now - ew_started w) options)))), [], now)))"

text \<open>
  From the spawned child to the end, with the process group of the child. \<open>DropChild\<close> is the
  destructor of a child that may still run (it is killed on drop); the destructor of a child
  whose exit status was collected does nothing and is not listed.
\<close>

definition exec_supervise :: "deps \<Rightarrow> exec_world \<Rightarrow> probe_options \<Rightarrow> exec_args \<Rightarrow> string \<Rightarrow> nat option
    \<Rightarrow> exec_outcome" where
  "exec_supervise D w options args command_label process_group =
     (let capture_stdout = (exec_stdout_contains args \<noteq> []);
          capture_stderr = (exec_stderr_contains args \<noteq> []);
          dropped = cleanup_drop process_group @ [DropChild]
      in
      if capture_stdout \<and> \<not> ew_stdout_taken w then
        (Inl (Internal ''failed to capture child stdout''), dropped, ew_now w)
      else if capture_stderr \<and> \<not> ew_stderr_taken w then
        (Inl (Internal ''failed to capture child stderr''), dropped, ew_now w)
      else
        (case deadline_after D (ew_now w) (opt_timeout options) of
           Inl error \<Rightarrow> (Inl error, dropped, ew_now w)
         | Inr deadline \<Rightarrow>
             (let (outcome, waited) = tokio_timeout (opt_timeout options) (ew_wait w);
                  now = ew_now w + waited
              in case outcome of
                None \<Rightarrow>
                  (Inl (command_timeout_error D command_label (opt_timeout options)),
                   terminate_child process_group @ abort_output_tasks args @ [SpawnReaper]
                     @ cleanup_drop process_group, now)
              | Some (Inl error) \<Rightarrow>
                  (Inl (Failure (''failed waiting for child: '' @ error)),
                   terminate_child process_group @ abort_output_tasks args @ dropped, now)
              | Some (Inr status) \<Rightarrow>
                  (let (process_group, killed) = cleanup_terminate process_group in
                   case es_code status of
                     None \<Rightarrow>
                       (Inl (Failure (''command '' @ command_label
                          @ '' terminated without an exit code'' @ termination_suffix D status)),
                        killed @ abort_output_tasks args @ cleanup_drop process_group, now)
                   | Some code \<Rightarrow>
                       if code \<notin> set (success_codes args) then
                         (Inl (Failure (''command '' @ command_label @ '' exited with '' @ dec_int code)),
                          killed @ abort_output_tasks args @ cleanup_drop process_group, now)
                       else
                         (let (r, effects, now) =
                            exec_judge_output D w options args command_label code deadline now
                          in (r, killed @ effects @ cleanup_drop process_group, now))))))"

definition exec_run :: "deps \<Rightarrow> probe_options \<Rightarrow> exec_args \<Rightarrow> exec_world \<Rightarrow> exec_outcome" where
  "exec_run D options args w =
     (case validate_exec_args args of
        Inl error \<Rightarrow> (Inl error, [], ew_started w)
      | Inr _ \<Rightarrow>
          (let command = child_command_of D args;
               command_label = diag_os_str D (cc_program command)
           in case ew_spawn w command of
                Inl error \<Rightarrow> (Inl (spawn_error command_label error), [], ew_now w)
              | Inr pid \<Rightarrow>
                  exec_supervise D w options args command_label (child_process_group D pid)))"

section \<open>Validation\<close>

lemma validate_exec_args_Inr:
  "validate_exec_args args = Inr () \<longleftrightarrow>
     [] \<notin> set (exec_stdout_contains args) \<and> [] \<notin> set (exec_stderr_contains args)
     \<and> (exec_stdout_contains args \<noteq> [] \<or> exec_stderr_contains args \<noteq> [] \<longrightarrow>
          0 < exec_max_output args \<and> exec_max_output args \<le> MAX_CAPTURE_BYTES)
     \<and> (\<forall>c \<in> set (exec_exit_code args). 0 \<le> c \<and> c \<le> 255)
     \<and> (\<exists>p ps. exec_command args = p # ps \<and> p \<noteq> [])"
  by (cases "exec_command args")
    (auto simp: validate_exec_args_def bindR_Inr_iff validation_simps for_each_Inr_iff
      validate_success_code_def success_codes_def)

lemma validate_exec_args_Inl: "validate_exec_args args = Inl e \<Longrightarrow> is_invalid_config e"
  by (auto simp: validate_exec_args_def bindR_Inl_iff validate_success_code_def
      dest: validation_Inl dest!: for_each_Inl_dest split: list.splits if_splits)

section \<open>The process group dies on every path\<close>

lemma exec_supervise_kills:
  "KillGroup g \<in> set (exec_effects (exec_supervise D w options args label (Some g)))"
  by (auto simp: exec_supervise_def Let_def cleanup_drop_def cleanup_terminate_def
      terminate_process_group_def terminate_child_def case_prod_unfold
      split: option.splits sum.splits if_splits)

lemma exec_run_kills:
  assumes "validate_exec_args args = Inr ()" "ew_spawn w (child_command_of D args) = Inr pid"
    and "child_process_group D pid = Some g"
  shows "KillGroup g \<in> set (exec_effects (exec_run D options args w))"
  using assms exec_supervise_kills by (simp add: exec_run_def Let_def)

text \<open>Only the child's own group is ever signalled.\<close>

lemma exec_supervise_group:
  "KillGroup g \<in> set (exec_effects (exec_supervise D w options args label pg)) \<Longrightarrow> pg = Some g"
  by (auto simp: exec_supervise_def exec_judge_output_def Let_def cleanup_drop_def cleanup_terminate_def
      terminate_process_group_def terminate_child_def abort_output_tasks_def case_prod_unfold
      split: option.splits sum.splits if_splits)

section \<open>Verdicts\<close>

lemma check_output_Inr: "check_output D out name label m n = Inr () \<longleftrightarrow> sublist n (cb_bytes (bo_content out))"
  by (simp add: check_output_def contains_bytes_iff)

lemma tokio_timeout_Some:
  "tokio_timeout duration future = (Some x, d) \<longleftrightarrow> future = Some (x, d) \<and> d \<le> duration"
  by (auto simp: tokio_timeout_def split: option.split)

lemma exec_judge_output_Inr:
  "fst (exec_judge_output D w options args label code deadline now) = Inr r \<longleftrightarrow>
     (\<exists>out err t1 t2.
       await_captured (exec_stdout_contains args \<noteq> []) (ew_await_stdout w deadline) now = (Inr out, t1)
       \<and> await_captured (exec_stderr_contains args \<noteq> []) (ew_await_stderr w deadline) t1 = (Inr err, t2)
       \<and> (\<forall>n \<in> set (exec_stdout_contains args). sublist n (cb_bytes (bo_content out)))
       \<and> (\<forall>n \<in> set (exec_stderr_contains args). sublist n (cb_bytes (bo_content err)))
       \<and> r = probe_report_new ''exec'' label (Some (''exit_code='' @ dec_int code))
           (t2 - ew_started w) options)"
  by (auto simp: exec_judge_output_def Let_def bindR_Inr_iff for_each_Inr_iff check_output_Inr
      split: sum.splits prod.splits)

lemma child_program [simp]: "cc_program (child_command_of D args) = hd (exec_command args)"
  by (simp add: child_command_of_def configure_process_group_def)

lemma exec_run_Inr_iff:
  "fst (exec_run D options args w) = Inr r \<longleftrightarrow>
     (\<exists>pid status code d. validate_exec_args args = Inr ()
       \<and> ew_spawn w (child_command_of D args) = Inr pid
       \<and> (exec_stdout_contains args \<noteq> [] \<longrightarrow> ew_stdout_taken w)
       \<and> (exec_stderr_contains args \<noteq> [] \<longrightarrow> ew_stderr_taken w)
       \<and> ew_now w + opt_timeout options < INSTANT_LIMIT
       \<and> ew_wait w = Some (Inr status, d) \<and> d \<le> opt_timeout options
       \<and> es_code status = Some code \<and> code \<in> set (success_codes args)
       \<and> fst (exec_judge_output D w options args (diag_os_str D (hd (exec_command args))) code
             (ew_now w + opt_timeout options) (ew_now w + d)) = Inr r)"
  unfolding exec_run_def exec_supervise_def Let_def deadline_after_def instant_checked_add_def tokio_timeout_def
  by (auto simp: case_prod_unfold cleanup_terminate_def ok_or_def
      split: sum.splits option.splits if_splits)

text \<open>
  Against the two pipes: each capture the run looks at is what the wait on its pipe returned,
  at the time it returned.
\<close>

definition wait_returns :: "nat \<Rightarrow> string list \<Rightarrow> string \<Rightarrow> nat \<Rightarrow> nat \<Rightarrow> buffered_output result \<times> nat \<Rightarrow> bool" where
  "wait_returns limit texts stream deadline now x \<longleftrightarrow>
     (\<exists>s. await_reachable limit texts stream deadline now s
        \<and> aw_pc s = Returned (fst x) \<and> aw_now s = snd x)"

definition awaited :: "nat \<Rightarrow> string list \<Rightarrow> string \<Rightarrow> (nat \<Rightarrow> nat \<Rightarrow> buffered_output result \<times> nat) \<Rightarrow> bool" where
  "awaited limit texts stream wait \<longleftrightarrow>
     texts = [] \<or> (\<forall>deadline now. wait_returns limit texts stream deadline now (wait deadline now))"

lemma wait_returns_ok: "wait_returns limit texts stream deadline now (r, t) \<Longrightarrow> returned_ok limit texts stream r"
  using await_reachable_inv by (fastforce simp: wait_returns_def await_inv_def)

lemma await_captured_returns:
  assumes "awaited limit texts stream wait" "await_captured (texts \<noteq> []) (wait deadline) now = (r, t)" "texts \<noteq> []"
  shows "wait_returns limit texts stream deadline now (r, t)"
proof -
  have "wait deadline now = (r, t)" using assms(2,3) by (simp add: await_captured_def)
  with assms(1,3) show ?thesis by (metis awaited_def)
qed

lemma await_captured_found:
  assumes "awaited limit texts stream wait" "await_captured (texts \<noteq> []) (wait deadline) now = (Inr out, t)"
    and "n \<in> set texts" "sublist n (cb_bytes (bo_content out))"
  shows "sublist n stream"
proof -
  have "texts \<noteq> []" using assms(3) by auto
  from wait_returns_ok [OF await_captured_returns [OF assms(1,2) this]]
  obtain seen where "prefix seen stream"
    "represents limit (cb_bytes (bo_content out)) (cb_incomplete (bo_content out)) seen"
    by (auto simp: returned_ok_def output_reflects_def)
  with assms(4) show ?thesis
    by (meson prefix_imp_sublist represents_sublist sublist_order.order_trans)
qed

lemma exec_run_sound:
  assumes "fst (exec_run D options args w) = Inr r"
    and "awaited (exec_max_output args) (exec_stdout_contains args) stdout (ew_await_stdout w)"
    and "awaited (exec_max_output args) (exec_stderr_contains args) stderr (ew_await_stderr w)"
  shows "\<exists>status code d. ew_wait w = Some (Inr status, d) \<and> d \<le> opt_timeout options
    \<and> es_code status = Some code
    \<and> code \<in> set (success_codes args) \<and> 0 \<le> code \<and> code \<le> 255
    \<and> (\<forall>n \<in> set (exec_stdout_contains args). sublist n stdout)
    \<and> (\<forall>n \<in> set (exec_stderr_contains args). sublist n stderr)"
proof -
  from assms(1) obtain status code d label deadline now where v: "validate_exec_args args = Inr ()"
    and s: "ew_wait w = Some (Inr status, d)" "d \<le> opt_timeout options" "es_code status = Some code"
      "code \<in> set (success_codes args)"
    and j: "fst (exec_judge_output D w options args label code deadline now) = Inr r"
    unfolding exec_run_Inr_iff by blast
  have "0 \<le> code \<and> code \<le> 255"
    using v s(4) by (auto simp: validate_exec_args_Inr success_codes_def split: if_splits)
  moreover have "\<forall>n \<in> set (exec_stdout_contains args). sublist n stdout"
    "\<forall>n \<in> set (exec_stderr_contains args). sublist n stderr"
    using j await_captured_found [OF assms(2)] await_captured_found [OF assms(3)]
    unfolding exec_judge_output_Inr by blast+
  ultimately show ?thesis using s by blast
qed

text \<open>
  The plain absence message is only given for a pipe read to its end, and is then true of
  everything that was written to it.
\<close>

lemma missing_error_absent:
  "missing_required_output_error D out name label m n = output_absent_error D name label n \<longleftrightarrow>
     bo_complete out \<and> \<not> cb_incomplete (bo_content out)"
  by (auto simp: missing_required_output_error_def output_limit_error_def output_open_error_def
      output_absent_error_def reached_capture_boundary_before_eof_def)

lemma absence_truthful:
  assumes "wait_returns limit texts stream deadline now (Inr out, t)"
    and "check_output D out name label m n = Inl (output_absent_error D name label n)"
  shows "\<not> sublist n stream"
proof -
  from assms(2) have a: "\<not> sublist n (cb_bytes (bo_content out))"
    and "missing_required_output_error D out name label m n = output_absent_error D name label n"
    by (auto simp: check_output_def contains_bytes_iff split: if_splits)
  then have c: "bo_complete out" "\<not> cb_incomplete (bo_content out)" by (simp_all add: missing_error_absent)
  from wait_returns_ok [OF assms(1)] c obtain seen where
    "output_reflects limit texts out seen" "seen = stream"
    by (auto simp: returned_ok_def)
  with c a show ?thesis by (auto simp: output_reflects_def represents_def)
qed

text \<open>A run whose child wrote what is required, within the limit and before it was waited for, is healthy.\<close>

lemma exec_run_complete:
  assumes "validate_exec_args args = Inr ()" "ew_spawn w (child_command_of D args) = Inr pid"
    and "ew_stdout_taken w" "ew_stderr_taken w" "ew_now w + opt_timeout options < INSTANT_LIMIT"
    and "ew_wait w = Some (Inr status, d)" "d \<le> opt_timeout options"
    and "es_code status = Some code" "code \<in> set (success_codes args)"
    and "await_captured (exec_stdout_contains args \<noteq> [])
      (ew_await_stdout w (ew_now w + opt_timeout options)) (ew_now w + d) = (Inr out, t1)"
    and "await_captured (exec_stderr_contains args \<noteq> [])
      (ew_await_stderr w (ew_now w + opt_timeout options)) t1 = (Inr err, t2)"
    and "\<forall>n \<in> set (exec_stdout_contains args). sublist n (cb_bytes (bo_content out))"
    and "\<forall>n \<in> set (exec_stderr_contains args). sublist n (cb_bytes (bo_content err))"
  shows "\<exists>r. fst (exec_run D options args w) = Inr r"
proof -
  have "\<exists>r. fst (exec_judge_output D w options args (diag_os_str D (hd (exec_command args))) code
      (ew_now w + opt_timeout options) (ew_now w + d)) = Inr r"
    using assms(10-13) unfolding exec_judge_output_Inr by blast
  with assms(1-9) show ?thesis unfolding exec_run_Inr_iff by blast
qed

text \<open>
  Against the pipes: what the child wrote before the wait began, and the task had read within
  the limit, is in what the wait returns.
\<close>

definition read_before_wait :: "nat \<Rightarrow> string list \<Rightarrow> string \<Rightarrow> buffered_output result \<Rightarrow> bool" where
  "read_before_wait limit texts stream r \<longleftrightarrow>
     texts = [] \<or> (\<exists>t now deadline s.
       (task_step limit texts stream)\<^sup>*\<^sup>* (spawn_output_capture texts) t
       \<and> (\<forall>n \<in> set texts. sublist n (cb_bytes (bo_content (ot_state t))))
       \<and> (await_step limit texts stream deadline (output_deadline now deadline))\<^sup>*\<^sup>* (await_start t now) s
       \<and> aw_pc s = Returned r)"

lemma read_before_wait_kept:
  assumes "read_before_wait limit texts stream (Inr out)" "n \<in> set texts"
  shows "sublist n (cb_bytes (bo_content out))"
proof -
  have "texts \<noteq> []" using assms(2) by auto
  with assms obtain t now deadline s where
    t: "(task_step limit texts stream)\<^sup>*\<^sup>* (spawn_output_capture texts) t"
      "sublist n (cb_bytes (bo_content (ot_state t)))"
    and s: "(await_step limit texts stream deadline (output_deadline now deadline))\<^sup>*\<^sup>* (await_start t now) s"
      "aw_pc s = Returned (Inr out)"
    unfolding read_before_wait_def by blast
  let ?k = "cb_bytes (bo_content (ot_state t))"
  have "task_inv limit texts stream t" using task_inv_steps [OF t(1) task_inv_start] .
  then have "keeps ?k (await_start t now)"
    by (auto simp: keeps_def await_start_def task_inv_def pc_ok_def)
  from await_reachable_keeps [OF s(1) this await_start_inv [OF t(1)] output_deadline_le] s(2)
  have "prefix ?k (cb_bytes (bo_content out))" by (simp add: keeps_def)
  with t(2) show ?thesis by (metis prefix_imp_sublist sublist_order.order_trans)
qed

lemma exec_run_finds_output:
  assumes "validate_exec_args args = Inr ()" "ew_spawn w (child_command_of D args) = Inr pid"
    and "ew_stdout_taken w" "ew_stderr_taken w" "ew_now w + opt_timeout options < INSTANT_LIMIT"
    and "ew_wait w = Some (Inr status, d)" "d \<le> opt_timeout options"
    and "es_code status = Some code" "code \<in> set (success_codes args)"
    and "await_captured (exec_stdout_contains args \<noteq> [])
      (ew_await_stdout w (ew_now w + opt_timeout options)) (ew_now w + d) = (Inr out, t1)"
    and "await_captured (exec_stderr_contains args \<noteq> [])
      (ew_await_stderr w (ew_now w + opt_timeout options)) t1 = (Inr err, t2)"
    and "read_before_wait (exec_max_output args) (exec_stdout_contains args) stdout (Inr out)"
    and "read_before_wait (exec_max_output args) (exec_stderr_contains args) stderr (Inr err)"
  shows "\<exists>r. fst (exec_run D options args w) = Inr r"
  using read_before_wait_kept [OF assms(12)] read_before_wait_kept [OF assms(13)]
  by (intro exec_run_complete [OF assms(1-11)]) blast+

section \<open>The clock\<close>

text \<open>
  A wait ends by the deadline (or at once, if that has passed), and within its grace when less
  is written than is kept.
\<close>

lemma wait_returns_in_time:
  assumes "wait_returns limit texts stream deadline now (r, t)"
  shows "t \<le> max now deadline"
    "now + OUTPUT_MAX_GRACE_AFTER_EXIT < INSTANT_LIMIT \<Longrightarrow> length stream < limit \<Longrightarrow>
       t \<le> now + OUTPUT_MAX_GRACE_AFTER_EXIT"
proof -
  from assms obtain s where s: "await_reachable limit texts stream deadline now s"
    and p: "aw_pc s = Returned r" "aw_now s = t" by (auto simp: wait_returns_def)
  from await_reachable_inv [OF s] have i: "task_inv limit texts stream (aw_task s)"
    "in_time limit deadline (output_deadline now deadline) now s" by (simp_all add: await_inv_def)
  show "t \<le> max now deadline" using i(2) p by (simp add: in_time_def Let_def)
  assume g: "now + OUTPUT_MAX_GRACE_AFTER_EXIT < INSTANT_LIMIT" and l: "length stream < limit"
  from i(1) have "length (ot_read (aw_task s)) \<le> length stream"
    "length (cb_bytes (bo_content (ot_state (aw_task s)))) \<le> length (ot_read (aw_task s))"
    by (auto simp: task_inv_def output_reflects_def represents_def dest: prefix_length_le)
  with l have "length (cb_bytes (bo_content (ot_state (aw_task s)))) \<noteq> limit" by linarith
  with i(2) p have "t \<le> max now (output_deadline now deadline)" by (simp add: in_time_def Let_def)
  then show "t \<le> now + OUTPUT_MAX_GRACE_AFTER_EXIT"
    unfolding output_deadline_grace [OF g] by (auto simp: max_def min_def split: if_splits)
qed

lemma wait_returns_after:
  assumes "wait_returns limit texts stream deadline now (r, t)"
  shows "now \<le> t"
proof -
  have "now \<le> aw_now s" if "await_reachable limit texts stream deadline now s" for s
    using that
  proof (induction rule: await_reachable.induct)
    case (reach_start t)
    then show ?case by (simp add: await_start_def)
  next
    case (reach_step s s')
    then show ?case using await_step_now by (meson order_trans)
  qed
  with assms show ?thesis by (auto simp: wait_returns_def)
qed

lemma await_captured_after:
  assumes "awaited limit texts stream wait" "await_captured (texts \<noteq> []) (wait deadline) now = (r, t)"
  shows "now \<le> t"
  using wait_returns_after [OF await_captured_returns [OF assms]] assms(2)
  by (cases "texts = []") (simp_all add: await_captured_def)

lemma await_captured_in_time:
  assumes "awaited limit texts stream wait" "now \<le> deadline"
  shows "snd (await_captured (texts \<noteq> []) (wait deadline) now) \<le> deadline"
    "now + OUTPUT_MAX_GRACE_AFTER_EXIT < INSTANT_LIMIT \<Longrightarrow> length stream < limit \<Longrightarrow>
       snd (await_captured (texts \<noteq> []) (wait deadline) now) \<le> now + OUTPUT_MAX_GRACE_AFTER_EXIT"
proof -
  obtain r t where c: "await_captured (texts \<noteq> []) (wait deadline) now = (r, t)" by fastforce
  have e: "t = now" if "texts = []" using c that by (simp add: await_captured_def)
  note w = wait_returns_in_time [OF await_captured_returns [OF assms(1) c]]
  show "snd (await_captured (texts \<noteq> []) (wait deadline) now) \<le> deadline"
    using w(1) e assms(2) unfolding c by (cases "texts = []") auto
  show "snd (await_captured (texts \<noteq> []) (wait deadline) now) \<le> now + OUTPUT_MAX_GRACE_AFTER_EXIT"
    if "now + OUTPUT_MAX_GRACE_AFTER_EXIT < INSTANT_LIMIT" "length stream < limit"
    using w(2) e that unfolding c by (cases "texts = []") auto
qed

lemma exec_judge_output_in_time:
  assumes "awaited (exec_max_output args) (exec_stdout_contains args) stdout (ew_await_stdout w)"
    and "awaited (exec_max_output args) (exec_stderr_contains args) stderr (ew_await_stderr w)"
    and "now \<le> deadline"
  shows "exec_ended (exec_judge_output D w options args label code deadline now) \<le> deadline"
    "now + 2 * OUTPUT_MAX_GRACE_AFTER_EXIT < INSTANT_LIMIT \<Longrightarrow>
     length stdout < exec_max_output args \<Longrightarrow> length stderr < exec_max_output args \<Longrightarrow>
       exec_ended (exec_judge_output D w options args label code deadline now)
         \<le> now + 2 * OUTPUT_MAX_GRACE_AFTER_EXIT"
proof -
  obtain x t1 where 1: "await_captured (exec_stdout_contains args \<noteq> []) (ew_await_stdout w deadline) now
      = (x, t1)" by fastforce
  obtain y t2 where 2: "await_captured (exec_stderr_contains args \<noteq> []) (ew_await_stderr w deadline) t1
      = (y, t2)" by fastforce
  have e: "exec_ended (exec_judge_output D w options args label code deadline now)
      = (case x of Inl _ \<Rightarrow> t1 | Inr _ \<Rightarrow> t2)"
    by (cases x) (simp_all only: exec_judge_output_def Let_def 1 2 prod.case sum.case fst_conv snd_conv)
  note w1 = await_captured_in_time [OF assms(1,3), unfolded 1 snd_conv]
  note w2 = await_captured_in_time [OF assms(2) w1(1), unfolded 2 snd_conv]
  show "exec_ended (exec_judge_output D w options args label code deadline now) \<le> deadline"
    using w1(1) w2(1) by (simp add: e split: sum.split)
  show "exec_ended (exec_judge_output D w options args label code deadline now)
      \<le> now + 2 * OUTPUT_MAX_GRACE_AFTER_EXIT"
    if "now + 2 * OUTPUT_MAX_GRACE_AFTER_EXIT < INSTANT_LIMIT"
      "length stdout < exec_max_output args" "length stderr < exec_max_output args"
  proof -
    from that(1) have "now + OUTPUT_MAX_GRACE_AFTER_EXIT < INSTANT_LIMIT" by simp
    from w1(2) [OF this that(2)] have t1: "t1 \<le> now + OUTPUT_MAX_GRACE_AFTER_EXIT" .
    with that(1) have "t1 + OUTPUT_MAX_GRACE_AFTER_EXIT < INSTANT_LIMIT" by linarith
    from w2(2) [OF this that(3)] t1 show ?thesis by (simp add: e split: sum.split)
  qed
qed

lemma exec_judge_output_elapsed:
  "fst (exec_judge_output D w options args label code deadline now) = Inr r \<Longrightarrow>
     rep_elapsed r = exec_ended (exec_judge_output D w options args label code deadline now) - ew_started w"
  by (auto simp: exec_judge_output_def Let_def bindR_Inr_iff split: sum.splits prod.splits)

text \<open>When a supervised run ends: at once, with the wait for the child, or when its output is judged.\<close>

lemma exec_supervise_ended:
  "let x = exec_supervise D w options args label pg;
       now = ew_now w + snd (tokio_timeout (opt_timeout options) (ew_wait w))
   in \<not> is_ok (fst x) \<and> (exec_ended x = ew_now w \<or> exec_ended x = now)
      \<or> (\<exists>status d code. ew_wait w = Some (Inr status, d) \<and> d \<le> opt_timeout options
          \<and> (let j = exec_judge_output D w options args label code
                 (ew_now w + opt_timeout options) (ew_now w + d)
             in fst x = fst j \<and> exec_ended x = exec_ended j))"
proof -
  have dl: "deadline = ew_now w + opt_timeout options"
    if "deadline_after D (ew_now w) (opt_timeout options) = Inr deadline" for deadline
    using deadline_after_Inr [OF that] by simp
  obtain out d where t: "tokio_timeout (opt_timeout options) (ew_wait w) = (out, d)" by fastforce
  have "ew_wait w = Some (x, d) \<and> d \<le> opt_timeout options" if "out = Some x" for x
    using t that by (simp add: tokio_timeout_Some)
  with dl show ?thesis
    unfolding exec_supervise_def cleanup_terminate_def Let_def t prod.case snd_conv
    by (auto simp: case_prod_unfold split: sum.split option.split)
qed

lemma tokio_timeout_in_time: "snd (tokio_timeout duration future) \<le> duration"
  by (simp add: tokio_timeout_def split: option.split)

lemma tokio_timeout_ready: "d \<le> duration \<Longrightarrow> snd (tokio_timeout duration (Some (x, d))) = d"
  by (simp add: tokio_timeout_def)

lemma exec_supervise_in_time:
  assumes "awaited (exec_max_output args) (exec_stdout_contains args) stdout (ew_await_stdout w)"
    and "awaited (exec_max_output args) (exec_stderr_contains args) stderr (ew_await_stderr w)"
  shows "exec_ended (exec_supervise D w options args label pg) \<le> ew_now w + opt_timeout options"
    "fst (exec_supervise D w options args label pg) = Inr r \<Longrightarrow>
       rep_elapsed r = exec_ended (exec_supervise D w options args label pg) - ew_started w"
    "ew_wait w = Some (x, d) \<Longrightarrow> d \<le> opt_timeout options \<Longrightarrow>
     ew_now w + d + 2 * OUTPUT_MAX_GRACE_AFTER_EXIT < INSTANT_LIMIT \<Longrightarrow>
     length stdout < exec_max_output args \<Longrightarrow> length stderr < exec_max_output args \<Longrightarrow>
       exec_ended (exec_supervise D w options args label pg)
         \<le> ew_now w + d + 2 * OUTPUT_MAX_GRACE_AFTER_EXIT"
proof -
  note c = exec_supervise_ended [of D w options args label pg, unfolded Let_def]
  note j = exec_judge_output_in_time [OF assms, of "ew_now w + d" "ew_now w + opt_timeout options" for d]
  show "exec_ended (exec_supervise D w options args label pg) \<le> ew_now w + opt_timeout options"
    using c j(1) tokio_timeout_in_time [of "opt_timeout options" "ew_wait w"] by auto
  show "rep_elapsed r = exec_ended (exec_supervise D w options args label pg) - ew_started w"
    if "fst (exec_supervise D w options args label pg) = Inr r"
    using c that exec_judge_output_elapsed by (fastforce simp: is_ok_def)
  show "exec_ended (exec_supervise D w options args label pg) \<le> ew_now w + d + 2 * OUTPUT_MAX_GRACE_AFTER_EXIT"
    if "ew_wait w = Some (x, d)" "d \<le> opt_timeout options"
      "ew_now w + d + 2 * OUTPUT_MAX_GRACE_AFTER_EXIT < INSTANT_LIMIT"
      "length stdout < exec_max_output args" "length stderr < exec_max_output args"
    using c j(2) [OF _ that(3-5)] that(1,2) tokio_timeout_ready [OF that(2), of x] by auto
qed

interpretation exec_probe: probe validate_exec_args "\<lambda>opts args w. fst (exec_run D opts args w)" "''exec''" for D
proof unfold_locales
  fix args e opts w
  assume "validate_exec_args args = Inl e"
  then show "is_invalid_config e \<and> fst (exec_run D opts args w) = Inl e"
    by (simp add: exec_run_def validate_exec_args_Inl)
next
  fix opts args w r
  assume "fst (exec_run D opts args w) = Inr r"
  then show "rep_mode r = ''exec'' \<and> rep_options r = opts"
    by (auto simp: exec_run_Inr_iff exec_judge_output_Inr)
qed

section \<open>Properties\<close>

definition example_exec_args :: exec_args where
  "example_exec_args = \<lparr>exec_exit_code = [0, 3], exec_stdout_contains = [''up''],
     exec_stderr_contains = [], exec_max_output = 16, exec_command = [''status'', ''-q'']\<rparr>"

definition example_exec_world :: exec_world where
  "example_exec_world = \<lparr>ew_started = 1, ew_spawn = (\<lambda>_. Inr (Some 77)), ew_stdout_taken = True,
     ew_stderr_taken = True, ew_now = 2,
     ew_wait = Some (Inr \<lparr>es_code = Some 3, es_signal = None\<rparr>, 4),
     ew_await_stdout = (\<lambda>_ now. (Inr (ot_state example_task), now)),
     ew_await_stderr = (\<lambda>_ now. (Inl (Internal []), now))\<rparr>"

definition example_exec_options :: probe_options where
  "example_exec_options = \<lparr>opt_timeout = 9, opt_quiet = False, opt_verbose = False,
     opt_max_latency = None\<rparr>"

lemma example_awaited:
  "awaited (exec_max_output example_exec_args) (exec_stdout_contains example_exec_args) ''is up''
     (ew_await_stdout example_exec_world)"
proof -
  have "aw_pc (return_snapshot (await_start example_task now)) = Returned (Inr (ot_state example_task))"
    "aw_now (return_snapshot (await_start example_task now)) = now" for now
    by (simp_all add: return_snapshot_def await_start_def)
  with example_wait_returns
  have "wait_returns 16 [''up''] ''is up'' deadline now (Inr (ot_state example_task), now)" for deadline now
    unfolding wait_returns_def fst_conv snd_conv by blast
  then show ?thesis by (simp add: awaited_def example_exec_args_def example_exec_world_def)
qed

lemma example_awaited_stderr:
  "awaited (exec_max_output example_exec_args) (exec_stderr_contains example_exec_args) []
     (ew_await_stderr example_exec_world)"
  by (simp add: awaited_def example_exec_args_def)

text \<open>
  C4. A healthy exec verdict is never wrong: the child exited by itself within the timeout, with
  an allowed code from 0 to 255, and every required text occurs in what it wrote to the pipe.
\<close>

theorem exec_verdict_sound:
  assumes "fst (exec_run D options args w) = Inr r"
    and "awaited (exec_max_output args) (exec_stdout_contains args) stdout (ew_await_stdout w)"
    and "awaited (exec_max_output args) (exec_stderr_contains args) stderr (ew_await_stderr w)"
  shows "\<exists>status code d. ew_wait w = Some (Inr status, d) \<and> d \<le> opt_timeout options
    \<and> es_code status = Some code
    \<and> code \<in> set (success_codes args) \<and> 0 \<le> code \<and> code \<le> 255
    \<and> (\<forall>n \<in> set (exec_stdout_contains args). sublist n stdout)
    \<and> (\<forall>n \<in> set (exec_stderr_contains args). sublist n stderr)"
  using assms by (rule exec_run_sound)

theorem exec_verdict_sound_witness:
  "\<exists>r. fst (exec_run example_deps example_exec_options example_exec_args example_exec_world) = Inr r
    \<and> sublist ''up'' ''is up''"
proof -
  have "is_ok (fst (exec_run example_deps example_exec_options example_exec_args example_exec_world))"
    by code_simp
  then obtain r where
    r: "fst (exec_run example_deps example_exec_options example_exec_args example_exec_world) = Inr r"
    by (auto simp: is_ok_def split: sum.splits)
  have "''up'' \<in> set (exec_stdout_contains example_exec_args)" by (simp add: example_exec_args_def)
  with r exec_verdict_sound [OF r example_awaited example_awaited_stderr] show ?thesis by blast
qed

text \<open>
  C13. The deadline is hard, although no timeout surrounds the probe: whatever the child does and
  however the run ends, it ends within the timeout, counted from the spawn, and a healthy
  report says how long it took. A process that survives the child and keeps its pipes open
  holds the run for at most 250 milliseconds per pipe, if it writes less than is kept.
\<close>

theorem exec_hard_deadline:
  assumes "awaited (exec_max_output args) (exec_stdout_contains args) stdout (ew_await_stdout w)"
    and "awaited (exec_max_output args) (exec_stderr_contains args) stderr (ew_await_stderr w)"
    and "ew_started w \<le> ew_now w"
  shows "exec_ended (exec_run D options args w) \<le> ew_now w + opt_timeout options
    \<and> (\<forall>r. fst (exec_run D options args w) = Inr r \<longrightarrow>
         rep_elapsed r = exec_ended (exec_run D options args w) - ew_started w)
    \<and> (\<forall>x d. ew_wait w = Some (x, d) \<and> d \<le> opt_timeout options
         \<and> ew_now w + d + 2 * OUTPUT_MAX_GRACE_AFTER_EXIT < INSTANT_LIMIT
         \<and> length stdout < exec_max_output args \<and> length stderr < exec_max_output args \<longrightarrow>
         exec_ended (exec_run D options args w) \<le> ew_now w + d + 2 * OUTPUT_MAX_GRACE_AFTER_EXIT)"
  using assms(3) exec_supervise_in_time [OF assms(1,2)]
  by (auto simp: exec_run_def Let_def split: sum.split)

theorem exec_hard_deadline_witness:
  "exec_ended (exec_run example_deps example_exec_options example_exec_args
     (example_exec_world\<lparr>ew_wait := None\<rparr>)) = 11
   \<and> exec_ended (exec_run example_deps example_exec_options example_exec_args example_exec_world) \<le> 11"
proof -
  have "ew_started example_exec_world \<le> ew_now example_exec_world" by (simp add: example_exec_world_def)
  from exec_hard_deadline [OF example_awaited example_awaited_stderr this]
  have "exec_ended (exec_run example_deps example_exec_options example_exec_args example_exec_world)
      \<le> ew_now example_exec_world + opt_timeout example_exec_options" by blast
  moreover have "ew_now example_exec_world + opt_timeout example_exec_options = 11" by code_simp
  moreover have "exec_ended (exec_run example_deps example_exec_options example_exec_args
     (example_exec_world\<lparr>ew_wait := None\<rparr>)) = 11" by code_simp
  ultimately show ?thesis by simp
qed

text \<open>
  C14. The verdict is healthy when it should be: the child exits in time with an allowed code, every
  required text had been read from its pipes, within the limit, when the wait for the output
  began, and no reading task fails (each wait returns a buffer and not an error). Then whatever
  is written or read during the waits, and whichever timer ends them, does not lose it.
\<close>

theorem exec_verdict_complete:
  assumes "validate_exec_args args = Inr ()" "ew_spawn w (child_command_of D args) = Inr pid"
    and "ew_stdout_taken w" "ew_stderr_taken w" "ew_now w + opt_timeout options < INSTANT_LIMIT"
    and "ew_wait w = Some (Inr status, d)" "d \<le> opt_timeout options"
    and "es_code status = Some code" "code \<in> set (success_codes args)"
    and "await_captured (exec_stdout_contains args \<noteq> [])
      (ew_await_stdout w (ew_now w + opt_timeout options)) (ew_now w + d) = (Inr out, t1)"
    and "await_captured (exec_stderr_contains args \<noteq> [])
      (ew_await_stderr w (ew_now w + opt_timeout options)) t1 = (Inr err, t2)"
    and "read_before_wait (exec_max_output args) (exec_stdout_contains args) stdout (Inr out)"
    and "read_before_wait (exec_max_output args) (exec_stderr_contains args) stderr (Inr err)"
  shows "\<exists>r. fst (exec_run D options args w) = Inr r"
  using assms by (rule exec_run_finds_output)

lemma example_read_before_wait:
  "read_before_wait 16 [''up''] ''is up'' (Inr (ot_state example_task))"
proof -
  let ?s = "await_start example_task 0"
  have st: "await_step 16 [''up''] ''is up'' 9 (output_deadline 0 9) ?s (return_snapshot ?s)"
    by (rule example_wait_step)
  then have r: "(await_step 16 [''up''] ''is up'' 9 (output_deadline 0 9))\<^sup>*\<^sup>* ?s (return_snapshot ?s)"
    by (rule r_into_rtranclp)
  have b: "\<forall>n \<in> set [''up'']. sublist n (cb_bytes (bo_content (ot_state example_task)))"
  proof -
    have "contains_bytes (cb_bytes (bo_content (ot_state example_task))) ''up''" by code_simp
    then show ?thesis by (simp add: contains_bytes_iff)
  qed
  have "aw_pc (return_snapshot ?s) = Returned (Inr (ot_state example_task))"
    by (simp add: return_snapshot_def await_start_def)
  then show ?thesis
    unfolding read_before_wait_def
    using example_task_reachable b r by blast
qed

theorem exec_verdict_complete_witness:
  "\<exists>r. fst (exec_run example_deps example_exec_options example_exec_args example_exec_world) = Inr r"
proof (rule exec_verdict_complete [where code = 3 and status = "\<lparr>es_code = Some 3, es_signal = None\<rparr>"
      and d = 4 and out = "ot_state example_task" and err = buffered_output_default and ?t1.0 = 6 and ?t2.0 = 6])
  show "validate_exec_args example_exec_args = Inr ()" by code_simp
  show "read_before_wait (exec_max_output example_exec_args) (exec_stdout_contains example_exec_args)
      ''is up'' (Inr (ot_state example_task))"
    using example_read_before_wait by (simp add: example_exec_args_def)
  show "read_before_wait (exec_max_output example_exec_args) (exec_stderr_contains example_exec_args)
      [] (Inr buffered_output_default)"
    by (simp add: read_before_wait_def example_exec_args_def)
qed (simp_all add: example_exec_world_def example_exec_options_def INSTANT_LIMIT_def
    example_exec_args_def success_codes_def await_captured_def)

text \<open>
  C21. An absence is reported truthfully: the message that a stream does not contain a text is only
  given when the pipe was read to its end and the text occurs nowhere in what was written.
\<close>

theorem exec_absence_truthful:
  assumes "wait_returns limit texts stream deadline now (Inr out, t)"
    and "check_output D out name label m n = Inl (output_absent_error D name label n)"
  shows "bo_complete out \<and> \<not> cb_incomplete (bo_content out) \<and> \<not> sublist n stream"
proof -
  have "missing_required_output_error D out name label m n = output_absent_error D name label n"
    using assms(2) by (auto simp: check_output_def split: if_splits)
  with absence_truthful [OF assms] show ?thesis by (simp add: missing_error_absent)
qed

definition example_closed_task :: output_task where
  "example_closed_task = (send_progress output_progress_default
     (mark_complete (spawn_output_capture [''up''])))\<lparr>ot_pc := Ended (Inr (buffered_output_default\<lparr>bo_complete := True\<rparr>))\<rparr>"

lemma example_closed_awaited:
  "wait_returns 16 [''up''] [] 9 0 (Inr (buffered_output_default\<lparr>bo_complete := True\<rparr>), 0)"
proof -
  let ?b = "buffered_output_default\<lparr>bo_complete := True\<rparr>"
  let ?t = "mark_complete (spawn_output_capture [''up''])"
  have "task_step 16 [''up''] [] (spawn_output_capture [''up'']) ?t"
    by (rule step_eof) (simp_all add: spawn_output_capture_def)
  moreover have "task_step 16 [''up''] [] ?t example_closed_task"
  proof -
    have pc: "ot_pc ?t = Closing ?b"
      by (simp add: mark_complete_def spawn_output_capture_def Let_def)
    have "output_progress_default = output_progress_from ?b"
      by (simp add: output_progress_default_def output_progress_from_def buffered_output_default_def
          capture_default_def)
    then show ?thesis unfolding example_closed_task_def using step_close [OF pc] by simp
  qed
  ultimately have "(task_step 16 [''up''] [])\<^sup>*\<^sup>* (spawn_output_capture [''up'']) example_closed_task"
    by (meson converse_rtranclp_into_rtranclp r_into_rtranclp)
  then have "await_reachable 16 [''up''] [] 9 0 (await_start example_closed_task 0)"
    by (rule reach_start)
  moreover have "await_step 16 [''up''] [] 9 (output_deadline 0 9) (await_start example_closed_task 0)
      (await_loop_body 9 (output_deadline 0 9) (await_start example_closed_task 0))"
    by (rule await_step.await_loop) (simp add: await_start_def)
  ultimately have "await_reachable 16 [''up''] [] 9 0
      (await_loop_body 9 (output_deadline 0 9) (await_start example_closed_task 0))" by (rule reach_step)
  moreover have "aw_pc (await_loop_body 9 (output_deadline 0 9) (await_start example_closed_task 0)) = Returned (Inr ?b)"
    "aw_now (await_loop_body 9 (output_deadline 0 9) (await_start example_closed_task 0)) = 0"
    by (simp_all add: await_loop_body_def await_start_def example_closed_task_def)
  ultimately show ?thesis unfolding wait_returns_def fst_conv snd_conv by blast
qed

theorem exec_absence_truthful_witness:
  "check_output example_deps (buffered_output_default\<lparr>bo_complete := True\<rparr>) ''stdout'' ''status'' 16 ''up''
     = Inl (output_absent_error example_deps ''stdout'' ''status'' ''up'')
   \<and> \<not> sublist ''up'' []"
proof -
  have "check_output example_deps (buffered_output_default\<lparr>bo_complete := True\<rparr>) ''stdout'' ''status'' 16 ''up''
     = Inl (output_absent_error example_deps ''stdout'' ''status'' ''up'')"
    by (simp add: check_output_def contains_bytes_iff buffered_output_default_def capture_default_def
        missing_required_output_error_def reached_capture_boundary_before_eof_def)
  then show ?thesis using exec_absence_truthful [OF example_closed_awaited] by blast
qed

text \<open>
  C7. No process is left behind: on every path after a successful spawn the child's process
  group is killed, whatever happened in between, and no other group ever is.
\<close>

theorem exec_kills_its_group:
  assumes "validate_exec_args args = Inr ()" "ew_spawn w (child_command_of D args) = Inr pid"
    and "child_process_group D pid = Some g"
  shows "KillGroup g \<in> set (exec_effects (exec_run D options args w))
    \<and> (\<forall>g'. KillGroup g' \<in> set (exec_effects (exec_run D options args w)) \<longrightarrow> g' = g)"
proof -
  have "g' = g" if "KillGroup g' \<in> set (exec_effects (exec_run D options args w))" for g'
    using that assms exec_supervise_group by (fastforce simp: exec_run_def Let_def)
  with exec_run_kills [OF assms] show ?thesis by blast
qed

theorem exec_kills_its_group_witness:
  "KillGroup 77 \<in> set (exec_effects (exec_run example_deps example_exec_options example_exec_args example_exec_world))"
proof -
  have "validate_exec_args example_exec_args = Inr ()" by code_simp
  moreover have "ew_spawn example_exec_world (child_command_of example_deps example_exec_args) = Inr (Some 77)"
    by (simp add: example_exec_world_def)
  moreover have "child_process_group example_deps (Some 77) = Some 77" by (simp add: child_process_group_def)
  ultimately show ?thesis using exec_kills_its_group by blast
qed

end
