(* ===== verification/Main_Entry.thy ===== *)
theory Main_Entry
  imports Argv Env_Expand File_Probe Tcp_Probe Http_Probe Grpc_Probe Exec_Probe
begin

text \<open>
  \<open>lib.rs\<close> and \<open>probes/mod.rs\<close>: from the raw arguments to the exit code and what is written.
  clap's parser is a function of the world; its errors are the kinds the program looks at and
  the text they display.
\<close>

datatype error_kind = DisplayHelp | DisplayVersion | OtherKind

record clap_error =
  ce_kind :: error_kind
  ce_text :: string

record ('h, 'c, 'k) main_world =
  mw_env :: "string \<rightharpoonup> string"
  mw_try_parse_from :: "string list \<Rightarrow> clap_error + cli"
  mw_now :: nat
  mw_http :: "'h http_world"
  mw_tcp :: tcp_world
  mw_grpc :: "('c, 'k) grpc_world"
  mw_exec :: exec_world
  mw_file :: file_world

definition probes_run :: "deps \<Rightarrow> ('h, 'c, 'k) main_world \<Rightarrow> cli \<Rightarrow> probe_report result" where
  "probes_run D w c =
     (let options = options_from c in
      case cli_command c of
        Http args \<Rightarrow> fst (http_run D options args (mw_http w))
      | Tcp args \<Rightarrow> tcp_run D options args (mw_tcp w)
      | Grpc args \<Rightarrow> grpc_run D options args (mw_grpc w)
      | Exec args \<Rightarrow> fst (exec_run D options args (mw_exec w))
      | File args \<Rightarrow> file_run D options args (mw_file w))"

definition run_cli :: "deps \<Rightarrow> ('h, 'c, 'k) main_world \<Rightarrow> cli \<Rightarrow> probe_report result" where
  "run_cli D w c =
     bindR (validate_positive_duration ''--timeout'' (cli_timeout c)) (\<lambda>_.
     bindR (deadline_after D (mw_now w) (cli_timeout c)) (\<lambda>_.
     bindR (case cli_max_latency c of
              Some max_latency \<Rightarrow> validate_positive_duration ''--max-latency'' max_latency
            | None \<Rightarrow> Inr ()) (\<lambda>_.
     probes_run D w c)))"

text \<open>\<open>main_entry\<close> after the arguments are expanded.\<close>

definition main_parsed :: "deps \<Rightarrow> ('h, 'c, 'k) main_world \<Rightarrow> string list \<Rightarrow> int \<times> writes" where
  "main_parsed D w args =
     (let quiet_requested = requests_quiet (root_command (feature_grpc D)) args in
      case mw_try_parse_from w args of
        Inl error \<Rightarrow>
          (let code = (case ce_kind error of DisplayHelp \<Rightarrow> 0 | DisplayVersion \<Rightarrow> 0 | _ \<Rightarrow> 3);
               success = (code = 0)
           in (code, if success \<or> \<not> quiet_requested then print_clap_error (ce_text error) success else []))
      | Inr c \<Rightarrow>
          (case run_cli D w c of
             Inr report \<Rightarrow>
               (case enforce_max_latency D report of
                  Inr report \<Rightarrow> report_print_and_exit report
                | Inl error \<Rightarrow> error_print_and_exit error (cli_quiet c))
           | Inl error \<Rightarrow> error_print_and_exit error (cli_quiet c)))"

definition main_entry :: "deps \<Rightarrow> ('h, 'c, 'k) main_world \<Rightarrow> string list \<Rightarrow> int \<times> writes" where
  "main_entry D w raw_args =
     (let root = root_command (feature_grpc D) in
      case help_or_version_args root raw_args of
        Some args \<Rightarrow> main_parsed D w args
      | None \<Rightarrow>
          (case expand_argv_with_partial D (mw_env w) raw_args of
             Inr args \<Rightarrow> main_parsed D w args
           | Inl error \<Rightarrow>
               (let quiet_requested =
                  requests_quiet root (with_raw_tail (ea_partial_args error) (ea_raw_tail error))
                in error_print_and_exit (ea_error error) quiet_requested)))"

text \<open>
  \<open>main.rs\<close>: the program ends with \<open>std::process::exit\<close>, which gives its parent the low eight
  bits of the code on Unix, and 32 bits elsewhere.
\<close>

definition process_exit :: "deps \<Rightarrow> int \<Rightarrow> nat" where
  "process_exit D code = nat (code mod (if target_unix D then 2 ^ 8 else 2 ^ 32))"

definition main_process :: "deps \<Rightarrow> ('h, 'c, 'k) main_world \<Rightarrow> string list \<Rightarrow> nat \<times> writes" where
  "main_process D w args =
     (let (code, written) = main_entry D w args in (process_exit D code, written))"

section \<open>A single run\<close>

text \<open>The dispatcher keeps the options and the mode of the command, from the probes' contract.\<close>

fun command_mode :: "command \<Rightarrow> string" where
  "command_mode (Http _) = ''http''"
| "command_mode (Tcp _) = ''tcp''"
| "command_mode (Grpc _) = ''grpc''"
| "command_mode (Exec _) = ''exec''"
| "command_mode (File _) = ''file''"

fun check_command :: "deps \<Rightarrow> command \<Rightarrow> unit result" where
  "check_command D (Http args) = check_http_args D args"
| "check_command D (Tcp args) = validate_tcp_args D args"
| "check_command D (Grpc args) = validate_grpc_args D args"
| "check_command D (Exec args) = validate_exec_args args"
| "check_command D (File args) = validate_file_args args"

lemma probes_run_report:
  assumes "probes_run D w c = Inr r"
  shows "rep_mode r = command_mode (cli_command c) \<and> rep_options r = options_from c"
  using assms http_probe.report tcp_probe.report grpc_probe.report exec_probe.report file_probe.report
  by (cases "cli_command c") (simp_all add: probes_run_def Let_def)

lemma probes_run_rejects:
  assumes "check_command D (cli_command c) = Inl e"
  shows "is_invalid_config e \<and> probes_run D w c = Inl e"
  using assms http_probe.check_rejects tcp_probe.check_rejects grpc_probe.check_rejects
    exec_probe.check_rejects file_probe.check_rejects
  by (cases "cli_command c") (simp_all add: probes_run_def Let_def)

lemma run_cli_Inr_iff:
  "run_cli D w c = Inr r \<longleftrightarrow>
     0 < cli_timeout c \<and> mw_now w + cli_timeout c < INSTANT_LIMIT \<and> cli_max_latency c \<noteq> Some 0
     \<and> probes_run D w c = Inr r"
proof -
  have "(case cli_max_latency c of Some m \<Rightarrow> validate_positive_duration ''--max-latency'' m
      | None \<Rightarrow> Inr ()) = Inr () \<longleftrightarrow> cli_max_latency c \<noteq> Some 0"
    by (cases "cli_max_latency c") (auto simp: validation_simps)
  then show ?thesis
    by (auto simp: run_cli_def bindR_Inr_iff validation_simps deadline_after_def
        instant_checked_add_def ok_or_Inr_iff)
qed

lemma run_cli_report:
  "run_cli D w c = Inr r \<Longrightarrow> rep_mode r = command_mode (cli_command c) \<and> rep_options r = options_from c"
  unfolding run_cli_Inr_iff using probes_run_report by blast

lemma options_from_simps [simp]:
  "opt_timeout (options_from c) = cli_timeout c" "opt_quiet (options_from c) = cli_quiet c"
  "opt_verbose (options_from c) = cli_verbose c" "opt_max_latency (options_from c) = cli_max_latency c"
  by (simp_all add: options_from_def)

section \<open>Exit codes\<close>

lemma error_print_simps [simp]:
  "fst (error_print_and_exit e q) = exit_code e"
  "snd (error_print_and_exit e q) = (if q then [] else print_stderr_line (error_text e))"
  by (simp_all add: error_print_and_exit_def)

lemma report_print_simps [simp]:
  "fst (report_print_and_exit r) = 0"
  by (simp add: report_print_and_exit_def report_print_and_exit_with_quiet_def)

lemma main_parsed_code: "fst (main_parsed D w args) \<in> {0, 1, 3, 4}"
  using exit_code_iff(3)
  by (auto simp: main_parsed_def Let_def split: sum.splits error_kind.splits)

lemma main_entry_code: "fst (main_entry D w args) \<in> {0, 1, 3, 4}"
  using exit_code_iff(3) main_parsed_code by (auto simp: main_entry_def Let_def split: sum.splits option.splits)

text \<open>The arguments that are parsed, when they are.\<close>

definition parsed_args :: "deps \<Rightarrow> ('h, 'c, 'k) main_world \<Rightarrow> string list \<Rightarrow> string list option" where
  "parsed_args D w raw =
     (case help_or_version_args (root_command (feature_grpc D)) raw of
        Some args \<Rightarrow> Some args
      | None \<Rightarrow> (case expand_argv_with_partial D (mw_env w) raw of Inr args \<Rightarrow> Some args | Inl _ \<Rightarrow> None))"

lemma main_parsed_zero:
  "fst (main_parsed D w args) = 0 \<longleftrightarrow>
     (case mw_try_parse_from w args of
        Inl error \<Rightarrow> ce_kind error = DisplayHelp \<or> ce_kind error = DisplayVersion
      | Inr c \<Rightarrow> \<exists>r. run_cli D w c = Inr r
          \<and> (\<forall>l. cli_max_latency c = Some l \<longrightarrow> rep_elapsed r \<le> l))"
proof (cases "mw_try_parse_from w args")
  case (Inl e)
  then show ?thesis by (cases "ce_kind e") (simp_all add: main_parsed_def Let_def)
next
  case (Inr c)
  show ?thesis
  proof (cases "run_cli D w c")
    case (Inl e)
    with Inr show ?thesis by (simp add: main_parsed_def Let_def)
  next
    case r: (Inr r)
    with run_cli_report [OF r] have "opt_max_latency (rep_options r) = cli_max_latency c" by simp
    with r Inr show ?thesis
      by (cases "enforce_max_latency D r")
        (auto simp: main_parsed_def Let_def enforce_max_latency_Inr dest: enforce_max_latency_Inl
          simp: enforce_max_latency_def split: option.splits if_splits)
  qed
qed

lemma expand_argv_Inl:
  assumes "expand_argv_with_partial D env args = Inl err"
  shows "is_invalid_config (ea_error err)"
proof -
  have x: "expand_arg_os D (lookup_env env) a = Inl e \<Longrightarrow> is_invalid_config e" for a e
    using expand_text_Inl [of "lookup_env env" D a e] lookup_env_Inl
    by (auto simp: expand_arg_os_def split: if_splits)
  have "expand_argv_loop D (lookup_env env) pfx rest = Inl err \<Longrightarrow> is_invalid_config (ea_error err)" for pfx rest
    using expand_argv_loop_Inl x by metis
  with assms show ?thesis by (auto simp: expand_argv_with_partial_def split: list.splits)
qed

lemma main_entry_zero:
  "fst (main_entry D w raw) = 0 \<longleftrightarrow>
     (\<exists>args. parsed_args D w raw = Some args \<and>
        (case mw_try_parse_from w args of
           Inl error \<Rightarrow> ce_kind error = DisplayHelp \<or> ce_kind error = DisplayVersion
         | Inr c \<Rightarrow> \<exists>r. run_cli D w c = Inr r
             \<and> (\<forall>l. cli_max_latency c = Some l \<longrightarrow> rep_elapsed r \<le> l)))"
  by (simp add: main_entry_def parsed_args_def Let_def main_parsed_zero split: option.splits sum.splits)

text \<open>A rejected command line is exit code 3, whatever the probed service would have done.\<close>

lemma main_entry_config:
  assumes "parsed_args D w raw = Some args" "mw_try_parse_from w args = Inr c"
    and "cli_timeout c = 0 \<or> cli_max_latency c = Some 0 \<or> (\<exists>e. check_command D (cli_command c) = Inl e)"
  shows "fst (main_entry D w raw) = 3"
proof -
  have "\<exists>e. run_cli D w c = Inl e \<and> is_invalid_config e"
  proof -
    have d: "deadline_after D n t = Inl e \<Longrightarrow> is_invalid_config e" for n t e by (rule deadline_after_Inl)
    have n: "\<nexists>r. run_cli D w c = Inr r"
      using assms(3) probes_run_rejects [of D c _ w] by (auto simp: run_cli_Inr_iff)
    then obtain e where e: "run_cli D w c = Inl e" by (cases "run_cli D w c") auto
    moreover have "is_invalid_config e"
    proof (rule ccontr)
      assume bad: "\<not> is_invalid_config e"
      with e have "probes_run D w c = Inl e" and t: "cli_timeout c \<noteq> 0" "cli_max_latency c \<noteq> Some 0"
        by (auto simp: run_cli_def bindR_Inl_iff validate_positive_duration_def
            dest: d split: option.splits if_splits)
      with assms(3) probes_run_rejects [of D c _ w] bad show False by auto
    qed
    ultimately show ?thesis by blast
  qed
  then obtain e where "run_cli D w c = Inl e" "exit_code e = 3" by (auto simp: exit_code_iff)
  then have "fst (main_parsed D w args) = 3" using assms(2) by (simp add: main_parsed_def Let_def)
  with assms(1) show ?thesis
    by (auto simp: main_entry_def parsed_args_def Let_def split: option.splits sum.splits)
qed

section \<open>What is written\<close>

text \<open>A parsed command line that asks for quiet writes nothing, whatever happens.\<close>

lemma main_parsed_quiet:
  assumes "mw_try_parse_from w args = Inr c" "cli_quiet c"
  shows "snd (main_parsed D w args) = []"
proof -
  have "snd (report_print_and_exit r) = []" if "run_cli D w c = Inr r" for r
    using run_cli_report [OF that] assms(2)
    by (simp add: report_print_and_exit_def report_print_and_exit_with_quiet_def)
  with assms show ?thesis
    by (auto simp: main_parsed_def Let_def enforce_max_latency_Inr split: sum.splits)
qed

text \<open>
  Otherwise there is at most one write, on standard output only for help and version, and a
  healthy probe is silent unless it was asked to be verbose.
\<close>

lemma main_parsed_writes:
  "length (snd (main_parsed D w args)) \<le> 1"
  "(Stdout, m) \<in> set (snd (main_parsed D w args)) \<Longrightarrow> fst (main_parsed D w args) = 0
     \<and> (\<exists>e. mw_try_parse_from w args = Inl e \<and> m = ce_text e)"
  by (auto simp: main_parsed_def Let_def print_clap_error_def print_stderr_line_def
      report_print_and_exit_def report_print_and_exit_with_quiet_def
      split: sum.splits error_kind.splits if_splits)

lemma main_parsed_healthy_output:
  assumes "mw_try_parse_from w args = Inr c" "run_cli D w c = Inr r"
    "\<forall>l. cli_max_latency c = Some l \<longrightarrow> rep_elapsed r \<le> l"
  shows "snd (main_parsed D w args) =
    (if cli_verbose c \<and> \<not> cli_quiet c
     then [(Stderr, format_success (command_mode (cli_command c)) (rep_target r)
        (rep_elapsed r div 1000000) (rep_detail r) @ [newline])]
     else [])"
proof -
  have "enforce_max_latency D r = Inr r"
    using run_cli_report [OF assms(2)] assms(3) by (simp add: enforce_max_latency_Inr)
  with assms(1,2) run_cli_report [OF assms(2)] show ?thesis
    by (simp add: main_parsed_def Let_def report_print_and_exit_def
        report_print_and_exit_with_quiet_def print_stderr_line_def)
qed

text \<open>A request for help or for the version does not depend on the environment.\<close>

lemma main_entry_help:
  assumes "help_or_version_args (root_command (feature_grpc D)) raw = Some args"
  shows "main_entry D (w\<lparr>mw_env := env\<rparr>) raw = main_entry D w raw"
proof -
  have "run_cli D (w\<lparr>mw_env := env\<rparr>) c = run_cli D w c" for c
    by (simp add: run_cli_def probes_run_def cong: command.case_cong)
  with assms show ?thesis
    by (simp add: main_entry_def main_parsed_def Let_def cong: sum.case_cong)
qed

text \<open>
  An argument that does not expand is reported with exit code 3, silenced only by what the
  scan of the partly expanded arguments finds.
\<close>

lemma main_entry_expansion_failure:
  assumes "help_or_version_args (root_command (feature_grpc D)) (program # args) = None"
    and "collectR (expand_arg_os D (lookup_env (mw_env w))) pre = Inr vs"
    and "args = pre @ bad # post" "expand_arg_os D (lookup_env (mw_env w)) bad = Inl e"
  shows "main_entry D w (program # args) =
    (3, if requests_quiet (root_command (feature_grpc D)) (program # vs @ bad # post) then []
        else [(Stderr, error_text e @ [newline])])"
proof -
  have loop: "expand_argv_loop D l pfx (pre @ bad # post) =
      Inl \<lparr>ea_error = e, ea_partial_args = pfx @ vs, ea_raw_tail = bad # post\<rparr>"
    if "collectR (expand_arg_os D l) pre = Inr vs" "expand_arg_os D l bad = Inl e" for l pfx pre vs
    using that
  proof (induction pre arbitrary: pfx vs)
    case Nil
    then show ?case by simp
  next
    case (Cons a pre)
    then show ?case by (auto simp: bindR_Inr_iff)
  qed
  have x: "expand_argv_with_partial D (mw_env w) (program # args) =
      Inl \<lparr>ea_error = e, ea_partial_args = program # vs, ea_raw_tail = bad # post\<rparr>"
    using loop [OF assms(2,4), of "[program]"] assms(3) by (simp add: expand_argv_with_partial_def)
  from expand_argv_Inl [OF x] have "exit_code e = 3" by (simp add: exit_code_iff)
  with x assms(1) show ?thesis
    by (simp add: main_entry_def Let_def with_raw_tail_def error_print_and_exit_def print_stderr_line_def)
qed

text \<open>The limits clap fills in when an option is not given pass the check of the probes.\<close>

lemma default_limits_accepted:
  "list_all (\<lambda>c. list_all (\<lambda>a. arg_default a \<noteq> None \<and> arg_allow_negative_numbers a \<longrightarrow>
       0 < digits_value (the (arg_default a))
       \<and> digits_value (the (arg_default a)) \<le> MAX_CAPTURE_BYTES) (cmd_arguments c))
     (cmd_subcommands (root_command grpc))"
  by (rule bool.induct; code_simp)

section \<open>What exit code 0 promises\<close>

text \<open>
  What is true of the probed service when a probe reports healthy: the abstract contract of
  the five probes, over what the world did and not over how the probe looked at it.
\<close>

definition http_healthy :: "deps \<Rightarrow> http_args \<Rightarrow> nat \<Rightarrow> 'k http_world \<Rightarrow> bool" where
  "http_healthy D args timeout w \<longleftrightarrow>
     (\<exists>p response. prepare_http_probe D args = Inr p \<and> http_answer D w args p response
        \<and> status_ranges_match (pa_status_ranges (pp_prepared p)) (hr_status response)
        \<and> headers_satisfy (hr_headers response) (pa_assertions (pp_prepared p))
        \<and> body_satisfies args (frames_data (body_frames (hr_body response)))
        \<and> judged_at args response (answered_at w (pp_target p)) \<le> hw_now w + timeout)"

definition tcp_healthy :: "tcp_args \<Rightarrow> nat \<Rightarrow> tcp_world \<Rightarrow> bool" where
  "tcp_healthy args timeout w \<longleftrightarrow>
     (\<exists>addrs a t d. tw_lookup w (tcp_addr args) = Inr addrs \<and> a \<in> set addrs
        \<and> tw_connect w t a = Some (Inr (), d) \<and> tw_now w \<le> t \<and> t + d \<le> tw_now w + timeout)"

definition grpc_healthy :: "deps \<Rightarrow> grpc_args \<Rightarrow> nat \<Rightarrow> ('c, 'k) grpc_world \<Rightarrow> bool" where
  "grpc_healthy D args timeout w \<longleftrightarrow>
     (\<exists>endpoint channel. endpoint_asked_for D w args timeout endpoint
        \<and> grpc_channel D w args endpoint channel \<and> serving w args channel
        \<and> grpc_answered_at w \<le> gw_now w + timeout)"

definition exec_healthy :: "exec_args \<Rightarrow> nat \<Rightarrow> exec_world \<Rightarrow> bool" where
  "exec_healthy args timeout w \<longleftrightarrow>
     (\<exists>status code d. ew_wait w = Some (Inr status, d) \<and> d \<le> timeout \<and> es_code status = Some code
        \<and> code \<in> set (success_codes args))
     \<and> (\<forall>stdout stderr.
          awaited (exec_max_output args) (exec_stdout_contains args) stdout (ew_await_stdout w)
          \<and> awaited (exec_max_output args) (exec_stderr_contains args) stderr (ew_await_stderr w) \<longrightarrow>
          (\<forall>n \<in> set (exec_stdout_contains args). sublist n stdout)
          \<and> (\<forall>n \<in> set (exec_stderr_contains args). sublist n stderr))"

definition service_healthy :: "deps \<Rightarrow> ('h, 'c, 'k) main_world \<Rightarrow> cli \<Rightarrow> bool" where
  "service_healthy D w c \<longleftrightarrow>
     (case cli_command c of
        Http args \<Rightarrow> http_healthy D args (cli_timeout c) (mw_http w)
      | Tcp args \<Rightarrow> tcp_healthy args (cli_timeout c) (mw_tcp w)
      | Grpc args \<Rightarrow> grpc_healthy D args (cli_timeout c) (mw_grpc w)
      | Exec args \<Rightarrow> exec_healthy args (cli_timeout c) (mw_exec w)
      | File args \<Rightarrow> file_healthy args (mw_file w) \<and> fw_duration (mw_file w) \<le> cli_timeout c)"

text \<open>
  The instants a probe is given: when it was started, and when its time begins to count (after
  the configuration is read, or the child is spawned).
\<close>

definition probe_instants :: "('h, 'c, 'k) main_world \<Rightarrow> cli \<Rightarrow> nat \<times> nat" where
  "probe_instants w c =
     (case cli_command c of
        Http _ \<Rightarrow> (hw_started (mw_http w), hw_now (mw_http w))
      | Tcp _ \<Rightarrow> (tw_started (mw_tcp w), tw_now (mw_tcp w))
      | Grpc _ \<Rightarrow> (gw_started (mw_grpc w), gw_now (mw_grpc w))
      | Exec _ \<Rightarrow> (ew_started (mw_exec w), ew_now (mw_exec w))
      | File _ \<Rightarrow> (fw_started (mw_file w), fw_begun (mw_file w)))"

definition outputs_awaited :: "('h, 'c, 'k) main_world \<Rightarrow> cli \<Rightarrow> bool" where
  "outputs_awaited w c \<longleftrightarrow>
     (\<forall>args. cli_command c = Exec args \<longrightarrow>
        (\<exists>stdout stderr.
           awaited (exec_max_output args) (exec_stdout_contains args) stdout (ew_await_stdout (mw_exec w))
         \<and> awaited (exec_max_output args) (exec_stderr_contains args) stderr (ew_await_stderr (mw_exec w))))"

text \<open>
  The instant when what a healthy verdict rests on was there: the judged response, the connection,
  the answer of the health service, the outputs of the child, or the checks of the file.
\<close>

definition verdict_at :: "deps \<Rightarrow> ('h, 'c, 'k) main_world \<Rightarrow> cli \<Rightarrow> nat \<Rightarrow> bool" where
  "verdict_at D w c t \<longleftrightarrow>
     (case cli_command c of
        Http args \<Rightarrow>
          (\<exists>p response. prepare_http_probe D args = Inr p \<and> http_answer D (mw_http w) args p response
             \<and> t = judged_at args response (answered_at (mw_http w) (pp_target p)))
      | Tcp args \<Rightarrow>
          (\<exists>addrs a t0 d. tw_lookup (mw_tcp w) (tcp_addr args) = Inr addrs \<and> a \<in> set addrs
             \<and> tw_connect (mw_tcp w) t0 a = Some (Inr (), d)
             \<and> tw_now (mw_tcp w) + tw_lookup_time (mw_tcp w) \<le> t0 \<and> t = t0 + d)
      | Grpc args \<Rightarrow> t = gw_now (mw_grpc w) + gw_connect_time (mw_grpc w) + gw_check_time (mw_grpc w)
      | Exec args \<Rightarrow>
          (let now = ew_now (mw_exec w); deadline = now + cli_timeout c in
           \<exists>status d out err t1. ew_wait (mw_exec w) = Some (Inr status, d)
             \<and> await_captured (exec_stdout_contains args \<noteq> []) (ew_await_stdout (mw_exec w) deadline) (now + d)
                 = (Inr out, t1)
             \<and> await_captured (exec_stderr_contains args \<noteq> []) (ew_await_stderr (mw_exec w) deadline) t1
                 = (Inr err, t))
      | File args \<Rightarrow> t = fw_begun (mw_file w) + fw_duration (mw_file w))"

lemma exec_run_verdict_at:
  assumes "fst (exec_run D (options_from c) args (mw_exec w)) = Inr r" "cli_command c = Exec args"
    and "outputs_awaited w c"
  shows "\<exists>t. verdict_at D w c t \<and> ew_now (mw_exec w) \<le> t \<and> t \<le> ew_now (mw_exec w) + cli_timeout c
    \<and> rep_elapsed r = t - ew_started (mw_exec w)"
proof -
  let ?w = "mw_exec w"
  let ?deadline = "ew_now ?w + cli_timeout c"
  obtain stdout stderr where
    a: "awaited (exec_max_output args) (exec_stdout_contains args) stdout (ew_await_stdout ?w)"
      "awaited (exec_max_output args) (exec_stderr_contains args) stderr (ew_await_stderr ?w)"
    using assms(2,3) unfolding outputs_awaited_def by blast
  have o: "opt_timeout (options_from c) = cli_timeout c" by (simp add: options_from_def)
  from assms(1) obtain status code d where s: "ew_wait ?w = Some (Inr status, d)" "d \<le> cli_timeout c"
    and "fst (exec_judge_output D ?w (options_from c) args (diag_os_str D (hd (exec_command args))) code
      ?deadline (ew_now ?w + d)) = Inr r"
    unfolding exec_run_Inr_iff o by blast
  then obtain out err t1 t where
    c1: "await_captured (exec_stdout_contains args \<noteq> []) (ew_await_stdout ?w ?deadline) (ew_now ?w + d)
      = (Inr out, t1)"
    and c2: "await_captured (exec_stderr_contains args \<noteq> []) (ew_await_stderr ?w ?deadline) t1 = (Inr err, t)"
    and e: "rep_elapsed r = t - ew_started ?w"
    unfolding exec_judge_output_Inr by auto
  have "ew_now ?w + d \<le> ?deadline" using s(2) by simp
  from await_captured_in_time(1) [OF a(1) this] c1 have d1: "t1 \<le> ?deadline" by simp
  from await_captured_in_time(1) [OF a(2) this] c2 have "t \<le> ?deadline" by simp
  moreover have "ew_now ?w \<le> t"
    using await_captured_after [OF a(1) c1] await_captured_after [OF a(2) c2] by simp
  moreover have "verdict_at D w c t" using s(1) c1 c2 assms(2) by (auto simp: verdict_at_def Let_def)
  ultimately show ?thesis using e by blast
qed

lemma probes_run_verdict_at:
  assumes "probes_run D w c = Inr r" "outputs_awaited w c" "probe_instants w c = (started, begun)"
  shows "\<exists>t. verdict_at D w c t \<and> begun \<le> t \<and> t \<le> begun + cli_timeout c \<and> rep_elapsed r = t - started"
proof -
  have o: "opt_timeout (options_from c) = cli_timeout c" by (simp add: options_from_def)
  show ?thesis
  proof (cases "cli_command c")
    case (Http args)
    with assms(1) have "fst (http_run D (options_from c) args (mw_http w)) = Inr r" by (simp add: probes_run_def)
    from http_run_sound [OF this] obtain p response where p: "prepare_http_probe D args = Inr p"
      "http_answer D (mw_http w) args p response"
      and t: "judged_at args response (answered_at (mw_http w) (pp_target p)) \<le> hw_now (mw_http w) + cli_timeout c"
      "rep_elapsed r = judged_at args response (answered_at (mw_http w) (pp_target p)) - hw_started (mw_http w)"
      unfolding o by blast
    have "hw_now (mw_http w) \<le> judged_at args response (answered_at (mw_http w) (pp_target p))"
      by (cases "pp_target p") (simp_all add: judged_at_def)
    with p t Http assms(3) show ?thesis by (auto simp: verdict_at_def probe_instants_def)
  next
    case (Tcp args)
    with assms(1) have "tcp_run D (options_from c) args (mw_tcp w) = Inr r" by (simp add: probes_run_def)
    from tcp_run_sound [OF this] obtain addrs a t0 d where t: "tw_lookup (mw_tcp w) (tcp_addr args) = Inr addrs"
      "a \<in> set addrs" "tw_connect (mw_tcp w) t0 a = Some (Inr (), d)"
      "tw_now (mw_tcp w) + tw_lookup_time (mw_tcp w) \<le> t0" "t0 + d \<le> tw_now (mw_tcp w) + cli_timeout c"
      "rep_elapsed r = t0 + d - tw_started (mw_tcp w)"
      unfolding o by blast
    then have "verdict_at D w c (t0 + d)" using Tcp unfolding verdict_at_def by auto
    moreover have "tw_now (mw_tcp w) \<le> t0 + d" using t(4) by simp
    ultimately show ?thesis using t(5,6) Tcp assms(3) by (auto simp: probe_instants_def)
  next
    case (Grpc args)
    with assms(1) have "grpc_run D (options_from c) args (mw_grpc w) = Inr r" by (simp add: probes_run_def)
    with Grpc assms(3) show ?thesis
      by (auto simp: grpc_run_Inr_iff verdict_at_def probe_instants_def grpc_answered_at_def o)
  next
    case (Exec args)
    with assms(1) have "fst (exec_run D (options_from c) args (mw_exec w)) = Inr r" by (simp add: probes_run_def)
    from exec_run_verdict_at [OF this Exec assms(2)] Exec assms(3) show ?thesis
      by (simp add: probe_instants_def)
  next
    case (File args)
    with assms(1) have "file_run D (options_from c) args (mw_file w) = Inr r" by (simp add: probes_run_def)
    with File assms(3) show ?thesis
      by (auto simp: file_run_Inr_iff verdict_at_def probe_instants_def o)
  qed
qed

lemma probes_run_healthy:
  assumes "probes_run D w c = Inr r"
  shows "service_healthy D w c \<and> check_command D (cli_command c) = Inr ()"
proof (cases "cli_command c")
  case (Http args)
  with assms have r: "fst (http_run D (options_from c) args (mw_http w)) = Inr r" by (simp add: probes_run_def)
  from http_run_sound [OF r] http_probe.healthy_checked [OF r] Http show ?thesis
    by (auto simp: service_healthy_def http_healthy_def)
next
  case (Tcp args)
  with assms have r: "tcp_run D (options_from c) args (mw_tcp w) = Inr r" by (simp add: probes_run_def)
  from tcp_run_sound [OF r] obtain addrs a t0 d where t: "tw_lookup (mw_tcp w) (tcp_addr args) = Inr addrs"
    "a \<in> set addrs" "tw_connect (mw_tcp w) t0 a = Some (Inr (), d)"
    "tw_now (mw_tcp w) + tw_lookup_time (mw_tcp w) \<le> t0"
    "t0 + d \<le> tw_now (mw_tcp w) + opt_timeout (options_from c)" by blast
  from t(4) have "tw_now (mw_tcp w) \<le> t0" by simp
  with t have "tcp_healthy args (cli_timeout c) (mw_tcp w)"
    unfolding tcp_healthy_def options_from_simps by blast
  with tcp_probe.healthy_checked [OF r] Tcp show ?thesis by (simp add: service_healthy_def)
next
  case (Grpc args)
  with assms have r: "grpc_run D (options_from c) args (mw_grpc w) = Inr r" by (simp add: probes_run_def)
  then have "grpc_healthy D args (cli_timeout c) (mw_grpc w)"
    unfolding grpc_run_Inr_iff grpc_healthy_def by auto
  with grpc_probe.healthy_checked [OF r] Grpc show ?thesis by (simp add: service_healthy_def)
next
  case (Exec args)
  with assms have r: "fst (exec_run D (options_from c) args (mw_exec w)) = Inr r"
    by (simp add: probes_run_def)
  then have "\<exists>status code d. ew_wait (mw_exec w) = Some (Inr status, d) \<and> d \<le> cli_timeout c
      \<and> es_code status = Some code \<and> code \<in> set (success_codes args)"
    unfolding exec_run_Inr_iff options_from_simps by blast
  moreover have "(\<forall>n \<in> set (exec_stdout_contains args). sublist n stdout)
        \<and> (\<forall>n \<in> set (exec_stderr_contains args). sublist n stderr)"
    if "awaited (exec_max_output args) (exec_stdout_contains args) stdout (ew_await_stdout (mw_exec w))"
      "awaited (exec_max_output args) (exec_stderr_contains args) stderr (ew_await_stderr (mw_exec w))"
    for stdout stderr using exec_run_sound [OF r that] by blast
  ultimately have "exec_healthy args (cli_timeout c) (mw_exec w)" unfolding exec_healthy_def by blast
  with exec_probe.healthy_checked [OF r] Exec show ?thesis by (simp add: service_healthy_def)
next
  case (File args)
  with assms have r: "file_run D (options_from c) args (mw_file w) = Inr r" by (simp add: probes_run_def)
  from file_run_sound [OF r] file_probe.healthy_checked [OF r] File show ?thesis
    by (simp add: service_healthy_def)
qed

text \<open>The world is looked at through the arguments that are parsed.\<close>

lemma main_entry_parsed: "parsed_args D w raw = Some args \<Longrightarrow> main_entry D w raw = main_parsed D w args"
  by (auto simp: main_entry_def parsed_args_def Let_def split: option.splits sum.splits)

section \<open>Properties\<close>

text \<open>
  C1. Exit code 0 of a probe run is never wrong, for all five probes: the arguments passed every
  check of the command, the service is healthy in the sense of the probe's contract, the
  timeout and the latency limit are positive, and the latency limit was kept.
\<close>

theorem exit_zero_means_healthy:
  assumes "fst (main_entry D w raw) = 0" "parsed_args D w raw = Some args"
    and "mw_try_parse_from w args = Inr c"
  shows "service_healthy D w c \<and> check_command D (cli_command c) = Inr ()
    \<and> 0 < cli_timeout c \<and> cli_max_latency c \<noteq> Some 0
    \<and> (\<exists>r. probes_run D w c = Inr r \<and> rep_mode r = command_mode (cli_command c)
         \<and> (\<forall>l. cli_max_latency c = Some l \<longrightarrow> rep_elapsed r \<le> l))"
proof -
  from assms obtain r where r: "run_cli D w c = Inr r"
    and l: "\<forall>l. cli_max_latency c = Some l \<longrightarrow> rep_elapsed r \<le> l"
    unfolding main_entry_zero by auto
  from r have p: "probes_run D w c = Inr r" "0 < cli_timeout c" "cli_max_latency c \<noteq> Some 0"
    unfolding run_cli_Inr_iff by blast+
  from probes_run_healthy [OF p(1)] probes_run_report [OF p(1)] p l show ?thesis by blast
qed

definition example_cli :: "bool \<Rightarrow> cli" where
  "example_cli quiet = \<lparr>cli_timeout = 9, cli_max_latency = Some 4, cli_quiet = quiet, cli_verbose = True,
     cli_command = File example_file_args\<rparr>"

definition example_main_world :: "(uri, uri, uri) main_world" where
  "example_main_world = \<lparr>mw_env = [''READY'' \<mapsto> ''/run/ready''],
     mw_try_parse_from = (\<lambda>args. if args ! 1 = ''file''
       then Inr (example_cli (args ! 2 = ''--quiet'')) else Inl \<lparr>ce_kind = DisplayHelp, ce_text = ''usage''\<rparr>),
     mw_now = 0, mw_http = example_http_world [], mw_tcp = example_tcp_world,
     mw_grpc = example_grpc_world, mw_exec = example_exec_world,
     mw_file = example_file_world ''is o'' ''k now''\<rparr>"

theorem exit_zero_means_healthy_witness:
  "fst (main_entry example_deps example_main_world [''salus'', ''file'', ''--path=${READY}'']) = 0
   \<and> service_healthy example_deps example_main_world (example_cli False)"
proof -
  let ?raw = "[''salus'', ''file'', ''--path=${READY}'']"
  have z: "fst (main_entry example_deps example_main_world ?raw) = 0" by code_simp
  have a: "parsed_args example_deps example_main_world ?raw
      = Some [''salus'', ''file'', ''--path=/run/ready'']" by code_simp
  have c: "mw_try_parse_from example_main_world [''salus'', ''file'', ''--path=/run/ready'']
      = Inr (example_cli False)" by (simp add: example_main_world_def)
  from z exit_zero_means_healthy [OF z a c] show ?thesis by blast
qed

text \<open>
  C2. The exit code is 0, 1, 3 or 4, and 0 exactly for a request for help or for the version, or for
  a run that is healthy within the latency limit. The parent sees the code unchanged.
\<close>

theorem exit_codes_exact:
  "fst (main_entry D w raw) \<in> {0, 1, 3, 4}
   \<and> (fst (main_entry D w raw) = 0 \<longleftrightarrow>
       (\<exists>args. parsed_args D w raw = Some args \<and>
          (case mw_try_parse_from w args of
             Inl error \<Rightarrow> ce_kind error = DisplayHelp \<or> ce_kind error = DisplayVersion
           | Inr c \<Rightarrow> \<exists>r. run_cli D w c = Inr r \<and> enforce_max_latency D r = Inr r)))
   \<and> int (fst (main_process D w raw)) = fst (main_entry D w raw)"
proof -
  have "int (fst (main_process D w raw)) = fst (main_entry D w raw)"
    using main_entry_code [of D w raw]
    by (auto simp: main_process_def process_exit_def case_prod_unfold)
  moreover have "(\<forall>l. cli_max_latency c = Some l \<longrightarrow> rep_elapsed r \<le> l) \<longleftrightarrow> enforce_max_latency D r = Inr r"
    if "run_cli D w c = Inr r" for c r
    using run_cli_report [OF that] by (simp add: enforce_max_latency_Inr)
  then have eq: "(\<exists>r. run_cli D w c = Inr r \<and> (\<forall>l. cli_max_latency c = Some l \<longrightarrow> rep_elapsed r \<le> l))
      \<longleftrightarrow> (\<exists>r. run_cli D w c = Inr r \<and> enforce_max_latency D r = Inr r)" for c
    by blast
  show ?thesis
    using main_entry_code [of D w raw] calculation unfolding main_entry_zero eq by simp
qed

text \<open>
  C34. The time limit and the reported time, for all five probes: what a healthy verdict rests on was
  there at an instant at most the timeout after the one when the probe's time began to count, and
  the report names exactly the time from the start of the probe to that instant. So what comes
  before the timeout begins (reading the TLS files, spawning the child) is in the reported time,
  but not under the timeout.
\<close>

theorem healthy_within_timeout:
  assumes "run_cli D w c = Inr r" "outputs_awaited w c" "probe_instants w c = (started, begun)"
  shows "(\<exists>t. verdict_at D w c t \<and> begun \<le> t \<and> t \<le> begun + cli_timeout c \<and> rep_elapsed r = t - started)
    \<and> begun - started \<le> rep_elapsed r \<and> rep_elapsed r \<le> begun - started + cli_timeout c"
proof -
  have "probes_run D w c = Inr r" using assms(1) unfolding run_cli_Inr_iff by blast
  from probes_run_verdict_at [OF this assms(2,3)] obtain t where
    "verdict_at D w c t" "begun \<le> t" "t \<le> begun + cli_timeout c" "rep_elapsed r = t - started" by blast
  moreover from this have "begun - started \<le> rep_elapsed r" "rep_elapsed r \<le> begun - started + cli_timeout c"
    by simp_all
  ultimately show ?thesis by blast
qed

theorem healthy_within_timeout_witness:
  "\<exists>r. run_cli example_deps example_main_world (example_cli False) = Inr r \<and> rep_elapsed r = 3"
proof -
  have "is_ok (run_cli example_deps example_main_world (example_cli False))" by code_simp
  then obtain r where r: "run_cli example_deps example_main_world (example_cli False) = Inr r"
    by (auto simp: is_ok_def split: sum.splits)
  have a: "outputs_awaited example_main_world (example_cli False)"
    by (simp add: outputs_awaited_def example_cli_def)
  have i: "probe_instants example_main_world (example_cli False) = (1, 2)" by code_simp
  have "t = 4" if "verdict_at example_deps example_main_world (example_cli False) t" for t
    using that by (simp add: verdict_at_def example_cli_def example_main_world_def example_file_world_def)
  then have "rep_elapsed r = 3" using healthy_within_timeout [OF r a i] by fastforce
  with r show ?thesis by blast
qed


text \<open>
  C19. A rejected configuration is exit code 3, whatever the probed service would have answered: no
  timeout, a latency limit of zero, or anything the command's own checks reject.
\<close>

theorem rejected_configuration_exit:
  assumes "parsed_args D w raw = Some args" "mw_try_parse_from w args = Inr c"
    and "cli_timeout c = 0 \<or> cli_max_latency c = Some 0 \<or> (\<exists>e. check_command D (cli_command c) = Inl e)"
  shows "fst (main_entry D w raw) = 3"
  using assms by (rule main_entry_config)

theorem rejected_configuration_exit_witness:
  "fst (main_entry example_deps
     (example_main_world\<lparr>mw_try_parse_from := \<lambda>_. Inr (example_cli False\<lparr>cli_timeout := 0\<rparr>)\<rparr>)
     [''salus'', ''file'']) = 3"
proof (rule rejected_configuration_exit)
  let ?w = "example_main_world\<lparr>mw_try_parse_from := \<lambda>_. Inr (example_cli False\<lparr>cli_timeout := 0\<rparr>)\<rparr>"
  show "parsed_args example_deps ?w [''salus'', ''file''] = Some [''salus'', ''file'']" by code_simp
  show "mw_try_parse_from ?w [''salus'', ''file''] = Inr (example_cli False\<lparr>cli_timeout := 0\<rparr>)" by simp
qed simp

text \<open>
  C20. A parsed run writes at most one line, never to standard output; with \<open>--quiet\<close> it
  writes nothing, and a healthy run writes its success line exactly with \<open>--verbose\<close>.
\<close>

theorem output_discipline:
  assumes "parsed_args D w raw = Some args" "mw_try_parse_from w args = Inr c"
  shows "length (snd (main_entry D w raw)) \<le> 1
    \<and> Stdout \<notin> fst ` set (snd (main_entry D w raw))
    \<and> (cli_quiet c \<longrightarrow> snd (main_entry D w raw) = [])
    \<and> (fst (main_entry D w raw) = 0 \<longrightarrow> (\<exists>r. run_cli D w c = Inr r \<and> snd (main_entry D w raw) =
         (if cli_verbose c \<and> \<not> cli_quiet c
          then [(Stderr, format_success (command_mode (cli_command c)) (rep_target r)
            (rep_elapsed r div 1000000) (rep_detail r) @ [newline])]
          else [])))"
proof -
  note main_entry_parsed [OF assms(1)]
  moreover have "Stdout \<notin> fst ` set (snd (main_parsed D w args))"
    using main_parsed_writes(2) [of _ D w args] assms(2) by force
  moreover have "\<exists>r. run_cli D w c = Inr r \<and> snd (main_parsed D w args) =
         (if cli_verbose c \<and> \<not> cli_quiet c
          then [(Stderr, format_success (command_mode (cli_command c)) (rep_target r)
            (rep_elapsed r div 1000000) (rep_detail r) @ [newline])]
          else [])" if "fst (main_parsed D w args) = 0"
    using that main_parsed_healthy_output [OF assms(2)] assms(2) unfolding main_parsed_zero by auto
  ultimately show ?thesis
    using main_parsed_writes(1) [of D w args] main_parsed_quiet [OF assms(2)] by metis
qed

theorem output_discipline_witness:
  "snd (main_entry example_deps example_main_world [''salus'', ''file'', ''--quiet'']) = []
   \<and> cli_quiet (example_cli True)"
proof -
  let ?raw = "[''salus'', ''file'', ''--quiet'']"
  have a: "parsed_args example_deps example_main_world ?raw = Some ?raw" by code_simp
  have c: "mw_try_parse_from example_main_world ?raw = Inr (example_cli True)"
    by (simp add: example_main_world_def)
  have q: "cli_quiet (example_cli True)" by (simp add: example_cli_def)
  from q output_discipline [OF a c] show ?thesis by blast
qed

text \<open>
  C31. A request for help or for the version does not depend on the environment, so that it works
  with unset or malformed variables in the other arguments.
\<close>

theorem help_ignores_environment:
  assumes "help_or_version_args (root_command (feature_grpc D)) raw = Some args"
  shows "main_entry D (w\<lparr>mw_env := env\<rparr>) raw = main_entry D w raw
    \<and> parsed_args D (w\<lparr>mw_env := env\<rparr>) raw = Some args"
  using main_entry_help [OF assms, where w = w and env = env] assms by (simp add: parsed_args_def)

theorem help_ignores_environment_witness:
  "main_entry example_deps (example_main_world\<lparr>mw_env := Map.empty\<rparr>) [''salus'', ''file'', ''--path'', ''${UNSET}'', ''--help'']
   = main_entry example_deps example_main_world [''salus'', ''file'', ''--path'', ''${UNSET}'', ''--help'']"
proof -
  have "help_or_version_args (root_command (feature_grpc example_deps)) [''salus'', ''file'', ''--path'', ''${UNSET}'', ''--help'']
      = Some [''salus'', ''file'', ''--help'']" by code_simp
  from help_ignores_environment [OF this, where w = example_main_world and env = Map.empty] show ?thesis by blast
qed

text \<open>
  C29. An argument that does not expand is reported as a configuration error with exit code 3; the
  report is silenced exactly when the scan of the arguments, expanded as far as they were,
  finds a request for quiet.
\<close>

theorem expansion_failure_reported:
  assumes "help_or_version_args (root_command (feature_grpc D)) (program # args) = None"
    and "collectR (expand_arg_os D (lookup_env (mw_env w))) pre = Inr vs"
    and "args = pre @ bad # post" "expand_arg_os D (lookup_env (mw_env w)) bad = Inl e"
  shows "main_entry D w (program # args) =
    (3, if requests_quiet (root_command (feature_grpc D)) (program # vs @ bad # post) then []
        else [(Stderr, error_text e @ [newline])])"
  using assms by (rule main_entry_expansion_failure)

theorem expansion_failure_reported_witness:
  "\<exists>e. main_entry example_deps example_main_world [''salus'', ''--quiet'', ''file'', ''--path=${NOPE}''] = (3, [])
    \<and> expand_arg_os example_deps (lookup_env (mw_env example_main_world)) ''--path=${NOPE}'' = Inl e"
proof -
  let ?l = "lookup_env (mw_env example_main_world)"
  have h: "help_or_version_args (root_command (feature_grpc example_deps))
      [''salus'', ''--quiet'', ''file'', ''--path=${NOPE}''] = None" by code_simp
  have v: "collectR (expand_arg_os example_deps ?l) [''--quiet'', ''file''] = Inr [''--quiet'', ''file'']" by code_simp
  have "\<not> is_ok (expand_arg_os example_deps ?l ''--path=${NOPE}'')" by code_simp
  then obtain e where e: "expand_arg_os example_deps ?l ''--path=${NOPE}'' = Inl e"
    by (auto simp: is_ok_def split: sum.splits)
  have q: "requests_quiet (root_command (feature_grpc example_deps))
      [''salus'', ''--quiet'', ''file'', ''--path=${NOPE}'']" by code_simp
  have a: "[''--quiet'', ''file'', ''--path=${NOPE}''] = [''--quiet'', ''file''] @ ''--path=${NOPE}'' # []" by simp
  from expansion_failure_reported [OF h v a e] q e show ?thesis by simp
qed

end
