(* ===== verification/Exec_Schedule.thy ===== *)
theory Exec_Schedule
  imports Exec_Output
begin

text \<open>
  The concurrent part of \<open>probes/exec.rs\<close> as a program that a schedule drives: an event names which
  of the reading task, the waiter and the clock moves and what it sees, and a function says
  whether it can and where it leads. The events are exactly the steps of \<open>task_step\<close> and
  \<open>await_step\<close>, so an interleaving can be evaluated, and what holds of every reachable state holds
  of what the evaluation returns.
\<close>

section \<open>Events\<close>

datatype task_event = Reads string | Sends | Sees_end | Closes | Fails string

datatype event = Task task_event | Turns | Passes nat | Joins | Sees_change | Expires

definition guarded :: "bool \<Rightarrow> 'a \<Rightarrow> 'a option" where
  "guarded b x = (if b then Some x else None)"

lemma guarded_Some [simp]: "guarded b x = Some y \<longleftrightarrow> b \<and> x = y"
  by (simp add: guarded_def)

fun task_on :: "nat \<Rightarrow> string list \<Rightarrow> string \<Rightarrow> task_event \<Rightarrow> output_task \<Rightarrow> output_task option" where
  "task_on limit texts stream (Reads data) t =
     guarded (ot_pc t = Reading \<and> data \<noteq> [] \<and> length data \<le> READ_BUFFER \<and> prefix (ot_read t @ data) stream)
       (absorb_read limit texts data t)"
| "task_on limit texts stream Sends t =
     (case ot_pc t of Sending p \<Rightarrow> Some ((send_progress p t)\<lparr>ot_pc := Reading\<rparr>) | _ \<Rightarrow> None)"
| "task_on limit texts stream Sees_end t =
     guarded (ot_pc t = Reading \<and> ot_read t = stream) (mark_complete t)"
| "task_on limit texts stream Closes t =
     (case ot_pc t of
        Closing out \<Rightarrow> Some ((send_progress (output_progress_from out) t)\<lparr>ot_pc := Ended (Inr out)\<rparr>)
      | _ \<Rightarrow> None)"
| "task_on limit texts stream (Fails error) t =
     guarded (ot_pc t = Reading) (t\<lparr>ot_pc := Ended (Inl (read_error error))\<rparr>)"

fun await_on :: "nat \<Rightarrow> string list \<Rightarrow> string \<Rightarrow> nat \<Rightarrow> nat \<Rightarrow> event \<Rightarrow> await_state \<Rightarrow> await_state option" where
  "await_on limit texts stream deadline out_deadline (Task e) s =
     map_option (\<lambda>t. s\<lparr>aw_task := t\<rparr>) (task_on limit texts stream e (aw_task s))"
| "await_on limit texts stream deadline out_deadline Turns s =
     guarded (aw_pc s = Loop) (await_loop_body deadline out_deadline s)"
| "await_on limit texts stream deadline out_deadline (Passes d) s =
     (case aw_pc s of
        Settle until \<Rightarrow> guarded (0 < d \<and> aw_now s + d \<le> until) (s\<lparr>aw_now := aw_now s + d\<rparr>)
      | _ \<Rightarrow> None)"
| "await_on limit texts stream deadline out_deadline Joins s =
     (case (aw_pc s, ot_pc (aw_task s)) of
        (Settle _, Ended r) \<Rightarrow> Some (s\<lparr>aw_pc := Returned r\<rparr>)
      | _ \<Rightarrow> None)"
| "await_on limit texts stream deadline out_deadline Sees_change s =
     (case aw_pc s of
        Settle _ \<Rightarrow> guarded (aw_seen s \<noteq> ot_version (aw_task s))
          (s\<lparr>aw_seen := ot_version (aw_task s), aw_pc := Loop\<rparr>)
      | _ \<Rightarrow> None)"
| "await_on limit texts stream deadline out_deadline Expires s =
     (case aw_pc s of Settle until \<Rightarrow> guarded (until \<le> aw_now s) (return_snapshot s) | _ \<Rightarrow> None)"

fun run_schedule :: "nat \<Rightarrow> string list \<Rightarrow> string \<Rightarrow> nat \<Rightarrow> nat \<Rightarrow> event list \<Rightarrow> await_state
    \<Rightarrow> await_state option" where
  "run_schedule limit texts stream deadline out_deadline [] s = Some s"
| "run_schedule limit texts stream deadline out_deadline (e # es) s =
     Option.bind (await_on limit texts stream deadline out_deadline e s)
       (run_schedule limit texts stream deadline out_deadline es)"

section \<open>Events are steps\<close>

lemma task_on_step:
  "task_on limit texts stream e t = Some t' \<Longrightarrow> task_step limit texts stream t t'"
  by (cases e) (auto split: task_pc.splits intro: task_step.intros)

lemma step_task_on:
  "task_step limit texts stream t t' \<Longrightarrow> \<exists>e. task_on limit texts stream e t = Some t'"
proof (induction rule: task_step.induct)
  case (step_read t data)
  then show ?case by (intro exI [of _ "Reads data"]) simp
next
  case (step_send t p)
  then show ?case by (intro exI [of _ Sends]) simp
next
  case (step_eof t)
  then show ?case by (intro exI [of _ Sees_end]) simp
next
  case (step_close t out)
  then show ?case by (intro exI [of _ Closes]) simp
next
  case (step_fail t error)
  then show ?case by (intro exI [of _ "Fails error"]) simp
qed

lemma await_on_step:
  "await_on limit texts stream deadline out_deadline e s = Some s'
     \<Longrightarrow> await_step limit texts stream deadline out_deadline s s'"
  by (cases e) (auto split: await_pc.splits task_pc.splits prod.splits
      intro: await_step.intros task_on_step)

lemma step_await_on:
  "await_step limit texts stream deadline out_deadline s s'
     \<Longrightarrow> \<exists>e. await_on limit texts stream deadline out_deadline e s = Some s'"
proof (induction rule: await_step.induct)
  case (await_task s t')
  then obtain e where "task_on limit texts stream e (aw_task s) = Some t'"
    using step_task_on by blast
  then show ?case by (intro exI [of _ "Task e"]) simp
next
  case (await_loop s)
  then show ?case by (intro exI [of _ Turns]) simp
next
  case (await_tick s until d)
  then show ?case by (intro exI [of _ "Passes d"]) simp
next
  case (await_join s until r)
  then show ?case by (intro exI [of _ Joins]) simp
next
  case (await_changed s until)
  then show ?case by (intro exI [of _ Sees_change]) simp
next
  case (await_timer s until)
  then show ?case by (intro exI [of _ Expires]) simp
qed

text \<open>The executions of the relation are the runs of the schedules.\<close>

lemma run_schedule_append:
  "run_schedule limit texts stream dl odl (es @ fs) s =
     Option.bind (run_schedule limit texts stream dl odl es s) (run_schedule limit texts stream dl odl fs)"
  by (induction es arbitrary: s) (simp_all split: Option.bind_split)

lemma run_schedule_steps:
  "run_schedule limit texts stream dl odl es s = Some s'
     \<Longrightarrow> (await_step limit texts stream dl odl)\<^sup>*\<^sup>* s s'"
  by (induction es arbitrary: s)
    (auto simp: bind_eq_Some_conv intro: converse_rtranclp_into_rtranclp await_on_step)

lemma executions_are_schedules:
  "(await_step limit texts stream dl odl)\<^sup>*\<^sup>* s s'
     \<longleftrightarrow> (\<exists>es. run_schedule limit texts stream dl odl es s = Some s')"
proof
  assume "(await_step limit texts stream dl odl)\<^sup>*\<^sup>* s s'"
  then show "\<exists>es. run_schedule limit texts stream dl odl es s = Some s'"
  proof (induction rule: rtranclp_induct)
    case base
    show ?case by (intro exI [of _ "[]"]) simp
  next
    case (step y z)
    then obtain es e where "run_schedule limit texts stream dl odl es s = Some y"
      "await_on limit texts stream dl odl e y = Some z" using step_await_on by blast
    then have "run_schedule limit texts stream dl odl (es @ [e]) s = Some z"
      by (simp add: run_schedule_append)
    then show ?case ..
  qed
qed (use run_schedule_steps in blast)

lemma run_schedule_reachable:
  assumes "run_schedule limit texts stream deadline (output_deadline now deadline) es
      (await_start (spawn_output_capture texts) now) = Some s"
  shows "await_reachable limit texts stream deadline now s"
  using run_schedule_steps [OF assms]
  by (induction rule: rtranclp_induct) (auto intro: await_reachable.intros)

text \<open>
  So whatever the order in which the task, the waiter and the clock move: what a schedule returns
  is true of what was written, and a schedule that has not returned can go on (not for ever, as
  \<open>wf_await_less\<close> shows).
\<close>

lemma schedule_result:
  assumes "run_schedule limit texts stream deadline (output_deadline now deadline) es
      (await_start (spawn_output_capture texts) now) = Some s" "aw_pc s = Returned r"
  shows "returned_ok limit texts stream r"
  using await_reachable_inv [OF run_schedule_reachable [OF assms(1)]] assms(2)
  by (simp add: await_inv_def)

lemma schedule_goes_on:
  assumes "run_schedule limit texts stream dl odl es s = Some s'" "\<nexists>r. aw_pc s' = Returned r"
  shows "\<exists>e s''. run_schedule limit texts stream dl odl (es @ [e]) s = Some s''"
proof -
  from await_progress assms(2) obtain s'' where "await_step limit texts stream dl odl s' s''" by blast
  then obtain e where "await_on limit texts stream dl odl e s' = Some s''" using step_await_on by blast
  with assms(1) have "run_schedule limit texts stream dl odl (es @ [e]) s = Some s''"
    by (simp add: run_schedule_append)
  then show ?thesis by blast
qed

end
