(* ===== verification/Unit_Tests.thy ===== *)
theory Unit_Tests
  imports Main_Entry Exec_Schedule
begin

text \<open>
  The unit tests of the crate (the \<open>mod tests\<close> of its files), on the model: a definition for
  every test function that is about code of the crate, with the assertions of the function, and
  for each file the lemma that they hold. The tests of what a dependency parses, of temporary
  files, and of two interleavings that a test schedules itself are left out. \<open>D\<close> is the
  third-party code; the tests hold for the example instance, and do not depend on what it does
  with valid input.
\<close>

section \<open>Assertions\<close>

text \<open>\<open>unwrap_err\<close> with a comparison, or a search, of the text of the error.\<close>

definition fails_with :: "'a result \<Rightarrow> string \<Rightarrow> bool" where
  "fails_with r text = (case r of Inl error \<Rightarrow> error_text error = text | Inr _ \<Rightarrow> False)"

definition fails_mentioning :: "'a result \<Rightarrow> string \<Rightarrow> bool" where
  "fails_mentioning r text = (case r of Inl error \<Rightarrow> contains_bytes (error_text error) text | Inr _ \<Rightarrow> False)"

definition expand_with :: "deps \<Rightarrow> string \<Rightarrow> (string \<times> string) list \<Rightarrow> string result" where
  "expand_with D raw pairs = expand_text D (\<lambda>name. Inr (map_of pairs name)) raw"

text \<open>\<open>TlsArgs::default()\<close>\<close>

definition tls_args_default :: tls_args where
  "tls_args_default = \<lparr>tls_ca = None, tls_cert = None, tls_key = None, tls_server_name = None,
     tls_insecure_skip_verify = False\<rparr>"

section \<open>\<open>validation.rs\<close>\<close>

definition capture_limit_validation_only_applies_when_assertions_are_enabled :: bool where
  "capture_limit_validation_only_applies_when_assertions_are_enabled \<longleftrightarrow>
     is_ok (validate_capture_limit ''--max-body'' 0 ''body assertions'' False)
     \<and> fails_with (validate_capture_limit ''--max-body'' 0 ''body assertions'' True)
       ''--max-body must be greater than 0 when body assertions are used''"

definition non_empty_str_validation_reports_flag_name :: bool where
  "non_empty_str_validation_reports_flag_name \<longleftrightarrow>
     fails_with (validate_non_empty_str ''--url'' [])
       ''--url must not be empty''"

definition non_empty_path_validation_reports_flag_name :: bool where
  "non_empty_path_validation_reports_flag_name \<longleftrightarrow>
     fails_with (validate_non_empty_path ''--path'' [])
       ''--path must not be empty''"

definition non_empty_values_validation_reports_flag_name :: bool where
  "non_empty_values_validation_reports_flag_name \<longleftrightarrow>
     fails_with (validate_non_empty_values ''--contains'' [[]])
       ''--contains must not be empty''"

definition positive_duration_validation_reports_flag_name :: bool where
  "positive_duration_validation_reports_flag_name \<longleftrightarrow>
     fails_with (validate_positive_duration ''--timeout'' 0)
       ''--timeout must be greater than 0''"

lemma validation_tests:
  "capture_limit_validation_only_applies_when_assertions_are_enabled"
  "non_empty_str_validation_reports_flag_name"
  "non_empty_path_validation_reports_flag_name"
  "non_empty_values_validation_reports_flag_name"
  "positive_duration_validation_reports_flag_name"
  by code_simp+

section \<open>\<open>diagnostic.rs\<close>\<close>

definition value_preserves_plain_text :: "deps \<Rightarrow> bool" where
  "value_preserves_plain_text D \<longleftrightarrow>
     diag_value D ''127.0.0.1:8080'' = ''127.0.0.1:8080''"

definition value_escapes_control_characters :: "deps \<Rightarrow> bool" where
  "value_escapes_control_characters D \<longleftrightarrow>
     diag_value D (''bad'' @ [newline] @ ''addr:80'') = ([dquote] @ ''bad'' @ [backslash] @ ''naddr:80'' @ [dquote])"

definition value_quotes_empty_text :: "deps \<Rightarrow> bool" where
  "value_quotes_empty_text D \<longleftrightarrow>
     diag_value D [] = [dquote, dquote]"

definition value_quotes_surrounding_whitespace :: "deps \<Rightarrow> bool" where
  "value_quotes_surrounding_whitespace D \<longleftrightarrow>
     diag_value D '' bad '' = ([dquote] @ '' bad '' @ [dquote])"

definition value_quotes_embedded_whitespace :: "deps \<Rightarrow> bool" where
  "value_quotes_embedded_whitespace D \<longleftrightarrow>
     diag_value D ''bad value'' = ([dquote] @ ''bad value'' @ [dquote])"

definition value_quotes_embedded_quote_and_backslash :: "deps \<Rightarrow> bool" where
  "value_quotes_embedded_quote_and_backslash D \<longleftrightarrow>
     diag_value D (''bad'' @ [dquote] @ ''value'') = ([dquote] @ ''bad'' @ [backslash, dquote] @ ''value'' @ [dquote])
     \<and> diag_value D (''bad'' @ [backslash] @ ''value'') = ([dquote] @ ''bad'' @ [backslash, backslash] @ ''value'' @ [dquote])"

definition path_escapes_control_characters :: "deps \<Rightarrow> bool" where
  "path_escapes_control_characters D \<longleftrightarrow>
     diag_path D (''/tmp/bad'' @ [newline] @ ''path'') = ([dquote] @ ''/tmp/bad'' @ [backslash] @ ''npath'' @ [dquote])"

definition os_str_escapes_control_characters :: "deps \<Rightarrow> bool" where
  "os_str_escapes_control_characters D \<longleftrightarrow>
     diag_os_str D (''bad'' @ [newline] @ ''cmd'') = ([dquote] @ ''bad'' @ [backslash] @ ''ncmd'' @ [dquote])"

definition os_str_quotes_surrounding_whitespace :: "deps \<Rightarrow> bool" where
  "os_str_quotes_surrounding_whitespace D \<longleftrightarrow>
     diag_os_str D '' cmd '' = ([dquote] @ '' cmd '' @ [dquote])"

definition path_quotes_surrounding_whitespace :: "deps \<Rightarrow> bool" where
  "path_quotes_surrounding_whitespace D \<longleftrightarrow>
     diag_path D ''/tmp/ready '' = ([dquote] @ ''/tmp/ready '' @ [dquote])"

definition path_field_preserves_utf8_without_prequoting :: "deps \<Rightarrow> bool" where
  "path_field_preserves_utf8_without_prequoting D \<longleftrightarrow>
     diag_path_field D ''/tmp/ready path'' = ''/tmp/ready path''"

definition os_str_escapes_non_utf8_bytes :: "deps \<Rightarrow> bool" where
  "os_str_escapes_non_utf8_bytes D \<longleftrightarrow>
     diag_os_str D (''cmd'' @ [CHR 0xFF]) = ([dquote] @ ''cmd'' @ [backslash] @ ''xFF'' @ [dquote])"

definition path_escapes_non_utf8_bytes :: "deps \<Rightarrow> bool" where
  "path_escapes_non_utf8_bytes D \<longleftrightarrow>
     diag_path D (''/tmp/'' @ [CHR 0xFF]) = ([dquote] @ ''/tmp/'' @ [backslash] @ ''xFF'' @ [dquote])"

definition path_field_escapes_non_utf8_bytes :: "deps \<Rightarrow> bool" where
  "path_field_escapes_non_utf8_bytes D \<longleftrightarrow>
     diag_path_field D (''/tmp/'' @ [CHR 0xFF]) = ([dquote] @ ''/tmp/'' @ [backslash] @ ''xFF'' @ [dquote])"

lemma diagnostic_tests:
  "value_preserves_plain_text example_deps"
  "value_escapes_control_characters example_deps"
  "value_quotes_empty_text example_deps"
  "value_quotes_surrounding_whitespace example_deps"
  "value_quotes_embedded_whitespace example_deps"
  "value_quotes_embedded_quote_and_backslash example_deps"
  "path_escapes_control_characters example_deps"
  "os_str_escapes_control_characters example_deps"
  "os_str_quotes_surrounding_whitespace example_deps"
  "path_quotes_surrounding_whitespace example_deps"
  "path_field_preserves_utf8_without_prequoting example_deps"
  "os_str_escapes_non_utf8_bytes example_deps"
  "path_escapes_non_utf8_bytes example_deps"
  "path_field_escapes_non_utf8_bytes example_deps"
  by code_simp+

section \<open>\<open>output.rs\<close>\<close>

definition success_output_quotes_and_escapes_fields :: bool where
  "success_output_quotes_and_escapes_fields \<longleftrightarrow>
     format_success ''file'' (''/tmp/ready'' @ [CHR 0x1B] @ '' file'') 7 (Some (''status='' @ [dquote] @ ''ok'' @ [dquote]))
     = (''result=healthy mode=file target='' @ [dquote] @ ''/tmp/ready'' @ [backslash] @ ''u{001B} file'' @ [dquote] @ '' duration_ms=7 detail='' @ [dquote] @ ''status='' @ [backslash, dquote] @ ''ok'' @ [backslash, dquote, dquote])"

lemma output_tests:
  "success_output_quotes_and_escapes_fields"
  by code_simp+

section \<open>\<open>capture.rs\<close>\<close>

definition append_limited_keeps_data_within_limit :: bool where
  "append_limited_keeps_data_within_limit \<longleftrightarrow>
     (let (buffer, previous_len) = append_limited capture_default ''abcdef'' 3
      in previous_len = 0 \<and> cb_bytes buffer = ''abc'' \<and> cb_incomplete buffer)"

definition append_limited_marks_later_data_after_full_limit :: bool where
  "append_limited_marks_later_data_after_full_limit \<longleftrightarrow>
     (let (buffer, previous_len) =
        append_limited (fst (append_limited capture_default ''abc'' 3)) ''d'' 3
      in previous_len = 3 \<and> cb_bytes buffer = ''abc'' \<and> cb_incomplete buffer)"

definition append_limited_keeps_exact_limit_complete :: bool where
  "append_limited_keeps_exact_limit_complete \<longleftrightarrow>
     (let buffer = fst (append_limited capture_default ''abc'' 3)
      in cb_bytes buffer = ''abc'' \<and> \<not> cb_incomplete buffer)"

lemma capture_tests:
  "append_limited_keeps_data_within_limit"
  "append_limited_marks_later_data_after_full_limit"
  "append_limited_keeps_exact_limit_complete"
  by code_simp+

section \<open>\<open>text_match.rs\<close>\<close>

definition matcher_finds_text_across_append_boundary :: bool where
  "matcher_finds_text_across_append_boundary \<longleftrightarrow>
     (let before = observe_appended (text_matcher_new [''ready'']) ''rea'' 0
      in \<not> all_matched before
        \<and> all_matched (observe_appended before (''rea'' @ ''dy'') (length ''rea'')))"

definition matcher_tracks_any_match :: bool where
  "matcher_tracks_any_match \<longleftrightarrow>
     (let matcher = observe_appended (text_matcher_new [''bad'', ''error'']) ''all bad'' 0
      in any_matched matcher \<and> \<not> all_matched matcher)"

definition contains_bytes_uses_raw_bytes :: bool where
  "contains_bytes_uses_raw_bytes \<longleftrightarrow>
     contains_bytes ([CHR 0xFF] @ ''ready'') ''ready''
     \<and> \<not> contains_bytes [CHR 0xFF] [CHR 0xEF, CHR 0xBF, CHR 0xBD]"

lemma text_match_tests:
  "matcher_finds_text_across_append_boundary"
  "matcher_tracks_any_match"
  "contains_bytes_uses_raw_bytes"
  by code_simp+

section \<open>\<open>authority.rs\<close>\<close>

definition explicit_port_handles_ipv6_authorities :: bool where
  "explicit_port_handles_ipv6_authorities \<longleftrightarrow>
     explicit_port ''[::1]:8080'' = Some ''8080''
     \<and> explicit_port ''[::1]'' = None
     \<and> explicit_port ''[::1]:80:90'' = Some ''80:90''"

definition required_port_rejects_missing_port :: "deps \<Rightarrow> bool" where
  "required_port_rejects_missing_port D \<longleftrightarrow>
     fails_with (validate_authority D ''localhost'' ''TCP address'' Required Display)
       ''invalid TCP address localhost: port is required''"

definition optional_port_rejects_zero_port :: "deps \<Rightarrow> bool" where
  "optional_port_rejects_zero_port D \<longleftrightarrow>
     fails_with (validate_authority D ''example.com:0'' ''gRPC authority'' Optional Debug)
       (''invalid gRPC authority '' @ [dquote] @ ''example.com:0'' @ [dquote] @ '': port must be between 1 and 65535'')"

definition bracketed_authority_rejects_empty_host :: "deps \<Rightarrow> bool" where
  "bracketed_authority_rejects_empty_host D \<longleftrightarrow>
     fails_with (validate_authority D ''[]:80'' ''TCP address'' Required Display)
       ''invalid TCP address []:80: host must not be empty''"

definition bracketed_authority_requires_ipv6_host :: "deps \<Rightarrow> bool" where
  "bracketed_authority_requires_ipv6_host D \<longleftrightarrow>
     fails_with (validate_authority D ''[example.com]:80'' ''TCP address'' Required Display)
       ''invalid TCP address [example.com]:80: bracketed host must be a valid IPv6 address''"

definition authority_rejects_brackets_inside_reg_name :: "deps \<Rightarrow> bool" where
  "authority_rejects_brackets_inside_reg_name D \<longleftrightarrow>
     fails_with (validate_authority D ''example[::1]:80'' ''TCP address'' Required Display)
       ''invalid TCP address example[::1]:80: brackets are only allowed around IPv6 addresses''"

definition bracketed_authority_rejects_unexpected_suffix :: "deps \<Rightarrow> bool" where
  "bracketed_authority_rejects_unexpected_suffix D \<longleftrightarrow>
     fails_with (validate_authority D ''[::1]example:80'' ''Host header'' Optional Debug)
       (''invalid Host header '' @ [dquote] @ ''[::1]example:80'' @ [dquote] @ '': bracketed host must be followed by :port or the end of the authority'')"

definition authority_rejects_malformed_unbracketed_port_before_generic_parse_error :: "deps \<Rightarrow> bool" where
  "authority_rejects_malformed_unbracketed_port_before_generic_parse_error D \<longleftrightarrow>
     fails_with (validate_authority D ''example.com:80:90'' ''TCP address'' Required Display)
       ''invalid TCP address example.com:80:90: port must be a valid integer''"

definition authority_rejects_malformed_bracketed_port_before_generic_parse_error :: "deps \<Rightarrow> bool" where
  "authority_rejects_malformed_bracketed_port_before_generic_parse_error D \<longleftrightarrow>
     fails_with (validate_authority D ''[::1]:80:90'' ''TCP address'' Required Display)
       ''invalid TCP address [::1]:80:90: port must be a valid integer''"

definition authority_rejects_path_before_port_shape :: "deps \<Rightarrow> bool" where
  "authority_rejects_path_before_port_shape D \<longleftrightarrow>
     fails_with (validate_authority D ''127.0.0.1:50051/healthz'' ''gRPC address'' Required Debug)
       (''invalid gRPC address '' @ [dquote] @ ''127.0.0.1:50051/healthz'' @ [dquote] @ '': path, query, and fragment are not allowed'')"

definition authority_rejects_whitespace_before_port_shape :: "deps \<Rightarrow> bool" where
  "authority_rejects_whitespace_before_port_shape D \<longleftrightarrow>
     fails_with (validate_authority D ''127.0.0.1:80 '' ''TCP address'' Required Display)
       (''invalid TCP address '' @ [dquote] @ ''127.0.0.1:80 '' @ [dquote] @ '': authority must not contain whitespace, control characters, backslashes, or quotes'')"

definition authority_rejects_non_ascii_before_generic_parse_error :: "deps \<Rightarrow> bool" where
  "authority_rejects_non_ascii_before_generic_parse_error D \<longleftrightarrow>
     fails_mentioning (validate_authority D ([CHR 0xC3, CHR 0xA9] @ ''xample.test:80'') ''TCP address'' Required Display)
       ''authority must contain only ASCII characters''"

definition authority_rejects_unbracketed_ipv6_before_port_shape :: "deps \<Rightarrow> bool" where
  "authority_rejects_unbracketed_ipv6_before_port_shape D \<longleftrightarrow>
     fails_with (validate_authority D ''2001:db8::1:80'' ''TCP address'' Required Display)
       ''invalid TCP address 2001:db8::1:80: IPv6 addresses must be enclosed in brackets''"

definition authority_rejects_malformed_unbracketed_ipv6_before_port_shape :: "deps \<Rightarrow> bool" where
  "authority_rejects_malformed_unbracketed_ipv6_before_port_shape D \<longleftrightarrow>
     fails_with (validate_authority D ''2001:db8::zz:80'' ''TCP address'' Required Display)
       ''invalid TCP address 2001:db8::zz:80: IPv6 addresses must be enclosed in brackets''"

definition bracketed_authority_rejects_missing_closing_bracket :: "deps \<Rightarrow> bool" where
  "bracketed_authority_rejects_missing_closing_bracket D \<longleftrightarrow>
     fails_with (validate_authority D ''[::1:80'' ''TCP address'' Required Display)
       ''invalid TCP address [::1:80: bracketed host is missing closing ]''"

definition port_validation_distinguishes_non_numeric_and_out_of_range_ports :: bool where
  "port_validation_distinguishes_non_numeric_and_out_of_range_ports \<longleftrightarrow>
     validate_port ''bad'' = Inl NotInteger \<and> validate_port ''65536'' = Inl OutOfRange"

lemma authority_tests:
  "explicit_port_handles_ipv6_authorities"
  "required_port_rejects_missing_port example_deps"
  "optional_port_rejects_zero_port example_deps"
  "bracketed_authority_rejects_empty_host example_deps"
  "bracketed_authority_requires_ipv6_host example_deps"
  "authority_rejects_brackets_inside_reg_name example_deps"
  "bracketed_authority_rejects_unexpected_suffix example_deps"
  "authority_rejects_malformed_unbracketed_port_before_generic_parse_error example_deps"
  "authority_rejects_malformed_bracketed_port_before_generic_parse_error example_deps"
  "authority_rejects_path_before_port_shape example_deps"
  "authority_rejects_whitespace_before_port_shape example_deps"
  "authority_rejects_non_ascii_before_generic_parse_error example_deps"
  "authority_rejects_unbracketed_ipv6_before_port_shape example_deps"
  "authority_rejects_malformed_unbracketed_ipv6_before_port_shape example_deps"
  "bracketed_authority_rejects_missing_closing_bracket example_deps"
  "port_validation_distinguishes_non_numeric_and_out_of_range_ports"
  by code_simp+

section \<open>\<open>env_expand.rs\<close>\<close>

definition expands_required_variables :: "deps \<Rightarrow> bool" where
  "expands_required_variables D \<longleftrightarrow>
     expand_with D ''http://127.0.0.1:${PORT}/healthz'' [(''PORT'', ''8080'')] = Inr ''http://127.0.0.1:8080/healthz''"

definition expands_default_when_variable_is_missing :: "deps \<Rightarrow> bool" where
  "expands_default_when_variable_is_missing D \<longleftrightarrow>
     expand_with D ''${MODE:-ready}'' [] = Inr ''ready''"

definition expands_default_when_variable_is_empty :: "deps \<Rightarrow> bool" where
  "expands_default_when_variable_is_empty D \<longleftrightarrow>
     expand_with D ''${MODE:-ready}'' [(''MODE'', [])] = Inr ''ready''"

definition expands_empty_required_variable_without_default :: "deps \<Rightarrow> bool" where
  "expands_empty_required_variable_without_default D \<longleftrightarrow>
     expand_with D ''${MODE}'' [(''MODE'', [])] = Inr []"

definition leaves_dollar_variable_syntax_unchanged :: "deps \<Rightarrow> bool" where
  "leaves_dollar_variable_syntax_unchanged D \<longleftrightarrow>
     expand_with D ''$PORT'' [(''PORT'', ''8080'')] = Inr ''$PORT''"

definition escapes_dollar_signs :: "deps \<Rightarrow> bool" where
  "escapes_dollar_signs D \<longleftrightarrow>
     expand_with D ''$${PORT}'' [(''PORT'', ''8080'')] = Inr ''${PORT}''"

definition does_not_expand_defaults_recursively :: "deps \<Rightarrow> bool" where
  "does_not_expand_defaults_recursively D \<longleftrightarrow>
     expand_with D ''${MODE:-${INNER}}'' [(''INNER'', ''ready'')] = Inr ''${INNER}''"

definition rejects_missing_variables_without_default :: "deps \<Rightarrow> bool" where
  "rejects_missing_variables_without_default D \<longleftrightarrow>
     fails_with (expand_with D ''${PORT}'' [])
       ''environment variable PORT is not set''"

definition rejects_invalid_variable_names :: "deps \<Rightarrow> bool" where
  "rejects_invalid_variable_names D \<longleftrightarrow>
     fails_with (expand_with D ''${1PORT}'' [])
       (''invalid environment variable name '' @ [dquote] @ ''1PORT'' @ [dquote])"

definition rejects_unterminated_expansions :: "deps \<Rightarrow> bool" where
  "rejects_unterminated_expansions D \<longleftrightarrow>
     fails_with (expand_with D ''${PORT'' [(''PORT'', ''8080'')])
       ''unterminated environment expansion''"

lemma env_expand_tests:
  "expands_required_variables example_deps"
  "expands_default_when_variable_is_missing example_deps"
  "expands_default_when_variable_is_empty example_deps"
  "expands_empty_required_variable_without_default example_deps"
  "leaves_dollar_variable_syntax_unchanged example_deps"
  "escapes_dollar_signs example_deps"
  "does_not_expand_defaults_recursively example_deps"
  "rejects_missing_variables_without_default example_deps"
  "rejects_invalid_variable_names example_deps"
  "rejects_unterminated_expansions example_deps"
  by code_simp+

section \<open>\<open>probe.rs\<close>\<close>

definition max_latency_error_escapes_target_controls :: "deps \<Rightarrow> bool" where
  "max_latency_error_escapes_target_controls D \<longleftrightarrow>
     fails_mentioning (enforce_max_latency D \<lparr>rep_mode = ''file'', rep_target = (''/tmp/ready'' @ [newline] @ ''next''), rep_detail = None,
       rep_elapsed = 2000000, rep_options = \<lparr>opt_timeout = 1000000000, opt_quiet = False,
         opt_verbose = False, opt_max_latency = Some 1000000\<rparr>\<rparr>)
       ([dquote] @ ''/tmp/ready'' @ [backslash] @ ''nnext'' @ [dquote])"

definition deadline_after_rejects_overflowing_timeout :: "deps \<Rightarrow> bool" where
  "deadline_after_rejects_overflowing_timeout D \<longleftrightarrow>
     fails_mentioning (deadline_after D 0 ((2 ^ 64 - 1) * 1000000000 + 999999999))
       ''--timeout is too large''"

text \<open>A future that is pending for ever has no result in time.\<close>

definition probe_timeout_error_includes_probe_mode_and_duration :: "deps \<Rightarrow> bool" where
  "probe_timeout_error_includes_probe_mode_and_duration D \<longleftrightarrow>
     fails_with (with_probe_timeout D ''HTTP'' MILLISECOND None :: unit result)
       ''HTTP probe timed out after 1ms''"

lemma probe_timeout_test:
  "format_duration D MILLISECOND = ''1ms'' \<Longrightarrow> probe_timeout_error_includes_probe_mode_and_duration D"
  by (simp add: probe_timeout_error_includes_probe_mode_and_duration_def fails_with_def
      probe_timeout_error_def)

lemma probe_tests:
  "max_latency_error_escapes_target_controls example_deps"
  by code_simp

text \<open>The numbers are too large for unary evaluation; the message holds for every \<open>D\<close>.\<close>

lemma probe_deadline_test: "deadline_after_rejects_overflowing_timeout D"
proof -
  have "deadline_after D 0 ((2 ^ 64 - 1) * 1000000000 + 999999999)
      = Inl (InvalidConfig (''--timeout is too large: ''
          @ format_duration D ((2 ^ 64 - 1) * 1000000000 + 999999999)))"
    by (simp add: deadline_after_def instant_checked_add_def INSTANT_LIMIT_def ok_or_def)
  moreover have "sublist ''--timeout is too large'' (''--timeout is too large: '' @ rest)" for rest
    by (rule prefix_imp_sublist) simp
  ultimately show ?thesis
    by (simp only: deadline_after_rejects_overflowing_timeout_def fails_mentioning_def
        contains_bytes_iff sum.case error_text.simps)
qed

section \<open>\<open>tls.rs\<close>\<close>

definition server_name_override_rejects_bracketed_dns_name :: "deps \<Rightarrow> bool" where
  "server_name_override_rejects_bracketed_dns_name D \<longleftrightarrow>
     fails_with (parse_server_name_override D ''[localhost]'')
       (''invalid TLS server name override '' @ [dquote] @ ''[localhost]'' @ [dquote] @ '': brackets are only allowed around IPv6 addresses'')"

definition server_name_override_rejects_unmatched_bracket :: "deps \<Rightarrow> bool" where
  "server_name_override_rejects_unmatched_bracket D \<longleftrightarrow>
     fails_with (parse_server_name_override D ''localhost]'')
       (''invalid TLS server name override '' @ [dquote] @ ''localhost]'' @ [dquote] @ '': brackets are only allowed around IPv6 addresses'')"

definition server_name_override_rejects_empty_name :: "deps \<Rightarrow> bool" where
  "server_name_override_rejects_empty_name D \<longleftrightarrow>
     fails_with (parse_server_name_override D [])
       ''--server-name must not be empty''"

definition tls_options_validate_server_name_before_trust_store :: "deps \<Rightarrow> bool" where
  "tls_options_validate_server_name_before_trust_store D \<longleftrightarrow>
     fails_with (validate_tls_options D (tls_args_default\<lparr>tls_server_name := Some ''[localhost]''\<rparr>))
       (''invalid TLS server name override '' @ [dquote] @ ''[localhost]'' @ [dquote] @ '': brackets are only allowed around IPv6 addresses'')"

definition tls_options_validate_client_identity_pair_before_trust_store :: "deps \<Rightarrow> bool" where
  "tls_options_validate_client_identity_pair_before_trust_store D \<longleftrightarrow>
     fails_with (validate_tls_options D (tls_args_default\<lparr>tls_cert := Some ''client.pem''\<rparr>))
       ''--cert and --key must be provided together''"

definition tls_options_reject_conflicting_trust_controls_before_trust_store :: "deps \<Rightarrow> bool" where
  "tls_options_reject_conflicting_trust_controls_before_trust_store D \<longleftrightarrow>
     fails_with (validate_tls_options D (tls_args_default
       \<lparr>tls_ca := Some ''ca.pem'', tls_insecure_skip_verify := True\<rparr>))
       ''--ca cannot be used with --insecure-skip-verify''"

definition tls_options_reject_empty_file_paths :: "deps \<Rightarrow> bool" where
  "tls_options_reject_empty_file_paths D \<longleftrightarrow>
     fails_with (validate_tls_options D (tls_args_default\<lparr>tls_ca := Some []\<rparr>))
       ''--ca must not be empty''"

definition tls_trust_is_available_with_custom_ca :: "deps \<Rightarrow> bool" where
  "tls_trust_is_available_with_custom_ca D \<longleftrightarrow>
     is_ok (validate_tls_trust_available D (tls_args_default\<lparr>tls_ca := Some ''ca.pem''\<rparr>))"

definition tls_trust_is_available_when_verification_is_disabled :: "deps \<Rightarrow> bool" where
  "tls_trust_is_available_when_verification_is_disabled D \<longleftrightarrow>
     is_ok (validate_tls_trust_available D (tls_args_default\<lparr>tls_insecure_skip_verify := True\<rparr>))"

definition tls_trust_is_available_with_bundled_roots :: "deps \<Rightarrow> bool" where
  "tls_trust_is_available_with_bundled_roots D \<longleftrightarrow>
     is_ok (validate_tls_trust_available (D\<lparr>feature_webpki := True\<rparr>) tls_args_default)"

definition tls_trust_requires_ca_without_bundled_roots :: "deps \<Rightarrow> bool" where
  "tls_trust_requires_ca_without_bundled_roots D \<longleftrightarrow>
     fails_with (validate_tls_trust_available (D\<lparr>feature_webpki := False\<rparr>) tls_args_default)
       ''TLS trust store is empty because bundled roots are disabled; provide --ca or --insecure-skip-verify''"

definition server_name_override_accepts_bracketed_ipv6_literal :: "deps \<Rightarrow> bool" where
  "server_name_override_accepts_bracketed_ipv6_literal D \<longleftrightarrow>
     parse_server_name_override D ''[::1]'' = Inr ''::1''"

text \<open>\<open>path\<close> is a directory in \<open>w\<close>.\<close>

definition tls_pem_files_must_be_regular_files :: "deps \<Rightarrow> tls_world \<Rightarrow> string \<Rightarrow> bool" where
  "tls_pem_files_must_be_regular_files D w path \<longleftrightarrow>
     fails_mentioning (open_regular_pem_file D w path ''CA file'') ''is not a regular file''"

lemma tls_pem_file_test:
  "tls_metadata_is_file w path = Inr False \<Longrightarrow> tls_pem_files_must_be_regular_files D w path"
proof -
  have "sublist ''is not a regular file'' ((''CA file '' @ diag_path D path @ '' '') @ ''is not a regular file'')"
    by (rule sublist_append_leftI)
  then show "tls_metadata_is_file w path = Inr False \<Longrightarrow> ?thesis"
    by (simp add: tls_pem_files_must_be_regular_files_def fails_mentioning_def contains_bytes_iff
        open_regular_pem_file_def)
qed

lemma tls_tests:
  "server_name_override_accepts_bracketed_ipv6_literal example_deps"
  "server_name_override_rejects_bracketed_dns_name example_deps"
  "server_name_override_rejects_unmatched_bracket example_deps"
  "server_name_override_rejects_empty_name example_deps"
  "tls_options_validate_server_name_before_trust_store example_deps"
  "tls_options_validate_client_identity_pair_before_trust_store example_deps"
  "tls_options_reject_conflicting_trust_controls_before_trust_store example_deps"
  "tls_options_reject_empty_file_paths example_deps"
  "tls_trust_is_available_with_custom_ca example_deps"
  "tls_trust_is_available_when_verification_is_disabled example_deps"
  "tls_trust_is_available_with_bundled_roots example_deps"
  "tls_trust_requires_ca_without_bundled_roots example_deps"
  by code_simp+

section \<open>\<open>probes/tcp.rs\<close>\<close>

definition per_attempt_timeout_divides_remaining_budget :: bool where
  "per_attempt_timeout_divides_remaining_budget \<longleftrightarrow>
     per_attempt_timeout 3000000000 3 = 1000000000"

definition per_attempt_timeout_returns_full_budget_for_last_address :: bool where
  "per_attempt_timeout_returns_full_budget_for_last_address \<longleftrightarrow>
     per_attempt_timeout 750000000 1 = 750000000"

definition per_attempt_timeout_keeps_a_minimum_of_one_millisecond :: bool where
  "per_attempt_timeout_keeps_a_minimum_of_one_millisecond \<longleftrightarrow>
     per_attempt_timeout 1 8 = 1000000"

definition per_attempt_timeout_saturates_extremely_large_attempt_counts :: bool where
  "per_attempt_timeout_saturates_extremely_large_attempt_counts \<longleftrightarrow>
     per_attempt_timeout 1000000000 (2 ^ 32 - 1 + 2) = 1000000"

lemma tcp_tests:
  "per_attempt_timeout_divides_remaining_budget"
  "per_attempt_timeout_returns_full_budget_for_last_address"
  "per_attempt_timeout_keeps_a_minimum_of_one_millisecond"
  "per_attempt_timeout_saturates_extremely_large_attempt_counts"
  by (simp_all add: per_attempt_timeout_divides_remaining_budget_def
      per_attempt_timeout_returns_full_budget_for_last_address_def
      per_attempt_timeout_keeps_a_minimum_of_one_millisecond_def
      per_attempt_timeout_saturates_extremely_large_attempt_counts_def
      per_attempt_timeout_def MILLISECOND_def)

section \<open>\<open>probes/http.rs\<close>\<close>

text \<open>The URIs as hyper parses them: the host of an IPv6 authority keeps its brackets.\<close>

definition ipv6_uri :: "nat option \<Rightarrow> uri" where
  "ipv6_uri port =
     \<lparr>uri_scheme = Some ''http'',
      uri_authority = Some \<lparr>auth_str = (case port of Some p \<Rightarrow> ''[::1]:'' @ dec p | None \<Rightarrow> ''[::1]''),
        auth_host = ''[::1]'', auth_port_u16 = port\<rparr>,
      uri_path = ''/healthz'', uri_path_and_query = Some ''/healthz''\<rparr>"

definition default_host_header_preserves_ipv6_brackets :: "deps \<Rightarrow> bool" where
  "default_host_header_preserves_ipv6_brackets D \<longleftrightarrow>
     default_host_header D (ipv6_uri (Some 8080)) None ''http'' = Inr ''[::1]:8080''"

definition default_host_header_brackets_ipv6_without_explicit_port :: "deps \<Rightarrow> bool" where
  "default_host_header_brackets_ipv6_without_explicit_port D \<longleftrightarrow>
     default_host_header D (ipv6_uri None) None ''http'' = Inr ''[::1]''"

lemma http_tests:
  "default_host_header_preserves_ipv6_brackets example_deps"
  "default_host_header_brackets_ipv6_without_explicit_port example_deps"
  by code_simp+

section \<open>\<open>probes/grpc.rs\<close>\<close>

definition grpc_status_error_escapes_server_message_controls :: "deps \<Rightarrow> bool" where
  "grpc_status_error_escapes_server_message_controls D \<longleftrightarrow>
     (let error = error_text (grpc_status_error D ''127.0.0.1:50051''
        \<lparr>status_code = ''Unavailable'', status_message = (''not ready'' @ [newline] @ ''next'')\<rparr>)
      in contains_bytes error ''code=Unavailable'' \<and> contains_bytes error (''message='' @ [dquote] @ ''not ready'' @ [backslash] @ ''nnext'' @ [dquote]))"

definition grpc_target_includes_service_name :: "deps \<Rightarrow> bool" where
  "grpc_target_includes_service_name D \<longleftrightarrow>
     grpc_target D ''127.0.0.1:50051'' (Some ''db'') = ''127.0.0.1:50051 service=db''"

definition grpc_target_escapes_service_name_controls :: "deps \<Rightarrow> bool" where
  "grpc_target_escapes_service_name_controls D \<longleftrightarrow>
     grpc_target D ''127.0.0.1:50051'' (Some (''db'' @ [newline] @ ''next'')) = (''127.0.0.1:50051 service='' @ [dquote] @ ''db'' @ [backslash] @ ''nnext'' @ [dquote])"

definition grpc_target_omits_missing_service_name :: "deps \<Rightarrow> bool" where
  "grpc_target_omits_missing_service_name D \<longleftrightarrow>
     grpc_target D ''127.0.0.1:50051'' None = ''127.0.0.1:50051''"

lemma grpc_tests:
  "grpc_status_error_escapes_server_message_controls example_deps"
  "grpc_target_includes_service_name example_deps"
  "grpc_target_escapes_service_name_controls example_deps"
  "grpc_target_omits_missing_service_name example_deps"
  by code_simp+

section \<open>\<open>probes/exec.rs\<close>\<close>

definition read_limited_marks_output_beyond_limit_incomplete :: bool where
  "read_limited_marks_output_beyond_limit_incomplete \<longleftrightarrow>
     (case read_limited [''abcdef''] None 3 [] of
        Some (Inr out) \<Rightarrow> cb_bytes (bo_content out) = ''abc'' \<and> cb_incomplete (bo_content out)
          \<and> bo_complete out
      | _ \<Rightarrow> False)"

definition read_limited_leaves_short_output_complete :: bool where
  "read_limited_leaves_short_output_complete \<longleftrightarrow>
     (case read_limited [''abc''] None 3 [] of
        Some (Inr out) \<Rightarrow> cb_bytes (bo_content out) = ''abc'' \<and> \<not> cb_incomplete (bo_content out)
          \<and> bo_complete out
      | _ \<Rightarrow> False)"

definition read_limited_reports_reader_errors_as_probe_failures :: bool where
  "read_limited_reports_reader_errors_as_probe_failures \<longleftrightarrow>
     (case read_limited [] (Some ''synthetic read failure'') 3 [] of
        Some (Inl error) \<Rightarrow> exit_code error = 1 \<and> contains_bytes (error_text error)
          ''failed reading child output: synthetic read failure''
      | _ \<Rightarrow> False)"

definition complete_output_at_limit_proves_absence :: bool where
  "complete_output_at_limit_proves_absence \<longleftrightarrow>
     (case read_limited [''abcd''] None 4 [''ready''] of
        Some (Inr out) \<Rightarrow> cb_bytes (bo_content out) = ''abcd'' \<and> bo_limit_reached out \<and> bo_complete out
          \<and> \<not> reached_capture_boundary_before_eof out
      | _ \<Rightarrow> False)"

definition incomplete_output_below_limit_reports_unproven_absence :: "deps \<Rightarrow> bool" where
  "incomplete_output_below_limit_reports_unproven_absence D \<longleftrightarrow>
     (let out = buffered_output_default
        \<lparr>bo_content := fst (append_limited (bo_content buffered_output_default) ''aaa'' 4)\<rparr>
      in \<not> reached_capture_boundary_before_eof out
        \<and> contains_bytes (error_text (missing_required_output_error D out ''stdout'' ''sh'' 4 ''ready''))
          ''remained open after the command exited, cannot prove required text'')"

definition output_capture_reports_match_before_eof :: bool where
  "output_capture_reports_match_before_eof \<longleftrightarrow>
     (let t = send_current (absorb_read 65536 [''ok''] ''ok'' (spawn_output_capture [''ok'']));
          out = ot_state t
      in ot_version t \<noteq> ot_version (spawn_output_capture [''ok''])
        \<and> cb_bytes (bo_content out) = ''ok'' \<and> \<not> cb_incomplete (bo_content out)
        \<and> bo_matched out \<and> \<not> bo_complete out)"

text \<open>
  A task that publishes nothing and whose result is not in the shared state: as long as the timer
  of 30 milliseconds has not run out, the wait can only go on or return that result.
\<close>

definition done_output :: buffered_output where
  "done_output = buffered_output_default
     \<lparr>bo_content := fst (append_limited (bo_content buffered_output_default) ''done'' 65536),
      bo_complete := True\<rparr>"

definition done_wait :: "await_state" where
  "done_wait = \<lparr>aw_task = (spawn_output_capture [])\<lparr>ot_pc := Ended (Inr done_output)\<rparr>,
     aw_seen = 0, aw_now = 0, aw_pc = Settle (30 * MILLISECOND)\<rparr>"

definition output_settle_treats_closed_progress_channel_as_finished_task :: bool where
  "output_settle_treats_closed_progress_channel_as_finished_task \<longleftrightarrow>
     cb_bytes (bo_content done_output) = ''done''
     \<and> (\<forall>stream deadline s. (await_step 65536 [] stream deadline deadline)\<^sup>*\<^sup>* done_wait s
          \<and> aw_now s < 30 * MILLISECOND \<longrightarrow>
          aw_pc s = Settle (30 * MILLISECOND) \<or> aw_pc s = Returned (Inr done_output))"

lemma output_settle_test: "output_settle_treats_closed_progress_channel_as_finished_task"
proof -
  have "cb_bytes (bo_content done_output) = ''done''" by code_simp
  moreover have "aw_pc s = Settle (30 * MILLISECOND) \<or> aw_pc s = Returned (Inr done_output)"
    if "(await_step 65536 [] stream deadline deadline)\<^sup>*\<^sup>* done_wait s" "aw_now s < 30 * MILLISECOND"
    for stream deadline s
    by (rule ended_task_is_joined [OF that(1) _ _ _ that(2)])
      (simp_all add: done_wait_def spawn_output_capture_def)
  ultimately show ?thesis
    unfolding output_settle_treats_closed_progress_channel_as_finished_task_def by blast
qed

text \<open>
  What the tests below schedule: a writer that adds to the pipe twice after 30 milliseconds, which
  the waiter sees each time before its 50 milliseconds are over, and a change of the shared state
  behind a task that is stuck.
\<close>

definition output_capture_waits_while_output_is_progressing_after_exit :: bool where
  "output_capture_waits_while_output_is_progressing_after_exit \<longleftrightarrow>
     (let deadline = 1000 * MILLISECOND;
          writes = (\<lambda>data. [Task (Reads data), Task Sends, Sees_change, Turns])
      in case run_schedule 65536 [''ready''] ''ready'' deadline (output_deadline 0 deadline)
           (Turns # writes ''rea'' @ Passes (30 * MILLISECOND) # writes ''d''
              @ Passes (30 * MILLISECOND) # writes ''y'')
           (await_start (spawn_output_capture [''ready'']) 0) of
         Some s \<Rightarrow>
           (case aw_pc s of
              Returned (Inr out) \<Rightarrow> cb_bytes (bo_content out) = ''ready'' \<and> bo_matched out
            | _ \<Rightarrow> False)
       | None \<Rightarrow> False)"

definition output_settle_timeout_returns_latest_snapshot :: bool where
  "output_settle_timeout_returns_latest_snapshot \<longleftrightarrow>
     (let wait = start_settle (100 * MILLISECOND) (30 * MILLISECOND) (await_start (spawn_output_capture []) 0);
          latest = fst (append_limited (bo_content buffered_output_default) ''latest'' 65536);
          run = run_schedule 65536 [] [] (100 * MILLISECOND) (100 * MILLISECOND)
      in case run [Passes (10 * MILLISECOND)] wait of
           Some s \<Rightarrow>
             (let t = aw_task s;
                  updated = s\<lparr>aw_task := t\<lparr>ot_state := (ot_state t)\<lparr>bo_content := latest\<rparr>\<rparr>\<rparr>
              in case run [Passes (20 * MILLISECOND), Expires] updated of
                   Some s' \<Rightarrow>
                     (case aw_pc s' of
                        Returned (Inr out) \<Rightarrow> cb_bytes (bo_content out) = ''latest''
                      | _ \<Rightarrow> False)
                 | None \<Rightarrow> False)
         | None \<Rightarrow> False)"

lemma exec_tests:
  "read_limited_marks_output_beyond_limit_incomplete"
  "read_limited_leaves_short_output_complete"
  "read_limited_reports_reader_errors_as_probe_failures"
  "complete_output_at_limit_proves_absence"
  "incomplete_output_below_limit_reports_unproven_absence example_deps"
  "output_capture_reports_match_before_eof"
  "output_capture_waits_while_output_is_progressing_after_exit"
  "output_settle_timeout_returns_latest_snapshot"
  by code_simp+

end
