(* ===== verification/Contract_Tests.thy ===== *)
theory Contract_Tests
  imports Main_Entry "HOL-Library.Code_Target_Nat"
begin

text \<open>
  The contract tests of the command line (\<open>tests/cli_contract.rs\<close>) on the model: a definition for
  every test function whose subject is the program, and for each group the lemma that they
  hold. The tests of help, silence, expansion and success run the whole program, from the raw
  arguments to the exit status and what is written. What clap makes of the arguments that reach
  it, and what the service does, is the fixture of each test: clap's answer is given for exactly
  the argument list that the program should hand to it, so that another list fails the test. The
  tests of what a command rejects, and of what it makes of an answer, start from the parsed
  command, whose error \<open>main_parsed\<close> turns into the exit status and the output. Left out are the
  tests of clap's help texts and of its own parsing of numbers.
\<close>

section \<open>Evaluation\<close>

text \<open>
  For the evaluation of a whole run, a sequence of steps is evaluated one step at a time: what
  follows a failing step is never looked at, and what is bound is evaluated once, before its uses.
\<close>

datatype 'a hold = Hold 'a

lemma let_hold [code_unfold]: "Let e f = (case Hold e of Hold x \<Rightarrow> f x)"
  by simp

lemma bindR_case [code_unfold]: "bindR m f = (case m of Inl e \<Rightarrow> Inl e | Inr x \<Rightarrow> f x)"
  by (cases m) simp_all

section \<open>Fixtures\<close>

definition no_tls :: tls_args where
  "no_tls = \<lparr>tls_ca = None, tls_cert = None, tls_key = None, tls_server_name = None,
     tls_insecure_skip_verify = False\<rparr>"

definition http_defaults :: http_args where
  "http_defaults = \<lparr>http_url = None, http_sock = None, http_path = None, http_method = ''GET'',
     http_header = [], http_host = None, http_status = [], http_header_present = [],
     http_header_equals = [], http_header_contains = [], http_header_not_contains = [],
     http_body_equals = None, http_contains = [], http_not_contains = [], http_tls = no_tls,
     http_max_body = 65536\<rparr>"

definition grpc_defaults :: "string \<Rightarrow> grpc_args" where
  "grpc_defaults addr = \<lparr>grpc_addr = addr, grpc_service = None, grpc_tls = False,
     grpc_authority = None, grpc_tls_args = no_tls\<rparr>"

definition exec_defaults :: "string list \<Rightarrow> exec_args" where
  "exec_defaults command = \<lparr>exec_exit_code = [], exec_stdout_contains = [],
     exec_stderr_contains = [], exec_max_output = 65536, exec_command = command\<rparr>"

definition file_defaults :: "string \<Rightarrow> file_args" where
  "file_defaults path = \<lparr>file_path = path, file_readable = False, file_non_empty = False,
     file_contains = [], file_min_size = None, file_max_size = None, file_max_age = None,
     file_max_read = 65536\<rparr>"

definition cli_defaults :: "command \<Rightarrow> cli" where
  "cli_defaults command = \<lparr>cli_timeout = 3000000000, cli_max_latency = None, cli_quiet = False,
     cli_verbose = False, cli_command = command\<rparr>"

text \<open>What clap answers: its help, its version, an error of its own, or one of \<open>parse_duration\<close>.\<close>

definition shows_help :: "string \<Rightarrow> clap_error + cli" where
  "shows_help text = Inl \<lparr>ce_kind = DisplayHelp, ce_text = text\<rparr>"

definition shows_version :: "string \<Rightarrow> clap_error + cli" where
  "shows_version text = Inl \<lparr>ce_kind = DisplayVersion, ce_text = text\<rparr>"

definition rejects :: "string \<Rightarrow> clap_error + cli" where
  "rejects text = Inl \<lparr>ce_kind = error_kind.OtherKind, ce_text = ''error: '' @ text\<rparr>"

definition rejects_duration :: "deps \<Rightarrow> string \<Rightarrow> clap_error + cli" where
  "rejects_duration D raw =
     (case parse_duration D raw of Inl error \<Rightarrow> rejects (error_text error) | Inr _ \<Rightarrow> rejects [])"

text \<open>The worlds: variables, a file, a body that a server answers with, and a child's output.\<close>

type_synonym test_world = "(uri, uri, uri) main_world"

definition with_env :: "(string \<times> string) list \<Rightarrow> test_world" where
  "with_env pairs = example_main_world\<lparr>mw_env := map_of pairs\<rparr>"

definition with_file :: "string \<Rightarrow> string \<Rightarrow> test_world" where
  "with_file a b = example_main_world\<lparr>mw_file := example_file_world a b\<rparr>"

definition without_file :: test_world where
  "without_file = example_main_world
     \<lparr>mw_file := (example_file_world [] [])
        \<lparr>fw_metadata := Inl \<lparr>io_kind = NotFound, io_text = ''No such file or directory''\<rparr>\<rparr>\<rparr>"

definition answering :: "http_body \<Rightarrow> test_world" where
  "answering body = example_main_world
     \<lparr>mw_http := (example_http_world [])
        \<lparr>hw_request := (\<lambda>_ _. Inr ((example_response [])\<lparr>hr_body := body\<rparr>))\<rparr>\<rparr>"

definition without_socket :: test_world where
  "without_socket = example_main_world
     \<lparr>mw_http := (example_http_world [])\<lparr>hw_unix_connect := (\<lambda>_. Inl ''No such file or directory'')\<rparr>\<rparr>"

definition unspawnable :: "io_kind \<Rightarrow> string \<Rightarrow> test_world" where
  "unspawnable kind text = example_main_world
     \<lparr>mw_exec := example_exec_world\<lparr>ew_spawn := (\<lambda>_. Inl \<lparr>io_kind = kind, io_text = text\<rparr>)\<rparr>\<rparr>"

definition read_to_end :: "nat \<Rightarrow> string list \<Rightarrow> string list \<Rightarrow> buffered_output result" where
  "read_to_end limit texts reads =
     (case read_limited reads None limit texts of Some r \<Rightarrow> r | None \<Rightarrow> Inl (Internal []))"

definition read_so_far :: "nat \<Rightarrow> string list \<Rightarrow> string list \<Rightarrow> buffered_output result" where
  "read_so_far limit texts reads =
     Inr (ot_state (fold (\<lambda>data t. send_current (absorb_read limit texts data t)) reads
       (spawn_output_capture texts)))"

definition with_stdout :: "buffered_output result \<Rightarrow> test_world" where
  "with_stdout captured = example_main_world
     \<lparr>mw_exec := example_exec_world
        \<lparr>ew_wait := Some (Inr \<lparr>es_code = Some 0, es_signal = None\<rparr>, 4),
         ew_await_stdout := (\<lambda>_ now. (captured, now))\<rparr>\<rparr>"

text \<open>The run of the program, and what a test asserts of it.\<close>

definition answer_of :: "(string list \<times> (clap_error + cli)) list \<Rightarrow> string list \<Rightarrow> clap_error + cli" where
  "answer_of clap given =
     (case map_of clap given of Some answer \<Rightarrow> answer | None \<Rightarrow> rejects ''not the arguments expected'')"

definition run_salus :: "deps \<Rightarrow> test_world \<Rightarrow> (string list \<times> (clap_error + cli)) list \<Rightarrow> string list
    \<Rightarrow> nat \<times> writes" where
  "run_salus D w clap args =
     main_process D (w\<lparr>mw_try_parse_from := answer_of clap\<rparr>) (''salus'' # args)"

text \<open>Whether a text occurs in another, as a search that stops at the first difference.\<close>

fun begins :: "string \<Rightarrow> string \<Rightarrow> bool" where
  "begins cs [] = True"
| "begins [] (p # ps) = False"
| "begins (c # cs) (p # ps) = (if c = p then begins cs ps else False)"

fun mentions :: "string \<Rightarrow> string \<Rightarrow> bool" where
  "mentions [] pat = (pat = [])"
| "mentions (c # cs) pat = (if begins (c # cs) pat then True else mentions cs pat)"

lemma begins_iff: "begins cs pat \<longleftrightarrow> prefix pat cs"
  by (induction cs pat rule: begins.induct) auto

lemma mentions_iff: "mentions cs pat \<longleftrightarrow> sublist pat cs"
  by (induction cs) (auto simp: begins_iff sublist_Cons_right)

definition written :: "stream \<Rightarrow> writes \<Rightarrow> string" where
  "written s ws = concat (List.map snd (filter (\<lambda>w. fst w = s) ws))"

definition prints :: "nat \<times> writes \<Rightarrow> string \<Rightarrow> bool" where
  "prints output text \<longleftrightarrow> fst output = 0 \<and> mentions (written Stdout (snd output)) text
     \<and> written Stderr (snd output) = []"

definition silent :: "nat \<times> writes \<Rightarrow> nat \<Rightarrow> bool" where
  "silent output code \<longleftrightarrow> fst output = code \<and> written Stdout (snd output) = []
     \<and> written Stderr (snd output) = []"

definition reports :: "nat \<times> writes \<Rightarrow> nat \<Rightarrow> string list \<Rightarrow> string list \<Rightarrow> bool" where
  "reports output code present absent \<longleftrightarrow> fst output = code \<and> written Stdout (snd output) = []
     \<and> list_all (mentions (written Stderr (snd output))) present
     \<and> \<not> list_ex (mentions (written Stderr (snd output))) absent"

definition fails :: "'a result \<Rightarrow> int \<Rightarrow> string list \<Rightarrow> string list \<Rightarrow> bool" where
  "fails r code present absent =
     (case r of
        Inl error \<Rightarrow> exit_code error = code \<and> list_all (mentions (error_text error)) present
          \<and> \<not> list_ex (mentions (error_text error)) absent
      | Inr _ \<Rightarrow> False)"

section \<open>Runs that end before a probe\<close>

text \<open>The part of a run that needs no service: it ends there when clap does not accept the arguments.\<close>

definition clap_stage :: "deps \<Rightarrow> (string list \<times> (clap_error + cli)) list \<Rightarrow> string list
    \<Rightarrow> (int \<times> writes) option" where
  "clap_stage D clap given =
     (case answer_of clap given of
        Inl error \<Rightarrow>
          (let code = (case ce_kind error of DisplayHelp \<Rightarrow> 0 | DisplayVersion \<Rightarrow> 0 | _ \<Rightarrow> 3);
               success = (code = 0)
           in Some (code,
             if success \<or> \<not> requests_quiet (root_command (feature_grpc D)) given
             then print_clap_error (ce_text error) success else []))
      | Inr _ \<Rightarrow> None)"

definition outcome_without_probe :: "deps \<Rightarrow> (string \<times> string) list
    \<Rightarrow> (string list \<times> (clap_error + cli)) list \<Rightarrow> string list \<Rightarrow> (int \<times> writes) option" where
  "outcome_without_probe D env clap args =
     (let root = root_command (feature_grpc D) in
      case help_or_version_args root (''salus'' # args) of
        Some given \<Rightarrow> clap_stage D clap given
      | None \<Rightarrow>
          (case expand_argv_with_partial D (map_of env) (''salus'' # args) of
             Inr given \<Rightarrow> clap_stage D clap given
           | Inl error \<Rightarrow>
               Some (error_print_and_exit (ea_error error)
                 (requests_quiet root (with_raw_tail (ea_partial_args error) (ea_raw_tail error))))))"

lemma clap_stage_run:
  "clap_stage D clap given = Some out \<Longrightarrow>
     main_parsed D (w\<lparr>mw_try_parse_from := answer_of clap\<rparr>) given = out"
  by (auto simp: clap_stage_def main_parsed_def Let_def split: sum.splits error_kind.splits)

lemma outcome_without_probe_run:
  "outcome_without_probe D env clap args = Some out \<Longrightarrow>
     run_salus D (with_env env) clap args = (process_exit D (fst out), snd out)"
  by (auto simp: outcome_without_probe_def run_salus_def main_process_def main_entry_def with_env_def
      Let_def case_prod_unfold clap_stage_run split: option.splits sum.splits)

lemma run_without_probe:
  assumes "case outcome_without_probe D env clap args of
      Some (code, ws) \<Rightarrow> P (process_exit D code, ws) | None \<Rightarrow> False"
  shows "P (run_salus D (with_env env) clap args)"
  using assms by (auto simp: outcome_without_probe_run split: option.splits)

lemmas run_without_probe_prints = run_without_probe [where P = "\<lambda>out. prints out str" for str]
lemmas run_without_probe_silent = run_without_probe [where P = "\<lambda>out. silent out code" for code]
lemmas run_without_probe_reports =
  run_without_probe [where P = "\<lambda>out. reports out code present absent" for code present absent]

section \<open>Help and version\<close>

definition help_does_not_require_environment_expansion :: "deps \<Rightarrow> bool" where
  "help_does_not_require_environment_expansion D \<longleftrightarrow>
     prints (run_salus D (with_env [])
       [([''salus'', ''http'', ''--help''], shows_help ''Probe an HTTP or HTTPS health endpoint'')]
       [''http'', ''--url'', ''${SALUS_TEST_MISSING_ENV}'', ''--help''])
       ''Probe an HTTP or HTTPS health endpoint''"

definition help_does_not_parse_environment_expanded_durations :: "deps \<Rightarrow> bool" where
  "help_does_not_parse_environment_expanded_durations D \<longleftrightarrow>
     prints (run_salus D (with_env [])
       [([''salus'', ''--help''], shows_help ''Container health check probe runner'')]
       [''--timeout'', ''${SALUS_TEST_MISSING_ENV}'', ''--help''])
       ''Container health check probe runner''"

definition help_subcommand_does_not_parse_environment_expanded_durations :: "deps \<Rightarrow> bool" where
  "help_subcommand_does_not_parse_environment_expanded_durations D \<longleftrightarrow>
     prints (run_salus D (with_env [])
       [([''salus'', ''help''], shows_help ''Container health check probe runner'')]
       [''--timeout'', ''${SALUS_TEST_MISSING_ENV}'', ''help''])
       ''Container health check probe runner''"

definition help_subcommand_does_not_require_environment_expansion :: "deps \<Rightarrow> bool" where
  "help_subcommand_does_not_require_environment_expansion D \<longleftrightarrow>
     prints (run_salus D (with_env [])
       [([''salus'', ''help'', ''http''], shows_help ''Probe an HTTP or HTTPS health endpoint'')]
       [''help'', ''http'', ''--url'', ''${SALUS_TEST_MISSING_ENV}''])
       ''Probe an HTTP or HTTPS health endpoint''"

definition help_subcommand_help_flag_prints_help_command_usage :: "deps \<Rightarrow> bool" where
  "help_subcommand_help_flag_prints_help_command_usage D \<longleftrightarrow>
     prints (run_salus D (with_env [])
       [([''salus'', ''help'', ''help''], shows_help ''Usage: salus help [COMMAND]...'')]
       [''help'', ''--help''])
       ''Usage: salus help [COMMAND]...''
     \<and> prints (run_salus D (with_env [])
       [([''salus'', ''help'', ''help''], shows_help ''Usage: salus help [COMMAND]...'')]
       [''help'', ''-h''])
       ''Usage: salus help [COMMAND]...''"

definition version_does_not_parse_environment_expanded_durations :: "deps \<Rightarrow> bool" where
  "version_does_not_parse_environment_expanded_durations D \<longleftrightarrow>
     prints (run_salus D (with_env [])
       [([''salus'', ''--version''], shows_version ''salus 0'')]
       [''--timeout'', ''${SALUS_TEST_MISSING_ENV}'', ''--version''])
       ''salus ''"

definition subcommand_version_does_not_skip_environment_expansion :: "deps \<Rightarrow> bool" where
  "subcommand_version_does_not_skip_environment_expansion D \<longleftrightarrow>
     reports (run_salus D (with_env [])
       []
       [''http'', ''--url'', ''${SALUS_TEST_MISSING_ENV}'', ''--version''])
       3 [''environment variable SALUS_TEST_MISSING_ENV is not set''] []"

definition exec_help_does_not_require_environment_expansion :: "deps \<Rightarrow> bool" where
  "exec_help_does_not_require_environment_expansion D \<longleftrightarrow>
     prints (run_salus D (with_env [])
       [([''salus'', ''exec'', ''--help''], shows_help ''Run a command and evaluate its exit code and output'')]
       [''exec'', ''--stdout-contains'', ''${SALUS_TEST_MISSING_ENV}'', ''--help''])
       ''Run a command and evaluate its exit code and output''"

definition exec_help_does_not_parse_environment_expanded_durations :: "deps \<Rightarrow> bool" where
  "exec_help_does_not_parse_environment_expanded_durations D \<longleftrightarrow>
     prints (run_salus D (with_env [])
       [([''salus'', ''exec'', ''--help''], shows_help ''Run a command and evaluate its exit code and output'')]
       [''exec'', ''--timeout'', ''${SALUS_TEST_MISSING_ENV}'', ''--help''])
       ''Run a command and evaluate its exit code and output''"

definition exec_version_argument_does_not_skip_environment_expansion :: "deps \<Rightarrow> bool" where
  "exec_version_argument_does_not_skip_environment_expansion D \<longleftrightarrow>
     reports (run_salus D (with_env [])
       []
       [''exec'', ''--stdout-contains'', ''${SALUS_TEST_MISSING_ENV}'', ''--version''])
       3 [''environment variable SALUS_TEST_MISSING_ENV is not set''] []"

definition option_value_positions_named_like_help_are_not_treated_as_help :: "deps \<Rightarrow> bool" where
  "option_value_positions_named_like_help_are_not_treated_as_help D \<longleftrightarrow>
     reports (run_salus D (with_env [])
       [([''salus'', ''file'', ''--path'', ''/tmp/salus-test'', ''--max-age'', ''--help''], rejects (''a value is required for '' @ [squote] @ ''--max-age <DURATION>'' @ [squote]))]
       [''file'', ''--path'', ''/tmp/salus-test'', ''--max-age'', ''--help''])
       3 [(''a value is required for '' @ [squote] @ ''--max-age <DURATION>'' @ [squote])] []"

definition later_help_does_not_hide_missing_option_value :: "deps \<Rightarrow> bool" where
  "later_help_does_not_hide_missing_option_value D \<longleftrightarrow>
     reports (run_salus D (with_env [])
       [([''salus'', ''http'', ''--url'', ''--bad'', ''--help''], rejects (''unexpected argument '' @ [squote] @ ''--bad'' @ [squote]))]
       [''http'', ''--url'', ''--bad'', ''--help''])
       3 [(''unexpected argument '' @ [squote] @ ''--bad'' @ [squote])] []"

definition later_exec_help_does_not_hide_missing_assertion_value :: "deps \<Rightarrow> bool" where
  "later_exec_help_does_not_hide_missing_assertion_value D \<longleftrightarrow>
     reports (run_salus D (with_env [])
       [([''salus'', ''exec'', ''--stdout-contains'', ''--quiet'', ''--help'', ''--'', ''sh'', ''-c'', ''exit 0''], rejects (''a value is required for '' @ [squote] @ ''--stdout-contains <TEXT>'' @ [squote]))]
       [''exec'', ''--stdout-contains'', ''--quiet'', ''--help'', ''--'', ''sh'', ''-c'', ''exit 0''])
       3 [(''a value is required for '' @ [squote] @ ''--stdout-contains <TEXT>'' @ [squote])] []"

definition exec_assertion_does_not_consume_unknown_option_before_command :: "deps \<Rightarrow> bool" where
  "exec_assertion_does_not_consume_unknown_option_before_command D \<longleftrightarrow>
     reports (run_salus D (with_env [])
       [([''salus'', ''exec'', ''--stdout-contains'', ''--bad'', ''--help'', ''--'', ''sh'', ''-c'', ''echo --bad''], rejects (''unexpected argument '' @ [squote] @ ''--bad'' @ [squote]))]
       [''exec'', ''--stdout-contains'', ''--bad'', ''--help'', ''--'', ''sh'', ''-c'', ''echo --bad''])
       3 [(''unexpected argument '' @ [squote] @ ''--bad'' @ [squote])] []"

definition help_prescan_stops_at_non_utf8_unknown_argument :: "deps \<Rightarrow> bool" where
  "help_prescan_stops_at_non_utf8_unknown_argument D \<longleftrightarrow>
     reports (run_salus D (with_env [])
       [([''salus'', [CHR 0xFF], ''--help''], rejects ''invalid UTF-8'')]
       [[CHR 0xFF], ''--help''])
       3 [''error:''] []"

section \<open>Silence, expansion and parse errors\<close>

definition missing_environment_variable_exits_three :: "deps \<Rightarrow> bool" where
  "missing_environment_variable_exits_three D \<longleftrightarrow>
     reports (run_salus D (with_env [])
       []
       [''file'', ''--path'', ''/tmp/ready'', ''--contains'', ''${SALUS_TEST_MISSING_ENV}''])
       3 [''environment variable SALUS_TEST_MISSING_ENV is not set''] []"

definition quiet_suppresses_environment_expansion_errors :: "deps \<Rightarrow> bool" where
  "quiet_suppresses_environment_expansion_errors D \<longleftrightarrow>
     silent (run_salus D (with_env [])
       []
       [''--quiet'', ''file'', ''--path'', ''/tmp/ready'', ''--contains'', ''${SALUS_TEST_MISSING_ENV}'']) 3"

definition later_quiet_suppresses_environment_expansion_errors_when_prefix_remains_valid :: "deps \<Rightarrow> bool" where
  "later_quiet_suppresses_environment_expansion_errors_when_prefix_remains_valid D \<longleftrightarrow>
     silent (run_salus D (with_env [])
       []
       [''file'', ''--path'', ''/tmp/ready'', ''--contains'', ''${SALUS_TEST_MISSING_ENV}'', ''--quiet'']) 3"

definition quiet_suppresses_cli_parse_errors :: "deps \<Rightarrow> bool" where
  "quiet_suppresses_cli_parse_errors D \<longleftrightarrow>
     silent (run_salus D (with_env [])
       [([''salus'', ''--quiet'', ''--bad-flag''], rejects (''unexpected argument '' @ [squote] @ ''--bad-flag'' @ [squote]))]
       [''--quiet'', ''--bad-flag'']) 3"

definition quiet_does_not_suppress_verbose_conflict_errors :: "deps \<Rightarrow> bool" where
  "quiet_does_not_suppress_verbose_conflict_errors D \<longleftrightarrow>
     reports (run_salus D (with_env [])
       [([''salus'', ''--quiet'', ''--verbose'', ''file'', ''--path'', ''/tmp/salus-test''], rejects (''the argument '' @ [squote] @ ''--quiet'' @ [squote] @ '' cannot be used with '' @ [squote] @ ''--verbose'' @ [squote]))]
       [''--quiet'', ''--verbose'', ''file'', ''--path'', ''/tmp/salus-test''])
       3 [''--quiet'', ''--verbose''] []"

definition leading_quiet_suppresses_missing_option_value_errors :: "deps \<Rightarrow> bool" where
  "leading_quiet_suppresses_missing_option_value_errors D \<longleftrightarrow>
     silent (run_salus D (with_env [])
       [([''salus'', ''--quiet'', ''file'', ''--path'', ''/tmp/salus-test'', ''--max-age'', ''--bad''], rejects (''unexpected argument '' @ [squote] @ ''--bad'' @ [squote]))]
       [''--quiet'', ''file'', ''--path'', ''/tmp/salus-test'', ''--max-age'', ''--bad'']) 3"

definition exec_quiet_does_not_suppress_verbose_conflict_errors :: "deps \<Rightarrow> bool" where
  "exec_quiet_does_not_suppress_verbose_conflict_errors D \<longleftrightarrow>
     reports (run_salus D (with_env [])
       [([''salus'', ''exec'', ''--quiet'', ''--verbose'', ''--'', ''sh'', ''-c'', ''exit 0''], rejects (''the argument '' @ [squote] @ ''--quiet'' @ [squote] @ '' cannot be used with '' @ [squote] @ ''--verbose'' @ [squote]))]
       [''exec'', ''--quiet'', ''--verbose'', ''--'', ''sh'', ''-c'', ''exit 0''])
       3 [''--quiet'', ''--verbose''] []"

definition leading_exec_quiet_suppresses_missing_assertion_value_errors :: "deps \<Rightarrow> bool" where
  "leading_exec_quiet_suppresses_missing_assertion_value_errors D \<longleftrightarrow>
     silent (run_salus D (with_env [])
       [([''salus'', ''exec'', ''--quiet'', ''--stdout-contains'', ''--bad'', ''--'', ''sh'', ''-c'', ''exit 0''], rejects (''unexpected argument '' @ [squote] @ ''--bad'' @ [squote]))]
       [''exec'', ''--quiet'', ''--stdout-contains'', ''--bad'', ''--'', ''sh'', ''-c'', ''exit 0'']) 3"

definition expanded_quiet_suppresses_cli_parse_errors :: "deps \<Rightarrow> bool" where
  "expanded_quiet_suppresses_cli_parse_errors D \<longleftrightarrow>
     silent (run_salus D (with_env [(''SALUS_TEST_QUIET'', ''--quiet'')])
       [([''salus'', ''--quiet'', ''--bad-flag''], rejects (''unexpected argument '' @ [squote] @ ''--bad-flag'' @ [squote]))]
       [''${SALUS_TEST_QUIET}'', ''--bad-flag'']) 3"

definition raw_quiet_does_not_suppress_parse_errors_after_expansion_changes_argv_shape :: "deps \<Rightarrow> bool" where
  "raw_quiet_does_not_suppress_parse_errors_after_expansion_changes_argv_shape D \<longleftrightarrow>
     reports (run_salus D (with_env [(''SALUS_TEST_BAD_OPTION'', ''--bad'')])
       [([''salus'', ''--timeout'', ''--bad'', ''--quiet'', ''file'', ''--path'', ''/tmp/salus-test''], rejects (''unexpected argument '' @ [squote] @ ''--bad'' @ [squote]))]
       [''--timeout'', ''${SALUS_TEST_BAD_OPTION}'', ''--quiet'', ''file'', ''--path'', ''/tmp/salus-test''])
       3 [(''unexpected argument '' @ [squote] @ ''--bad'' @ [squote])] []"

definition raw_quiet_does_not_suppress_environment_errors_after_expansion_changes_argv_shape :: "deps \<Rightarrow> bool" where
  "raw_quiet_does_not_suppress_environment_errors_after_expansion_changes_argv_shape D \<longleftrightarrow>
     reports (run_salus D (with_env [(''SALUS_TEST_BAD_OPTION'', ''--bad'')])
       []
       [''--timeout'', ''${SALUS_TEST_BAD_OPTION}'', ''--quiet'', ''file'', ''--path'', ''${SALUS_TEST_MISSING_ENV}''])
       3 [''environment variable SALUS_TEST_MISSING_ENV is not set''] []"

definition expanded_quiet_suppresses_later_environment_expansion_errors :: "deps \<Rightarrow> bool" where
  "expanded_quiet_suppresses_later_environment_expansion_errors D \<longleftrightarrow>
     silent (run_salus D (with_env [(''SALUS_TEST_QUIET'', ''--quiet'')])
       []
       [''${SALUS_TEST_QUIET}'', ''file'', ''--path'', ''${SALUS_TEST_MISSING_ENV}'']) 3"

definition quiet_prescan_does_not_accept_subcommand_options_at_root :: "deps \<Rightarrow> bool" where
  "quiet_prescan_does_not_accept_subcommand_options_at_root D \<longleftrightarrow>
     reports (run_salus D (with_env [])
       [([''salus'', ''--url'', ''http://127.0.0.1:8080'', ''--quiet''], rejects (''unexpected argument '' @ [squote] @ ''--url'' @ [squote]))]
       [''--url'', ''http://127.0.0.1:8080'', ''--quiet''])
       3 [(''unexpected argument '' @ [squote] @ ''--url'' @ [squote])] []"

definition quiet_prescan_stops_at_non_utf8_unknown_argument :: "deps \<Rightarrow> bool" where
  "quiet_prescan_stops_at_non_utf8_unknown_argument D \<longleftrightarrow>
     reports (run_salus D (with_env [])
       [([''salus'', [CHR 0xFF], ''--quiet''], rejects ''invalid UTF-8'')]
       [[CHR 0xFF], ''--quiet''])
       3 [''error:''] []"

definition quiet_prescan_keeps_valid_quiet_before_non_utf8_unknown_argument :: "deps \<Rightarrow> bool" where
  "quiet_prescan_keeps_valid_quiet_before_non_utf8_unknown_argument D \<longleftrightarrow>
     silent (run_salus D (with_env [])
       [([''salus'', ''--quiet'', [CHR 0xFF]], rejects ''invalid UTF-8'')]
       [''--quiet'', [CHR 0xFF]]) 3"

definition quiet_prescan_stops_at_non_utf8_unknown_subcommand_argument :: "deps \<Rightarrow> bool" where
  "quiet_prescan_stops_at_non_utf8_unknown_subcommand_argument D \<longleftrightarrow>
     reports (run_salus D (with_env [])
       [([''salus'', ''file'', [CHR 0xFF], ''--quiet''], rejects ''invalid UTF-8'')]
       [''file'', [CHR 0xFF], ''--quiet''])
       3 [''error:''] []"

definition quiet_prescan_keeps_valid_subcommand_quiet_before_non_utf8_unknown_argument :: "deps \<Rightarrow> bool" where
  "quiet_prescan_keeps_valid_subcommand_quiet_before_non_utf8_unknown_argument D \<longleftrightarrow>
     silent (run_salus D (with_env [])
       [([''salus'', ''file'', ''--quiet'', [CHR 0xFF]], rejects ''invalid UTF-8'')]
       [''file'', ''--quiet'', [CHR 0xFF]]) 3"

definition exec_command_arguments_do_not_enable_quiet_for_environment_errors :: "deps \<Rightarrow> bool" where
  "exec_command_arguments_do_not_enable_quiet_for_environment_errors D \<longleftrightarrow>
     reports (run_salus D (with_env [])
       []
       [''exec'', ''sh'', ''--quiet'', ''${SALUS_TEST_MISSING_ENV}''])
       3 [''environment variable SALUS_TEST_MISSING_ENV is not set''] []"

definition expanded_exec_command_arguments_do_not_enable_quiet_for_environment_errors :: "deps \<Rightarrow> bool" where
  "expanded_exec_command_arguments_do_not_enable_quiet_for_environment_errors D \<longleftrightarrow>
     reports (run_salus D (with_env [(''SALUS_TEST_QUIET'', ''--quiet'')])
       []
       [''exec'', ''sh'', ''${SALUS_TEST_QUIET}'', ''${SALUS_TEST_MISSING_ENV}''])
       3 [''environment variable SALUS_TEST_MISSING_ENV is not set''] []"

definition exec_version_argument_does_not_enable_quiet :: "deps \<Rightarrow> bool" where
  "exec_version_argument_does_not_enable_quiet D \<longleftrightarrow>
     reports (run_salus D (with_env [])
       []
       [''exec'', ''-V'', ''--quiet'', ''${SALUS_TEST_MISSING_ENV}''])
       3 [''environment variable SALUS_TEST_MISSING_ENV is not set''] []"

definition option_value_positions_named_like_quiet_do_not_suppress_errors :: "deps \<Rightarrow> bool" where
  "option_value_positions_named_like_quiet_do_not_suppress_errors D \<longleftrightarrow>
     reports (run_salus D (with_env [])
       [([''salus'', ''file'', ''--path'', ''/tmp/salus-test'', ''--max-age'', ''--quiet''], rejects (''a value is required for '' @ [squote] @ ''--max-age <DURATION>'' @ [squote]))]
       [''file'', ''--path'', ''/tmp/salus-test'', ''--max-age'', ''--quiet''])
       3 [(''a value is required for '' @ [squote] @ ''--max-age <DURATION>'' @ [squote])] []"

definition later_quiet_does_not_suppress_missing_option_value :: "deps \<Rightarrow> bool" where
  "later_quiet_does_not_suppress_missing_option_value D \<longleftrightarrow>
     reports (run_salus D (with_env [])
       [([''salus'', ''file'', ''--path'', ''/tmp/salus-test'', ''--max-age'', ''--bad'', ''--quiet''], rejects (''unexpected argument '' @ [squote] @ ''--bad'' @ [squote]))]
       [''file'', ''--path'', ''/tmp/salus-test'', ''--max-age'', ''--bad'', ''--quiet''])
       3 [(''unexpected argument '' @ [squote] @ ''--bad'' @ [squote])] []"

definition negative_numeric_parser_errors_can_be_quieted :: "deps \<Rightarrow> bool" where
  "negative_numeric_parser_errors_can_be_quieted D \<longleftrightarrow>
     silent (run_salus D (with_env [])
       [([''salus'', ''--timeout'', ''-1.0'', ''--quiet'', ''file'', ''--path'', ''/tmp/salus-test''], rejects_duration D ''-1.0'')]
       [''--timeout'', ''-1.0'', ''--quiet'', ''file'', ''--path'', ''/tmp/salus-test'']) 3
     \<and> silent (run_salus D (with_env [])
       [([''salus'', ''exec'', ''--max-output'', ''-1.0'', ''--quiet'', ''--'', ''sh'', ''-c'', ''exit 0''], rejects (''invalid value '' @ [squote] @ ''-1.0'' @ [squote]))]
       [''exec'', ''--max-output'', ''-1.0'', ''--quiet'', ''--'', ''sh'', ''-c'', ''exit 0'']) 3"

definition invalid_duration_exits_three_and_prints_to_stderr :: "deps \<Rightarrow> bool" where
  "invalid_duration_exits_three_and_prints_to_stderr D \<longleftrightarrow>
     reports (run_salus D (with_env [])
       [([''salus'', ''--timeout'', ''nope'', ''file'', ''--path'', ''/tmp/ready''], rejects_duration D ''nope'')]
       [''--timeout'', ''nope'', ''file'', ''--path'', ''/tmp/ready''])
       3 [''invalid duration: nope''] []"

definition negative_duration_values_reach_value_parsers :: "deps \<Rightarrow> bool" where
  "negative_duration_values_reach_value_parsers D \<longleftrightarrow>
     reports (run_salus D (with_env [])
       [([''salus'', ''--timeout'', ''-1'', ''file'', ''--path'', ''/tmp/salus-test''], rejects_duration D ''-1'')]
       [''--timeout'', ''-1'', ''file'', ''--path'', ''/tmp/salus-test''])
       3 [''invalid duration: -1''] []
     \<and> reports (run_salus D (with_env [])
       [([''salus'', ''file'', ''--path'', ''/tmp/salus-test'', ''--max-age'', ''-1''], rejects_duration D ''-1'')]
       [''file'', ''--path'', ''/tmp/salus-test'', ''--max-age'', ''-1''])
       3 [''invalid duration: -1''] []"

section \<open>The file probe\<close>

definition expands_environment_variables_before_cli_parsing :: "deps \<Rightarrow> bool" where
  "expands_environment_variables_before_cli_parsing D \<longleftrightarrow>
     silent (run_salus D (with_file ''ready'' [newline]\<lparr>mw_env := map_of [(''SALUS_TEST_TIMEOUT'', ''1s''), (''SALUS_TEST_NEEDLE'', ''ready'')]\<rparr>)
       [([''salus'', ''--timeout'', ''1s'', ''file'', ''--path'', ''/tmp/ready'', ''--contains'', ''ready''], Inr ((cli_defaults (File ((file_defaults ''/tmp/ready'')\<lparr>file_contains := [''ready'']\<rparr>)))\<lparr>cli_timeout := 1000000000\<rparr>))]
       [''--timeout'', ''${SALUS_TEST_TIMEOUT}'', ''file'', ''--path'', ''/tmp/ready'', ''--contains'', ''${SALUS_TEST_NEEDLE}'']) 0"

definition environment_variable_defaults_are_supported :: "deps \<Rightarrow> bool" where
  "environment_variable_defaults_are_supported D \<longleftrightarrow>
     silent (run_salus D (with_file ''ready'' [newline]\<lparr>mw_env := map_of []\<rparr>)
       [([''salus'', ''file'', ''--path'', ''/tmp/ready'', ''--contains'', ''ready''], Inr (cli_defaults (File ((file_defaults ''/tmp/ready'')\<lparr>file_contains := [''ready'']\<rparr>))))]
       [''file'', ''--path'', ''/tmp/ready'', ''--contains'', ''${SALUS_TEST_DEFAULT_NEEDLE:-ready}'']) 0"

definition environment_variable_defaults_are_used_for_empty_values :: "deps \<Rightarrow> bool" where
  "environment_variable_defaults_are_used_for_empty_values D \<longleftrightarrow>
     silent (run_salus D (with_file ''ready'' [newline]\<lparr>mw_env := map_of [(''SALUS_TEST_DEFAULT_NEEDLE'', [])]\<rparr>)
       [([''salus'', ''file'', ''--path'', ''/tmp/ready'', ''--contains'', ''ready''], Inr (cli_defaults (File ((file_defaults ''/tmp/ready'')\<lparr>file_contains := [''ready'']\<rparr>))))]
       [''file'', ''--path'', ''/tmp/ready'', ''--contains'', ''${SALUS_TEST_DEFAULT_NEEDLE:-ready}'']) 0"

definition success_is_silent_by_default :: "deps \<Rightarrow> bool" where
  "success_is_silent_by_default D \<longleftrightarrow>
     silent (run_salus D (with_file ''ready'' [newline])
       [([''salus'', ''file'', ''--path'', ''/tmp/ready'', ''--contains'', ''ready''], Inr (cli_defaults (File ((file_defaults ''/tmp/ready'')\<lparr>file_contains := [''ready'']\<rparr>))))]
       [''file'', ''--path'', ''/tmp/ready'', ''--contains'', ''ready'']) 0"

definition verbose_success_prints_structured_line_to_stderr :: "deps \<Rightarrow> bool" where
  "verbose_success_prints_structured_line_to_stderr D \<longleftrightarrow>
     reports (run_salus D (with_file ''ready'' [newline])
       [([''salus'', ''--verbose'', ''file'', ''--path'', ''/tmp/salus cli'', ''--contains'', ''ready''], Inr ((cli_defaults (File ((file_defaults ''/tmp/salus cli'')\<lparr>file_contains := [''ready'']\<rparr>)))\<lparr>cli_verbose := True\<rparr>))]
       [''--verbose'', ''file'', ''--path'', ''/tmp/salus cli'', ''--contains'', ''ready''])
       0 [''result=healthy mode=file'', (''target='' @ [dquote] @ ''/tmp/salus cli'' @ [dquote]), (''detail='' @ [dquote] @ ''size=6B'' @ [dquote])] []"

definition verbose_file_success_escapes_non_utf8_path :: "deps \<Rightarrow> bool" where
  "verbose_file_success_escapes_non_utf8_path D \<longleftrightarrow>
     reports (run_salus D (with_file ''ready'' [newline])
       [([''salus'', ''--verbose'', ''file'', ''--path'', (''/tmp/salus-'' @ [CHR 0xFF]), ''--readable''], Inr ((cli_defaults (File ((file_defaults (''/tmp/salus-'' @ [CHR 0xFF]))\<lparr>file_readable := True\<rparr>)))\<lparr>cli_verbose := True\<rparr>))]
       [''--verbose'', ''file'', ''--path'', (''/tmp/salus-'' @ [CHR 0xFF]), ''--readable''])
       0 [([backslash] @ ''xFF'')] [[CHR 0xEF, CHR 0xBF, CHR 0xBD]]"

definition quiet_failure_suppresses_stderr :: "deps \<Rightarrow> bool" where
  "quiet_failure_suppresses_stderr D \<longleftrightarrow>
     silent (run_salus D (with_file ''ready'' [newline])
       [([''salus'', ''--quiet'', ''file'', ''--path'', ''/tmp/ready'', ''--contains'', ''missing''], Inr ((cli_defaults (File ((file_defaults ''/tmp/ready'')\<lparr>file_contains := [''missing'']\<rparr>)))\<lparr>cli_quiet := True\<rparr>))]
       [''--quiet'', ''file'', ''--path'', ''/tmp/ready'', ''--contains'', ''missing'']) 1"

definition failure_prints_message_to_stderr_by_default :: "deps \<Rightarrow> bool" where
  "failure_prints_message_to_stderr_by_default D \<longleftrightarrow>
     reports (run_salus D (with_file ''ready'' [newline])
       [([''salus'', ''file'', ''--path'', ''/tmp/ready'', ''--contains'', ''missing''], Inr (cli_defaults (File ((file_defaults ''/tmp/ready'')\<lparr>file_contains := [''missing'']\<rparr>))))]
       [''file'', ''--path'', ''/tmp/ready'', ''--contains'', ''missing''])
       1 [(''does not contain required text '' @ [dquote] @ ''missing'' @ [dquote])] []"

definition file_config_errors_are_reported_before_tiny_probe_timeout :: "deps \<Rightarrow> bool" where
  "file_config_errors_are_reported_before_tiny_probe_timeout D \<longleftrightarrow>
     fails (run_cli D (with_file ''ready'' [newline]) ((cli_defaults (File ((file_defaults ''/tmp/salus-test'')\<lparr>file_max_age := Some 0\<rparr>)))\<lparr>cli_timeout := 1\<rparr>))
       3 [''--max-age must be greater than 0''] [''timed out'']"

definition file_error_escapes_control_characters_in_path :: "deps \<Rightarrow> bool" where
  "file_error_escapes_control_characters_in_path D \<longleftrightarrow>
     fails (run_cli D without_file (cli_defaults (File ((file_defaults (''/tmp/salus-cli-bad'' @ [newline] @ ''path''))))))
       1 [([dquote] @ ''/tmp/salus-cli-bad'' @ [backslash] @ ''npath'' @ [dquote])] [(''/tmp/salus-cli-bad'' @ [newline] @ ''path'')]"

section \<open>The TCP and gRPC probes\<close>

definition tcp_error_escapes_control_characters_in_address :: "deps \<Rightarrow> bool" where
  "tcp_error_escapes_control_characters_in_address D \<longleftrightarrow>
     fails (check_command D (Tcp \<lparr>tcp_addr = (''bad'' @ [newline] @ ''addr:80'')\<rparr>))
       3 [([dquote] @ ''bad'' @ [backslash] @ ''naddr:80'' @ [dquote])] [(''bad'' @ [newline] @ ''addr:80'')]"

definition grpc_address_path_is_reported_before_port_shape :: "deps \<Rightarrow> bool" where
  "grpc_address_path_is_reported_before_port_shape D \<longleftrightarrow>
     fails (check_command D (Grpc ((grpc_defaults ''127.0.0.1:50051/healthz''))))
       3 [''path, query, and fragment are not allowed''] [''port must be a valid integer'']"

definition grpc_target_errors_are_reported_before_tls_mode_errors :: "deps \<Rightarrow> bool" where
  "grpc_target_errors_are_reported_before_tls_mode_errors D \<longleftrightarrow>
     fails (check_command D (Grpc ((grpc_defaults ''127.0.0.1:50051/healthz'')\<lparr>grpc_tls_args := no_tls\<lparr>tls_ca := Some ''ca.pem''\<rparr>\<rparr>)))
       3 [''path, query, and fragment are not allowed''] [''gRPC TLS flags require --tls'']"

definition grpc_tls_reports_invalid_address_before_missing_trust :: "deps \<Rightarrow> bool" where
  "grpc_tls_reports_invalid_address_before_missing_trust D \<longleftrightarrow>
     fails (check_command (D\<lparr>feature_webpki := False\<rparr>) (Grpc ((grpc_defaults ''127.0.0.1:0'')\<lparr>grpc_tls := True\<rparr>)))
       3 [(''invalid gRPC address '' @ [dquote] @ ''127.0.0.1:0'' @ [dquote])] []"

definition grpc_tls_reports_invalid_authority_before_missing_trust :: "deps \<Rightarrow> bool" where
  "grpc_tls_reports_invalid_authority_before_missing_trust D \<longleftrightarrow>
     fails (check_command (D\<lparr>feature_webpki := False\<rparr>) (Grpc ((grpc_defaults ''127.0.0.1:9'')\<lparr>grpc_tls := True, grpc_authority := Some ''example.com:0''\<rparr>)))
       3 [(''invalid gRPC authority '' @ [dquote] @ ''example.com:0'' @ [dquote])] []"

section \<open>Arguments of the HTTP probe\<close>

definition http_negative_status_reaches_domain_validation :: "deps \<Rightarrow> bool" where
  "http_negative_status_reaches_domain_validation D \<longleftrightarrow>
     fails (check_command D (Http (http_defaults\<lparr>http_url := Some ''http://127.0.0.1:9/healthz'', http_status := [''-1'']\<rparr>)))
       3 [''invalid status code -1, expected integer''] []"

definition http_header_assertion_errors_are_reported_before_capture_limit_errors :: "deps \<Rightarrow> bool" where
  "http_header_assertion_errors_are_reported_before_capture_limit_errors D \<longleftrightarrow>
     fails (check_command D (Http (http_defaults\<lparr>http_url := Some ''http://127.0.0.1:9/healthz'', http_contains := [''ready''], http_header_contains := [''x-ready:''], http_max_body := 0\<rparr>)))
       3 [''--header-contains value must not be empty''] [''--max-body'']"

definition http_method_error_escapes_control_characters :: "deps \<Rightarrow> bool" where
  "http_method_error_escapes_control_characters D \<longleftrightarrow>
     fails (check_command D (Http (http_defaults\<lparr>http_url := Some ''http://127.0.0.1:9/healthz'', http_method := (''GE'' @ [newline] @ ''T'')\<rparr>)))
       3 [([dquote] @ ''GE'' @ [backslash] @ ''nT'' @ [dquote])] [(''GE'' @ [newline] @ ''T'')]"

definition http_header_errors_report_empty_header_names_consistently :: "deps \<Rightarrow> bool" where
  "http_header_errors_report_empty_header_names_consistently D \<longleftrightarrow>
     fails (check_command D (Http (http_defaults\<lparr>http_url := Some ''http://127.0.0.1:9/healthz'', http_header := ['':ready'']\<rparr>)))
       3 [''--header name must not be empty''] []
     \<and> fails (check_command D (Http (http_defaults\<lparr>http_url := Some ''http://127.0.0.1:9/healthz'', http_header_present := [[]]\<rparr>)))
       3 [''--header-present must not be empty''] []
     \<and> fails (check_command D (Http (http_defaults\<lparr>http_url := Some ''http://127.0.0.1:9/healthz'', http_header_contains := ['':ready'']\<rparr>)))
       3 [''--header-contains name must not be empty''] []"

definition http_target_errors_are_reported_before_request_and_assertion_errors :: "deps \<Rightarrow> bool" where
  "http_target_errors_are_reported_before_request_and_assertion_errors D \<longleftrightarrow>
     fails (check_command D (Http (http_defaults\<lparr>http_url := Some ''bad'', http_status := [''-1'']\<rparr>)))
       3 [''URL scheme is required, expected http or https''] [''invalid status code'', ''--header name must not be empty'', ''unsupported HTTP method'', ''--contains must not be empty'']
     \<and> fails (check_command D (Http (http_defaults\<lparr>http_url := Some ''bad'', http_header := ['':ready'']\<rparr>)))
       3 [''URL scheme is required, expected http or https''] [''invalid status code'', ''--header name must not be empty'', ''unsupported HTTP method'', ''--contains must not be empty'']
     \<and> fails (check_command D (Http (http_defaults\<lparr>http_url := Some ''bad'', http_method := ''POST''\<rparr>)))
       3 [''URL scheme is required, expected http or https''] [''invalid status code'', ''--header name must not be empty'', ''unsupported HTTP method'', ''--contains must not be empty'']
     \<and> fails (check_command D (Http (http_defaults\<lparr>http_url := Some ''bad'', http_contains := [[]]\<rparr>)))
       3 [''URL scheme is required, expected http or https''] [''invalid status code'', ''--header name must not be empty'', ''unsupported HTTP method'', ''--contains must not be empty'']"

definition http_unix_socket_target_errors_are_reported_before_tls_mode_errors :: "deps \<Rightarrow> bool" where
  "http_unix_socket_target_errors_are_reported_before_tls_mode_errors D \<longleftrightarrow>
     fails (check_command D (Http (http_defaults\<lparr>http_sock := Some ''/tmp/salus-missing-path.sock'', http_tls := no_tls\<lparr>tls_ca := Some ''ca.pem''\<rparr>\<rparr>)))
       3 [''--path is required with --sock''] [''TLS flags are not supported with --sock'']"

definition http_status_error_escapes_control_characters :: "deps \<Rightarrow> bool" where
  "http_status_error_escapes_control_characters D \<longleftrightarrow>
     fails (check_command D (Http (http_defaults\<lparr>http_url := Some ''http://127.0.0.1:9/healthz'', http_status := [(''299-200'' @ [newline])]\<rparr>)))
       3 [([dquote] @ ''299-200'' @ [backslash] @ ''n'' @ [dquote])] [(''299-200'' @ [newline])]"

definition http_status_error_quotes_empty_values :: "deps \<Rightarrow> bool" where
  "http_status_error_quotes_empty_values D \<longleftrightarrow>
     fails (check_command D (Http (http_defaults\<lparr>http_url := Some ''http://127.0.0.1:9/healthz'', http_status := [[]]\<rparr>)))
       3 [(''invalid status code '' @ [dquote, dquote] @ '', expected integer'')] []"

definition http_status_error_treats_leading_hyphen_as_invalid_code :: "deps \<Rightarrow> bool" where
  "http_status_error_treats_leading_hyphen_as_invalid_code D \<longleftrightarrow>
     fails (check_command D (Http (http_defaults\<lparr>http_url := Some ''http://127.0.0.1:9/healthz'', http_status := [''-1'']\<rparr>)))
       3 [''invalid status code -1, expected integer''] []"

definition http_url_port_errors_are_normalized_before_url_parsing :: "deps \<Rightarrow> bool" where
  "http_url_port_errors_are_normalized_before_url_parsing D \<longleftrightarrow>
     fails (check_command D (Http (http_defaults\<lparr>http_url := Some ''http://127.0.0.1:65536/healthz''\<rparr>)))
       3 [''URL port must be between 1 and 65535''] [''invalid URL'']
     \<and> fails (check_command D (Http (http_defaults\<lparr>http_url := Some ''http://127.0.0.1:bad/healthz''\<rparr>)))
       3 [''URL port must be a valid integer''] [''invalid URL'']
     \<and> fails (check_command D (Http (http_defaults\<lparr>http_url := Some ''http://127.0.0.1:80:90/healthz''\<rparr>)))
       3 [''URL port must be a valid integer''] [''invalid URL'']"

definition http_empty_url_host_is_reported_before_port_shape :: "deps \<Rightarrow> bool" where
  "http_empty_url_host_is_reported_before_port_shape D \<longleftrightarrow>
     fails (check_command D (Http (http_defaults\<lparr>http_url := Some ''http://:bad/healthz''\<rparr>)))
       3 [''URL must contain a host''] [''URL port'', ''invalid URL'']"

definition http_unbracketed_ipv6_url_host_is_reported_before_port_shape :: "deps \<Rightarrow> bool" where
  "http_unbracketed_ipv6_url_host_is_reported_before_port_shape D \<longleftrightarrow>
     fails (check_command D (Http (http_defaults\<lparr>http_url := Some ''http://2001:db8::1:80/healthz''\<rparr>)))
       3 [''URL host uses an IPv6 address'', ''IPv6 addresses must be enclosed in brackets''] [''URL port'', ''invalid URL'']"

definition http_malformed_unbracketed_ipv6_url_host_is_reported_before_port_shape :: "deps \<Rightarrow> bool" where
  "http_malformed_unbracketed_ipv6_url_host_is_reported_before_port_shape D \<longleftrightarrow>
     fails (check_command D (Http (http_defaults\<lparr>http_url := Some ''http://2001:db8::zz:80/healthz''\<rparr>)))
       3 [''URL host uses an IPv6 address'', ''IPv6 addresses must be enclosed in brackets''] [''URL port'', ''invalid URL'']"

definition http_unbracketed_ipv6_host_override_is_reported_before_port_shape :: "deps \<Rightarrow> bool" where
  "http_unbracketed_ipv6_host_override_is_reported_before_port_shape D \<longleftrightarrow>
     fails (check_command D (Http (http_defaults\<lparr>http_url := Some ''http://127.0.0.1:9/healthz'', http_host := Some ''2001:db8::1''\<rparr>)))
       3 [(''invalid Host header '' @ [dquote] @ ''2001:db8::1'' @ [dquote]), ''IPv6 addresses must be enclosed in brackets''] [''port must be a valid integer'']"

definition http_host_override_rejects_whitespace_without_connecting :: "deps \<Rightarrow> bool" where
  "http_host_override_rejects_whitespace_without_connecting D \<longleftrightarrow>
     fails (check_command D (Http (http_defaults\<lparr>http_url := Some ''http://127.0.0.1:9/healthz'', http_host := Some (''example.com'' @ [newline])\<rparr>)))
       3 [(''invalid Host header '' @ [dquote] @ ''example.com'' @ [backslash] @ ''n'' @ [dquote]), ''authority must not contain whitespace''] [''HTTP request'']"

definition http_missing_url_scheme_is_reported_explicitly :: "deps \<Rightarrow> bool" where
  "http_missing_url_scheme_is_reported_explicitly D \<longleftrightarrow>
     fails (check_command D (Http (http_defaults\<lparr>http_url := Some ''127.0.0.1:8080/healthz''\<rparr>)))
       3 [''URL scheme is required, expected http or https''] [''relative URL'']"

definition http_unsupported_scheme_is_reported_before_authority_shape :: "deps \<Rightarrow> bool" where
  "http_unsupported_scheme_is_reported_before_authority_shape D \<longleftrightarrow>
     fails (check_command D (Http (http_defaults\<lparr>http_url := Some ''file:///tmp/healthz''\<rparr>)))
       3 [''unsupported URL scheme file, expected http or https''] [''URL must contain a host'']"

definition http_unsupported_scheme_is_reported_before_port_shape :: "deps \<Rightarrow> bool" where
  "http_unsupported_scheme_is_reported_before_port_shape D \<longleftrightarrow>
     fails (check_command D (Http (http_defaults\<lparr>http_url := Some ''ftp://example.com:bad/healthz''\<rparr>)))
       3 [''unsupported URL scheme ftp, expected http or https''] [''URL port'', ''invalid URL'']"

definition http_url_non_ascii_text_is_reported_before_uri_parsing :: "deps \<Rightarrow> bool" where
  "http_url_non_ascii_text_is_reported_before_uri_parsing D \<longleftrightarrow>
     fails (check_command D (Http (http_defaults\<lparr>http_url := Some (''http://127.0.0.1:9/'' @ [CHR 0xE5, CHR 0x81, CHR 0xA5, CHR 0xE5, CHR 0xBA, CHR 0xB7])\<rparr>)))
       3 [''--url must contain only ASCII URI characters''] [''invalid URL'']"

definition http_unix_socket_path_non_ascii_text_is_reported_before_uri_parsing :: "deps \<Rightarrow> bool" where
  "http_unix_socket_path_non_ascii_text_is_reported_before_uri_parsing D \<longleftrightarrow>
     fails (check_command D (Http (http_defaults\<lparr>http_sock := Some ''/tmp/salus-test.sock'', http_path := Some (''/'' @ [CHR 0xE5, CHR 0x81, CHR 0xA5, CHR 0xE5, CHR 0xBA, CHR 0xB7])\<rparr>)))
       3 [''HTTP UDS --path must contain only ASCII URI characters''] [''invalid HTTP UDS --path'']"

definition empty_assertion_values_are_reported_before_capture_limit_errors :: "deps \<Rightarrow> bool" where
  "empty_assertion_values_are_reported_before_capture_limit_errors D \<longleftrightarrow>
     fails (check_command D (Http (http_defaults\<lparr>http_url := Some ''http://127.0.0.1:9/healthz'', http_contains := [[]], http_max_body := 0\<rparr>)))
       3 [''--contains must not be empty''] [''--max-body'']
     \<and> fails (check_command D (Exec ((exec_defaults [''sh'', ''-c'', ''exit 0''])\<lparr>exec_stdout_contains := [[]], exec_max_output := 0\<rparr>)))
       3 [''--stdout-contains must not be empty''] [''--max-output'']
     \<and> fails (check_command D (File ((file_defaults ''/tmp/salus-test'')\<lparr>file_contains := [[]], file_max_read := 0\<rparr>)))
       3 [''--contains must not be empty''] [''--max-read'']"

section \<open>Answers to the HTTP probe\<close>

definition environment_variable_expansion_reaches_http_probe_arguments :: "deps \<Rightarrow> bool" where
  "environment_variable_expansion_reaches_http_probe_arguments D \<longleftrightarrow>
     silent (run_salus D (answering \<lparr>hint_exact = Some 2, hint_upper = Some 2, body_frames = [Data ''ok''], body_grace = None\<rparr>\<lparr>mw_env := map_of [(''SALUS_TEST_HTTP_PORT'', ''8080'')]\<rparr>)
       [([''salus'', ''http'', ''--url'', ''http://127.0.0.1:8080/healthz'', ''--contains'', ''ok''], Inr (cli_defaults (Http (http_defaults\<lparr>http_url := Some ''http://127.0.0.1:8080/healthz'', http_contains := [''ok'']\<rparr>))))]
       [''http'', ''--url'', ''http://127.0.0.1:${SALUS_TEST_HTTP_PORT}/healthz'', ''--contains'', ''ok'']) 0"

definition http_complete_body_at_limit_proves_missing_contains :: "deps \<Rightarrow> bool" where
  "http_complete_body_at_limit_proves_missing_contains D \<longleftrightarrow>
     fails (run_cli D (answering \<lparr>hint_exact = Some 4, hint_upper = Some 4, body_frames = [Data ''aaaa''], body_grace = None\<rparr>) (cli_defaults (Http (http_defaults\<lparr>http_url := Some ''http://127.0.0.1:8080/healthz'', http_max_body := 4, http_contains := [''ready'']\<rparr>))))
       1 [(''does not contain required text '' @ [dquote] @ ''ready'' @ [dquote])] [''truncated'']"

definition http_unknown_length_body_at_limit_proves_missing_contains_after_eof :: "deps \<Rightarrow> bool" where
  "http_unknown_length_body_at_limit_proves_missing_contains_after_eof D \<longleftrightarrow>
     fails (run_cli D (answering \<lparr>hint_exact = None, hint_upper = None, body_frames = [Data ''aaaa''], body_grace = None\<rparr>) (cli_defaults (Http (http_defaults\<lparr>http_url := Some ''http://127.0.0.1:8080/healthz'', http_max_body := 4, http_contains := [''ready'']\<rparr>))))
       1 [(''does not contain required text '' @ [dquote] @ ''ready'' @ [dquote])] [''truncated'', ''cannot prove'']"

definition http_truncated_body_with_mismatched_prefix_reports_exact_mismatch :: "deps \<Rightarrow> bool" where
  "http_truncated_body_with_mismatched_prefix_reports_exact_mismatch D \<longleftrightarrow>
     fails (run_cli D (answering \<lparr>hint_exact = Some 8, hint_upper = Some 8, body_frames = [Data ''xxxxmore''], body_grace = None\<rparr>) (cli_defaults (Http (http_defaults\<lparr>http_url := Some ''http://127.0.0.1:8080/healthz'', http_max_body := 4, http_body_equals := Some ''ready''\<rparr>))))
       1 [(''does not equal required text '' @ [dquote] @ ''ready'' @ [dquote])] [''cannot prove'']"

definition http_truncated_body_with_forbidden_text_reports_forbidden_text :: "deps \<Rightarrow> bool" where
  "http_truncated_body_with_forbidden_text_reports_forbidden_text D \<longleftrightarrow>
     fails (run_cli D (answering \<lparr>hint_exact = Some 8, hint_upper = Some 8, body_frames = [Data ''bad-data''], body_grace = None\<rparr>) (cli_defaults (Http (http_defaults\<lparr>http_url := Some ''http://127.0.0.1:8080/healthz'', http_max_body := 4, http_not_contains := [''bad'']\<rparr>))))
       1 [(''contains forbidden text '' @ [dquote] @ ''bad'' @ [dquote])] [''cannot prove'']"

definition http_truncated_body_with_negative_assertion_reports_target_and_limit :: "deps \<Rightarrow> bool" where
  "http_truncated_body_with_negative_assertion_reports_target_and_limit D \<longleftrightarrow>
     fails (run_cli D (answering \<lparr>hint_exact = Some 8, hint_upper = Some 8, body_frames = [Data ''aaaaaaaa''], body_grace = None\<rparr>) (cli_defaults (Http (http_defaults\<lparr>http_url := Some ''http://127.0.0.1:8080/healthz'', http_max_body := 4, http_not_contains := [''missing'']\<rparr>))))
       1 [''response body from http://127.0.0.1:8080/healthz was truncated at 4 bytes, cannot prove negative body assertions''] []"

definition http_unix_socket_error_escapes_control_characters_in_socket_path :: "deps \<Rightarrow> bool" where
  "http_unix_socket_error_escapes_control_characters_in_socket_path D \<longleftrightarrow>
     fails (run_cli D without_socket (cli_defaults (Http (http_defaults\<lparr>http_sock := Some (''/tmp/salus-cli-bad'' @ [newline] @ ''sock''), http_path := Some ''/healthz''\<rparr>))))
       1 [([dquote] @ ''/tmp/salus-cli-bad'' @ [backslash] @ ''nsock'' @ [dquote])] [(''/tmp/salus-cli-bad'' @ [newline] @ ''sock'')]"

section \<open>The exec probe\<close>

definition environment_variable_expansion_reaches_exec_trailing_arguments :: "deps \<Rightarrow> bool" where
  "environment_variable_expansion_reaches_exec_trailing_arguments D \<longleftrightarrow>
     silent (run_salus D (with_stdout (read_to_end 65536 [''ready''] [''ready''])\<lparr>mw_env := map_of [(''SALUS_TEST_EXEC_NEEDLE'', ''ready''), (''SALUS_TEST_EXEC_VALUE'', ''ready'')]\<rparr>)
       [([''salus'', ''exec'', ''--stdout-contains'', ''ready'', ''--'', ''sh'', ''-c'', (''printf %s '' @ [dquote] @ ''$1'' @ [dquote]), ''sh'', ''ready''], Inr (cli_defaults (Exec ((exec_defaults [''sh'', ''-c'', (''printf %s '' @ [dquote] @ ''$1'' @ [dquote]), ''sh'', ''ready''])\<lparr>exec_stdout_contains := [''ready'']\<rparr>))))]
       [''exec'', ''--stdout-contains'', ''${SALUS_TEST_EXEC_NEEDLE}'', ''--'', ''sh'', ''-c'', (''printf %s '' @ [dquote] @ ''$1'' @ [dquote]), ''sh'', ''${SALUS_TEST_EXEC_VALUE}'']) 0"

definition exec_command_arguments_do_not_disable_environment_expansion :: "deps \<Rightarrow> bool" where
  "exec_command_arguments_do_not_disable_environment_expansion D \<longleftrightarrow>
     silent (run_salus D (with_stdout (read_to_end 65536 [''ready''] [''ready''])\<lparr>mw_env := map_of [(''SALUS_TEST_EXEC_NEEDLE'', ''ready'')]\<rparr>)
       [([''salus'', ''exec'', ''--stdout-contains'', ''ready'', ''sh'', ''-c'', ''printf ready'', ''-h''], Inr (cli_defaults (Exec ((exec_defaults [''sh'', ''-c'', ''printf ready'', ''-h''])\<lparr>exec_stdout_contains := [''ready'']\<rparr>))))]
       [''exec'', ''--stdout-contains'', ''${SALUS_TEST_EXEC_NEEDLE}'', ''sh'', ''-c'', ''printf ready'', ''-h'']) 0"

definition exec_assertion_can_still_match_hyphen_text_with_equals :: "deps \<Rightarrow> bool" where
  "exec_assertion_can_still_match_hyphen_text_with_equals D \<longleftrightarrow>
     silent (run_salus D (with_stdout (read_to_end 65536 [''--bad''] [(''--bad'' @ [newline])]))
       [([''salus'', ''exec'', ''--stdout-contains=--bad'', ''--'', ''sh'', ''-c'', ''echo --bad''], Inr (cli_defaults (Exec ((exec_defaults [''sh'', ''-c'', ''echo --bad''])\<lparr>exec_stdout_contains := [''--bad'']\<rparr>))))]
       [''exec'', ''--stdout-contains=--bad'', ''--'', ''sh'', ''-c'', ''echo --bad'']) 0"

definition exec_negative_exit_code_reaches_domain_validation :: "deps \<Rightarrow> bool" where
  "exec_negative_exit_code_reaches_domain_validation D \<longleftrightarrow>
     fails (run_cli D (with_env []) (cli_defaults (Exec ((exec_defaults [''sh'', ''-c'', ''exit 0''])\<lparr>exec_exit_code := [-1]\<rparr>))))
       3 [''invalid exit code -1, expected 0..=255''] []"

definition exec_spawn_error_escapes_non_utf8_command_path :: "deps \<Rightarrow> bool" where
  "exec_spawn_error_escapes_non_utf8_command_path D \<longleftrightarrow>
     fails (run_cli D (unspawnable NotFound ''No such file or directory'') (cli_defaults (Exec ((exec_defaults [(''/tmp/salus-cli-'' @ [CHR 0xFF])])))))
       3 [([backslash] @ ''xFF'')] [[CHR 0xEF, CHR 0xBF, CHR 0xBD]]"

definition exec_spawn_error_for_invalid_executable_is_a_config_error :: "deps \<Rightarrow> bool" where
  "exec_spawn_error_for_invalid_executable_is_a_config_error D \<longleftrightarrow>
     fails (run_cli D (unspawnable io_kind.OtherKind ''Exec format error'') (cli_defaults (Exec ((exec_defaults [''/tmp/salus-cli-invalid-executable''])))))
       3 [''failed to spawn''] []"

definition exec_complete_output_at_limit_reports_missing_required_text :: "deps \<Rightarrow> bool" where
  "exec_complete_output_at_limit_reports_missing_required_text D \<longleftrightarrow>
     fails (run_cli D (with_stdout (read_to_end 4 [''ready''] [''aaaa''])) (cli_defaults (Exec ((exec_defaults [''sh'', ''-c'', ''printf aaaa''])\<lparr>exec_stdout_contains := [''ready''], exec_max_output := 4\<rparr>))))
       1 [(''stdout of sh does not contain required text '' @ [dquote] @ ''ready'' @ [dquote])] [''cannot prove'']"

definition exec_inherited_pipe_at_output_limit_reports_missing_required_text_after_cleanup :: "deps \<Rightarrow> bool" where
  "exec_inherited_pipe_at_output_limit_reports_missing_required_text_after_cleanup D \<longleftrightarrow>
     fails (run_cli D (with_stdout (read_to_end 4 [''ready''] [''aaaa''])) (cli_defaults (Exec ((exec_defaults [''sh'', ''-c'', ''printf aaaa; sleep 1 &''])\<lparr>exec_stdout_contains := [''ready''], exec_max_output := 4\<rparr>))))
       1 [(''stdout of sh does not contain required text '' @ [dquote] @ ''ready'' @ [dquote])] [''cannot prove'']"

definition exec_open_daemonized_output_pipe_reports_unproven_assertion :: "deps \<Rightarrow> bool" where
  "exec_open_daemonized_output_pipe_reports_unproven_assertion D \<longleftrightarrow>
     fails (run_cli D (with_stdout (read_so_far 65536 [''ready''] [''no''])) (cli_defaults (Exec ((exec_defaults [''sh'', ''-c'', (''printf no; setsid sh -c '' @ [squote] @ ''sleep 1'' @ [squote] @ '' & sleep 0.05'')])\<lparr>exec_stdout_contains := [''ready'']\<rparr>))))
       1 [(''stdout of sh remained open after the command exited, cannot prove required text '' @ [dquote] @ ''ready'' @ [dquote])] []"

section \<open>The tests hold\<close>

lemma help_contract_1:
  "help_does_not_require_environment_expansion example_deps"
  "help_does_not_parse_environment_expanded_durations example_deps"
  "help_subcommand_does_not_parse_environment_expanded_durations example_deps"
  "help_subcommand_does_not_require_environment_expansion example_deps"
  "help_subcommand_help_flag_prints_help_command_usage example_deps"
  "version_does_not_parse_environment_expanded_durations example_deps"
  "subcommand_version_does_not_skip_environment_expansion example_deps"
  "exec_help_does_not_require_environment_expansion example_deps"
  "exec_help_does_not_parse_environment_expanded_durations example_deps"
  unfolding help_does_not_require_environment_expansion_def
    help_does_not_parse_environment_expanded_durations_def
    help_subcommand_does_not_parse_environment_expanded_durations_def
    help_subcommand_does_not_require_environment_expansion_def
    help_subcommand_help_flag_prints_help_command_usage_def
    version_does_not_parse_environment_expanded_durations_def
    subcommand_version_does_not_skip_environment_expansion_def
    exec_help_does_not_require_environment_expansion_def
    exec_help_does_not_parse_environment_expanded_durations_def
  by (intro conjI run_without_probe_prints run_without_probe_silent run_without_probe_reports; code_simp)+

lemma help_contract_2:
  "exec_version_argument_does_not_skip_environment_expansion example_deps"
  "option_value_positions_named_like_help_are_not_treated_as_help example_deps"
  "later_help_does_not_hide_missing_option_value example_deps"
  "later_exec_help_does_not_hide_missing_assertion_value example_deps"
  "exec_assertion_does_not_consume_unknown_option_before_command example_deps"
  "help_prescan_stops_at_non_utf8_unknown_argument example_deps"
  unfolding exec_version_argument_does_not_skip_environment_expansion_def
    option_value_positions_named_like_help_are_not_treated_as_help_def
    later_help_does_not_hide_missing_option_value_def
    later_exec_help_does_not_hide_missing_assertion_value_def
    exec_assertion_does_not_consume_unknown_option_before_command_def
    help_prescan_stops_at_non_utf8_unknown_argument_def
  by (intro conjI run_without_probe_prints run_without_probe_silent run_without_probe_reports; code_simp)+

lemma quiet_contract_1:
  "missing_environment_variable_exits_three example_deps"
  "quiet_suppresses_environment_expansion_errors example_deps"
  "later_quiet_suppresses_environment_expansion_errors_when_prefix_remains_valid example_deps"
  "quiet_suppresses_cli_parse_errors example_deps"
  "quiet_does_not_suppress_verbose_conflict_errors example_deps"
  "leading_quiet_suppresses_missing_option_value_errors example_deps"
  "exec_quiet_does_not_suppress_verbose_conflict_errors example_deps"
  "leading_exec_quiet_suppresses_missing_assertion_value_errors example_deps"
  "expanded_quiet_suppresses_cli_parse_errors example_deps"
  unfolding missing_environment_variable_exits_three_def
    quiet_suppresses_environment_expansion_errors_def
    later_quiet_suppresses_environment_expansion_errors_when_prefix_remains_valid_def
    quiet_suppresses_cli_parse_errors_def
    quiet_does_not_suppress_verbose_conflict_errors_def
    leading_quiet_suppresses_missing_option_value_errors_def
    exec_quiet_does_not_suppress_verbose_conflict_errors_def
    leading_exec_quiet_suppresses_missing_assertion_value_errors_def
    expanded_quiet_suppresses_cli_parse_errors_def
  by (intro conjI run_without_probe_prints run_without_probe_silent run_without_probe_reports; code_simp)+

lemma quiet_contract_2:
  "raw_quiet_does_not_suppress_parse_errors_after_expansion_changes_argv_shape example_deps"
  "raw_quiet_does_not_suppress_environment_errors_after_expansion_changes_argv_shape example_deps"
  "expanded_quiet_suppresses_later_environment_expansion_errors example_deps"
  "quiet_prescan_does_not_accept_subcommand_options_at_root example_deps"
  "quiet_prescan_stops_at_non_utf8_unknown_argument example_deps"
  "quiet_prescan_keeps_valid_quiet_before_non_utf8_unknown_argument example_deps"
  "quiet_prescan_stops_at_non_utf8_unknown_subcommand_argument example_deps"
  "quiet_prescan_keeps_valid_subcommand_quiet_before_non_utf8_unknown_argument example_deps"
  "exec_command_arguments_do_not_enable_quiet_for_environment_errors example_deps"
  unfolding raw_quiet_does_not_suppress_parse_errors_after_expansion_changes_argv_shape_def
    raw_quiet_does_not_suppress_environment_errors_after_expansion_changes_argv_shape_def
    expanded_quiet_suppresses_later_environment_expansion_errors_def
    quiet_prescan_does_not_accept_subcommand_options_at_root_def
    quiet_prescan_stops_at_non_utf8_unknown_argument_def
    quiet_prescan_keeps_valid_quiet_before_non_utf8_unknown_argument_def
    quiet_prescan_stops_at_non_utf8_unknown_subcommand_argument_def
    quiet_prescan_keeps_valid_subcommand_quiet_before_non_utf8_unknown_argument_def
    exec_command_arguments_do_not_enable_quiet_for_environment_errors_def
  by (intro conjI run_without_probe_prints run_without_probe_silent run_without_probe_reports; code_simp)+

lemma quiet_contract_3:
  "expanded_exec_command_arguments_do_not_enable_quiet_for_environment_errors example_deps"
  "exec_version_argument_does_not_enable_quiet example_deps"
  "option_value_positions_named_like_quiet_do_not_suppress_errors example_deps"
  "later_quiet_does_not_suppress_missing_option_value example_deps"
  "negative_numeric_parser_errors_can_be_quieted example_deps"
  "invalid_duration_exits_three_and_prints_to_stderr example_deps"
  "negative_duration_values_reach_value_parsers example_deps"
  unfolding expanded_exec_command_arguments_do_not_enable_quiet_for_environment_errors_def
    exec_version_argument_does_not_enable_quiet_def
    option_value_positions_named_like_quiet_do_not_suppress_errors_def
    later_quiet_does_not_suppress_missing_option_value_def
    negative_numeric_parser_errors_can_be_quieted_def
    invalid_duration_exits_three_and_prints_to_stderr_def
    negative_duration_values_reach_value_parsers_def
  by (intro conjI run_without_probe_prints run_without_probe_silent run_without_probe_reports; code_simp)+

lemma file_contract_1:
  "expands_environment_variables_before_cli_parsing example_deps"
  "environment_variable_defaults_are_supported example_deps"
  "environment_variable_defaults_are_used_for_empty_values example_deps"
  "success_is_silent_by_default example_deps"
  by code_simp+

lemma file_contract_2:
  "verbose_success_prints_structured_line_to_stderr example_deps"
  "verbose_file_success_escapes_non_utf8_path example_deps"
  "quiet_failure_suppresses_stderr example_deps"
  "failure_prints_message_to_stderr_by_default example_deps"
  "file_config_errors_are_reported_before_tiny_probe_timeout example_deps"
  "file_error_escapes_control_characters_in_path example_deps"
  by code_simp+

lemma tcp_and_grpc_contract:
  "tcp_error_escapes_control_characters_in_address example_deps"
  "grpc_address_path_is_reported_before_port_shape example_deps"
  "grpc_target_errors_are_reported_before_tls_mode_errors example_deps"
  "grpc_tls_reports_invalid_address_before_missing_trust example_deps"
  "grpc_tls_reports_invalid_authority_before_missing_trust example_deps"
  by code_simp+

lemma http_arguments_contract_1:
  "http_negative_status_reaches_domain_validation example_deps"
  "http_header_assertion_errors_are_reported_before_capture_limit_errors example_deps"
  "http_method_error_escapes_control_characters example_deps"
  "http_header_errors_report_empty_header_names_consistently example_deps"
  by code_simp+

lemma http_arguments_contract_2:
  "http_target_errors_are_reported_before_request_and_assertion_errors example_deps"
  "http_unix_socket_target_errors_are_reported_before_tls_mode_errors example_deps"
  "http_status_error_escapes_control_characters example_deps"
  "http_status_error_quotes_empty_values example_deps"
  by code_simp+

lemma http_arguments_contract_3:
  "http_status_error_treats_leading_hyphen_as_invalid_code example_deps"
  "http_url_port_errors_are_normalized_before_url_parsing example_deps"
  "http_empty_url_host_is_reported_before_port_shape example_deps"
  "http_unbracketed_ipv6_url_host_is_reported_before_port_shape example_deps"
  by code_simp+

lemma http_arguments_contract_4:
  "http_malformed_unbracketed_ipv6_url_host_is_reported_before_port_shape example_deps"
  "http_unbracketed_ipv6_host_override_is_reported_before_port_shape example_deps"
  "http_host_override_rejects_whitespace_without_connecting example_deps"
  "http_missing_url_scheme_is_reported_explicitly example_deps"
  by code_simp+

lemma http_arguments_contract_5:
  "http_unsupported_scheme_is_reported_before_authority_shape example_deps"
  "http_unsupported_scheme_is_reported_before_port_shape example_deps"
  "http_url_non_ascii_text_is_reported_before_uri_parsing example_deps"
  "http_unix_socket_path_non_ascii_text_is_reported_before_uri_parsing example_deps"
  "empty_assertion_values_are_reported_before_capture_limit_errors example_deps"
  by code_simp+

lemma http_answers_contract_1:
  "environment_variable_expansion_reaches_http_probe_arguments example_deps"
  "http_complete_body_at_limit_proves_missing_contains example_deps"
  "http_unknown_length_body_at_limit_proves_missing_contains_after_eof example_deps"
  "http_truncated_body_with_mismatched_prefix_reports_exact_mismatch example_deps"
  by code_simp+

lemma http_answers_contract_2:
  "http_truncated_body_with_forbidden_text_reports_forbidden_text example_deps"
  "http_truncated_body_with_negative_assertion_reports_target_and_limit example_deps"
  "http_unix_socket_error_escapes_control_characters_in_socket_path example_deps"
  by code_simp+

lemma exec_contract_1:
  "environment_variable_expansion_reaches_exec_trailing_arguments example_deps"
  "exec_command_arguments_do_not_disable_environment_expansion example_deps"
  "exec_assertion_can_still_match_hyphen_text_with_equals example_deps"
  "exec_negative_exit_code_reaches_domain_validation example_deps"
  by code_simp+

lemma exec_contract_2:
  "exec_spawn_error_escapes_non_utf8_command_path example_deps"
  "exec_spawn_error_for_invalid_executable_is_a_config_error example_deps"
  "exec_complete_output_at_limit_reports_missing_required_text example_deps"
  "exec_inherited_pipe_at_output_limit_reports_missing_required_text_after_cleanup example_deps"
  "exec_open_daemonized_output_pipe_reports_unproven_assertion example_deps"
  by code_simp+

end
